(* ===== verification/Prelude.thy ===== *)
theory Prelude
  imports Main "HOL-Library.Word" "HOL-Library.Sublist"
begin

text \<open>
  Shared vocabulary of the development: the machine-integer types and checked arithmetic of
  Rust, results as sums, byte strings and their length-prefixed framing, the parts of Rust's
  \<open>str\<close> the sources call, and the contract of the persisted vocabularies (an \<open>as_str\<close> and its
  strict inverse \<open>parse\<close>) as a locale.

  A Rust \<open>String\<close> is modelled by its UTF-8 bytes, as a HOL \<open>string\<close> whose characters are the
  bytes: \<open>length\<close> is \<open>str::len\<close> and equality is byte equality, as in Rust.
\<close>

named_theorems saga_defs \<open>definitional equations the component proofs unfold\<close>
named_theorems saga_intro \<open>introduction rules for the component invariants\<close>

section \<open>Machine integers\<close>

type_synonym u8 = "8 word"
type_synonym u32 = "32 word"
type_synonym bytes = "u8 list"
type_synonym i64 = int

definition i64_min :: int where "i64_min = - (2 ^ 63)"
definition i64_max :: int where "i64_max = 2 ^ 63 - 1"

definition checked_add_i64 :: "i64 \<Rightarrow> i64 \<Rightarrow> i64 option" where
  "checked_add_i64 a b = (if i64_min \<le> a + b \<and> a + b \<le> i64_max then Some (a + b) else None)"

definition u64_max :: nat where "u64_max = 2 ^ 64 - 1"

definition checked_add_u64 :: "nat \<Rightarrow> nat \<Rightarrow> nat option" where
  "checked_add_u64 a b = (if a + b \<le> u64_max then Some (a + b) else None)"

definition checked_add_u32 :: "u32 \<Rightarrow> u32 \<Rightarrow> u32 option" where
  "checked_add_u32 a b = (if unat a + unat b < 2 ^ 32 then Some (a + b) else None)"

lemma checked_add_i64_Some [simp]:
  "checked_add_i64 a b = Some c \<longleftrightarrow> c = a + b \<and> i64_min \<le> a + b \<and> a + b \<le> i64_max"
  by (auto simp: checked_add_i64_def)

lemma checked_add_u64_Some [simp]:
  "checked_add_u64 a b = Some c \<longleftrightarrow> c = a + b \<and> a + b \<le> u64_max"
  by (auto simp: checked_add_u64_def)

lemma checked_add_u64_None [simp]: "checked_add_u64 a b = None \<longleftrightarrow> u64_max < a + b"
  by (auto simp: checked_add_u64_def)

lemma checked_add_u32_unat:
  "checked_add_u32 a b = Some c \<Longrightarrow> unat c = unat a + unat b"
  by (auto simp: checked_add_u32_def unat_word_ariths split: if_splits)

section \<open>Results\<close>

text \<open>\<open>Result<T, E>\<close> is the sum \<open>'e + 'a\<close>, with \<open>Inl\<close> for \<open>Err\<close>; \<open>bindR\<close> is the operator \<open>?\<close>.\<close>

definition bindR :: "'e + 'a \<Rightarrow> ('a \<Rightarrow> 'e + 'b) \<Rightarrow> 'e + 'b" where
  "bindR m f = (case m of Inl e \<Rightarrow> Inl e | Inr x \<Rightarrow> f x)"

lemma bindR_simps [simp]: "bindR (Inl e) f = Inl e" "bindR (Inr x) f = f x"
  by (simp_all add: bindR_def)

lemma bindR_Inr_iff: "bindR m f = Inr y \<longleftrightarrow> (\<exists>x. m = Inr x \<and> f x = Inr y)"
  by (cases m) auto

lemma bindR_Inl_iff: "bindR m f = Inl e \<longleftrightarrow> m = Inl e \<or> (\<exists>x. m = Inr x \<and> f x = Inl e)"
  by (cases m) auto

lemma bindR_InrE [elim!]:
  assumes "bindR m f = Inr y"
  obtains x where "m = Inr x" and "f x = Inr y"
  using assms by (auto simp: bindR_Inr_iff)

definition ok_or :: "'a option \<Rightarrow> 'e \<Rightarrow> 'e + 'a" where
  "ok_or o' e = (case o' of None \<Rightarrow> Inl e | Some x \<Rightarrow> Inr x)"

lemma ok_or_simps [simp]: "ok_or None e = Inl e" "ok_or (Some x) e = Inr x"
  by (simp_all add: ok_or_def)

lemma ok_or_Inr [simp]: "ok_or m e = Inr x \<longleftrightarrow> m = Some x"
  by (cases m) auto

text \<open>\<open>reject_if b e\<close> is the early return \<open>if b { return Err(e) }\<close>.\<close>

definition reject_if :: "bool \<Rightarrow> 'e \<Rightarrow> 'e + unit" where
  "reject_if b e = (if b then Inl e else Inr ())"

lemma reject_if_Inr [simp]: "reject_if b e = Inr u \<longleftrightarrow> \<not> b"
  by (auto simp: reject_if_def)

lemma reject_if_simps [simp]: "reject_if True e = Inl e" "reject_if False e = Inr ()"
  by (simp_all add: reject_if_def)

section \<open>Lists\<close>

lemma find_Some_set: "find P xs = Some x \<Longrightarrow> x \<in> set xs \<and> P x"
  by (induction xs) (auto split: if_splits)

lemma find_None_iff_ball: "find P xs = None \<longleftrightarrow> (\<forall>x \<in> set xs. \<not> P x)"
  by (induction xs) auto

lemma find_distinct_key:
  assumes "distinct (map k xs)" and "x \<in> set xs"
  shows "find (\<lambda>y. k y = k x) xs = Some x"
  using assms
proof (induction xs)
  case Nil
  then show ?case by simp
next
  case (Cons y ys)
  show ?case
  proof (cases "y = x")
    case True
    then show ?thesis by simp
  next
    case False
    with Cons.prems have "x \<in> set ys" by auto
    moreover from this Cons.prems have "k y \<noteq> k x" by auto
    ultimately show ?thesis using Cons by simp
  qed
qed

section \<open>Bytes and framing\<close>

text \<open>\<open>be_bytes n v\<close> is \<open>to_be_bytes\<close> of an \<open>n\<close>-byte unsigned integer.\<close>

fun be_bytes :: "nat \<Rightarrow> nat \<Rightarrow> bytes" where
  "be_bytes 0 v = []"
| "be_bytes (Suc n) v = be_bytes n (v div 256) @ [of_nat (v mod 256)]"

fun from_be :: "nat \<Rightarrow> bytes \<Rightarrow> nat" where
  "from_be acc [] = acc"
| "from_be acc (b # bs) = from_be (256 * acc + unat b) bs"

lemma length_be_bytes [simp]: "length (be_bytes n v) = n"
  by (induction n arbitrary: v) auto

lemma from_be_append: "from_be acc (xs @ ys) = from_be (from_be acc xs) ys"
  by (induction xs arbitrary: acc) auto

lemma unat_of_nat_byte: "unat (of_nat (v mod 256) :: u8) = v mod 256"
  by (simp add: unat_of_nat)

lemma from_be_be_bytes: "v < 256 ^ n \<Longrightarrow> from_be 0 (be_bytes n v) = v"
proof (induction n arbitrary: v)
  case 0
  then show ?case by simp
next
  case (Suc n)
  then have "v div 256 < 256 ^ n" by (simp add: div_less_iff_less_mult mult.commute)
  with Suc.IH show ?case by (simp add: from_be_append unat_of_nat_byte)
qed

lemma be_bytes_inj: "v < 256 ^ n \<Longrightarrow> w < 256 ^ n \<Longrightarrow> be_bytes n v = be_bytes n w \<Longrightarrow> v = w"
  by (metis from_be_be_bytes)

definition char_byte :: "char \<Rightarrow> u8" where
  "char_byte c = of_nat (of_char c)"

definition str_bytes :: "string \<Rightarrow> bytes" where
  "str_bytes s = map char_byte s"

lemma char_byte_inj: "inj char_byte"
proof (rule injI)
  fix c d
  assume "char_byte c = char_byte d"
  then have "(of_char c :: nat) mod 256 = of_char d mod 256"
    by (simp add: char_byte_def word_of_nat_eq_iff take_bit_eq_mod)
  then have "(of_char c :: nat) = of_char d" by simp
  then show "c = d" by simp
qed

lemma str_bytes_inj [simp]: "str_bytes s = str_bytes t \<longleftrightarrow> s = t"
  by (simp add: str_bytes_def inj_map_eq_map char_byte_inj)

lemma length_str_bytes [simp]: "length (str_bytes s) = length s"
  by (simp add: str_bytes_def)

section \<open>Rust strings\<close>

text \<open>The UTF-8 encodings of the characters with the Unicode property \<open>White_Space\<close>.\<close>

definition whitespace_utf8 :: "string list" where
  "whitespace_utf8 =
     [[CHR 0x09], [CHR 0x0A], [CHR 0x0B], [CHR 0x0C], [CHR 0x0D], [CHR 0x20],
      [CHR 0xC2, CHR 0x85], [CHR 0xC2, CHR 0xA0], [CHR 0xE1, CHR 0x9A, CHR 0x80],
      [CHR 0xE2, CHR 0x80, CHR 0x80], [CHR 0xE2, CHR 0x80, CHR 0x81],
      [CHR 0xE2, CHR 0x80, CHR 0x82], [CHR 0xE2, CHR 0x80, CHR 0x83],
      [CHR 0xE2, CHR 0x80, CHR 0x84], [CHR 0xE2, CHR 0x80, CHR 0x85],
      [CHR 0xE2, CHR 0x80, CHR 0x86], [CHR 0xE2, CHR 0x80, CHR 0x87],
      [CHR 0xE2, CHR 0x80, CHR 0x88], [CHR 0xE2, CHR 0x80, CHR 0x89],
      [CHR 0xE2, CHR 0x80, CHR 0x8A], [CHR 0xE2, CHR 0x80, CHR 0xA8],
      [CHR 0xE2, CHR 0x80, CHR 0xA9], [CHR 0xE2, CHR 0x80, CHR 0xAF],
      [CHR 0xE2, CHR 0x81, CHR 0x9F], [CHR 0xE3, CHR 0x80, CHR 0x80]]"

text \<open>\<open>strip_prefixes ws s\<close> removes leading members of \<open>ws\<close> as long as there is one.\<close>

function strip_prefixes :: "string list \<Rightarrow> string \<Rightarrow> string" where
  "strip_prefixes ws s = (case find (\<lambda>w. w \<noteq> [] \<and> prefix w s) ws of
     None \<Rightarrow> s | Some w \<Rightarrow> strip_prefixes ws (drop (length w) s))"
  by pat_completeness auto
termination
proof (relation "measure (\<lambda>(ws, s). length s)")
  show "wf (measure (\<lambda>(ws, s). length s))" by simp
next
  fix ws s w
  assume "find (\<lambda>w. w \<noteq> [] \<and> prefix w s) ws = Some w"
  then have "w \<noteq> []" and "prefix w s" by (auto dest: find_Some_set)
  then have "length w \<le> length s" and "0 < length w" by (auto dest: prefix_length_le)
  then have "length s - length w < length s" by linarith
  then show "((ws, drop (length w) s), (ws, s)) \<in> measure (\<lambda>(ws, s). length s)" by simp
qed

declare strip_prefixes.simps [simp del]

definition trim_start :: "string \<Rightarrow> string" where
  "trim_start s = strip_prefixes whitespace_utf8 s"

definition trim_end :: "string \<Rightarrow> string" where
  "trim_end s = rev (strip_prefixes (map rev whitespace_utf8) (rev s))"

definition trim :: "string \<Rightarrow> string" where
  "trim s = trim_end (trim_start s)"

lemma length_strip_prefixes: "length (strip_prefixes ws s) \<le> length s"
proof (induction ws s rule: strip_prefixes.induct)
  case (1 ws s)
  then show ?case
    by (subst strip_prefixes.simps) (fastforce split: option.split)
qed

lemma strip_prefixes_id_iff:
  "strip_prefixes ws s = s \<longleftrightarrow> find (\<lambda>w. w \<noteq> [] \<and> prefix w s) ws = None"
proof (cases "find (\<lambda>w. w \<noteq> [] \<and> prefix w s) ws")
  case None
  then show ?thesis by (subst strip_prefixes.simps) simp
next
  case (Some w)
  then have "w \<noteq> []" and "prefix w s" by (auto dest: find_Some_set)
  then have "length (drop (length w) s) < length s"
    by (cases w) (auto dest: prefix_length_le)
  moreover have "strip_prefixes ws s = strip_prefixes ws (drop (length w) s)"
    using Some by (subst strip_prefixes.simps) simp
  ultimately have "length (strip_prefixes ws s) < length s"
    using length_strip_prefixes [of ws "drop (length w) s"] by simp
  then show ?thesis using Some by auto
qed

text \<open>\<open>chars().any(char::is_control)\<close>: the controls are U+0000 to U+001F, U+007F, and U+0080 to
  U+009F, whose encodings are the byte 0xC2 followed by the byte of the code point.\<close>

fun has_control :: "string \<Rightarrow> bool" where
  "has_control [] = False"
| "has_control [c] = (of_char c < (32::nat) \<or> of_char c = (127::nat))"
| "has_control (c # d # s) =
     (of_char c < (32::nat) \<or> of_char c = (127::nat) \<or>
      (of_char c = (194::nat) \<and> (128::nat) \<le> of_char d \<and> of_char d < (160::nat)) \<or>
      has_control (d # s))"

definition is_ascii_digit :: "char \<Rightarrow> bool" where
  "is_ascii_digit c = (48 \<le> (of_char c :: nat) \<and> (of_char c :: nat) \<le> 57)"

definition is_ascii_lowercase :: "char \<Rightarrow> bool" where
  "is_ascii_lowercase c = (97 \<le> (of_char c :: nat) \<and> (of_char c :: nat) \<le> 122)"

definition is_ascii_uppercase :: "char \<Rightarrow> bool" where
  "is_ascii_uppercase c = (65 \<le> (of_char c :: nat) \<and> (of_char c :: nat) \<le> 90)"

definition is_ascii_alphanumeric :: "char \<Rightarrow> bool" where
  "is_ascii_alphanumeric c = (is_ascii_digit c \<or> is_ascii_lowercase c \<or> is_ascii_uppercase c)"

lemmas ascii_defs = is_ascii_alphanumeric_def is_ascii_digit_def is_ascii_lowercase_def
  is_ascii_uppercase_def

section \<open>Persisted vocabularies\<close>

text \<open>
  Every enum that reaches a database column, an audit record or a message has a stable text
  \<open>as_str\<close> and a \<open>parse\<close> that must be its strict inverse: a word outside the vocabulary is
  corrupt data and is never guessed at. The locale is that contract; each enum of the sources
  interprets it.
\<close>

locale vocabulary =
  fixes as_str :: "'a \<Rightarrow> string"
    and parse :: "string \<Rightarrow> 'a option"
  assumes parse_as_str: "parse (as_str x) = Some x"
    and parse_sound: "parse raw = Some x \<Longrightarrow> raw = as_str x"
begin

lemma parse_iff: "parse raw = Some x \<longleftrightarrow> raw = as_str x"
  using parse_as_str parse_sound by auto

lemma as_str_inj: "as_str x = as_str y \<Longrightarrow> x = y"
  by (metis option.inject parse_as_str)

lemma parse_None_iff: "parse raw = None \<longleftrightarrow> raw \<notin> range as_str"
  by (metis not_Some_eq parse_iff rangeE rangeI)

end

end
