(* ===== verification/Saga_Vocabulary.thy ===== *)
theory Saga_Vocabulary
  imports Prelude
begin

text \<open>
  The enums of \<open>nasaga-core\<close> that are persisted, with their \<open>as_str\<close>/\<open>parse\<close> pairs, each an
  interpretation of the \<open>vocabulary\<close> contract, and the contract-violation codes of \<open>error.rs\<close>.
  Constructors carry a prefix where two enums of the sources share a variant name. A violation
  is modelled by its stable code; its \<open>detail\<close> text is diagnostic only and is not modelled.
\<close>

section \<open>Contract violations\<close>

datatype ContractViolation =
    CODE_IDENTIFIER_EMPTY
  | CODE_IDENTIFIER_UNTRIMMED
  | CODE_IDENTIFIER_TOO_LONG
  | CODE_IDENTIFIER_CHARSET
  | CODE_COUNTER_ZERO
  | CODE_COUNTER_OVERFLOW
  | CODE_DEFINITION_EMPTY
  | CODE_DEFINITION_DUPLICATE_STEP
  | CODE_DEFINITION_PIVOT_NOT_LAST
  | CODE_DEFINITION_RESOLUTION_MISSING
  | CODE_DEFINITION_MODE_CONFLICT
  | CODE_DEFINITION_BUDGET_ZERO
  | CODE_TRANSITION_ILLEGAL
  | CODE_TRANSITION_FORWARD_AFTER_COMPENSATION
  | CODE_TRANSITION_MANUAL_CLOSE_UNAUDITED
  | CODE_PLAN_SUCCEEDED_PIVOT
  | CODE_PLAN_UNKNOWN_STEP
  | CODE_PLAN_DUPLICATE_STEP
  | CODE_PLAN_MISSING_STEP
  | CODE_PLAN_UNSETTLED_STEP

type_synonym 'a contract_result = "ContractViolation + 'a"

fun violation_code :: "ContractViolation \<Rightarrow> string" where
  "violation_code CODE_IDENTIFIER_EMPTY = ''identifier_empty''"
| "violation_code CODE_IDENTIFIER_UNTRIMMED = ''identifier_untrimmed''"
| "violation_code CODE_IDENTIFIER_TOO_LONG = ''identifier_too_long''"
| "violation_code CODE_IDENTIFIER_CHARSET = ''identifier_charset''"
| "violation_code CODE_COUNTER_ZERO = ''counter_must_start_at_one''"
| "violation_code CODE_COUNTER_OVERFLOW = ''counter_overflow''"
| "violation_code CODE_DEFINITION_EMPTY = ''definition_has_no_step''"
| "violation_code CODE_DEFINITION_DUPLICATE_STEP = ''definition_duplicate_step''"
| "violation_code CODE_DEFINITION_PIVOT_NOT_LAST = ''definition_pivot_not_last''"
| "violation_code CODE_DEFINITION_RESOLUTION_MISSING = ''definition_resolution_missing''"
| "violation_code CODE_DEFINITION_MODE_CONFLICT = ''definition_mode_conflict''"
| "violation_code CODE_DEFINITION_BUDGET_ZERO = ''definition_budget_zero''"
| "violation_code CODE_TRANSITION_ILLEGAL = ''transition_illegal''"
| "violation_code CODE_TRANSITION_FORWARD_AFTER_COMPENSATION = ''transition_forward_after_compensation''"
| "violation_code CODE_TRANSITION_MANUAL_CLOSE_UNAUDITED = ''transition_manual_close_unaudited''"
| "violation_code CODE_PLAN_SUCCEEDED_PIVOT = ''plan_contains_succeeded_pivot''"
| "violation_code CODE_PLAN_UNKNOWN_STEP = ''plan_unknown_step''"
| "violation_code CODE_PLAN_DUPLICATE_STEP = ''plan_duplicate_step''"
| "violation_code CODE_PLAN_MISSING_STEP = ''plan_missing_step''"
| "violation_code CODE_PLAN_UNSETTLED_STEP = ''plan_unsettled_step''"

lemma violation_code_inj: "violation_code v = violation_code w \<Longrightarrow> v = w"
  by (cases v; cases w) simp_all

section \<open>Vocabularies\<close>

text \<open>Business status of a saga instance (state.rs).\<close>

datatype SagaStatus =
    Running
  | Cancelling
  | WaitingResolution
  | Compensating
  | Completed
  | Compensated
  | ManualIntervention
  | ManuallyClosed

fun saga_status_as_str :: "SagaStatus \<Rightarrow> string" where
  "saga_status_as_str Running = ''RUNNING''"
| "saga_status_as_str Cancelling = ''CANCELLING''"
| "saga_status_as_str WaitingResolution = ''WAITING_RESOLUTION''"
| "saga_status_as_str Compensating = ''COMPENSATING''"
| "saga_status_as_str Completed = ''COMPLETED''"
| "saga_status_as_str Compensated = ''COMPENSATED''"
| "saga_status_as_str ManualIntervention = ''MANUAL_INTERVENTION''"
| "saga_status_as_str ManuallyClosed = ''MANUALLY_CLOSED''"

definition saga_status_parse :: "string \<Rightarrow> SagaStatus option" where
  "saga_status_parse raw =
     (if raw = ''RUNNING'' then Some Running
      else if raw = ''CANCELLING'' then Some Cancelling
      else if raw = ''WAITING_RESOLUTION'' then Some WaitingResolution
      else if raw = ''COMPENSATING'' then Some Compensating
      else if raw = ''COMPLETED'' then Some Completed
      else if raw = ''COMPENSATED'' then Some Compensated
      else if raw = ''MANUAL_INTERVENTION'' then Some ManualIntervention
      else if raw = ''MANUALLY_CLOSED'' then Some ManuallyClosed
      else None)"

interpretation saga_status: vocabulary saga_status_as_str saga_status_parse
proof
  show "saga_status_parse (saga_status_as_str x) = Some x" for x
    by (cases x) (simp_all add: saga_status_parse_def)
  show "saga_status_parse raw = Some x \<Longrightarrow> raw = saga_status_as_str x" for raw x
    by (simp add: saga_status_parse_def split: if_splits)
qed

fun saga_is_terminal :: "SagaStatus \<Rightarrow> bool" where
  "saga_is_terminal Completed = True"
| "saga_is_terminal Compensated = True"
| "saga_is_terminal ManuallyClosed = True"
| "saga_is_terminal _ = False"

fun allows_automatic_commands :: "SagaStatus \<Rightarrow> bool" where
  "allows_automatic_commands Running = True"
| "allows_automatic_commands Cancelling = True"
| "allows_automatic_commands WaitingResolution = True"
| "allows_automatic_commands Compensating = True"
| "allows_automatic_commands _ = False"

definition SAGA_INITIAL :: SagaStatus where
  "SAGA_INITIAL = Running"

text \<open>Direction of travel, orthogonal to the status (state.rs); \<open>Backward\<close> is the source's \<open>Direction::Compensating\<close>.\<close>

datatype Direction =
    Forward
  | Backward

fun direction_as_str :: "Direction \<Rightarrow> string" where
  "direction_as_str Forward = ''FORWARD''"
| "direction_as_str Backward = ''COMPENSATING''"

definition direction_parse :: "string \<Rightarrow> Direction option" where
  "direction_parse raw =
     (if raw = ''FORWARD'' then Some Forward
      else if raw = ''COMPENSATING'' then Some Backward
      else None)"

interpretation direction: vocabulary direction_as_str direction_parse
proof
  show "direction_parse (direction_as_str x) = Some x" for x
    by (cases x) (simp_all add: direction_parse_def)
  show "direction_parse raw = Some x \<Longrightarrow> raw = direction_as_str x" for raw x
    by (simp add: direction_parse_def split: if_splits)
qed

text \<open>Management pause switch (state.rs).\<close>

datatype ControlState =
    Active
  | Paused

fun control_state_as_str :: "ControlState \<Rightarrow> string" where
  "control_state_as_str Active = ''ACTIVE''"
| "control_state_as_str Paused = ''PAUSED''"

definition control_state_parse :: "string \<Rightarrow> ControlState option" where
  "control_state_parse raw =
     (if raw = ''ACTIVE'' then Some Active
      else if raw = ''PAUSED'' then Some Paused
      else None)"

interpretation control_state: vocabulary control_state_as_str control_state_parse
proof
  show "control_state_parse (control_state_as_str x) = Some x" for x
    by (cases x) (simp_all add: control_state_parse_def)
  show "control_state_parse raw = Some x \<Longrightarrow> raw = control_state_as_str x" for raw x
    by (simp add: control_state_parse_def split: if_splits)
qed

fun allows_automatic_actions :: "ControlState \<Rightarrow> bool" where
  "allows_automatic_actions Active = True"
| "allows_automatic_actions Paused = False"

text \<open>The four phases of a step, each with its own identity space (identity.rs).\<close>

datatype StepPhase =
    Execute
  | Cancel
  | Compensate
  | Resolve

fun step_phase_as_str :: "StepPhase \<Rightarrow> string" where
  "step_phase_as_str Execute = ''execute''"
| "step_phase_as_str Cancel = ''cancel''"
| "step_phase_as_str Compensate = ''compensate''"
| "step_phase_as_str Resolve = ''resolve''"

definition step_phase_parse :: "string \<Rightarrow> StepPhase option" where
  "step_phase_parse raw =
     (if raw = ''execute'' then Some Execute
      else if raw = ''cancel'' then Some Cancel
      else if raw = ''compensate'' then Some Compensate
      else if raw = ''resolve'' then Some Resolve
      else None)"

interpretation step_phase: vocabulary step_phase_as_str step_phase_parse
proof
  show "step_phase_parse (step_phase_as_str x) = Some x" for x
    by (cases x) (simp_all add: step_phase_parse_def)
  show "step_phase_parse raw = Some x \<Longrightarrow> raw = step_phase_as_str x" for raw x
    by (simp add: step_phase_parse_def split: if_splits)
qed

text \<open>Committed fact about a step's forward phase (plan.rs).\<close>

datatype StepForwardStatus =
    FwdPending
  | FwdSucceeded
  | FwdRejected
  | FwdCancelled
  | FwdUnknown
  | FwdTimedOut
  | FwdHalted

fun forward_status_as_str :: "StepForwardStatus \<Rightarrow> string" where
  "forward_status_as_str FwdPending = ''PENDING''"
| "forward_status_as_str FwdSucceeded = ''SUCCEEDED''"
| "forward_status_as_str FwdRejected = ''REJECTED''"
| "forward_status_as_str FwdCancelled = ''CANCELLED''"
| "forward_status_as_str FwdUnknown = ''UNKNOWN''"
| "forward_status_as_str FwdTimedOut = ''TIMED_OUT''"
| "forward_status_as_str FwdHalted = ''HALTED''"

definition forward_status_parse :: "string \<Rightarrow> StepForwardStatus option" where
  "forward_status_parse raw =
     (if raw = ''PENDING'' then Some FwdPending
      else if raw = ''SUCCEEDED'' then Some FwdSucceeded
      else if raw = ''REJECTED'' then Some FwdRejected
      else if raw = ''CANCELLED'' then Some FwdCancelled
      else if raw = ''UNKNOWN'' then Some FwdUnknown
      else if raw = ''TIMED_OUT'' then Some FwdTimedOut
      else if raw = ''HALTED'' then Some FwdHalted
      else None)"

interpretation forward_status: vocabulary forward_status_as_str forward_status_parse
proof
  show "forward_status_parse (forward_status_as_str x) = Some x" for x
    by (cases x) (simp_all add: forward_status_parse_def)
  show "forward_status_parse raw = Some x \<Longrightarrow> raw = forward_status_as_str x" for raw x
    by (simp add: forward_status_parse_def split: if_splits)
qed

fun is_settled :: "StepForwardStatus \<Rightarrow> bool" where
  "is_settled FwdPending = True"
| "is_settled FwdSucceeded = True"
| "is_settled FwdRejected = True"
| "is_settled FwdCancelled = True"
| "is_settled _ = False"

text \<open>Verdict of the cancellation barrier (journal.rs).\<close>

datatype StepCancelStatus =
    CanNone
  | CanConfirmed
  | CanAlreadyTerminal
  | CanResolutionPending

fun cancel_status_as_str :: "StepCancelStatus \<Rightarrow> string" where
  "cancel_status_as_str CanNone = ''NONE''"
| "cancel_status_as_str CanConfirmed = ''CONFIRMED''"
| "cancel_status_as_str CanAlreadyTerminal = ''ALREADY_TERMINAL''"
| "cancel_status_as_str CanResolutionPending = ''RESOLUTION_PENDING''"

definition cancel_status_parse :: "string \<Rightarrow> StepCancelStatus option" where
  "cancel_status_parse raw =
     (if raw = ''NONE'' then Some CanNone
      else if raw = ''CONFIRMED'' then Some CanConfirmed
      else if raw = ''ALREADY_TERMINAL'' then Some CanAlreadyTerminal
      else if raw = ''RESOLUTION_PENDING'' then Some CanResolutionPending
      else None)"

interpretation cancel_status: vocabulary cancel_status_as_str cancel_status_parse
proof
  show "cancel_status_parse (cancel_status_as_str x) = Some x" for x
    by (cases x) (simp_all add: cancel_status_parse_def)
  show "cancel_status_parse raw = Some x \<Longrightarrow> raw = cancel_status_as_str x" for raw x
    by (simp add: cancel_status_parse_def split: if_splits)
qed

text \<open>Compensation phase; there is deliberately no rejection (journal.rs).\<close>

datatype StepCompensationStatus =
    CmpNone
  | CmpPending
  | CmpSucceeded
  | CmpUnknown
  | CmpHalted

fun compensation_status_as_str :: "StepCompensationStatus \<Rightarrow> string" where
  "compensation_status_as_str CmpNone = ''NONE''"
| "compensation_status_as_str CmpPending = ''PENDING''"
| "compensation_status_as_str CmpSucceeded = ''SUCCEEDED''"
| "compensation_status_as_str CmpUnknown = ''UNKNOWN''"
| "compensation_status_as_str CmpHalted = ''HALTED''"

definition compensation_status_parse :: "string \<Rightarrow> StepCompensationStatus option" where
  "compensation_status_parse raw =
     (if raw = ''NONE'' then Some CmpNone
      else if raw = ''PENDING'' then Some CmpPending
      else if raw = ''SUCCEEDED'' then Some CmpSucceeded
      else if raw = ''UNKNOWN'' then Some CmpUnknown
      else if raw = ''HALTED'' then Some CmpHalted
      else None)"

interpretation compensation_status: vocabulary compensation_status_as_str compensation_status_parse
proof
  show "compensation_status_parse (compensation_status_as_str x) = Some x" for x
    by (cases x) (simp_all add: compensation_status_parse_def)
  show "compensation_status_parse raw = Some x \<Longrightarrow> raw = compensation_status_as_str x" for raw x
    by (simp add: compensation_status_parse_def split: if_splits)
qed

text \<open>Resolution of an unknown effect (journal.rs).\<close>

datatype StepResolutionStatus =
    ResNone
  | ResPending
  | ResSucceeded
  | ResRejected
  | ResHalted

fun resolution_status_as_str :: "StepResolutionStatus \<Rightarrow> string" where
  "resolution_status_as_str ResNone = ''NONE''"
| "resolution_status_as_str ResPending = ''PENDING''"
| "resolution_status_as_str ResSucceeded = ''SUCCEEDED''"
| "resolution_status_as_str ResRejected = ''REJECTED''"
| "resolution_status_as_str ResHalted = ''HALTED''"

definition resolution_status_parse :: "string \<Rightarrow> StepResolutionStatus option" where
  "resolution_status_parse raw =
     (if raw = ''NONE'' then Some ResNone
      else if raw = ''PENDING'' then Some ResPending
      else if raw = ''SUCCEEDED'' then Some ResSucceeded
      else if raw = ''REJECTED'' then Some ResRejected
      else if raw = ''HALTED'' then Some ResHalted
      else None)"

interpretation resolution_status: vocabulary resolution_status_as_str resolution_status_parse
proof
  show "resolution_status_parse (resolution_status_as_str x) = Some x" for x
    by (cases x) (simp_all add: resolution_status_parse_def)
  show "resolution_status_parse raw = Some x \<Longrightarrow> raw = resolution_status_as_str x" for raw x
    by (simp add: resolution_status_parse_def split: if_splits)
qed

text \<open>Life cycle of one attempt, the union of the four phases' verdicts (journal.rs).\<close>

datatype StepAttemptStatus =
    AttStarted
  | AttSucceeded
  | AttRejected
  | AttUnknown
  | AttHalted
  | AttCancelConfirmed
  | AttAlreadyTerminal
  | AttResolutionPending

fun attempt_status_as_str :: "StepAttemptStatus \<Rightarrow> string" where
  "attempt_status_as_str AttStarted = ''STARTED''"
| "attempt_status_as_str AttSucceeded = ''SUCCEEDED''"
| "attempt_status_as_str AttRejected = ''REJECTED''"
| "attempt_status_as_str AttUnknown = ''UNKNOWN''"
| "attempt_status_as_str AttHalted = ''HALTED''"
| "attempt_status_as_str AttCancelConfirmed = ''CANCEL_CONFIRMED''"
| "attempt_status_as_str AttAlreadyTerminal = ''ALREADY_TERMINAL''"
| "attempt_status_as_str AttResolutionPending = ''RESOLUTION_PENDING''"

definition attempt_status_parse :: "string \<Rightarrow> StepAttemptStatus option" where
  "attempt_status_parse raw =
     (if raw = ''STARTED'' then Some AttStarted
      else if raw = ''SUCCEEDED'' then Some AttSucceeded
      else if raw = ''REJECTED'' then Some AttRejected
      else if raw = ''UNKNOWN'' then Some AttUnknown
      else if raw = ''HALTED'' then Some AttHalted
      else if raw = ''CANCEL_CONFIRMED'' then Some AttCancelConfirmed
      else if raw = ''ALREADY_TERMINAL'' then Some AttAlreadyTerminal
      else if raw = ''RESOLUTION_PENDING'' then Some AttResolutionPending
      else None)"

interpretation attempt_status: vocabulary attempt_status_as_str attempt_status_parse
proof
  show "attempt_status_parse (attempt_status_as_str x) = Some x" for x
    by (cases x) (simp_all add: attempt_status_parse_def)
  show "attempt_status_parse raw = Some x \<Longrightarrow> raw = attempt_status_as_str x" for raw x
    by (simp add: attempt_status_parse_def split: if_splits)
qed

fun is_in_flight :: "StepAttemptStatus \<Rightarrow> bool" where
  "is_in_flight AttStarted = True"
| "is_in_flight _ = False"

text \<open>Source of a transition (journal.rs).\<close>

datatype TriggerKind =
    TrigEvent
  | TrigTimer
  | TrigAdmin

fun trigger_kind_as_str :: "TriggerKind \<Rightarrow> string" where
  "trigger_kind_as_str TrigEvent = ''EVENT''"
| "trigger_kind_as_str TrigTimer = ''TIMER''"
| "trigger_kind_as_str TrigAdmin = ''ADMIN''"

definition trigger_kind_parse :: "string \<Rightarrow> TriggerKind option" where
  "trigger_kind_parse raw =
     (if raw = ''EVENT'' then Some TrigEvent
      else if raw = ''TIMER'' then Some TrigTimer
      else if raw = ''ADMIN'' then Some TrigAdmin
      else None)"

interpretation trigger_kind: vocabulary trigger_kind_as_str trigger_kind_parse
proof
  show "trigger_kind_parse (trigger_kind_as_str x) = Some x" for x
    by (cases x) (simp_all add: trigger_kind_parse_def)
  show "trigger_kind_parse raw = Some x \<Longrightarrow> raw = trigger_kind_as_str x" for raw x
    by (simp add: trigger_kind_parse_def split: if_splits)
qed

text \<open>Persisted life cycle of a durable timer (nasaga-backend, timer.rs).\<close>

datatype TimerState =
    TmrPending
  | TmrClaimed
  | TmrFired
  | TmrCancelled

fun timer_state_as_str :: "TimerState \<Rightarrow> string" where
  "timer_state_as_str TmrPending = ''PENDING''"
| "timer_state_as_str TmrClaimed = ''CLAIMED''"
| "timer_state_as_str TmrFired = ''FIRED''"
| "timer_state_as_str TmrCancelled = ''CANCELLED''"

definition timer_state_parse :: "string \<Rightarrow> TimerState option" where
  "timer_state_parse raw =
     (if raw = ''PENDING'' then Some TmrPending
      else if raw = ''CLAIMED'' then Some TmrClaimed
      else if raw = ''FIRED'' then Some TmrFired
      else if raw = ''CANCELLED'' then Some TmrCancelled
      else None)"

interpretation timer_state: vocabulary timer_state_as_str timer_state_parse
proof
  show "timer_state_parse (timer_state_as_str x) = Some x" for x
    by (cases x) (simp_all add: timer_state_parse_def)
  show "timer_state_parse raw = Some x \<Longrightarrow> raw = timer_state_as_str x" for raw x
    by (simp add: timer_state_parse_def split: if_splits)
qed

end
