(* ===== verification/Saga_Payload.thy ===== *)
theory Saga_Payload
  imports Saga_Vocabulary
begin

text \<open>
  Business payloads and their interpretation contract (\<open>nasaga-core/src/payload.rs\<close>). The JSON
  parser is a third-party crate: whether bytes parse as JSON is the parameter \<open>json_ok\<close>.
\<close>

record SagaPayloadContract =
  content_type :: string
  schema_id :: string

definition payload_contract_default :: SagaPayloadContract where
  "payload_contract_default = \<lparr>content_type = ''application/json'', schema_id = ''''\<rparr>"

datatype SagaPayloadError = SagaPayloadError

text \<open>\<open>str::split_once('/')\<close>: the parts around the first slash.\<close>

fun split_once :: "char \<Rightarrow> string \<Rightarrow> (string \<times> string) option" where
  "split_once d [] = None"
| "split_once d (c # s) =
     (if c = d then Some ([], s) else map_option (\<lambda>(a, b). (c # a, b)) (split_once d s))"

definition media_char :: "char \<Rightarrow> bool" where
  "media_char b = (is_ascii_lowercase b \<or> is_ascii_digit b \<or> b \<in> set ''!#$&^_.+-'')"

definition payload_contract_validate :: "SagaPayloadContract \<Rightarrow> SagaPayloadError + unit" where
  "payload_contract_validate c =
     (case split_once CHR ''/'' (content_type c) of
        None \<Rightarrow> Inl SagaPayloadError
      | Some (kind, subtype) \<Rightarrow>
          if length (content_type c) > 128 \<or> kind = [] \<or> subtype = [] \<or>
             \<not> list_all media_char (kind @ subtype) \<or>
             length (schema_id c) > 256 \<or> trim (schema_id c) \<noteq> schema_id c \<or>
             has_control (schema_id c) \<or>
             (content_type c \<noteq> ''application/json'' \<and> schema_id c = [])
          then Inl SagaPayloadError else Inr ())"

record SagaPayload =
  payload_content_type :: string
  payload_schema_id :: string
  payload_body :: bytes

definition payload_contract_of :: "SagaPayload \<Rightarrow> SagaPayloadContract" where
  "payload_contract_of p =
     \<lparr>content_type = payload_content_type p, schema_id = payload_schema_id p\<rparr>"

definition payload_validate :: "(bytes \<Rightarrow> bool) \<Rightarrow> SagaPayload \<Rightarrow> SagaPayloadError + unit" where
  "payload_validate json_ok p =
     bindR (payload_contract_validate (payload_contract_of p)) (\<lambda>_.
       if payload_content_type p = ''application/json'' \<and> \<not> json_ok (payload_body p)
       then Inl SagaPayloadError else Inr ())"

definition payload_new ::
  "(bytes \<Rightarrow> bool) \<Rightarrow> string \<Rightarrow> string \<Rightarrow> bytes \<Rightarrow> SagaPayloadError + SagaPayload" where
  "payload_new json_ok ct sid body =
     (let p = \<lparr>payload_content_type = ct, payload_schema_id = sid, payload_body = body\<rparr>
      in bindR (payload_validate json_ok p) (\<lambda>_. Inr p))"

lemma split_once_Some: "split_once d s = Some (a, b) \<Longrightarrow> s = a @ d # b \<and> d \<notin> set a"
  by (induction s arbitrary: a) (auto split: if_splits)

lemma contract_valid_lengths:
  assumes "payload_contract_validate c = Inr ()"
  shows "length (content_type c) \<le> 128" and "length (schema_id c) \<le> 256"
  using assms by (auto simp: payload_contract_validate_def split: option.splits if_splits)

lemma contract_valid_slash:
  assumes "payload_contract_validate c = Inr ()"
  shows "CHR ''/'' \<in> set (content_type c)"
  using assms
  by (auto simp: payload_contract_validate_def dest!: split_once_Some
      split: option.splits if_splits)

lemma default_contract_valid: "payload_contract_validate payload_contract_default = Inr ()"
  by code_simp

end
