(* ===== verification/Saga_Identity.thy ===== *)
theory Saga_Identity
  imports Saga_Payload
begin

text \<open>
  Saga identities (\<open>nasaga-core/src/identity.rs\<close>): validation of names and opaque ids, the
  length-prefixed canonical encoding, attempt numbers, and the derivation of effect and command
  ids; and the execution context handed to a business handler (\<open>context.rs\<close>). UUIDv5 is a
  third-party function and a parameter \<open>uuid5\<close> (namespace and name to the sixteen bytes).
\<close>

section \<open>Identifiers\<close>

definition STRUCTURED_IDENTIFIER_MAX_BYTES :: nat where
  "STRUCTURED_IDENTIFIER_MAX_BYTES = 128"

definition OPAQUE_IDENTIFIER_MAX_BYTES :: nat where
  "OPAQUE_IDENTIFIER_MAX_BYTES = 256"

definition identifier_char :: "char \<Rightarrow> bool" where
  "identifier_char b = (is_ascii_alphanumeric b \<or> b \<in> {CHR ''_'', CHR ''-'', CHR ''.''})"

definition validate_identifier :: "string \<Rightarrow> string contract_result" where
  "validate_identifier raw =
     (if raw \<noteq> trim raw then Inl CODE_IDENTIFIER_UNTRIMMED
      else if raw = [] then Inl CODE_IDENTIFIER_EMPTY
      else if length raw > STRUCTURED_IDENTIFIER_MAX_BYTES then Inl CODE_IDENTIFIER_TOO_LONG
      else if \<not> list_all identifier_char raw then Inl CODE_IDENTIFIER_CHARSET
      else Inr raw)"

definition validate_opaque :: "string \<Rightarrow> string contract_result" where
  "validate_opaque raw =
     (if raw \<noteq> trim raw then Inl CODE_IDENTIFIER_UNTRIMMED
      else if raw = [] then Inl CODE_IDENTIFIER_EMPTY
      else if length raw > OPAQUE_IDENTIFIER_MAX_BYTES then Inl CODE_IDENTIFIER_TOO_LONG
      else if has_control raw then Inl CODE_IDENTIFIER_CHARSET
      else Inr raw)"

datatype SagaId = SagaId (saga_id_str: string)
datatype TenantId = TenantId (tenant_id_str: string)
datatype BusinessKey = BusinessKey (business_key_str: string)
datatype WorkflowName = WorkflowName (workflow_name_str: string)
datatype StepName = StepName (step_name_str: string)
datatype ServiceIdentity = ServiceIdentity (service_identity_str: string)
datatype DefinitionVersion = DefinitionVersion (definition_version_get: u32)
datatype AttemptNo = AttemptNo (attempt_no_get: u32)

definition SagaId_new :: "string \<Rightarrow> SagaId contract_result" where
  "SagaId_new raw = map_sum id SagaId (validate_opaque raw)"

definition TenantId_new :: "string \<Rightarrow> TenantId contract_result" where
  "TenantId_new raw = map_sum id TenantId (validate_opaque raw)"

definition BusinessKey_new :: "string \<Rightarrow> BusinessKey contract_result" where
  "BusinessKey_new raw = map_sum id BusinessKey (validate_opaque raw)"

definition WorkflowName_new :: "string \<Rightarrow> WorkflowName contract_result" where
  "WorkflowName_new raw = map_sum id WorkflowName (validate_identifier raw)"

definition StepName_new :: "string \<Rightarrow> StepName contract_result" where
  "StepName_new raw = map_sum id StepName (validate_identifier raw)"

definition ServiceIdentity_new :: "string \<Rightarrow> ServiceIdentity contract_result" where
  "ServiceIdentity_new raw = map_sum id ServiceIdentity (validate_identifier raw)"

definition DefinitionVersion_new :: "u32 \<Rightarrow> DefinitionVersion contract_result" where
  "DefinitionVersion_new value =
     (if value = 0 then Inl CODE_COUNTER_ZERO else Inr (DefinitionVersion value))"

definition AttemptNo_FIRST :: AttemptNo where
  "AttemptNo_FIRST = AttemptNo 1"

definition AttemptNo_new :: "u32 \<Rightarrow> AttemptNo contract_result" where
  "AttemptNo_new value = (if value = 0 then Inl CODE_COUNTER_ZERO else Inr (AttemptNo value))"

definition AttemptNo_next :: "AttemptNo \<Rightarrow> AttemptNo contract_result" where
  "AttemptNo_next a =
     ok_or (map_option AttemptNo (checked_add_u32 (attempt_no_get a) 1)) CODE_COUNTER_OVERFLOW"

section \<open>Canonical encoding and derived identities\<close>

definition canonical_bytes :: "bytes list \<Rightarrow> bytes" where
  "canonical_bytes fs = concat (map (\<lambda>f. be_bytes 8 (length f) @ f) fs)"

definition u32_be :: "u32 \<Rightarrow> bytes" where
  "u32_be w = be_bytes 4 (unat w)"

definition SAGA_ID_NAMESPACE :: bytes where
  "SAGA_ID_NAMESPACE = str_bytes ''nasasaga-v1-idns''"

datatype EffectId = EffectId (effect_id_uuid: bytes)
datatype CommandId = CommandId (command_id_uuid: bytes)

definition effect_preimage ::
  "SagaId \<Rightarrow> DefinitionVersion \<Rightarrow> StepName \<Rightarrow> StepPhase \<Rightarrow> bytes" where
  "effect_preimage saga version step phase =
     canonical_bytes [str_bytes (saga_id_str saga), u32_be (definition_version_get version),
       str_bytes (step_name_str step), str_bytes (step_phase_as_str phase)]"

definition EffectId_derive ::
  "(bytes \<Rightarrow> bytes \<Rightarrow> bytes) \<Rightarrow> SagaId \<Rightarrow> DefinitionVersion \<Rightarrow> StepName \<Rightarrow> StepPhase \<Rightarrow> EffectId"
  where
  "EffectId_derive uuid5 saga version step phase =
     EffectId (uuid5 SAGA_ID_NAMESPACE (effect_preimage saga version step phase))"

definition command_preimage :: "EffectId \<Rightarrow> AttemptNo \<Rightarrow> bytes" where
  "command_preimage effect attempt =
     canonical_bytes [effect_id_uuid effect, u32_be (attempt_no_get attempt)]"

definition CommandId_derive ::
  "(bytes \<Rightarrow> bytes \<Rightarrow> bytes) \<Rightarrow> EffectId \<Rightarrow> AttemptNo \<Rightarrow> CommandId" where
  "CommandId_derive uuid5 effect attempt =
     CommandId (uuid5 SAGA_ID_NAMESPACE (command_preimage effect attempt))"

section \<open>Validated identifiers\<close>

lemma validate_identifier_Inr:
  "validate_identifier raw = Inr s \<Longrightarrow>
     s = raw \<and> s \<noteq> [] \<and> length s \<le> 128 \<and> list_all identifier_char s"
  by (simp add: validate_identifier_def STRUCTURED_IDENTIFIER_MAX_BYTES_def split: if_splits)

lemma validate_opaque_Inr:
  "validate_opaque raw = Inr s \<Longrightarrow>
     s = raw \<and> s \<noteq> [] \<and> length s \<le> 256 \<and> \<not> has_control s"
  by (simp add: validate_opaque_def OPAQUE_IDENTIFIER_MAX_BYTES_def split: if_splits)

text \<open>The values the constructors produce.\<close>

definition valid_SagaId :: "SagaId \<Rightarrow> bool" where
  "valid_SagaId s = (SagaId_new (saga_id_str s) = Inr s)"

definition valid_StepName :: "StepName \<Rightarrow> bool" where
  "valid_StepName s = (StepName_new (step_name_str s) = Inr s)"

definition valid_WorkflowName :: "WorkflowName \<Rightarrow> bool" where
  "valid_WorkflowName s = (WorkflowName_new (workflow_name_str s) = Inr s)"

definition valid_ServiceIdentity :: "ServiceIdentity \<Rightarrow> bool" where
  "valid_ServiceIdentity s = (ServiceIdentity_new (service_identity_str s) = Inr s)"

lemma map_sum_Inr: "map_sum id f m = Inr y \<longleftrightarrow> (\<exists>x. m = Inr x \<and> y = f x)"
  by (cases m) auto

lemma SagaId_new_valid: "SagaId_new raw = Inr s \<Longrightarrow> valid_SagaId s \<and> saga_id_str s = raw"
  using validate_opaque_Inr [of raw]
  by (fastforce simp: valid_SagaId_def SagaId_new_def map_sum_Inr)

lemma StepName_new_valid: "StepName_new raw = Inr s \<Longrightarrow> valid_StepName s \<and> step_name_str s = raw"
  using validate_identifier_Inr [of raw]
  by (fastforce simp: valid_StepName_def StepName_new_def map_sum_Inr)

lemma valid_SagaId_length: "valid_SagaId s \<Longrightarrow> length (saga_id_str s) \<le> 256"
  by (auto simp: valid_SagaId_def SagaId_new_def map_sum_Inr dest: validate_opaque_Inr)

lemma valid_StepName_props:
  "valid_StepName s \<Longrightarrow>
     length (step_name_str s) \<le> 128 \<and> list_all identifier_char (step_name_str s)"
  by (auto simp: valid_StepName_def StepName_new_def map_sum_Inr dest: validate_identifier_Inr)

lemma valid_WorkflowName_length: "valid_WorkflowName s \<Longrightarrow> length (workflow_name_str s) \<le> 128"
  by (auto simp: valid_WorkflowName_def WorkflowName_new_def map_sum_Inr
      dest: validate_identifier_Inr)

lemma valid_ServiceIdentity_props:
  "valid_ServiceIdentity s \<Longrightarrow>
     length (service_identity_str s) \<le> 128 \<and> list_all identifier_char (service_identity_str s)"
  by (auto simp: valid_ServiceIdentity_def ServiceIdentity_new_def map_sum_Inr
      dest: validate_identifier_Inr)

lemma identifier_char_no_slash: "list_all identifier_char s \<Longrightarrow> CHR ''/'' \<notin> set s"
  by (auto simp: list_all_iff identifier_char_def ascii_defs)

section \<open>Framing is unambiguous\<close>

definition framable :: "bytes \<Rightarrow> bool" where
  "framable f = (length f < 2 ^ 64)"

lemma canonical_bytes_simps [simp]:
  "canonical_bytes [] = []"
  "canonical_bytes (f # fs) = be_bytes 8 (length f) @ f @ canonical_bytes fs"
  by (simp_all add: canonical_bytes_def)

lemma canonical_bytes_append: "canonical_bytes (fs @ gs) = canonical_bytes fs @ canonical_bytes gs"
  by (simp add: canonical_bytes_def)

lemma be_bytes_eq_Nil [simp]: "be_bytes n v = [] \<longleftrightarrow> n = 0"
  by (cases n) simp_all

lemma canonical_bytes_eq_Nil [simp]: "canonical_bytes fs = [] \<longleftrightarrow> fs = []"
  by (cases fs) simp_all

lemma frame_inj:
  assumes "framable f" and "framable g"
    and "be_bytes 8 (length f) @ f @ r = be_bytes 8 (length g) @ g @ s"
  shows "f = g \<and> r = s"
proof -
  from assms(3) have "be_bytes 8 (length f) = be_bytes 8 (length g)" and "f @ r = g @ s"
    by (simp_all add: append_eq_append_conv)
  moreover from assms(1,2) have "length f < 256 ^ 8" and "length g < 256 ^ 8"
    by (simp_all add: framable_def)
  ultimately have "length f = length g" by (blast intro: be_bytes_inj)
  with \<open>f @ r = g @ s\<close> show ?thesis by simp
qed

lemma canonical_bytes_inj:
  assumes "list_all framable fs" and "list_all framable gs"
    and "canonical_bytes fs = canonical_bytes gs"
  shows "fs = gs"
  using assms
proof (induction fs arbitrary: gs)
  case Nil
  then show ?case by (metis canonical_bytes_eq_Nil canonical_bytes_simps(1))
next
  case (Cons f fs)
  from Cons.prems(3) have "gs \<noteq> []" by (metis canonical_bytes_eq_Nil list.distinct(1))
  then obtain g gs' where gs: "gs = g # gs'" by (cases gs) auto
  with Cons.prems have "f = g \<and> canonical_bytes fs = canonical_bytes gs'"
    by (intro frame_inj) auto
  with Cons gs show ?case by auto
qed

lemma framable_str [simp]: "length s < 2 ^ 64 \<Longrightarrow> framable (str_bytes s)"
  by (simp add: framable_def)

lemma framable_u32_be [simp]: "framable (u32_be w)"
  by (simp add: framable_def u32_be_def)

lemma length_u32_be [simp]: "length (u32_be w) = 4"
  by (simp add: u32_be_def)

lemma u32_be_inj [simp]: "u32_be v = u32_be w \<longleftrightarrow> v = w"
proof
  have "unat x < 256 ^ 4" for x :: u32
    using unsigned_less [of x] by simp
  then show "u32_be v = u32_be w \<Longrightarrow> v = w"
    using be_bytes_inj [of "unat v" 4 "unat w"] by (simp add: u32_be_def word_unat_eq_iff)
qed simp

lemma framable_phase [simp]: "framable (str_bytes (step_phase_as_str p))"
  by (cases p) (simp_all add: framable_def)

lemma effect_preimage_inj:
  assumes "valid_SagaId s" "valid_SagaId s'" "valid_StepName n" "valid_StepName n'"
    and "effect_preimage s v n p = effect_preimage s' v' n' p'"
  shows "s = s' \<and> v = v' \<and> n = n' \<and> p = p'"
proof -
  let ?F = "\<lambda>s v n p. [str_bytes (saga_id_str s), u32_be (definition_version_get v),
       str_bytes (step_name_str n), str_bytes (step_phase_as_str p)]"
  have fr: "list_all framable (?F a b c d)" if "valid_SagaId a" "valid_StepName c" for a b c d
    using that by (auto dest!: valid_SagaId_length valid_StepName_props)
  have "?F s v n p = ?F s' v' n' p'"
    using assms by (intro canonical_bytes_inj fr) (simp_all add: effect_preimage_def)
  then show ?thesis
    by (auto intro: step_phase.as_str_inj simp: SagaId.expand DefinitionVersion.expand StepName.expand)
qed

lemma command_preimage_inj:
  assumes "length (effect_id_uuid e) = 16" and "length (effect_id_uuid e') = 16"
    and "command_preimage e a = command_preimage e' a'"
  shows "e = e' \<and> a = a'"
proof -
  have "[effect_id_uuid e, u32_be (attempt_no_get a)] = [effect_id_uuid e', u32_be (attempt_no_get a')]"
    using assms by (intro canonical_bytes_inj)
      (auto simp: command_preimage_def framable_def)
  then show ?thesis by (auto simp: EffectId.expand AttemptNo.expand)
qed

section \<open>Execution context\<close>

record SagaContext =
  ctx_saga_id :: SagaId
  ctx_tenant_id :: TenantId
  ctx_workflow :: WorkflowName
  ctx_definition_version :: DefinitionVersion
  ctx_definition_digest :: string
  ctx_step :: StepName
  ctx_phase :: StepPhase
  ctx_attempt :: AttemptNo
  ctx_effect_id :: EffectId
  ctx_target_phase :: StepPhase
  ctx_target_effect_id :: EffectId
  ctx_command_id :: CommandId
  ctx_payload :: "SagaPayload option"

definition SagaContext_new ::
  "(bytes \<Rightarrow> bytes \<Rightarrow> bytes) \<Rightarrow> SagaId \<Rightarrow> TenantId \<Rightarrow> WorkflowName \<Rightarrow> DefinitionVersion \<Rightarrow> string \<Rightarrow>
    StepName \<Rightarrow> StepPhase \<Rightarrow> AttemptNo \<Rightarrow> SagaContext" where
  "SagaContext_new uuid5 saga tenant workflow version digest step phase attempt =
     (let effect = EffectId_derive uuid5 saga version step phase;
          command = CommandId_derive uuid5 effect attempt
      in \<lparr>ctx_saga_id = saga, ctx_tenant_id = tenant, ctx_workflow = workflow,
          ctx_definition_version = version, ctx_definition_digest = digest, ctx_step = step,
          ctx_phase = phase, ctx_attempt = attempt, ctx_effect_id = effect,
          ctx_target_phase = phase, ctx_target_effect_id = effect, ctx_command_id = command,
          ctx_payload = None\<rparr>)"

definition with_payload :: "SagaPayload option \<Rightarrow> SagaContext \<Rightarrow> SagaContext" where
  "with_payload p c = c\<lparr>ctx_payload := p\<rparr>"

definition with_target_phase ::
  "(bytes \<Rightarrow> bytes \<Rightarrow> bytes) \<Rightarrow> StepPhase \<Rightarrow> SagaContext \<Rightarrow> SagaContext" where
  "with_target_phase uuid5 target c =
     c\<lparr>ctx_target_effect_id := EffectId_derive uuid5 (ctx_saga_id c) (ctx_definition_version c)
         (ctx_step c) target,
       ctx_target_phase := target\<rparr>"

section \<open>Properties\<close>

text \<open>
  C32: Effect and command identities are separated by construction. As long as UUIDv5 maps the
  names it is given here to different values, two validated derivations give the same effect id
  exactly when they name the same saga, definition version, step and phase, and the same command
  id exactly when they are moreover the same attempt: no two field tuples share a name.
\<close>

theorem derived_ids_separate:
  assumes ids: "valid_SagaId s" "valid_SagaId s'" "valid_StepName n" "valid_StepName n'"
    and uuid_len: "\<forall>name. length (uuid5 SAGA_ID_NAMESPACE name) = 16"
    and effect_free: "inj_on (uuid5 SAGA_ID_NAMESPACE)
      {effect_preimage s v n p, effect_preimage s' v' n' p'}"
    and command_free: "inj_on (uuid5 SAGA_ID_NAMESPACE)
      {command_preimage (EffectId_derive uuid5 s v n p) a,
       command_preimage (EffectId_derive uuid5 s' v' n' p') a'}"
  shows "(EffectId_derive uuid5 s v n p = EffectId_derive uuid5 s' v' n' p' \<longleftrightarrow>
      (s, v, n, p) = (s', v', n', p')) \<and>
    (CommandId_derive uuid5 (EffectId_derive uuid5 s v n p) a
       = CommandId_derive uuid5 (EffectId_derive uuid5 s' v' n' p') a' \<longleftrightarrow>
      (s, v, n, p, a) = (s', v', n', p', a'))"
proof -
  let ?e = "EffectId_derive uuid5 s v n p" and ?e' = "EffectId_derive uuid5 s' v' n' p'"
  have eff: "(s, v, n, p) = (s', v', n', p')" if "?e = ?e'"
  proof -
    from that effect_free have "effect_preimage s v n p = effect_preimage s' v' n' p'"
      by (auto simp: EffectId_derive_def)
    with ids show ?thesis by (blast dest: effect_preimage_inj)
  qed
  have "?e = ?e' \<and> a = a'" if "CommandId_derive uuid5 ?e a = CommandId_derive uuid5 ?e' a'"
  proof -
    from that command_free have "command_preimage ?e a = command_preimage ?e' a'"
      by (auto simp: CommandId_derive_def)
    then show ?thesis
      using command_preimage_inj [of ?e ?e' a a'] uuid_len by (auto simp: EffectId_derive_def)
  qed
  with eff show ?thesis by blast
qed

text \<open>A concrete sixteen-byte function in the place of UUIDv5, for evaluation.\<close>

definition sample_uuid5 :: "bytes \<Rightarrow> bytes \<Rightarrow> bytes" where
  "sample_uuid5 ns name = take 16 (drop 8 name @ replicate 16 0)"

lemma length_sample_uuid5 [simp]: "length (sample_uuid5 ns name) = 16"
  by (simp add: sample_uuid5_def min_def)

lemma sample_command:
  "length (effect_id_uuid e) = 16 \<Longrightarrow>
     sample_uuid5 ns (command_preimage e a) = effect_id_uuid e"
  by (simp add: sample_uuid5_def command_preimage_def)

theorem derived_ids_separate_witness:
  "CommandId_derive sample_uuid5
      (EffectId_derive sample_uuid5 (SagaId ''s-1'') (DefinitionVersion 1) (StepName ''pay'') Execute)
      (AttemptNo 1)
    \<noteq> CommandId_derive sample_uuid5
      (EffectId_derive sample_uuid5 (SagaId ''s-2'') (DefinitionVersion 1) (StepName ''pay'') Execute)
      (AttemptNo 2)"
proof -
  let ?v = "DefinitionVersion 1" and ?n = "StepName ''pay''"
  let ?e = "EffectId_derive sample_uuid5 (SagaId ''s-1'') ?v ?n Execute"
  let ?e' = "EffectId_derive sample_uuid5 (SagaId ''s-2'') ?v ?n Execute"
  have ids: "valid_SagaId (SagaId ''s-1'')" "valid_SagaId (SagaId ''s-2'')" "valid_StepName ?n"
    by code_simp+
  have len: "\<forall>name. length (sample_uuid5 SAGA_ID_NAMESPACE name) = 16"
    by simp
  have "sample_uuid5 SAGA_ID_NAMESPACE (effect_preimage (SagaId ''s-1'') ?v ?n Execute)
      \<noteq> sample_uuid5 SAGA_ID_NAMESPACE (effect_preimage (SagaId ''s-2'') ?v ?n Execute)"
    by (simp add: sample_uuid5_def effect_preimage_def str_bytes_def char_byte_def)
  moreover from this have "sample_uuid5 SAGA_ID_NAMESPACE (command_preimage ?e (AttemptNo 1))
      \<noteq> sample_uuid5 SAGA_ID_NAMESPACE (command_preimage ?e' (AttemptNo 2))"
    by (simp add: sample_command EffectId_derive_def)
  ultimately have "inj_on (sample_uuid5 SAGA_ID_NAMESPACE)
      {effect_preimage (SagaId ''s-1'') ?v ?n Execute, effect_preimage (SagaId ''s-2'') ?v ?n Execute}"
    and "inj_on (sample_uuid5 SAGA_ID_NAMESPACE)
      {command_preimage ?e (AttemptNo 1), command_preimage ?e' (AttemptNo 2)}"
    by auto
  from derived_ids_separate [OF ids(1,2,3,3) len this] show ?thesis by simp
qed


end
