(* ===== verification/Saga_Definition.thy ===== *)
theory Saga_Definition
  imports Saga_Identity
begin

text \<open>
  Workflow definitions and their pre-publication validation
  (\<open>nasaga-core/src/definition.rs\<close>). A \<open>Duration\<close> is its number of nanoseconds; SHA-256 is a
  third-party function and the parameter \<open>sha256\<close> of the digest, whose input
  \<open>definition_preimage\<close> is modelled byte for byte.
\<close>

section \<open>Data\<close>

type_synonym Duration = nat

definition as_millis :: "Duration \<Rightarrow> nat" where
  "as_millis d = d div 1000000"

text \<open>The range of \<open>std::time::Duration\<close>: \<open>u64\<close> seconds and less than a second of nanoseconds.\<close>

definition duration_ok :: "Duration \<Rightarrow> bool" where
  "duration_ok d = (d < 2 ^ 64 * 1000000000)"

datatype Compensation = Compensable | NonCompensable

fun compensation_as_str :: "Compensation \<Rightarrow> string" where
  "compensation_as_str Compensable = ''compensable''"
| "compensation_as_str NonCompensable = ''non-compensable''"

datatype CancelMode = LocalFenceable | ExternallyCancellable | ResolveOnly

fun cancel_mode_as_str :: "CancelMode \<Rightarrow> string" where
  "cancel_mode_as_str LocalFenceable = ''local-fenceable''"
| "cancel_mode_as_str ExternallyCancellable = ''externally-cancellable''"
| "cancel_mode_as_str ResolveOnly = ''resolve-only''"

definition is_external :: "CancelMode \<Rightarrow> bool" where
  "is_external m = (m \<noteq> LocalFenceable)"

datatype ResolutionMode = Callback | Poll | Manual

fun resolution_mode_as_str :: "ResolutionMode \<Rightarrow> string" where
  "resolution_mode_as_str Callback = ''callback''"
| "resolution_mode_as_str Poll = ''poll''"
| "resolution_mode_as_str Manual = ''manual''"

record ResolutionSpec =
  allow_unknown :: bool
  resolution_mode :: "ResolutionMode option"
  resolution_budget :: Duration

definition resolution_forbidden :: ResolutionSpec where
  "resolution_forbidden = \<lparr>allow_unknown = False, resolution_mode = None, resolution_budget = 0\<rparr>"

definition resolution_allowed :: "ResolutionMode \<Rightarrow> Duration \<Rightarrow> ResolutionSpec" where
  "resolution_allowed mode budget =
     \<lparr>allow_unknown = True, resolution_mode = Some mode, resolution_budget = budget\<rparr>"

datatype TimeoutPolicy = AcceptLateSuccess | CompensateLateSuccess

fun timeout_policy_as_str :: "TimeoutPolicy \<Rightarrow> string" where
  "timeout_policy_as_str AcceptLateSuccess = ''accept-late-success''"
| "timeout_policy_as_str CompensateLateSuccess = ''compensate-late-success''"

record StepDefinition =
  sd_name :: StepName
  sd_owner :: ServiceIdentity
  sd_compensation :: Compensation
  sd_cancel_mode :: CancelMode
  sd_resolution :: ResolutionSpec
  sd_timeout :: Duration
  sd_timeout_policy :: TimeoutPolicy
  sd_payload_contract :: SagaPayloadContract

definition StepDefinition_new ::
  "StepName \<Rightarrow> ServiceIdentity \<Rightarrow> Compensation \<Rightarrow> CancelMode \<Rightarrow> ResolutionSpec \<Rightarrow> Duration \<Rightarrow>
    TimeoutPolicy \<Rightarrow> StepDefinition" where
  "StepDefinition_new name owner compensation cancel resolution timeout policy =
     \<lparr>sd_name = name, sd_owner = owner, sd_compensation = compensation, sd_cancel_mode = cancel,
      sd_resolution = resolution, sd_timeout = timeout, sd_timeout_policy = policy,
      sd_payload_contract = payload_contract_default\<rparr>"

definition with_payload_contract ::
  "SagaPayloadContract \<Rightarrow> StepDefinition \<Rightarrow> SagaPayloadError + StepDefinition" where
  "with_payload_contract contract step =
     bindR (payload_contract_validate contract) (\<lambda>_. Inr (step\<lparr>sd_payload_contract := contract\<rparr>))"

definition is_compensable :: "StepDefinition \<Rightarrow> bool" where
  "is_compensable step = (sd_compensation step = Compensable)"

record WorkflowDefinition =
  wd_name :: WorkflowName
  wd_version :: DefinitionVersion
  wd_steps :: "StepDefinition list"

section \<open>Validation\<close>

fun check_unique_steps :: "string list \<Rightarrow> StepDefinition list \<Rightarrow> unit contract_result" where
  "check_unique_steps seen [] = Inr ()"
| "check_unique_steps seen (step # steps) =
     (if step_name_str (sd_name step) \<in> set seen then Inl CODE_DEFINITION_DUPLICATE_STEP
      else check_unique_steps (step_name_str (sd_name step) # seen) steps)"

definition validate_step :: "WorkflowDefinition \<Rightarrow> nat \<Rightarrow> StepDefinition \<Rightarrow> unit contract_result" where
  "validate_step d index step =
     (if sd_compensation step = NonCompensable \<and> index + 1 \<noteq> length (wd_steps d)
        then Inl CODE_DEFINITION_PIVOT_NOT_LAST
      else if sd_compensation step = NonCompensable \<and> sd_timeout_policy step = CompensateLateSuccess
        then Inl CODE_DEFINITION_MODE_CONFLICT
      else if sd_timeout step = 0 then Inl CODE_DEFINITION_BUDGET_ZERO
      else if is_external (sd_cancel_mode step) \<noteq> allow_unknown (sd_resolution step)
        then Inl CODE_DEFINITION_MODE_CONFLICT
      else if allow_unknown (sd_resolution step) then
        (if resolution_mode (sd_resolution step) = None then Inl CODE_DEFINITION_RESOLUTION_MISSING
         else if resolution_budget (sd_resolution step) = 0 then Inl CODE_DEFINITION_BUDGET_ZERO
         else Inr ())
      else if resolution_mode (sd_resolution step) \<noteq> None then Inl CODE_DEFINITION_MODE_CONFLICT
      else Inr ())"

fun validate_steps_from ::
  "WorkflowDefinition \<Rightarrow> nat \<Rightarrow> StepDefinition list \<Rightarrow> unit contract_result" where
  "validate_steps_from d index [] = Inr ()"
| "validate_steps_from d index (step # steps) =
     bindR (validate_step d index step) (\<lambda>_. validate_steps_from d (index + 1) steps)"

definition definition_validate :: "WorkflowDefinition \<Rightarrow> unit contract_result" where
  "definition_validate d =
     (if wd_steps d = [] then Inl CODE_DEFINITION_EMPTY
      else bindR (check_unique_steps [] (wd_steps d)) (\<lambda>_. validate_steps_from d 0 (wd_steps d)))"

definition WorkflowDefinition_new ::
  "WorkflowName \<Rightarrow> DefinitionVersion \<Rightarrow> StepDefinition list \<Rightarrow> WorkflowDefinition contract_result" where
  "WorkflowDefinition_new name version steps =
     (let d = \<lparr>wd_name = name, wd_version = version, wd_steps = steps\<rparr>
      in bindR (definition_validate d) (\<lambda>_. Inr d))"

definition definition_step :: "WorkflowDefinition \<Rightarrow> StepName \<Rightarrow> StepDefinition option" where
  "definition_step d name = find (\<lambda>step. sd_name step = name) (wd_steps d)"

definition definition_pivot :: "WorkflowDefinition \<Rightarrow> StepDefinition option" where
  "definition_pivot d =
     (if wd_steps d = [] then None
      else if \<not> is_compensable (last (wd_steps d)) then Some (last (wd_steps d)) else None)"

section \<open>Digest\<close>

definition header_fields :: "WorkflowDefinition \<Rightarrow> bytes list" where
  "header_fields d =
     [str_bytes (workflow_name_str (wd_name d)), u32_be (definition_version_get (wd_version d)),
      be_bytes 8 (length (wd_steps d))]"

definition contract_fields :: "StepDefinition \<Rightarrow> bytes list" where
  "contract_fields step =
     [str_bytes ''payload-contract'', str_bytes (content_type (sd_payload_contract step)),
      str_bytes (schema_id (sd_payload_contract step))]"

definition step_fields :: "StepDefinition \<Rightarrow> bytes list" where
  "step_fields step =
     [str_bytes (step_name_str (sd_name step)), str_bytes (service_identity_str (sd_owner step)),
      str_bytes (compensation_as_str (sd_compensation step)),
      str_bytes (cancel_mode_as_str (sd_cancel_mode step)),
      [if allow_unknown (sd_resolution step) then 1 else 0],
      str_bytes (case resolution_mode (sd_resolution step) of
        None \<Rightarrow> '''' | Some m \<Rightarrow> resolution_mode_as_str m),
      be_bytes 16 (as_millis (resolution_budget (sd_resolution step))),
      be_bytes 16 (as_millis (sd_timeout step)),
      str_bytes (timeout_policy_as_str (sd_timeout_policy step))]"

definition definition_preimage :: "WorkflowDefinition \<Rightarrow> bytes" where
  "definition_preimage d =
     canonical_bytes (header_fields d) @
     concat (map (\<lambda>step.
       (if sd_payload_contract step \<noteq> payload_contract_default
        then canonical_bytes (contract_fields step) else []) @
       canonical_bytes (step_fields step)) (wd_steps d))"

definition hex_digit :: "nat \<Rightarrow> char" where
  "hex_digit n = ''0123456789abcdef'' ! (n mod 16)"

definition hex_encode :: "bytes \<Rightarrow> string" where
  "hex_encode bs = concat (map (\<lambda>b. [hex_digit (unat b div 16), hex_digit (unat b)]) bs)"

definition definition_digest :: "(bytes \<Rightarrow> bytes) \<Rightarrow> WorkflowDefinition \<Rightarrow> string" where
  "definition_digest sha256 d = hex_encode (sha256 (definition_preimage d))"

section \<open>What validation establishes\<close>

text \<open>The rules of a single step, independent of the order in which the validator tests them.\<close>

definition step_rules :: "nat \<Rightarrow> nat \<Rightarrow> StepDefinition \<Rightarrow> bool" where
  "step_rules n index step \<longleftrightarrow>
     (is_compensable step \<or> index + 1 = n \<and> sd_timeout_policy step = AcceptLateSuccess) \<and>
     0 < sd_timeout step \<and>
     (if is_external (sd_cancel_mode step)
      then allow_unknown (sd_resolution step) \<and> resolution_mode (sd_resolution step) \<noteq> None \<and>
           0 < resolution_budget (sd_resolution step)
      else \<not> allow_unknown (sd_resolution step) \<and> resolution_mode (sd_resolution step) = None)"

definition definition_rules :: "WorkflowDefinition \<Rightarrow> bool" where
  "definition_rules d \<longleftrightarrow>
     wd_steps d \<noteq> [] \<and> distinct (map sd_name (wd_steps d)) \<and>
     (\<forall>i < length (wd_steps d). step_rules (length (wd_steps d)) i (wd_steps d ! i))"

lemma not_compensable: "sd_compensation s = NonCompensable \<longleftrightarrow> \<not> is_compensable s"
  by (cases "sd_compensation s") (simp_all add: is_compensable_def)

lemma not_accept: "p = CompensateLateSuccess \<longleftrightarrow> p \<noteq> AcceptLateSuccess"
  by (cases p) simp_all

lemma validate_step_iff:
  "validate_step d i s = Inr () \<longleftrightarrow> step_rules (length (wd_steps d)) i s"
  by (auto simp: validate_step_def step_rules_def not_compensable not_accept)

lemma validate_steps_from_iff:
  "validate_steps_from d i ss = Inr () \<longleftrightarrow>
     (\<forall>k < length ss. step_rules (length (wd_steps d)) (i + k) (ss ! k))"
proof (induction ss arbitrary: i)
  case (Cons s ss)
  show ?case
    by (simp add: bindR_Inr_iff validate_step_iff Cons.IH All_less_Suc2)
qed simp

lemma step_name_inj: "inj step_name_str"
  by (rule injI) (simp add: StepName.expand)

lemma check_unique_steps_iff:
  "check_unique_steps seen ss = Inr () \<longleftrightarrow>
     distinct (map sd_name ss) \<and> (\<forall>s \<in> set ss. step_name_str (sd_name s) \<notin> set seen)"
proof (induction ss arbitrary: seen)
  case (Cons s ss)
  then show ?case using inj_eq [OF step_name_inj] by (auto simp: image_iff)
qed simp

lemma definition_validate_iff: "definition_validate d = Inr () \<longleftrightarrow> definition_rules d"
  by (simp add: definition_validate_def definition_rules_def bindR_Inr_iff check_unique_steps_iff
      validate_steps_from_iff)

text \<open>
  C26: A workflow definition is constructed exactly when it satisfies the declared rules: at least
  one step, pairwise different step names, a non-compensable step only in last position and never
  with the late-success compensation policy, a non-zero timeout, and an unknown-outcome channel
  with a non-zero budget exactly on the steps with an external cancel mode.
\<close>

theorem workflow_definition_new_iff:
  "WorkflowDefinition_new name version steps = Inr d \<longleftrightarrow>
     d = \<lparr>wd_name = name, wd_version = version, wd_steps = steps\<rparr> \<and> definition_rules d"
  by (auto simp: WorkflowDefinition_new_def Let_def bindR_Inr_iff definition_validate_iff)

lemma definition_step_member:
  "definition_step d n = Some s \<Longrightarrow> s \<in> set (wd_steps d) \<and> sd_name s = n"
  by (auto simp: definition_step_def dest: find_Some_set)

lemma definition_step_None:
  "definition_step d n = None \<longleftrightarrow> n \<notin> sd_name ` set (wd_steps d)"
  by (auto simp: definition_step_def find_None_iff)

lemma definition_step_unique:
  assumes "distinct (map sd_name (wd_steps d))" and "s \<in> set (wd_steps d)"
  shows "definition_step d (sd_name s) = Some s"
  using assms by (simp add: definition_step_def find_distinct_key)

lemma rules_distinct: "definition_rules d \<Longrightarrow> distinct (map sd_name (wd_steps d))"
  by (simp add: definition_rules_def)

lemma rules_step:
  assumes "definition_rules d" and "s \<in> set (wd_steps d)"
  obtains i where "i < length (wd_steps d)" and "wd_steps d ! i = s"
    and "step_rules (length (wd_steps d)) i s"
  using assms by (auto simp: definition_rules_def in_set_conv_nth)

lemma non_compensable_is_pivot:
  assumes rules: "definition_rules d" and mem: "s \<in> set (wd_steps d)" and nc: "\<not> is_compensable s"
  shows "definition_pivot d = Some s \<and> s = last (wd_steps d)"
proof -
  obtain i where "i < length (wd_steps d)" "wd_steps d ! i = s" "i + 1 = length (wd_steps d)"
    using rules_step [OF rules mem] nc by (metis step_rules_def)
  then have "s = last (wd_steps d)"
    by (metis add_diff_cancel_right' last_conv_nth list.size(3) not_less_zero)
  with nc mem show ?thesis by (auto simp: definition_pivot_def)
qed

section \<open>What the digest covers\<close>

text \<open>The definition as the digest sees it: durations are counted in whole milliseconds.\<close>

definition step_ms_view :: "StepDefinition \<Rightarrow> StepDefinition" where
  "step_ms_view step =
     step\<lparr>sd_timeout := as_millis (sd_timeout step),
          sd_resolution := (sd_resolution step)
            \<lparr>resolution_budget := as_millis (resolution_budget (sd_resolution step))\<rparr>\<rparr>"

definition definition_ms_view :: "WorkflowDefinition \<Rightarrow> WorkflowDefinition" where
  "definition_ms_view d = d\<lparr>wd_steps := map step_ms_view (wd_steps d)\<rparr>"

text \<open>The values a definition can hold: its fields come from the validating constructors.\<close>

definition step_values_ok :: "StepDefinition \<Rightarrow> bool" where
  "step_values_ok step \<longleftrightarrow>
     valid_StepName (sd_name step) \<and> valid_ServiceIdentity (sd_owner step) \<and>
     payload_contract_validate (sd_payload_contract step) = Inr () \<and>
     duration_ok (sd_timeout step) \<and> duration_ok (resolution_budget (sd_resolution step))"

definition definition_values_ok :: "WorkflowDefinition \<Rightarrow> bool" where
  "definition_values_ok d \<longleftrightarrow>
     valid_WorkflowName (wd_name d) \<and> length (wd_steps d) < 2 ^ 64 \<and>
     list_all step_values_ok (wd_steps d)"

definition step_stream :: "StepDefinition \<Rightarrow> bytes list" where
  "step_stream step =
     (if sd_payload_contract step \<noteq> payload_contract_default then contract_fields step else []) @
     step_fields step"

lemma canonical_bytes_concat:
  "canonical_bytes (concat fss) = concat (map canonical_bytes fss)"
  by (induction fss) (simp_all add: canonical_bytes_append)

lemma definition_preimage_stream:
  "definition_preimage d = canonical_bytes (header_fields d @ concat (map step_stream (wd_steps d)))"
proof -
  have "canonical_bytes (step_stream s) =
     (if sd_payload_contract s \<noteq> payload_contract_default then canonical_bytes (contract_fields s)
      else []) @ canonical_bytes (step_fields s)" for s
    by (simp add: step_stream_def canonical_bytes_append del: canonical_bytes_simps(2))
  then show ?thesis
    by (simp add: definition_preimage_def canonical_bytes_append canonical_bytes_concat comp_def
        del: canonical_bytes_simps(2))
qed

lemma compensation_as_str_inj [simp]: "compensation_as_str a = compensation_as_str b \<longleftrightarrow> a = b"
  by (cases a; cases b) simp_all

lemma cancel_mode_as_str_inj [simp]: "cancel_mode_as_str a = cancel_mode_as_str b \<longleftrightarrow> a = b"
  by (cases a; cases b) simp_all

lemma timeout_policy_as_str_inj [simp]:
  "timeout_policy_as_str a = timeout_policy_as_str b \<longleftrightarrow> a = b"
  by (cases a; cases b) simp_all

lemma resolution_mode_as_str_inj [simp]:
  "resolution_mode_as_str a = resolution_mode_as_str b \<longleftrightarrow> a = b"
  by (cases a; cases b) simp_all

lemma resolution_mode_as_str_nonempty [simp]:
  "resolution_mode_as_str a \<noteq> []" "[] \<noteq> resolution_mode_as_str a"
  by (cases a; simp)+

lemma mode_field_inj [simp]:
  "(case m of None \<Rightarrow> [] | Some x \<Rightarrow> resolution_mode_as_str x)
     = (case n of None \<Rightarrow> [] | Some x \<Rightarrow> resolution_mode_as_str x) \<longleftrightarrow> m = n"
  by (auto split: option.splits)

lemma millis_field_inj:
  assumes "duration_ok a" and "duration_ok b"
    and "be_bytes 16 (as_millis a) = be_bytes 16 (as_millis b)"
  shows "as_millis a = as_millis b"
proof -
  have "as_millis x < 256 ^ 16" if "duration_ok x" for x
    using that by (simp add: duration_ok_def as_millis_def)
  with assms show ?thesis by (blast intro: be_bytes_inj)
qed

lemma framable_be_bytes [simp]: "k < 2 ^ 64 \<Longrightarrow> framable (be_bytes k v)"
  by (simp add: framable_def)

lemma framable_single [simp]: "framable [b]"
  by (simp add: framable_def)

lemma framable_compensation [simp]: "framable (str_bytes (compensation_as_str a))"
  by (cases a) (simp_all add: framable_def)

lemma framable_cancel_mode [simp]: "framable (str_bytes (cancel_mode_as_str a))"
  by (cases a) (simp_all add: framable_def)

lemma framable_timeout_policy [simp]: "framable (str_bytes (timeout_policy_as_str a))"
  by (cases a) (simp_all add: framable_def)

lemma framable_resolution_mode [simp]:
  "framable (str_bytes (case m of None \<Rightarrow> [] | Some x \<Rightarrow> resolution_mode_as_str x))"
proof (cases m)
  case (Some x)
  then show ?thesis by (cases x) (simp_all add: framable_def)
qed (simp add: framable_def)

lemma framable_stream:
  assumes "step_values_ok s"
  shows "list_all framable (step_stream s)"
proof -
  have "length (step_name_str (sd_name s)) < 2 ^ 64"
    "length (service_identity_str (sd_owner s)) < 2 ^ 64"
    "length (content_type (sd_payload_contract s)) < 2 ^ 64"
    "length (schema_id (sd_payload_contract s)) < 2 ^ 64"
    using assms valid_StepName_props [of "sd_name s"] valid_ServiceIdentity_props [of "sd_owner s"]
      contract_valid_lengths [of "sd_payload_contract s"]
    by (auto simp: step_values_ok_def)
  then show ?thesis
    by (simp add: step_stream_def contract_fields_def step_fields_def)
qed

lemma step_stream_inj:
  assumes ok: "step_values_ok s" "step_values_ok s'"
    and eq: "step_stream s @ r = step_stream s' @ r'"
  shows "step_ms_view s = step_ms_view s' \<and> r = r'"
proof -
  have "content_type (sd_payload_contract s) \<noteq> service_identity_str (sd_owner s')"
    "content_type (sd_payload_contract s') \<noteq> service_identity_str (sd_owner s)"
    using ok contract_valid_slash valid_ServiceIdentity_props identifier_char_no_slash
    unfolding step_values_ok_def by metis+
  with eq have same: "sd_payload_contract s = payload_contract_default \<longleftrightarrow>
      sd_payload_contract s' = payload_contract_default"
    by (auto simp: step_stream_def contract_fields_def step_fields_def split: if_splits)
  from ok have "duration_ok (sd_timeout s)" "duration_ok (sd_timeout s')"
    "duration_ok (resolution_budget (sd_resolution s))"
    "duration_ok (resolution_budget (sd_resolution s'))"
    by (simp_all add: step_values_ok_def)
  note millis = millis_field_inj [OF this(1,2)] millis_field_inj [OF this(3,4)]
  have "sd_payload_contract s = sd_payload_contract s' \<and> step_fields s = step_fields s' \<and> r = r'"
    using eq same
    by (auto simp: step_stream_def contract_fields_def step_fields_def split: if_splits)
  then show ?thesis
    using millis
    by (auto simp: step_fields_def step_ms_view_def split: if_splits
        intro!: StepDefinition.equality ResolutionSpec.equality StepName.expand
          ServiceIdentity.expand)
qed

lemma step_streams_inj:
  assumes "length ss = length ss'" and "list_all step_values_ok ss" and "list_all step_values_ok ss'"
    and "concat (map step_stream ss) = concat (map step_stream ss')"
  shows "map step_ms_view ss = map step_ms_view ss'"
  using assms
proof (induction ss ss' rule: list_induct2)
  case (Cons s ss s' ss')
  then have "step_ms_view s = step_ms_view s' \<and>
      concat (map step_stream ss) = concat (map step_stream ss')"
    by (intro step_stream_inj) simp_all
  with Cons show ?case by simp
qed simp

lemma definition_preimage_inj:
  assumes ok: "definition_values_ok d" "definition_values_ok d'"
    and eq: "definition_preimage d = definition_preimage d'"
  shows "definition_ms_view d = definition_ms_view d'"
proof -
  let ?F = "\<lambda>d. header_fields d @ concat (map step_stream (wd_steps d))"
  have fr: "list_all framable (?F d)" if "definition_values_ok d" for d
    using that valid_WorkflowName_length [of "wd_name d"]
    by (auto simp: header_fields_def definition_values_ok_def list_all_iff
        dest!: framable_stream)
  have "?F d = ?F d'"
    using canonical_bytes_inj [OF fr [OF ok(1)] fr [OF ok(2)]] eq
    by (simp add: definition_preimage_stream)
  then have head: "wd_name d = wd_name d'" "wd_version d = wd_version d'"
    and len: "be_bytes 8 (length (wd_steps d)) = be_bytes 8 (length (wd_steps d'))"
    and body: "concat (map step_stream (wd_steps d)) = concat (map step_stream (wd_steps d'))"
    by (auto simp: header_fields_def intro!: WorkflowName.expand DefinitionVersion.expand)
  from len ok have "length (wd_steps d) = length (wd_steps d')"
    using be_bytes_inj [of _ 8] by (simp add: definition_values_ok_def)
  then have "map step_ms_view (wd_steps d) = map step_ms_view (wd_steps d')"
    using ok body by (intro step_streams_inj) (simp_all add: definition_values_ok_def)
  with head show ?thesis by (simp add: definition_ms_view_def)
qed

lemma step_stream_ms_view: "step_ms_view s = step_ms_view s' \<Longrightarrow> step_stream s = step_stream s'"
  by (cases s; cases s'; cases "sd_resolution s"; cases "sd_resolution s'")
    (simp add: step_ms_view_def step_stream_def contract_fields_def step_fields_def)

lemma definition_preimage_ms_view:
  assumes "definition_ms_view d = definition_ms_view d'"
  shows "definition_preimage d = definition_preimage d'"
proof -
  from assms have head: "wd_name d = wd_name d'" "wd_version d = wd_version d'"
    and steps: "map step_ms_view (wd_steps d) = map step_ms_view (wd_steps d')"
    by (cases d; cases d'; simp add: definition_ms_view_def)+
  from steps have "length (wd_steps d) = length (wd_steps d')"
    by (rule map_eq_imp_length_eq)
  moreover from this steps have "map step_stream (wd_steps d) = map step_stream (wd_steps d')"
    by (induction rule: list_induct2) (auto dest: step_stream_ms_view)
  ultimately show ?thesis
    using head by (simp add: definition_preimage_stream header_fields_def)
qed

lemma hex_digit_inj: "a < 16 \<Longrightarrow> b < 16 \<Longrightarrow> hex_digit a = hex_digit b \<longleftrightarrow> a = b"
  unfolding hex_digit_def by (subst nth_eq_iff_index_eq) auto

lemma hex_digit_mod: "hex_digit n = hex_digit (n mod 16)"
  by (simp add: hex_digit_def)

lemma hex_encode_inj: "hex_encode bs = hex_encode cs \<Longrightarrow> bs = cs"
proof (induction bs arbitrary: cs)
  case Nil
  then show ?case by (cases cs) (simp_all add: hex_encode_def)
next
  case (Cons b bs)
  then obtain c cs' where cs: "cs = c # cs'" by (cases cs) (simp_all add: hex_encode_def)
  have bound: "unat x div 16 < 16" for x :: u8
  proof -
    have "unat x < 2 ^ LENGTH(8)" by (rule unsigned_less)
    then show ?thesis by simp
  qed
  have "unat b div 16 = unat c div 16" and "unat b mod 16 = unat c mod 16"
    using Cons.prems hex_digit_inj [OF bound bound, of b c]
      hex_digit_inj [of "unat b mod 16" "unat c mod 16"]
    by (simp_all add: cs hex_encode_def flip: hex_digit_mod)
  then have "b = c"
    by (metis div_mult_mod_eq word_unat_eq_iff)
  with Cons cs show ?case by (simp add: hex_encode_def)
qed

text \<open>
  C31: The digest identifies the definition. As long as SHA-256 separates the two encodings, two
  definitions have the same digest exactly when they agree on the name, the version and every
  field of every step in order, durations being compared in whole milliseconds. In particular
  the optional payload-contract frame can not be confused with the frames of another step.
\<close>

theorem digest_identifies_definition:
  assumes ok: "definition_values_ok d" "definition_values_ok d'"
    and free: "inj_on sha256 {definition_preimage d, definition_preimage d'}"
  shows "definition_digest sha256 d = definition_digest sha256 d' \<longleftrightarrow>
    definition_ms_view d = definition_ms_view d'"
proof
  assume "definition_digest sha256 d = definition_digest sha256 d'"
  then have "sha256 (definition_preimage d) = sha256 (definition_preimage d')"
    unfolding definition_digest_def by (rule hex_encode_inj)
  then have "definition_preimage d = definition_preimage d'"
    by (rule inj_onD [OF free]) simp_all
  with ok show "definition_ms_view d = definition_ms_view d'"
    by (rule definition_preimage_inj)
next
  assume "definition_ms_view d = definition_ms_view d'"
  then have "definition_preimage d = definition_preimage d'"
    by (rule definition_preimage_ms_view)
  then show "definition_digest sha256 d = definition_digest sha256 d'"
    by (simp add: definition_digest_def)
qed

text \<open>Two order workflows for evaluation; the second renames the steps' payload contract.\<close>

definition sample_step :: "string \<Rightarrow> Compensation \<Rightarrow> StepDefinition" where
  "sample_step name c = StepDefinition_new (StepName name) (ServiceIdentity ''orders'') c
     LocalFenceable resolution_forbidden 30000000000 AcceptLateSuccess"

definition sample_definition :: WorkflowDefinition where
  "sample_definition = \<lparr>wd_name = WorkflowName ''order'', wd_version = DefinitionVersion 1,
     wd_steps = [sample_step ''reserve'' Compensable, sample_step ''pay'' Compensable,
       sample_step ''ship'' NonCompensable]\<rparr>"

definition sample_definition_xml :: WorkflowDefinition where
  "sample_definition_xml = sample_definition\<lparr>wd_steps := map (\<lambda>s. s\<lparr>sd_payload_contract :=
     \<lparr>content_type = ''text/xml'', schema_id = ''order-v1''\<rparr>\<rparr>) (wd_steps sample_definition)\<rparr>"

lemma sample_identifiers_valid:
  "valid_WorkflowName (WorkflowName ''order'')" "valid_ServiceIdentity (ServiceIdentity ''orders'')"
  "valid_StepName (StepName ''reserve'')" "valid_StepName (StepName ''pay'')"
  "valid_StepName (StepName ''ship'')"
  "payload_contract_validate payload_contract_default = Inr ()"
  "payload_contract_validate \<lparr>content_type = ''text/xml'', schema_id = ''order-v1''\<rparr> = Inr ()"
  by code_simp+

lemma sample_definition_ok: "definition_values_ok sample_definition"
  by (simp add: definition_values_ok_def sample_definition_def sample_step_def step_values_ok_def
      StepDefinition_new_def resolution_forbidden_def duration_ok_def sample_identifiers_valid)

lemma sample_definition_xml_ok: "definition_values_ok sample_definition_xml"
  by (simp add: definition_values_ok_def sample_definition_xml_def sample_definition_def
      sample_step_def step_values_ok_def StepDefinition_new_def resolution_forbidden_def
      duration_ok_def sample_identifiers_valid)

theorem digest_identifies_definition_witness:
  "definition_digest (\<lambda>bs. bs) sample_definition \<noteq> definition_digest (\<lambda>bs. bs) sample_definition_xml"
proof -
  have "definition_ms_view sample_definition \<noteq> definition_ms_view sample_definition_xml"
    by (simp add: definition_ms_view_def step_ms_view_def sample_definition_xml_def
        sample_definition_def sample_step_def StepDefinition_new_def payload_contract_default_def)
  with digest_identifies_definition [OF sample_definition_ok sample_definition_xml_ok, of "\<lambda>bs. bs"]
  show ?thesis by simp
qed

end
