(* ===== verification/Saga_Trace.thy ===== *)
theory Saga_Trace
  imports Saga_Definition
begin

text \<open>
  W3C trace contexts (\<open>natelemetry/src/trace.rs\<close>), as the orchestrator stores and forwards them,
  and the shape check the store applies to them (\<open>nasaga-mysql/src/instance.rs\<close>). The functions of
  the \<open>hex\<close> crate are parameters: \<open>enc\<close> for \<open>hex::encode\<close> and \<open>dec\<close> for \<open>hex::decode_to_slice\<close>.
\<close>

section \<open>Strings\<close>

text \<open>\<open>str::split(d)\<close>: the pieces between the occurrences of \<open>d\<close>.\<close>

fun split_char :: "char \<Rightarrow> string \<Rightarrow> string list" where
  "split_char d [] = [[]]"
| "split_char d (c # s) =
     (if c = d then [] # split_char d s
      else (case split_char d s of [] \<Rightarrow> [[c]] | p # ps \<Rightarrow> (c # p) # ps))"

fun join_char :: "char \<Rightarrow> string list \<Rightarrow> string" where
  "join_char d [] = []"
| "join_char d [p] = p"
| "join_char d (p # q # ps) = p @ d # join_char d (q # ps)"

definition lower_hex :: "string \<Rightarrow> bool" where
  "lower_hex s = list_all (\<lambda>c. is_ascii_digit c \<or> (97 \<le> (of_char c :: nat) \<and> (of_char c :: nat) \<le> 102)) s"

section \<open>Trace contexts\<close>

record TraceContext =
  tr_trace_id :: bytes
  tr_parent_id :: bytes
  tr_flags :: u8

definition TraceContext_new :: "bytes \<Rightarrow> bytes \<Rightarrow> u8 \<Rightarrow> TraceContext option" where
  "TraceContext_new trace_id parent_id flags =
     (if trace_id = replicate 16 0 \<or> parent_id = replicate 8 0 then None
      else Some \<lparr>tr_trace_id = trace_id, tr_parent_id = parent_id, tr_flags = flags\<rparr>)"

definition parse_traceparent :: "(string \<Rightarrow> bytes option) \<Rightarrow> string \<Rightarrow> TraceContext option" where
  "parse_traceparent dec header =
     (case split_char CHR ''-'' header of
        [version, trace_id_hex, parent_id_hex, flags_hex] \<Rightarrow>
          if version \<noteq> ''00'' then None
          else if length trace_id_hex \<noteq> 32 \<or> length parent_id_hex \<noteq> 16 \<or> length flags_hex \<noteq> 2
            then None
          else if \<not> lower_hex trace_id_hex \<or> \<not> lower_hex parent_id_hex \<or> \<not> lower_hex flags_hex
            then None
          else (case (dec trace_id_hex, dec parent_id_hex, dec flags_hex) of
              (Some trace_id, Some parent_id, Some flags) \<Rightarrow>
                if trace_id = replicate 16 0 \<or> parent_id = replicate 8 0 then None
                else Some \<lparr>tr_trace_id = trace_id, tr_parent_id = parent_id, tr_flags = hd flags\<rparr>
            | _ \<Rightarrow> None)
      | _ \<Rightarrow> None)"

definition to_traceparent :: "(bytes \<Rightarrow> string) \<Rightarrow> TraceContext \<Rightarrow> string" where
  "to_traceparent enc c =
     ''00-'' @ enc (tr_trace_id c) @ ''-'' @ enc (tr_parent_id c) @ ''-'' @
     [hex_digit (unat (tr_flags c) div 16), hex_digit (unat (tr_flags c))]"

definition is_sampled :: "TraceContext \<Rightarrow> bool" where
  "is_sampled c = (and (tr_flags c) 1 \<noteq> 0)"

definition trace_child :: "TraceContext \<Rightarrow> bytes \<Rightarrow> TraceContext" where
  "trace_child c new_span_id = c\<lparr>tr_parent_id := new_span_id\<rparr>"

text \<open>The invariant of the type: array lengths and the two non-zero ids.\<close>

definition trace_ok :: "TraceContext \<Rightarrow> bool" where
  "trace_ok c \<longleftrightarrow> length (tr_trace_id c) = 16 \<and> length (tr_parent_id c) = 8 \<and>
     tr_trace_id c \<noteq> replicate 16 0 \<and> tr_parent_id c \<noteq> replicate 8 0"

text \<open>The store's shape check.\<close>

definition validate_traceparent :: "string \<Rightarrow> bool" where
  "validate_traceparent t =
     (length t = 55 \<and>
      (case split_char CHR ''-'' t of
         [version, trace_id, parent_id, flags] \<Rightarrow>
           length version = 2 \<and> length trace_id = 32 \<and> length parent_id = 16 \<and> length flags = 2
       | _ \<Rightarrow> False) \<and>
      list_all (\<lambda>c. is_ascii_digit c \<or> (97 \<le> (of_char c :: nat) \<and> (of_char c :: nat) \<le> 102) \<or>
        c = CHR ''-'') t)"

section \<open>Splitting and joining\<close>

lemma split_char_neq_Nil [simp]: "split_char d s \<noteq> []"
  by (cases s) (auto split: list.splits)

lemma split_char_no_sep: "d \<notin> set s \<Longrightarrow> split_char d s = [s]"
  by (induction s) auto

lemma split_char_append: "d \<notin> set p \<Longrightarrow> split_char d (p @ d # s) = p # split_char d s"
  by (induction p) auto

lemma join_split: "join_char d (split_char d s) = s"
proof (induction s)
  case (Cons c s)
  then show ?case
    by (cases "split_char d s") (auto, metis join_char.simps(2,3) list.exhaust append_Cons)
qed simp

lemma lower_hex_no_dash: "lower_hex s \<Longrightarrow> CHR ''-'' \<notin> set s"
  by (auto simp: lower_hex_def list_all_iff ascii_defs)

text \<open>The documented behaviour of the \<open>hex\<close> crate on lower-case text.\<close>

definition hex_codec :: "(bytes \<Rightarrow> string) \<Rightarrow> (string \<Rightarrow> bytes option) \<Rightarrow> bool" where
  "hex_codec enc dec \<longleftrightarrow>
     (\<forall>bs. dec (enc bs) = Some bs \<and> lower_hex (enc bs) \<and> length (enc bs) = 2 * length bs) \<and>
     (\<forall>b. enc [b] = [hex_digit (unat b div 16), hex_digit (unat b)]) \<and>
     (\<forall>s. lower_hex s \<and> even (length s) \<longrightarrow> (\<exists>bs. dec s = Some bs \<and> enc bs = s))"

lemma hex_codecD:
  assumes "hex_codec enc dec"
  shows "dec (enc bs) = Some bs" and "lower_hex (enc bs)" and "length (enc bs) = 2 * length bs"
    and "enc [b] = [hex_digit (unat b div 16), hex_digit (unat b)]"
  using assms by (auto simp: hex_codec_def)

lemma hex_codec_decE:
  assumes "hex_codec enc dec" and "lower_hex s" and "length s = 2 * n"
  obtains bs where "dec s = Some bs" and "enc bs = s" and "length bs = n"
proof -
  from assms(1) have "lower_hex s \<and> even (length s) \<longrightarrow> (\<exists>bs. dec s = Some bs \<and> enc bs = s)"
    by (simp add: hex_codec_def)
  with assms(2,3) obtain bs where bs: "dec s = Some bs" "enc bs = s" by auto
  with hex_codecD(3) [OF assms(1), of bs] assms(3) have "length bs = n" by simp
  with bs that show thesis by blast
qed

lemma to_traceparent_split:
  assumes "hex_codec enc dec"
  shows "split_char CHR ''-'' (to_traceparent enc c) =
    [''00'', enc (tr_trace_id c), enc (tr_parent_id c), enc [tr_flags c]]"
proof -
  have no: "CHR ''-'' \<notin> set (enc bs)" for bs
    using lower_hex_no_dash hex_codecD(2) [OF assms] by blast
  have "to_traceparent enc c = ''00'' @ CHR ''-'' # (enc (tr_trace_id c) @ CHR ''-'' #
      (enc (tr_parent_id c) @ CHR ''-'' # enc [tr_flags c]))"
    by (simp add: to_traceparent_def hex_codecD(4) [OF assms])
  then show ?thesis
    by (simp add: split_char_append [OF no] split_char_no_sep [OF no])
qed

lemma parse_to_traceparent:
  assumes "hex_codec enc dec" and "trace_ok c"
  shows "parse_traceparent dec (to_traceparent enc c) = Some c"
  using assms(2)
  by (simp add: parse_traceparent_def to_traceparent_split [OF assms(1)] hex_codecD(1-3) [OF assms(1)]
      trace_ok_def)

lemma parse_traceparent_sound:
  assumes codec: "hex_codec enc dec" and "parse_traceparent dec h = Some c"
  shows "trace_ok c" and "h = to_traceparent enc c"
proof -
  obtain v t p f where split: "split_char CHR ''-'' h = [v, t, p, f]"
    using assms(2) by (auto simp: parse_traceparent_def split: list.splits)
  with assms(2) have sh: "v = ''00''" "length t = 2 * 16" "length p = 2 * 8" "length f = 2 * 1"
    "lower_hex t" "lower_hex p" "lower_hex f"
    by (auto simp: parse_traceparent_def split: if_splits)
  obtain tb where t: "dec t = Some tb" "enc tb = t" "length tb = 16"
    using hex_codec_decE [OF codec sh(5,2)] by blast
  obtain pb where p: "dec p = Some pb" "enc pb = p" "length pb = 8"
    using hex_codec_decE [OF codec sh(6,3)] by blast
  obtain fb where f: "dec f = Some fb" "enc fb = f" "length fb = 1"
    using hex_codec_decE [OF codec sh(7,4)] by blast
  then obtain b where fb: "fb = [b]" by (cases fb) auto
  with assms(2) split t p f have nz: "tb \<noteq> replicate 16 0" "pb \<noteq> replicate 8 0"
    and c: "c = \<lparr>tr_trace_id = tb, tr_parent_id = pb, tr_flags = b\<rparr>"
    by (auto simp: parse_traceparent_def split: if_splits)
  with t p show "trace_ok c" by (simp add: trace_ok_def)
  have "h = join_char CHR ''-'' [v, t, p, f]" using join_split [of "CHR ''-''" h] split by simp
  also have "\<dots> = to_traceparent enc c"
    using sh(1) t p f fb c hex_codecD(4) [OF codec, of b] by (simp add: to_traceparent_def)
  finally show "h = to_traceparent enc c" .
qed

section \<open>Properties\<close>

lemma traceparent_validates:
  assumes "hex_codec enc dec" and "trace_ok c"
  shows "validate_traceparent (to_traceparent enc c)"
proof -
  have "list_all (\<lambda>c. is_ascii_digit c \<or> (97 \<le> (of_char c :: nat) \<and> (of_char c :: nat) \<le> 102) \<or>
      c = CHR ''-'') (to_traceparent enc c)"
  proof -
    have "\<forall>x \<in> set (enc bs). is_ascii_digit x \<or> (97 \<le> (of_char x :: nat) \<and> (of_char x :: nat) \<le> 102)" for bs
      using hex_codecD(2) [OF assms(1), of bs] by (simp add: lower_hex_def list_all_iff)
    moreover have "to_traceparent enc c = ''00-'' @ enc (tr_trace_id c) @ ''-'' @ enc (tr_parent_id c)
        @ ''-'' @ enc [tr_flags c]"
      by (simp add: to_traceparent_def hex_codecD(4) [OF assms(1)])
    ultimately show ?thesis
      by (auto simp: list_all_iff ascii_defs)
  qed
  moreover have "length (to_traceparent enc c) = 55"
    using assms(2) hex_codecD(3) [OF assms(1)] by (simp add: to_traceparent_def trace_ok_def)
  ultimately show ?thesis
    using assms(2) to_traceparent_split [OF assms(1)] hex_codecD(3) [OF assms(1)]
    by (simp add: validate_traceparent_def trace_ok_def)
qed

text \<open>
  C25: Trace headers survive storage and forwarding. With the documented behaviour of the \<open>hex\<close>
  crate, a header parses to a trace context exactly when it is that context's own rendering, so
  parsing and printing are mutually inverse on the valid contexts and no foreign layout is
  accepted; the rendering passes the store's shape check; and the context a command is sent
  with keeps the trace id and the sampling flag of the stored one.
\<close>

theorem traceparent_roundtrip:
  assumes "hex_codec enc dec"
  shows "(parse_traceparent dec h = Some c \<longleftrightarrow> trace_ok c \<and> h = to_traceparent enc c) \<and>
    (trace_ok c \<longrightarrow> validate_traceparent (to_traceparent enc c)) \<and>
    (trace_ok c \<and> length span = 8 \<and> span \<noteq> replicate 8 0 \<longrightarrow>
      trace_ok (trace_child c span) \<and> is_sampled (trace_child c span) = is_sampled c \<and>
      tr_trace_id (trace_child c span) = tr_trace_id c)"
  using assms parse_to_traceparent parse_traceparent_sound traceparent_validates
  by (auto simp: trace_ok_def trace_child_def is_sampled_def)

text \<open>A concrete base-16 decoder, for evaluation.\<close>

definition hex_value :: "char \<Rightarrow> nat" where
  "hex_value c = (if is_ascii_digit c then of_char c - 48 else of_char c - 87)"

fun sample_hex_decode :: "string \<Rightarrow> bytes option" where
  "sample_hex_decode [] = Some []"
| "sample_hex_decode [c] = None"
| "sample_hex_decode (c # d # s) =
     map_option (\<lambda>bs. of_nat (16 * hex_value c + hex_value d) # bs) (sample_hex_decode s)"

lemma hex_value_digit: "hex_value (hex_digit n) = n mod 16"
proof -
  have "\<forall>k \<in> set [0..<16]. hex_value (hex_digit k) = k" by code_simp
  then have "hex_value (hex_digit (n mod 16)) = n mod 16" by auto
  then show ?thesis by (simp add: hex_digit_def)
qed

lemma hex_digit_lower: "lower_hex [hex_digit n]"
proof -
  have "\<forall>k \<in> set [0..<16]. lower_hex [hex_digit k]" by code_simp
  then have "lower_hex [hex_digit (n mod 16)]" by auto
  then show ?thesis by (simp add: hex_digit_def)
qed

lemma of_char_hex_digit:
  "n < 10 \<Longrightarrow> of_char (hex_digit n) = 48 + n"
  "10 \<le> n \<Longrightarrow> n < 16 \<Longrightarrow> of_char (hex_digit n) = 87 + n"
proof -
  have a: "\<forall>k \<in> set [0..<10]. of_char (hex_digit k) = 48 + k" by code_simp
  have b: "\<forall>k \<in> set [10..<16]. of_char (hex_digit k) = 87 + k" by code_simp
  show "n < 10 \<Longrightarrow> of_char (hex_digit n) = 48 + n"
    using bspec [OF a, of n] by (simp del: upt_rec_numeral)
  show "10 \<le> n \<Longrightarrow> n < 16 \<Longrightarrow> of_char (hex_digit n) = 87 + n"
    using bspec [OF b, of n] by (simp del: upt_rec_numeral)
qed

lemma hex_char_value:
  assumes "is_ascii_digit c \<or> (97 \<le> (of_char c :: nat) \<and> (of_char c :: nat) \<le> 102)"
  shows "hex_value c < 16 \<and> hex_digit (hex_value c) = c"
proof -
  have "hex_value c < 16 \<and> of_char (hex_digit (hex_value c)) = (of_char c :: nat)"
    using assms of_char_hex_digit [of "hex_value c"] by (auto simp: hex_value_def is_ascii_digit_def)
  then show ?thesis by (simp only: of_char_eq_iff)
qed

lemma sample_decode_encode: "sample_hex_decode (hex_encode bs) = Some bs"
proof (induction bs)
  case (Cons b bs)
  have "unat b < 256" using unsigned_less [of b] by simp
  then have "unat b div 16 < 16" by simp
  then show ?case using Cons by (simp add: hex_encode_def hex_value_digit)
qed (simp add: hex_encode_def)

lemma sample_decode_exists:
  "lower_hex s \<Longrightarrow> even (length s) \<Longrightarrow> \<exists>bs. sample_hex_decode s = Some bs \<and> hex_encode bs = s"
proof (induction s rule: sample_hex_decode.induct)
  case (3 c d s)
  then obtain bs where bs: "sample_hex_decode s = Some bs" "hex_encode bs = s"
    by (auto simp: lower_hex_def)
  have v: "hex_value c < 16 \<and> hex_digit (hex_value c) = c" "hex_value d < 16 \<and> hex_digit (hex_value d) = d"
    using "3.prems"(1) by (auto simp: lower_hex_def intro!: hex_char_value)
  define n where "n = 16 * hex_value c + hex_value d"
  have "unat (of_nat n :: u8) = n" using v by (simp add: n_def unat_of_nat del: of_nat_add of_nat_mult)
  moreover have "n div 16 = hex_value c" and "hex_digit n = hex_digit (hex_value d)"
    using v by (simp_all add: n_def hex_digit_def)
  ultimately have "hex_encode (of_nat n # bs) = c # d # s" using bs v by (simp add: hex_encode_def)
  moreover have "sample_hex_decode (c # d # s) = Some (of_nat n # bs)" using bs by (simp add: n_def)
  ultimately show ?case by blast
qed (auto simp: hex_encode_def)

lemma sample_hex_codec: "hex_codec hex_encode sample_hex_decode"
proof -
  have "lower_hex (hex_encode bs)" for bs
    using hex_digit_lower by (induction bs) (auto simp: hex_encode_def lower_hex_def)
  moreover have "length (hex_encode bs) = 2 * length bs" for bs
    by (induction bs) (auto simp: hex_encode_def)
  ultimately show ?thesis
    using sample_decode_encode sample_decode_exists
    by (auto simp: hex_codec_def) (simp_all add: hex_encode_def)
qed

definition sample_trace :: TraceContext where
  "sample_trace = \<lparr>tr_trace_id = map of_nat [1..<17], tr_parent_id = map of_nat [1..<9], tr_flags = 1\<rparr>"

theorem traceparent_roundtrip_witness:
  "parse_traceparent sample_hex_decode (to_traceparent hex_encode sample_trace) = Some sample_trace \<and>
   validate_traceparent (to_traceparent hex_encode sample_trace) \<and>
   is_sampled (trace_child sample_trace [0, 0, 0, 0, 0, 0, 0, 7])"
proof -
  have "trace_ok sample_trace" and "is_sampled sample_trace"
    and "[0, 0, 0, 0, 0, 0, 0, 7] \<noteq> replicate 8 (0 :: u8)" by code_simp+
  then show ?thesis
    using traceparent_roundtrip [OF sample_hex_codec, of "to_traceparent hex_encode sample_trace"
        sample_trace "[0, 0, 0, 0, 0, 0, 0, 7]"]
    by simp
qed

end
