(* ===== verification/Saga_Envelope.thy ===== *)
theory Saga_Envelope
  imports Saga_Trace
begin

text \<open>
  Command and result envelopes (\<open>nasaga-runtime-core/src/envelope.rs\<close>): what travels through the
  outbox between the orchestrator and the participants, and the verification both sides apply
  before an envelope may touch any durable state. Third-party functions are the fields of one
  record \<open>Ext\<close>, a parameter of everything that calls them.
\<close>

section \<open>Data\<close>

text \<open>\<open>serde_json::Value\<close>; a number is kept by its printed form, as the sources use it.\<close>

datatype json =
    JNull
  | JBool bool
  | JNumber string
  | JString string
  | JArray "json list"
  | JObject "(string \<times> json) list"

record SagaCommandEnvelope =
  ce_saga_id :: string
  ce_tenant_id :: string
  ce_workflow :: string
  ce_definition_version :: u32
  ce_definition_digest :: string
  ce_step_name :: string
  ce_phase :: string
  ce_attempt :: u32
  ce_effect_id :: string
  ce_command_id :: string
  ce_recovery_operation_id :: "string option"
  ce_payload :: "json option"
  ce_raw_payload :: "SagaPayload option"

record SagaResultEnvelope =
  re_event_id :: string
  re_saga_id :: string
  re_tenant_id :: string
  re_workflow :: string
  re_definition_version :: u32
  re_definition_digest :: string
  re_step_name :: string
  re_phase :: string
  re_attempt :: u32
  re_effect_id :: string
  re_command_id :: string
  re_status :: string
  re_terminal_status :: "string option"
  re_reason_code :: "string option"

record VerifiedIdentity =
  vi_saga_id :: SagaId
  vi_tenant :: TenantId
  vi_workflow :: WorkflowName
  vi_definition_version :: DefinitionVersion
  vi_definition_digest :: string
  vi_step :: StepName
  vi_phase :: StepPhase
  vi_attempt :: AttemptNo
  vi_effect :: EffectId
  vi_command :: CommandId

record OutboxEvent =
  oe_event_id :: string
  oe_aggregate_type :: string
  oe_aggregate_id :: string
  oe_event_type :: string
  oe_payload :: bytes
  oe_traceparent :: "string option"
  oe_tenant :: string

text \<open>SHA-256, UUIDv5 and the text of a UUID, the JSON and hex libraries, and the random span id.\<close>

record Ext =
  x_sha256 :: "bytes \<Rightarrow> bytes"
  x_uuid5 :: "bytes \<Rightarrow> bytes \<Rightarrow> bytes"
  x_uuid_text :: "bytes \<Rightarrow> string"
  x_json_ok :: "bytes \<Rightarrow> bool"
  x_json_parse :: "bytes \<Rightarrow> json option"
  x_json_bytes :: "json \<Rightarrow> bytes"
  x_command_bytes :: "SagaCommandEnvelope \<Rightarrow> bytes"
  x_result_bytes :: "SagaResultEnvelope \<Rightarrow> bytes"
  x_hex_encode :: "bytes \<Rightarrow> string"
  x_hex_decode :: "string \<Rightarrow> bytes option"
  x_span_id :: bytes

definition COMMAND_EVENT_TYPE :: string where "COMMAND_EVENT_TYPE = ''saga.command''"
definition RESULT_EVENT_TYPE :: string where "RESULT_EVENT_TYPE = ''saga.result''"
definition SAGA_AGGREGATE_TYPE :: string where "SAGA_AGGREGATE_TYPE = ''saga''"

section \<open>Text rules\<close>

text \<open>The bounded-text rule that the identifiers, triggers and audit texts of the crate share, and
  the stable-code rule of reason codes, actions and timer kinds.\<close>

definition bounded_text :: "nat \<Rightarrow> string \<Rightarrow> bool" where
  "bounded_text max_len value =
     (value \<noteq> [] \<and> length value \<le> max_len \<and> trim value = value \<and> \<not> has_control value)"

definition stable_code :: "nat \<Rightarrow> string \<Rightarrow> bool" where
  "stable_code max_len code = (code \<noteq> [] \<and> length code \<le> max_len \<and> list_all identifier_char code)"

definition REASON_CODE_MAX_LEN :: nat where "REASON_CODE_MAX_LEN = 64"

definition valid_reason_code :: "string \<Rightarrow> bool" where
  "valid_reason_code code = stable_code REASON_CODE_MAX_LEN code"

definition digest_text :: "string \<Rightarrow> bool" where
  "digest_text digest = (length digest = 64 \<and> lower_hex digest)"

section \<open>Identity verification\<close>

datatype EnvelopeError =
    BadSagaId ContractViolation
  | BadTenant ContractViolation
  | BadWorkflow ContractViolation
  | BadVersion ContractViolation
  | BadStep ContractViolation
  | BadPhase
  | BadAttempt ContractViolation
  | BadDigest
  | IdentityMismatch
  | EventIdentityMismatch
  | UnknownStatus
  | InFlightStatus
  | StatusNotForPhase
  | UnknownTerminal
  | TerminalMissing
  | TerminalUnexpected
  | BadReasonCode
  | BadRecoveryOperation

definition map_err :: "('e \<Rightarrow> 'f) \<Rightarrow> 'e + 'a \<Rightarrow> 'f + 'a" where
  "map_err f m = map_sum f id m"

lemma map_err_simps [simp]: "map_err f (Inl e) = Inl (f e)" "map_err f (Inr x) = Inr x"
  by (simp_all add: map_err_def)

lemma map_err_Inr [simp]: "map_err f m = Inr x \<longleftrightarrow> m = Inr x"
  by (cases m) (auto simp: map_err_def)

definition RESULT_EVENT_NAMESPACE :: bytes where
  "RESULT_EVENT_NAMESPACE = str_bytes ''nasasaga-v1-rsns''"

definition derive_result_event_id :: "Ext \<Rightarrow> string \<Rightarrow> string" where
  "derive_result_event_id x command_id =
     x_uuid_text x (x_uuid5 x RESULT_EVENT_NAMESPACE
       (canonical_bytes [str_bytes command_id, str_bytes ''result'']))"

definition effect_text :: "Ext \<Rightarrow> EffectId \<Rightarrow> string" where
  "effect_text x e = x_uuid_text x (effect_id_uuid e)"

definition command_text :: "Ext \<Rightarrow> CommandId \<Rightarrow> string" where
  "command_text x c = x_uuid_text x (command_id_uuid c)"

definition verify_identity ::
  "Ext \<Rightarrow> string \<Rightarrow> string \<Rightarrow> string \<Rightarrow> u32 \<Rightarrow> string \<Rightarrow> string \<Rightarrow> string \<Rightarrow> u32 \<Rightarrow> string \<Rightarrow> string \<Rightarrow>
    EnvelopeError + VerifiedIdentity" where
  "verify_identity x saga_id tenant_id workflow version_no digest step phase
     attempt effect_id command_id =
     bindR (map_err BadSagaId (SagaId_new saga_id)) (\<lambda>saga.
     bindR (map_err BadTenant (TenantId_new tenant_id)) (\<lambda>tenant.
     bindR (map_err BadWorkflow (WorkflowName_new workflow)) (\<lambda>wf.
     bindR (map_err BadVersion (DefinitionVersion_new version_no)) (\<lambda>version.
     bindR (map_err BadStep (StepName_new step)) (\<lambda>st.
     bindR (ok_or (step_phase_parse phase) BadPhase) (\<lambda>ph.
     bindR (map_err BadAttempt (AttemptNo_new attempt)) (\<lambda>att.
     bindR (reject_if (\<not> digest_text digest) BadDigest) (\<lambda>_.
       let effect = EffectId_derive (x_uuid5 x) saga version st ph;
           command = CommandId_derive (x_uuid5 x) effect att
       in if effect_text x effect \<noteq> effect_id \<or> command_text x command \<noteq> command_id
          then Inl IdentityMismatch
          else Inr \<lparr>vi_saga_id = saga, vi_tenant = tenant, vi_workflow = wf,
             vi_definition_version = version, vi_definition_digest = digest,
             vi_step = st, vi_phase = ph, vi_attempt = att, vi_effect = effect,
             vi_command = command\<rparr>))))))))"

section \<open>Result contract\<close>

definition parsed_status :: "SagaResultEnvelope \<Rightarrow> EnvelopeError + StepAttemptStatus" where
  "parsed_status e =
     bindR (ok_or (attempt_status_parse (re_status e)) UnknownStatus) (\<lambda>status.
       if is_in_flight status then Inl InFlightStatus else Inr status)"

definition parsed_terminal :: "SagaResultEnvelope \<Rightarrow> EnvelopeError + StepForwardStatus option" where
  "parsed_terminal e =
     (case re_terminal_status e of
        None \<Rightarrow> Inr None
      | Some raw \<Rightarrow> bindR (ok_or (forward_status_parse raw) UnknownTerminal) (\<lambda>t. Inr (Some t)))"

fun phase_allows_status :: "StepPhase \<Rightarrow> StepAttemptStatus \<Rightarrow> bool" where
  "phase_allows_status Execute s = (s \<in> {AttSucceeded, AttRejected, AttUnknown, AttHalted})"
| "phase_allows_status Cancel s =
     (s \<in> {AttCancelConfirmed, AttAlreadyTerminal, AttResolutionPending})"
| "phase_allows_status Compensate s = (s \<in> {AttSucceeded, AttUnknown, AttHalted})"
| "phase_allows_status Resolve s = (s \<in> {AttSucceeded, AttRejected, AttUnknown, AttHalted})"

fun check_terminal :: "StepAttemptStatus \<Rightarrow> StepForwardStatus option \<Rightarrow> EnvelopeError + unit" where
  "check_terminal AttAlreadyTerminal (Some t) =
     (if t \<in> {FwdSucceeded, FwdRejected, FwdHalted} then Inr () else Inl TerminalMissing)"
| "check_terminal AttAlreadyTerminal None = Inl TerminalMissing"
| "check_terminal _ (Some t) = Inl TerminalUnexpected"
| "check_terminal _ None = Inr ()"

definition verify_result_contract ::
  "Ext \<Rightarrow> SagaResultEnvelope \<Rightarrow> VerifiedIdentity \<Rightarrow> EnvelopeError + unit" where
  "verify_result_contract x e identity =
     bindR (reject_if (re_event_id e \<noteq> derive_result_event_id x (re_command_id e))
       EventIdentityMismatch) (\<lambda>_.
     bindR (parsed_status e) (\<lambda>status.
     bindR (reject_if (\<not> phase_allows_status (vi_phase identity) status) StatusNotForPhase) (\<lambda>_.
     bindR (parsed_terminal e) (\<lambda>terminal.
     bindR (check_terminal status terminal) (\<lambda>_.
     case re_reason_code e of
       None \<Rightarrow> Inr ()
     | Some code \<Rightarrow> reject_if (\<not> valid_reason_code code) BadReasonCode)))))"

section \<open>Envelopes\<close>

definition command_identity :: "Ext \<Rightarrow> SagaCommandEnvelope \<Rightarrow> EnvelopeError + VerifiedIdentity" where
  "command_identity x e =
     verify_identity x (ce_saga_id e) (ce_tenant_id e) (ce_workflow e) (ce_definition_version e)
       (ce_definition_digest e) (ce_step_name e) (ce_phase e) (ce_attempt e) (ce_effect_id e)
       (ce_command_id e)"

definition command_verified :: "Ext \<Rightarrow> SagaCommandEnvelope \<Rightarrow> EnvelopeError + VerifiedIdentity" where
  "command_verified x e =
     bindR (command_identity x e) (\<lambda>identity.
       case ce_recovery_operation_id e of
         None \<Rightarrow> Inr identity
       | Some operation_id \<Rightarrow>
           if \<not> bounded_text 190 operation_id \<or> vi_phase identity \<notin> {Compensate, Resolve}
           then Inl BadRecoveryOperation else Inr identity)"

definition command_to_outbox :: "Ext \<Rightarrow> SagaCommandEnvelope \<Rightarrow> EnvelopeError + OutboxEvent" where
  "command_to_outbox x e =
     bindR (command_verified x e) (\<lambda>_.
       Inr \<lparr>oe_event_id = ce_command_id e, oe_aggregate_type = SAGA_AGGREGATE_TYPE,
            oe_aggregate_id = ce_saga_id e, oe_event_type = COMMAND_EVENT_TYPE,
            oe_payload = x_command_bytes x e, oe_traceparent = None, oe_tenant = ce_tenant_id e\<rparr>)"

definition result_identity :: "Ext \<Rightarrow> SagaResultEnvelope \<Rightarrow> EnvelopeError + VerifiedIdentity" where
  "result_identity x e =
     verify_identity x (re_saga_id e) (re_tenant_id e) (re_workflow e) (re_definition_version e)
       (re_definition_digest e) (re_step_name e) (re_phase e) (re_attempt e) (re_effect_id e)
       (re_command_id e)"

definition result_verified :: "Ext \<Rightarrow> SagaResultEnvelope \<Rightarrow> EnvelopeError + VerifiedIdentity" where
  "result_verified x e =
     bindR (result_identity x e) (\<lambda>identity.
       bindR (verify_result_contract x e identity) (\<lambda>_. Inr identity))"

definition result_to_outbox :: "Ext \<Rightarrow> SagaResultEnvelope \<Rightarrow> EnvelopeError + OutboxEvent" where
  "result_to_outbox x e =
     bindR (result_verified x e) (\<lambda>_.
       Inr \<lparr>oe_event_id = re_event_id e, oe_aggregate_type = SAGA_AGGREGATE_TYPE,
            oe_aggregate_id = re_saga_id e, oe_event_type = RESULT_EVENT_TYPE,
            oe_payload = x_result_bytes x e, oe_traceparent = None, oe_tenant = re_tenant_id e\<rparr>)"

datatype SagaResultProcessingError =
  Proc_Paused | Proc_AuthorityUnavailable | Proc_ProducerUnauthorized | Proc_IdentityInvalid
  | Proc_ContractInvalid

fun dead_letter_reason :: "SagaResultProcessingError \<Rightarrow> string option" where
  "dead_letter_reason Proc_Paused = None"
| "dead_letter_reason Proc_AuthorityUnavailable = None"
| "dead_letter_reason Proc_ProducerUnauthorized = Some ''saga_result_producer_unauthorized''"
| "dead_letter_reason Proc_IdentityInvalid = Some ''saga_result_identity_invalid''"
| "dead_letter_reason Proc_ContractInvalid = Some ''saga_result_contract_invalid''"

definition result_verified_for_delivery ::
  "Ext \<Rightarrow> SagaResultEnvelope \<Rightarrow> SagaResultProcessingError + VerifiedIdentity" where
  "result_verified_for_delivery x e =
     bindR (map_err (\<lambda>_. Proc_IdentityInvalid) (result_identity x e)) (\<lambda>identity.
       bindR (map_err (\<lambda>_. Proc_ContractInvalid) (verify_result_contract x e identity))
         (\<lambda>_. Inr identity))"

section \<open>Payload of a command\<close>

definition payload_json :: "Ext \<Rightarrow> json \<Rightarrow> SagaPayload" where
  "payload_json x v =
     \<lparr>payload_content_type = ''application/json'', payload_schema_id = '''',
      payload_body = x_json_bytes x v\<rparr>"

datatype SagaCommandProcessingError =
  Cmd_ProducerUnauthorized | Cmd_IdentityInvalid | Cmd_RouteUnauthorized | Cmd_ContractInvalid

definition business_payload ::
  "Ext \<Rightarrow> SagaCommandEnvelope \<Rightarrow> SagaCommandProcessingError + SagaPayload option" where
  "business_payload x e =
     (if ce_payload e \<noteq> None \<and> ce_raw_payload e \<noteq> None then Inl Cmd_ContractInvalid
      else
        let payload = (case ce_raw_payload e of
              Some p \<Rightarrow> Some p | None \<Rightarrow> map_option (payload_json x) (ce_payload e))
        in case payload of
             None \<Rightarrow> Inr None
           | Some p \<Rightarrow> bindR (map_err (\<lambda>_. Cmd_ContractInvalid) (payload_validate (x_json_ok x) p))
               (\<lambda>_. Inr (Some p)))"

definition verify_payload_contract ::
  "Ext \<Rightarrow> SagaCommandEnvelope \<Rightarrow> string \<Rightarrow> string \<Rightarrow> SagaCommandProcessingError + unit" where
  "verify_payload_contract x e ct sid =
     bindR (business_payload x e) (\<lambda>payload.
       case payload of
         None \<Rightarrow> Inr ()
       | Some p \<Rightarrow> if payload_content_type p \<noteq> ct \<or> payload_schema_id p \<noteq> sid
           then Inl Cmd_ContractInvalid else Inr ())"

definition command_verified_for_delivery ::
  "Ext \<Rightarrow> SagaCommandEnvelope \<Rightarrow> SagaCommandProcessingError + VerifiedIdentity" where
  "command_verified_for_delivery x e = map_err (\<lambda>_. Cmd_IdentityInvalid) (command_verified x e)"

section \<open>What verification establishes\<close>

definition valid_TenantId :: "TenantId \<Rightarrow> bool" where
  "valid_TenantId t = (TenantId_new (tenant_id_str t) = Inr t)"

lemma SagaId_new_iff: "SagaId_new raw = Inr s \<longleftrightarrow> raw = saga_id_str s \<and> valid_SagaId s"
  using SagaId_new_valid [of raw s] by (auto simp: valid_SagaId_def)

lemma StepName_new_iff: "StepName_new raw = Inr s \<longleftrightarrow> raw = step_name_str s \<and> valid_StepName s"
  using StepName_new_valid [of raw s] by (auto simp: valid_StepName_def)

lemma TenantId_new_iff: "TenantId_new raw = Inr t \<longleftrightarrow> raw = tenant_id_str t \<and> valid_TenantId t"
  using validate_opaque_Inr [of raw] by (fastforce simp: valid_TenantId_def TenantId_new_def map_sum_Inr)

lemma WorkflowName_new_iff:
  "WorkflowName_new raw = Inr w \<longleftrightarrow> raw = workflow_name_str w \<and> valid_WorkflowName w"
  using validate_identifier_Inr [of raw]
  by (fastforce simp: valid_WorkflowName_def WorkflowName_new_def map_sum_Inr)

lemma DefinitionVersion_new_iff:
  "DefinitionVersion_new n = Inr v \<longleftrightarrow> n = definition_version_get v \<and> definition_version_get v \<noteq> 0"
  by (auto simp: DefinitionVersion_new_def)

lemma AttemptNo_new_iff: "AttemptNo_new n = Inr a \<longleftrightarrow> n = attempt_no_get a \<and> attempt_no_get a \<noteq> 0"
  by (auto simp: AttemptNo_new_def)

lemmas new_iffs = SagaId_new_iff StepName_new_iff TenantId_new_iff WorkflowName_new_iff
  DefinitionVersion_new_iff AttemptNo_new_iff

text \<open>A legal identity and its rendering as the ten identity fields of an envelope.\<close>

definition identity_ok :: "Ext \<Rightarrow> VerifiedIdentity \<Rightarrow> bool" where
  "identity_ok x i \<longleftrightarrow>
     valid_SagaId (vi_saga_id i) \<and> valid_TenantId (vi_tenant i) \<and> valid_WorkflowName (vi_workflow i) \<and>
     definition_version_get (vi_definition_version i) \<noteq> 0 \<and> valid_StepName (vi_step i) \<and>
     attempt_no_get (vi_attempt i) \<noteq> 0 \<and> digest_text (vi_definition_digest i) \<and>
     vi_effect i = EffectId_derive (x_uuid5 x) (vi_saga_id i) (vi_definition_version i) (vi_step i)
       (vi_phase i) \<and>
     vi_command i = CommandId_derive (x_uuid5 x) (vi_effect i) (vi_attempt i)"

definition identity_fields :: "Ext \<Rightarrow> VerifiedIdentity \<Rightarrow>
    string \<times> string \<times> string \<times> u32 \<times> string \<times> string \<times> string \<times> u32 \<times> string \<times> string" where
  "identity_fields x i =
     (saga_id_str (vi_saga_id i), tenant_id_str (vi_tenant i), workflow_name_str (vi_workflow i),
      definition_version_get (vi_definition_version i), vi_definition_digest i,
      step_name_str (vi_step i), step_phase_as_str (vi_phase i), attempt_no_get (vi_attempt i),
      effect_text x (vi_effect i), command_text x (vi_command i))"

lemma verify_identity_iff:
  "verify_identity x sid tid wn ver dig st ph att eff com = Inr i \<longleftrightarrow>
     identity_ok x i \<and> (sid, tid, wn, ver, dig, st, ph, att, eff, com) = identity_fields x i"
proof
  assume "verify_identity x sid tid wn ver dig st ph att eff com = Inr i"
  then show "identity_ok x i \<and> (sid, tid, wn, ver, dig, st, ph, att, eff, com) = identity_fields x i"
    unfolding verify_identity_def identity_ok_def identity_fields_def
    by (elim bindR_InrE) (auto simp: new_iffs Let_def step_phase.parse_iff split: if_splits)
next
  assume "identity_ok x i \<and> (sid, tid, wn, ver, dig, st, ph, att, eff, com) = identity_fields x i"
  then have "SagaId_new sid = Inr (vi_saga_id i)" "TenantId_new tid = Inr (vi_tenant i)"
    "WorkflowName_new wn = Inr (vi_workflow i)" "DefinitionVersion_new ver = Inr (vi_definition_version i)"
    "StepName_new st = Inr (vi_step i)" "step_phase_parse ph = Some (vi_phase i)"
    "AttemptNo_new att = Inr (vi_attempt i)" "digest_text dig" "dig = vi_definition_digest i"
    "eff = effect_text x (vi_effect i)" "com = command_text x (vi_command i)"
    "vi_effect i = EffectId_derive (x_uuid5 x) (vi_saga_id i) (vi_definition_version i) (vi_step i)
       (vi_phase i)"
    "vi_command i = CommandId_derive (x_uuid5 x) (vi_effect i) (vi_attempt i)"
    by (simp_all add: identity_ok_def identity_fields_def new_iffs step_phase.parse_iff)
  then show "verify_identity x sid tid wn ver dig st ph att eff com = Inr i"
    by (simp add: verify_identity_def Let_def)
qed

lemma is_in_flight_iff: "is_in_flight s \<longleftrightarrow> s = AttStarted"
  by (cases s) simp_all

lemma parsed_status_iff:
  "parsed_status e = Inr s \<longleftrightarrow> re_status e = attempt_status_as_str s \<and> s \<noteq> AttStarted"
proof (cases "attempt_status_parse (re_status e)")
  case None
  then show ?thesis using attempt_status.parse_as_str [of s] by (auto simp: parsed_status_def)
next
  case (Some t)
  then have "re_status e = attempt_status_as_str t" by (simp add: attempt_status.parse_iff)
  with Some attempt_status.as_str_inj show ?thesis
    by (auto simp: parsed_status_def is_in_flight_iff)
qed

lemma parsed_terminal_iff:
  "parsed_terminal e = Inr t \<longleftrightarrow> re_terminal_status e = map_option forward_status_as_str t"
  by (cases t) (auto simp: parsed_terminal_def bindR_Inr_iff forward_status.parse_iff split: option.splits)

definition terminal_fits :: "StepAttemptStatus \<Rightarrow> StepForwardStatus option \<Rightarrow> bool" where
  "terminal_fits status terminal =
     (if status = AttAlreadyTerminal
      then terminal \<in> {Some FwdSucceeded, Some FwdRejected, Some FwdHalted} else terminal = None)"

lemma verify_result_contract_iff:
  "verify_result_contract x e i = Inr () \<longleftrightarrow>
     re_event_id e = derive_result_event_id x (re_command_id e) \<and>
     (\<exists>status terminal. parsed_status e = Inr status \<and> phase_allows_status (vi_phase i) status \<and>
        parsed_terminal e = Inr terminal \<and> terminal_fits status terminal) \<and>
     (\<forall>code. re_reason_code e = Some code \<longrightarrow> valid_reason_code code)"
proof -
  have fits: "check_terminal status terminal = Inr u \<longleftrightarrow> terminal_fits status terminal"
    for status terminal u
    by (cases status; cases terminal) (auto simp: terminal_fits_def)
  show ?thesis
    unfolding verify_result_contract_def bindR_Inr_iff
    by (cases "re_reason_code e") (auto simp: fits)
qed

section \<open>Properties\<close>

definition result_fields :: "SagaResultEnvelope \<Rightarrow>
    string \<times> string \<times> string \<times> u32 \<times> string \<times> string \<times> string \<times> u32 \<times> string \<times> string" where
  "result_fields e =
     (re_saga_id e, re_tenant_id e, re_workflow e, re_definition_version e, re_definition_digest e,
      re_step_name e, re_phase e, re_attempt e, re_effect_id e, re_command_id e)"

definition verdict_ok :: "VerifiedIdentity \<Rightarrow> SagaResultEnvelope \<Rightarrow> bool" where
  "verdict_ok i e \<longleftrightarrow>
     (\<exists>status terminal. re_status e = attempt_status_as_str status \<and> status \<noteq> AttStarted \<and>
        phase_allows_status (vi_phase i) status \<and>
        re_terminal_status e = map_option forward_status_as_str terminal \<and>
        terminal_fits status terminal)"

lemma result_verified_iff:
  "result_verified x e = Inr i \<longleftrightarrow>
     identity_ok x i \<and> result_fields e = identity_fields x i \<and>
     re_event_id e = derive_result_event_id x (re_command_id e) \<and> verdict_ok i e \<and>
     pred_option valid_reason_code (re_reason_code e)"
  unfolding result_verified_def result_identity_def bindR_Inr_iff verify_identity_iff
    verify_result_contract_iff verdict_ok_def result_fields_def parsed_status_iff parsed_terminal_iff
  by (auto simp: option.pred_set verify_result_contract_iff parsed_status_iff
      parsed_terminal_iff split: option.splits)

text \<open>
  C23: A result envelope is accepted exactly when it is what the participant of a legal command
  may publish: its ten identity fields are the rendering of a legal identity whose effect and
  command ids are the derived ones, its event id is the one derived from the command, its status
  belongs to the phase, a terminal forward status accompanies \<open>ALREADY_TERMINAL\<close> and nothing
  else, and a reason code is a bounded stable identifier. The consumer and the producer apply the
  same test, so whatever a producer can put into the outbox its consumer accepts.
\<close>

theorem result_verified_exact:
  "(result_verified x e = Inr i \<longleftrightarrow>
     identity_ok x i \<and> result_fields e = identity_fields x i \<and>
     re_event_id e = derive_result_event_id x (re_command_id e) \<and> verdict_ok i e \<and>
     pred_option valid_reason_code (re_reason_code e)) \<and>
   (result_verified_for_delivery x e = Inr i \<longleftrightarrow> result_verified x e = Inr i) \<and>
   ((\<exists>event. result_to_outbox x e = Inr event) \<longleftrightarrow> (\<exists>i. result_verified x e = Inr i))"
  by (auto simp: result_verified_iff [symmetric] result_verified_for_delivery_def result_verified_def
      result_to_outbox_def bindR_Inr_iff)

lemma identity_of_command:
  assumes ok: "identity_ok x i" "identity_ok x i'"
    and len: "\<forall>name. length (x_uuid5 x SAGA_ID_NAMESPACE name) = 16"
    and effects: "inj_on (x_uuid5 x SAGA_ID_NAMESPACE)
      {effect_preimage (vi_saga_id i) (vi_definition_version i) (vi_step i) (vi_phase i),
       effect_preimage (vi_saga_id i') (vi_definition_version i') (vi_step i') (vi_phase i')}"
    and commands: "inj_on (x_uuid5 x SAGA_ID_NAMESPACE)
      {command_preimage (vi_effect i) (vi_attempt i), command_preimage (vi_effect i') (vi_attempt i')}"
    and eq: "vi_command i = vi_command i'"
  shows "vi_saga_id i = vi_saga_id i' \<and> vi_definition_version i = vi_definition_version i' \<and>
    vi_step i = vi_step i' \<and> vi_phase i = vi_phase i' \<and> vi_attempt i = vi_attempt i'"
proof -
  from ok have eff: "vi_effect i = EffectId_derive (x_uuid5 x) (vi_saga_id i)
      (vi_definition_version i) (vi_step i) (vi_phase i)"
    and eff': "vi_effect i' = EffectId_derive (x_uuid5 x) (vi_saga_id i')
      (vi_definition_version i') (vi_step i') (vi_phase i')"
    and com: "vi_command i = CommandId_derive (x_uuid5 x) (vi_effect i) (vi_attempt i)"
    and com': "vi_command i' = CommandId_derive (x_uuid5 x) (vi_effect i') (vi_attempt i')"
    and valid: "valid_SagaId (vi_saga_id i)" "valid_SagaId (vi_saga_id i')"
      "valid_StepName (vi_step i)" "valid_StepName (vi_step i')"
    by (auto simp: identity_ok_def)
  from eq com com' commands
  have "command_preimage (vi_effect i) (vi_attempt i) = command_preimage (vi_effect i') (vi_attempt i')"
    by (auto simp: CommandId_derive_def)
  then have ea: "vi_effect i = vi_effect i' \<and> vi_attempt i = vi_attempt i'"
    using len eff eff' by (intro command_preimage_inj) (simp_all add: EffectId_derive_def)
  with eff eff' effects
  have "effect_preimage (vi_saga_id i) (vi_definition_version i) (vi_step i) (vi_phase i) =
      effect_preimage (vi_saga_id i') (vi_definition_version i') (vi_step i') (vi_phase i')"
    by (auto simp: EffectId_derive_def)
  with ea effect_preimage_inj [OF valid] show ?thesis by blast
qed

text \<open>
  C24: The event id of an accepted result pins down what it is evidence of. As long as UUIDv5 and
  the textual form of a UUID keep the names apart that occur in the two envelopes, two accepted
  results with the same event id are about the same saga, definition version, step, phase and
  attempt: deduplicating on the event id can only ever drop a second report of one attempt.
\<close>

theorem result_event_identifies_attempt:
  assumes "result_verified x e = Inr i" and "result_verified x e' = Inr i'"
    and "re_event_id e = re_event_id e'"
    and len: "\<forall>name. length (x_uuid5 x SAGA_ID_NAMESPACE name) = 16"
    and uuid_inj: "inj (x_uuid_text x)"
    and events: "inj_on (x_uuid5 x RESULT_EVENT_NAMESPACE)
      {canonical_bytes [str_bytes (re_command_id e), str_bytes ''result''],
       canonical_bytes [str_bytes (re_command_id e'), str_bytes ''result'']}"
    and short: "length (re_command_id e) < 2 ^ 64" "length (re_command_id e') < 2 ^ 64"
    and effects: "inj_on (x_uuid5 x SAGA_ID_NAMESPACE)
      {effect_preimage (vi_saga_id i) (vi_definition_version i) (vi_step i) (vi_phase i),
       effect_preimage (vi_saga_id i') (vi_definition_version i') (vi_step i') (vi_phase i')}"
    and commands: "inj_on (x_uuid5 x SAGA_ID_NAMESPACE)
      {command_preimage (vi_effect i) (vi_attempt i), command_preimage (vi_effect i') (vi_attempt i')}"
  shows "vi_saga_id i = vi_saga_id i' \<and> vi_definition_version i = vi_definition_version i' \<and>
    vi_step i = vi_step i' \<and> vi_phase i = vi_phase i' \<and> vi_attempt i = vi_attempt i'"
proof -
  have ok: "identity_ok x i" "identity_ok x i'"
    and com: "re_command_id e = command_text x (vi_command i)"
      "re_command_id e' = command_text x (vi_command i')"
    and ev: "re_event_id e = derive_result_event_id x (re_command_id e)"
      "re_event_id e' = derive_result_event_id x (re_command_id e')"
    using assms(1,2) by (auto simp: result_verified_iff result_fields_def identity_fields_def)
  let ?n = "\<lambda>e. canonical_bytes [str_bytes (re_command_id e), str_bytes ''result'']"
  have "x_uuid_text x (x_uuid5 x RESULT_EVENT_NAMESPACE (?n e))
      = x_uuid_text x (x_uuid5 x RESULT_EVENT_NAMESPACE (?n e'))"
    using assms(3) ev by (simp add: derive_result_event_id_def)
  then have "x_uuid5 x RESULT_EVENT_NAMESPACE (?n e) = x_uuid5 x RESULT_EVENT_NAMESPACE (?n e')"
    by (rule injD [OF uuid_inj])
  then have "?n e = ?n e'" by (rule inj_onD [OF events]) simp_all
  then have "[str_bytes (re_command_id e), str_bytes ''result''] =
      [str_bytes (re_command_id e'), str_bytes ''result'']"
    using short by (intro canonical_bytes_inj) simp_all
  then have "command_text x (vi_command i) = command_text x (vi_command i')" using com by simp
  then have "vi_command i = vi_command i'"
    using injD [OF uuid_inj] by (simp add: command_text_def CommandId.expand)
  with identity_of_command [OF ok len effects commands] show ?thesis by blast
qed

text \<open>Concrete stand-ins for the third-party functions, for evaluation.\<close>

definition sample_ext :: Ext where
  "sample_ext =
     \<lparr>x_sha256 = (\<lambda>bs. take 32 (rev bs @ replicate 32 0)), x_uuid5 = sample_uuid5,
      x_uuid_text = hex_encode, x_json_ok = (\<lambda>_. True), x_json_parse = (\<lambda>_. None),
      x_json_bytes = (\<lambda>_. []), x_command_bytes = (\<lambda>e. str_bytes (ce_command_id e)),
      x_result_bytes = (\<lambda>e. str_bytes (re_event_id e)), x_hex_encode = hex_encode,
      x_hex_decode = sample_hex_decode, x_span_id = [0, 0, 0, 0, 0, 0, 0, 1]\<rparr>"

definition sample_identity :: "string \<Rightarrow> VerifiedIdentity" where
  "sample_identity tenant =
     (let effect = EffectId_derive sample_uuid5 (SagaId ''s-1'') (DefinitionVersion 1)
            (StepName ''pay'') Execute
      in \<lparr>vi_saga_id = SagaId ''s-1'', vi_tenant = TenantId tenant, vi_workflow = WorkflowName ''order'',
          vi_definition_version = DefinitionVersion 1, vi_definition_digest = replicate 64 CHR ''a'',
          vi_step = StepName ''pay'', vi_phase = Execute, vi_attempt = AttemptNo 1,
          vi_effect = effect, vi_command = CommandId_derive sample_uuid5 effect (AttemptNo 1)\<rparr>)"

definition sample_result :: "string \<Rightarrow> StepAttemptStatus \<Rightarrow> SagaResultEnvelope" where
  "sample_result tenant status =
     (let i = sample_identity tenant
      in \<lparr>re_event_id = derive_result_event_id sample_ext (command_text sample_ext (vi_command i)),
          re_saga_id = ''s-1'', re_tenant_id = tenant, re_workflow = ''order'',
          re_definition_version = 1, re_definition_digest = replicate 64 CHR ''a'',
          re_step_name = ''pay'', re_phase = ''execute'', re_attempt = 1,
          re_effect_id = effect_text sample_ext (vi_effect i),
          re_command_id = command_text sample_ext (vi_command i),
          re_status = attempt_status_as_str status, re_terminal_status = None,
          re_reason_code = None\<rparr>)"

lemma sample_result_verified:
  assumes "valid_TenantId (TenantId tenant)" and "phase_allows_status Execute status"
  shows "result_verified sample_ext (sample_result tenant status) = Inr (sample_identity tenant)"
proof -
  have "valid_SagaId (SagaId ''s-1'')" "valid_WorkflowName (WorkflowName ''order'')"
    "valid_StepName (StepName ''pay'')" "digest_text (replicate 64 CHR ''a'')"
    by code_simp+
  moreover have "status \<noteq> AttStarted" "status \<noteq> AttAlreadyTerminal" using assms(2) by auto
  ultimately show ?thesis
    using assms
    by (simp add: result_verified_iff sample_result_def sample_identity_def Let_def identity_ok_def
        result_fields_def identity_fields_def verdict_ok_def terminal_fits_def sample_ext_def) auto
qed

theorem result_event_identifies_attempt_witness:
  "result_verified sample_ext (sample_result ''t-1'' AttSucceeded) = Inr (sample_identity ''t-1'') \<and>
   result_verified sample_ext (sample_result ''t-2'' AttHalted) = Inr (sample_identity ''t-2'') \<and>
   re_event_id (sample_result ''t-1'' AttSucceeded) = re_event_id (sample_result ''t-2'' AttHalted) \<and>
   vi_attempt (sample_identity ''t-1'') = vi_attempt (sample_identity ''t-2'')"
proof -
  have "valid_TenantId (TenantId ''t-1'')" "valid_TenantId (TenantId ''t-2'')" by code_simp+
  then have v: "result_verified sample_ext (sample_result ''t-1'' AttSucceeded) = Inr (sample_identity ''t-1'')"
    "result_verified sample_ext (sample_result ''t-2'' AttHalted) = Inr (sample_identity ''t-2'')"
    by (simp_all add: sample_result_verified)
  have ev: "re_event_id (sample_result ''t-1'' AttSucceeded) = re_event_id (sample_result ''t-2'' AttHalted)"
    by (simp add: sample_result_def sample_identity_def Let_def)
  have len: "\<forall>name. length (x_uuid5 sample_ext SAGA_ID_NAMESPACE name) = 16"
    and inj: "inj (x_uuid_text sample_ext)"
    by (simp_all add: sample_ext_def inj_def hex_encode_inj)
  have short: "length (re_command_id (sample_result t s)) < 2 ^ 64" for t s
    using hex_codecD(3) [OF sample_hex_codec]
    by (simp add: sample_result_def sample_ext_def command_text_def Let_def sample_identity_def CommandId_derive_def)
  have same: "re_command_id (sample_result ''t-1'' AttSucceeded) = re_command_id (sample_result ''t-2'' AttHalted)"
    by (simp add: sample_result_def sample_identity_def Let_def)
  show ?thesis
    using result_event_identifies_attempt [OF v ev len inj] short v ev same
    by (simp add: sample_identity_def Let_def)
qed

end
