(* ===== verification/Saga_Plan.thy ===== *)
theory Saga_Plan
  imports Saga_Definition "HOL-Library.Multiset"
begin

text \<open>
  Freezing of the compensation plan (\<open>nasaga-core/src/plan.rs\<close>): the ordered list of steps
  that a compensation has to undo, computed once from the definition and the committed journal.
\<close>

section \<open>Data\<close>

record StepJournalEntry =
  sj_step :: StepName
  sj_forward_status :: StepForwardStatus

record CompensationEntry =
  ce_step :: StepName
  ce_order :: u32

record CompensationPlan =
  plan_version :: string
  plan_entries :: "CompensationEntry list"

definition plan_is_empty :: "CompensationPlan \<Rightarrow> bool" where
  "plan_is_empty plan = (plan_entries plan = [])"

definition plan_contains :: "CompensationPlan \<Rightarrow> StepName \<Rightarrow> bool" where
  "plan_contains plan step = list_ex (\<lambda>entry. ce_step entry = step) (plan_entries plan)"

section \<open>Freezing\<close>

text \<open>The loop over the journal; it returns the names it has seen.\<close>

fun check_journal ::
  "WorkflowDefinition \<Rightarrow> string list \<Rightarrow> StepJournalEntry list \<Rightarrow> string list contract_result" where
  "check_journal d seen [] = Inr seen"
| "check_journal d seen (entry # journal) =
     bindR (ok_or (definition_step d (sj_step entry)) CODE_PLAN_UNKNOWN_STEP) (\<lambda>step.
       if step_name_str (sj_step entry) \<in> set seen then Inl CODE_PLAN_DUPLICATE_STEP
       else if \<not> is_settled (sj_forward_status entry) then Inl CODE_PLAN_UNSETTLED_STEP
       else if sj_forward_status entry = FwdSucceeded \<and> \<not> is_compensable step
         then Inl CODE_PLAN_SUCCEEDED_PIVOT
       else check_journal d (step_name_str (sj_step entry) # seen) journal)"

definition step_succeeded :: "StepJournalEntry list \<Rightarrow> StepName \<Rightarrow> bool" where
  "step_succeeded journal name =
     list_ex (\<lambda>entry. sj_step entry = name \<and> sj_forward_status entry = FwdSucceeded) journal"

text \<open>The loop over the reversed definition; \<open>entries\<close> grows at its end.\<close>

fun plan_entries_from ::
  "StepJournalEntry list \<Rightarrow> CompensationEntry list \<Rightarrow> StepDefinition list \<Rightarrow> CompensationEntry list" where
  "plan_entries_from journal entries [] = entries"
| "plan_entries_from journal entries (step # steps) =
     plan_entries_from journal
       (if step_succeeded journal (sd_name step) \<and> is_compensable step
        then entries @ [\<lparr>ce_step = sd_name step, ce_order = of_nat (length entries) + 1\<rparr>]
        else entries) steps"

definition plan_preimage :: "string \<Rightarrow> CompensationEntry list \<Rightarrow> bytes" where
  "plan_preimage digest entries =
     canonical_bytes [str_bytes digest, be_bytes 8 (length entries)] @
     concat (map (\<lambda>entry. canonical_bytes
       [str_bytes (step_name_str (ce_step entry)), u32_be (ce_order entry)]) entries)"

definition freeze_compensation_plan ::
  "(bytes \<Rightarrow> bytes) \<Rightarrow> WorkflowDefinition \<Rightarrow> StepJournalEntry list \<Rightarrow>
    CompensationPlan contract_result" where
  "freeze_compensation_plan sha256 d journal =
     bindR (check_journal d [] journal) (\<lambda>seen.
       case find (\<lambda>step. step_name_str (sd_name step) \<notin> set seen) (wd_steps d) of
         Some missing \<Rightarrow> Inl CODE_PLAN_MISSING_STEP
       | None \<Rightarrow>
           let entries = plan_entries_from journal [] (rev (wd_steps d))
           in Inr \<lparr>plan_version =
                 hex_encode (sha256 (plan_preimage (definition_digest sha256 d) entries)),
               plan_entries = entries\<rparr>)"

section \<open>When freezing succeeds\<close>

definition entry_freezable :: "WorkflowDefinition \<Rightarrow> StepJournalEntry \<Rightarrow> bool" where
  "entry_freezable d entry \<longleftrightarrow>
     is_settled (sj_forward_status entry) \<and>
     (\<exists>step. definition_step d (sj_step entry) = Some step \<and>
        (sj_forward_status entry = FwdSucceeded \<longrightarrow> is_compensable step))"

definition journal_freezable :: "WorkflowDefinition \<Rightarrow> StepJournalEntry list \<Rightarrow> bool" where
  "journal_freezable d journal \<longleftrightarrow>
     distinct (map sj_step journal) \<and> list_all (entry_freezable d) journal \<and>
     sd_name ` set (wd_steps d) \<subseteq> sj_step ` set journal"

lemma check_journal_iff:
  "check_journal d seen journal = Inr seen' \<longleftrightarrow>
     seen' = rev (map (step_name_str \<circ> sj_step) journal) @ seen \<and>
     distinct (map sj_step journal) \<and> list_all (entry_freezable d) journal \<and>
     (\<forall>e \<in> set journal. step_name_str (sj_step e) \<notin> set seen)"
proof (induction journal arbitrary: seen)
  case (Cons e journal)
  show ?case
  proof (cases "definition_step d (sj_step e)")
    case (Some step)
    have "(\<forall>x \<in> set journal. step_name_str (sj_step x) \<noteq> step_name_str (sj_step e)) \<longleftrightarrow>
        sj_step e \<notin> sj_step ` set journal"
      using inj_eq [OF step_name_inj] by (auto simp: image_iff eq_commute)
    with Some show ?thesis by (auto simp: entry_freezable_def Cons.IH)
  qed (simp add: entry_freezable_def)
qed auto

lemma plan_entries_from_eq:
  "plan_entries_from journal entries steps =
     entries @ map (\<lambda>(k, s). \<lparr>ce_step = sd_name s, ce_order = of_nat (length entries + k) + 1\<rparr>)
       (enumerate 0 (filter (\<lambda>s. step_succeeded journal (sd_name s) \<and> is_compensable s) steps))"
proof (induction steps arbitrary: entries)
  case (Cons s steps)
  show ?case
    by (simp add: Cons.IH enumerate_eq_zip map_zip_map upt_conv_Cons zip_map1
        map_Suc_upt [symmetric] comp_def split_def del: upt_Suc map_Suc_upt)
qed simp

lemma freeze_Inr_iff:
  "freeze_compensation_plan sha256 d journal = Inr plan \<longleftrightarrow>
     journal_freezable d journal \<and>
     plan = (let entries = plan_entries_from journal [] (rev (wd_steps d)) in
       \<lparr>plan_version = hex_encode (sha256 (plan_preimage (definition_digest sha256 d) entries)),
        plan_entries = entries\<rparr>)"
proof -
  have "find (\<lambda>step. step_name_str (sd_name step) \<notin> set (rev (map (step_name_str \<circ> sj_step) journal)))
      (wd_steps d) = None \<longleftrightarrow> sd_name ` set (wd_steps d) \<subseteq> sj_step ` set journal"
    by (auto simp: find_None_iff image_iff inj_eq [OF step_name_inj])
  then show ?thesis
    by (auto simp: freeze_compensation_plan_def bindR_Inr_iff check_journal_iff journal_freezable_def
        Let_def split: option.splits)
qed

lemma step_succeeded_iff:
  "step_succeeded journal n \<longleftrightarrow>
     n \<in> sj_step ` {e \<in> set journal. sj_forward_status e = FwdSucceeded}"
  by (auto simp: step_succeeded_def list_ex_iff)

lemma freezable_succeeded_compensable:
  assumes "definition_rules d" and "journal_freezable d journal" and "s \<in> set (wd_steps d)"
    and "step_succeeded journal (sd_name s)"
  shows "is_compensable s"
proof -
  from assms(4) obtain e where e: "e \<in> set journal" "sj_step e = sd_name s"
    "sj_forward_status e = FwdSucceeded"
    by (auto simp: step_succeeded_iff)
  with assms(2) have "entry_freezable d e" by (simp add: journal_freezable_def list_all_iff)
  with e definition_step_unique [OF rules_distinct [OF assms(1)] assms(3)] show ?thesis
    by (simp add: entry_freezable_def)
qed

lemma plan_names:
  assumes "definition_rules d" and "journal_freezable d journal"
  shows "map ce_step (plan_entries_from journal [] (rev (wd_steps d))) =
     rev (filter (step_succeeded journal) (map sd_name (wd_steps d)))"
proof -
  let ?P = "\<lambda>s. step_succeeded journal (sd_name s)"
  have "filter (\<lambda>s. ?P s \<and> is_compensable s) (rev (wd_steps d)) = filter ?P (rev (wd_steps d))"
    using freezable_succeeded_compensable [OF assms] by (intro filter_cong) auto
  then show ?thesis
    by (simp add: plan_entries_from_eq comp_def split_def rev_filter filter_map rev_map
        flip: map_map [of sd_name snd, unfolded comp_def])
qed

lemma unat_of_nat_Suc: "Suc k < 2 ^ 32 \<Longrightarrow> unat (of_nat k + 1 :: u32) = Suc k"
proof -
  assume "Suc k < 2 ^ 32"
  then have "unat (of_nat (Suc k) :: u32) = Suc k"
    by (simp only: unat_of_nat) (simp del: of_nat_Suc)
  then show ?thesis by (simp add: add.commute)
qed

lemma plan_orders:
  assumes "length steps < 2 ^ 32"
  shows "map (unat \<circ> ce_order) (plan_entries_from journal [] steps) =
     [1..<Suc (length (plan_entries_from journal [] steps))]"
proof -
  let ?es = "plan_entries_from journal [] steps"
  let ?fs = "filter (\<lambda>s. step_succeeded journal (sd_name s) \<and> is_compensable s) steps"
  have len: "length ?es = length ?fs" by (simp add: plan_entries_from_eq)
  have "length ?fs < 2 ^ 32" using assms length_filter_le [of _ steps] by (meson le_less_trans)
  then have "unat (of_nat k + 1 :: u32) = Suc k" if "k < length ?fs" for k
    using that unat_of_nat_Suc by simp
  then show ?thesis
    by (intro nth_equalityI) (simp_all add: len plan_entries_from_eq nth_enumerate_eq del: upt_Suc)
qed

text \<open>
  C18: A frozen compensation plan lists exactly the steps whose forward effect is committed as
  succeeded, each once, in the reverse of the definition order, numbered from one without gaps.
  No succeeded effect is left out, so finishing the plan undoes all of them.
\<close>

theorem frozen_plan_exact:
  assumes "definition_rules d" and "length (wd_steps d) < 2 ^ 32"
    and "freeze_compensation_plan sha256 d journal = Inr plan"
  shows "map ce_step (plan_entries plan)
      = rev (filter (step_succeeded journal) (map sd_name (wd_steps d))) \<and>
    {n. plan_contains plan n} = sj_step ` {e \<in> set journal. sj_forward_status e = FwdSucceeded} \<and>
    distinct (map ce_step (plan_entries plan)) \<and>
    map (unat \<circ> ce_order) (plan_entries plan) = [1..<Suc (length (plan_entries plan))]"
proof -
  from assms(3) have fr: "journal_freezable d journal"
    and es: "plan_entries plan = plan_entries_from journal [] (rev (wd_steps d))"
    by (simp_all add: freeze_Inr_iff Let_def)
  have names: "map ce_step (plan_entries plan)
      = rev (filter (step_succeeded journal) (map sd_name (wd_steps d)))"
    using plan_names [OF assms(1) fr] es by simp
  have "n \<in> sd_name ` set (wd_steps d)" if "step_succeeded journal n" for n
    using that fr
    by (force simp: step_succeeded_iff journal_freezable_def list_all_iff entry_freezable_def
        dest: definition_step_member)
  then have "{n. plan_contains plan n} = Collect (step_succeeded journal)"
    using arg_cong [OF names, of set]
    by (simp add: plan_contains_def list_ex_iff set_eq_iff image_iff eq_commute) blast
  moreover have "distinct (map ce_step (plan_entries plan))"
    using names rules_distinct [OF assms(1)] by (simp add: distinct_filter)
  moreover have "map (unat \<circ> ce_order) (plan_entries plan) = [1..<Suc (length (plan_entries plan))]"
    using plan_orders [of "rev (wd_steps d)"] assms(2) unfolding es by simp
  ultimately show ?thesis using names by (auto simp: step_succeeded_iff)
qed

definition sample_journal :: "StepForwardStatus \<Rightarrow> StepForwardStatus \<Rightarrow> StepForwardStatus \<Rightarrow>
    StepJournalEntry list" where
  "sample_journal a b c = [\<lparr>sj_step = StepName ''reserve'', sj_forward_status = a\<rparr>,
     \<lparr>sj_step = StepName ''pay'', sj_forward_status = b\<rparr>,
     \<lparr>sj_step = StepName ''ship'', sj_forward_status = c\<rparr>]"

lemma sample_definition_rules: "definition_rules sample_definition"
  unfolding definition_validate_iff [symmetric]
  by (simp add: definition_validate_def validate_step_def sample_definition_def sample_step_def
      StepDefinition_new_def resolution_forbidden_def is_external_def)

lemma sample_freezable:
  "journal_freezable sample_definition (sample_journal FwdSucceeded FwdSucceeded FwdRejected)"
  by (simp add: journal_freezable_def sample_journal_def entry_freezable_def definition_step_def
      sample_definition_def sample_step_def StepDefinition_new_def is_compensable_def)

lemma sample_freezable':
  "journal_freezable sample_definition (sample_journal FwdSucceeded FwdRejected FwdPending)"
  by (simp add: journal_freezable_def sample_journal_def entry_freezable_def definition_step_def
      sample_definition_def sample_step_def StepDefinition_new_def is_compensable_def)

theorem frozen_plan_exact_witness:
  "\<exists>plan. freeze_compensation_plan (\<lambda>bs. bs) sample_definition
       (sample_journal FwdSucceeded FwdSucceeded FwdRejected) = Inr plan \<and>
     map ce_step (plan_entries plan) = [StepName ''pay'', StepName ''reserve'']"
proof -
  obtain plan where plan: "freeze_compensation_plan (\<lambda>bs. bs) sample_definition
      (sample_journal FwdSucceeded FwdSucceeded FwdRejected) = Inr plan"
    using sample_freezable by (simp add: freeze_Inr_iff)
  have "length (wd_steps sample_definition) < 2 ^ 32" by (simp add: sample_definition_def)
  note frozen_plan_exact [OF sample_definition_rules this plan, THEN conjunct1]
  also have "rev (filter (step_succeeded (sample_journal FwdSucceeded FwdSucceeded FwdRejected))
      (map sd_name (wd_steps sample_definition))) = [StepName ''pay'', StepName ''reserve'']"
    by (simp add: sample_definition_def sample_step_def StepDefinition_new_def sample_journal_def
        step_succeeded_def)
  finally show ?thesis using plan by (intro exI conjI)
qed

text \<open>
  C33: Freezing is decided by the facts of the journal and not by their order. A plan is produced
  exactly when every step of the definition has exactly one journal entry, no entry is foreign to
  the definition or still undecided, and no non-compensable step has succeeded; two journals
  holding the same entries give the same plan.
\<close>

theorem freeze_decided_by_facts:
  assumes "mset journal = mset journal'"
  shows "(freeze_compensation_plan sha256 d journal = Inr plan \<longleftrightarrow>
      freeze_compensation_plan sha256 d journal' = Inr plan) \<and>
    ((\<exists>p. freeze_compensation_plan sha256 d journal = Inr p) \<longleftrightarrow> journal_freezable d journal')"
proof -
  have "set journal = set journal'" using assms by (rule mset_eq_setD)
  moreover have "distinct (map sj_step journal) \<longleftrightarrow> distinct (map sj_step journal')"
    using assms by (metis mset_eq_imp_distinct_iff mset_map)
  ultimately have "journal_freezable d journal \<longleftrightarrow> journal_freezable d journal'"
    and "step_succeeded journal = step_succeeded journal'"
    by (auto simp: journal_freezable_def list_all_iff step_succeeded_iff fun_eq_iff)
  moreover from this(2) have "plan_entries_from journal es ss = plan_entries_from journal' es ss" for es ss
    by (simp add: plan_entries_from_eq)
  ultimately show ?thesis by (simp add: freeze_Inr_iff)
qed

theorem freeze_decided_by_facts_witness:
  "\<exists>p. freeze_compensation_plan (\<lambda>bs. bs) sample_definition
     (rev (sample_journal FwdSucceeded FwdSucceeded FwdRejected)) = Inr p"
proof -
  let ?j = "sample_journal FwdSucceeded FwdSucceeded FwdRejected"
  have "mset (rev ?j) = mset ?j" by simp
  from freeze_decided_by_facts [OF this, THEN conjunct2, THEN iffD2, OF sample_freezable]
  show ?thesis .
qed

lemma hex_encode_eq_iff: "hex_encode bs = hex_encode cs \<longleftrightarrow> bs = cs"
  by (auto intro: hex_encode_inj)

lemma hex_encode_length: "length (hex_encode bs) = 2 * length bs"
  by (induction bs) (simp_all add: hex_encode_def)

lemma plan_preimage_inj:
  assumes len: "length g < 2 ^ 64" "length g' < 2 ^ 64" "length es < 2 ^ 64" "length es' < 2 ^ 64"
    and names: "\<forall>e \<in> set es. valid_StepName (ce_step e)" "\<forall>e \<in> set es'. valid_StepName (ce_step e)"
    and eq: "plan_preimage g es = plan_preimage g' es'"
  shows "g = g' \<and> es = es'"
proof -
  let ?f = "\<lambda>e. [str_bytes (step_name_str (ce_step e)), u32_be (ce_order e)]"
  let ?F = "\<lambda>g es. [str_bytes g, be_bytes 8 (length es)] @ concat (map ?f es)"
  have canon: "plan_preimage g es = canonical_bytes (?F g es)" for g es
    by (simp add: plan_preimage_def canonical_bytes_append canonical_bytes_concat comp_def)
  have fr: "list_all framable (?F g es)"
    if "length g < 2 ^ 64" "\<forall>e \<in> set es. valid_StepName (ce_step e)" for g es
    using that by (fastforce simp: list_all_iff dest!: valid_StepName_props)
  have F: "?F g es = ?F g' es'"
    using canonical_bytes_inj [OF fr fr] len names eq by (simp add: canon)
  then have "g = g'" and lens: "length es = length es'"
    using len be_bytes_inj [of "length es" 8 "length es'"] by simp_all
  moreover from F have "concat (map ?f es) = concat (map ?f es')" by simp
  with lens have "es = es'"
    by (induction rule: list_induct2) (auto intro: CompensationEntry.equality StepName.expand)
  ultimately show ?thesis by blast
qed

lemma freeze_version:
  "freeze_compensation_plan sha256 d journal = Inr plan \<Longrightarrow>
     plan_version plan =
       hex_encode (sha256 (plan_preimage (definition_digest sha256 d) (plan_entries plan)))"
  by (simp add: freeze_Inr_iff Let_def)

lemma plan_members:
  assumes "definition_values_ok d" and "freeze_compensation_plan sha256 d journal = Inr plan"
  shows "length (plan_entries plan) < 2 ^ 64 \<and>
    (\<forall>e \<in> set (plan_entries plan). valid_StepName (ce_step e))"
proof -
  let ?fs = "filter (\<lambda>s. step_succeeded journal (sd_name s) \<and> is_compensable s) (rev (wd_steps d))"
  have es: "plan_entries plan = plan_entries_from journal [] (rev (wd_steps d))"
    using assms(2) by (simp add: freeze_Inr_iff Let_def)
  have "length ?fs \<le> length (wd_steps d)" using length_filter_le [of _ "rev (wd_steps d)"] by simp
  moreover have "ce_step ` set (plan_entries plan) \<subseteq> sd_name ` set (wd_steps d)"
    by (force simp: es plan_entries_from_eq in_set_enumerate_eq dest!: nth_mem)
  ultimately show ?thesis
    using assms(1) by (fastforce simp: es plan_entries_from_eq definition_values_ok_def
        list_all_iff step_values_ok_def)
qed

text \<open>
  C34: The version of a plan identifies the plan and the definition it was frozen from. If SHA-256
  returns 32 bytes and separates the encodings at hand, equal plan versions mean equal entries,
  steps and order numbers included, and definitions that agree up to the millisecond.
\<close>

theorem plan_version_identifies_plan:
  assumes ok: "definition_values_ok d" "definition_values_ok d'"
    and frozen: "freeze_compensation_plan sha256 d journal = Inr plan"
      "freeze_compensation_plan sha256 d' journal' = Inr plan'"
    and sha_len: "\<forall>bs. length (sha256 bs) = 32"
    and free: "inj_on sha256 {definition_preimage d, definition_preimage d'}"
      "inj_on sha256 {plan_preimage (definition_digest sha256 d) (plan_entries plan),
         plan_preimage (definition_digest sha256 d') (plan_entries plan')}"
    and version: "plan_version plan = plan_version plan'"
  shows "plan_entries plan = plan_entries plan' \<and> definition_ms_view d = definition_ms_view d'"
proof -
  let ?g = "definition_digest sha256 d" and ?g' = "definition_digest sha256 d'"
  have "sha256 (plan_preimage ?g (plan_entries plan)) = sha256 (plan_preimage ?g' (plan_entries plan'))"
    using version freeze_version [OF frozen(1)] freeze_version [OF frozen(2)]
    by (simp only: hex_encode_eq_iff)
  then have pre: "plan_preimage ?g (plan_entries plan) = plan_preimage ?g' (plan_entries plan')"
    by (rule inj_onD [OF free(2)]) simp_all
  have "length ?g < 2 ^ 64" "length ?g' < 2 ^ 64"
    using sha_len by (simp_all add: definition_digest_def hex_encode_length)
  with plan_members [OF ok(1) frozen(1)] plan_members [OF ok(2) frozen(2)]
  have eqs: "?g = ?g' \<and> plan_entries plan = plan_entries plan'"
    by (intro plan_preimage_inj pre) simp_all
  then have "sha256 (definition_preimage d) = sha256 (definition_preimage d')"
    by (simp only: definition_digest_def hex_encode_eq_iff)
  then have "definition_preimage d = definition_preimage d'"
    by (rule inj_onD [OF free(1)]) simp_all
  then have "definition_ms_view d = definition_ms_view d'"
    by (rule definition_preimage_inj [OF ok])
  with eqs show ?thesis by simp
qed

text \<open>A concrete 32-byte function in the place of SHA-256, for evaluation.\<close>

definition sample_sha256 :: "bytes \<Rightarrow> bytes" where
  "sample_sha256 bs = take 32 (rev bs @ replicate 32 0)"

lemma sample_plan_entries:
  "plan_entries_from (sample_journal FwdSucceeded FwdSucceeded FwdRejected) []
     (rev (wd_steps sample_definition)) =
   [\<lparr>ce_step = StepName ''pay'', ce_order = 1\<rparr>, \<lparr>ce_step = StepName ''reserve'', ce_order = 2\<rparr>]"
  "plan_entries_from (sample_journal FwdSucceeded FwdRejected FwdPending) []
     (rev (wd_steps sample_definition)) = [\<lparr>ce_step = StepName ''reserve'', ce_order = 1\<rparr>]"
  by (simp_all add: sample_definition_def sample_step_def StepDefinition_new_def sample_journal_def
      step_succeeded_def is_compensable_def)

lemma inj_on_pair: "f a \<noteq> f b \<Longrightarrow> inj_on f {a, b}"
  by (auto simp: inj_on_def)

lemma hd_sample_sha256: "bs \<noteq> [] \<Longrightarrow> hd (sample_sha256 bs) = last bs"
  by (simp add: sample_sha256_def hd_append hd_rev)

lemma sample_plan_separated:
  "sample_sha256 (plan_preimage g
     [\<lparr>ce_step = StepName ''pay'', ce_order = 1\<rparr>, \<lparr>ce_step = StepName ''reserve'', ce_order = 2\<rparr>])
   \<noteq> sample_sha256 (plan_preimage g [\<lparr>ce_step = StepName ''reserve'', ce_order = 1\<rparr>])"
  (is "sample_sha256 ?a \<noteq> sample_sha256 ?b")
proof -
  have "last (u32_be 1) = 1" and "last (u32_be 2) = 2" by code_simp+
  then have "last ?a = 2" and "last ?b = 1"
    by (simp_all add: plan_preimage_def u32_be_def)
  moreover have "?a \<noteq> []" and "?b \<noteq> []" by (simp_all add: plan_preimage_def)
  ultimately have "hd (sample_sha256 ?a) \<noteq> hd (sample_sha256 ?b)"
    by (simp add: hd_sample_sha256)
  then show ?thesis by (rule contrapos_nn) (rule arg_cong)
qed

theorem plan_version_identifies_plan_witness:
  "\<exists>plan plan'. freeze_compensation_plan sample_sha256 sample_definition
       (sample_journal FwdSucceeded FwdSucceeded FwdRejected) = Inr plan \<and>
     freeze_compensation_plan sample_sha256 sample_definition
       (sample_journal FwdSucceeded FwdRejected FwdPending) = Inr plan' \<and>
     plan_version plan \<noteq> plan_version plan'"
proof -
  let ?j = "sample_journal FwdSucceeded FwdSucceeded FwdRejected"
  let ?j' = "sample_journal FwdSucceeded FwdRejected FwdPending"
  obtain plan where plan: "freeze_compensation_plan sample_sha256 sample_definition ?j = Inr plan"
    and es: "plan_entries plan = plan_entries_from ?j [] (rev (wd_steps sample_definition))"
    using sample_freezable by (simp add: freeze_Inr_iff Let_def)
  obtain plan' where plan': "freeze_compensation_plan sample_sha256 sample_definition ?j' = Inr plan'"
    and es': "plan_entries plan' = plan_entries_from ?j' [] (rev (wd_steps sample_definition))"
    using sample_freezable' by (simp add: freeze_Inr_iff Let_def)
  have len: "\<forall>bs. length (sample_sha256 bs) = 32" by (simp add: sample_sha256_def min_def)
  have free: "inj_on sample_sha256
      {plan_preimage (definition_digest sample_sha256 sample_definition) (plan_entries plan),
       plan_preimage (definition_digest sample_sha256 sample_definition) (plan_entries plan')}"
    unfolding es es' sample_plan_entries by (intro inj_on_pair sample_plan_separated)
  have "plan_version plan \<noteq> plan_version plan'"
    using plan_version_identifies_plan
      [OF sample_definition_ok sample_definition_ok plan plan' len _ free]
    by (auto simp: es es' sample_plan_entries)
  with plan plan' show ?thesis by (intro exI conjI)
qed

end
