(* ===== verification/Saga_State.thy ===== *)
theory Saga_State
  imports Saga_Vocabulary
begin

text \<open>
  The closed state machine of a saga instance (\<open>nasaga-core/src/state.rs\<close>) and the verdict types
  of \<open>outcome.rs\<close>. \<open>can_transition_to\<close> is the structural edge set, \<open>check_transition\<close> adds the
  business guards; \<open>saga_run\<close> follows a list of guarded transitions from a status, as the
  persistence layer does one compare-and-set at a time.
\<close>

section \<open>Verdicts of a step handler\<close>

text \<open>The reason codes are static strings; \<open>'a\<close> is the business result.\<close>

datatype 'a SagaOutcome =
    OutSucceeded 'a
  | OutRejected string
  | OutUnknown string
  | OutHalted string

fun outcome_is_succeeded :: "'a SagaOutcome \<Rightarrow> bool" where
  "outcome_is_succeeded (OutSucceeded v) = True"
| "outcome_is_succeeded _ = False"

fun outcome_is_terminal :: "'a SagaOutcome \<Rightarrow> bool" where
  "outcome_is_terminal (OutUnknown c) = False"
| "outcome_is_terminal _ = True"

fun outcome_code :: "'a SagaOutcome \<Rightarrow> string option" where
  "outcome_code (OutSucceeded v) = None"
| "outcome_code (OutRejected c) = Some c"
| "outcome_code (OutUnknown c) = Some c"
| "outcome_code (OutHalted c) = Some c"

datatype CompensationOutcome = CoSucceeded | CoUnknown string | CoHalted string

fun co_is_succeeded :: "CompensationOutcome \<Rightarrow> bool" where
  "co_is_succeeded CoSucceeded = True"
| "co_is_succeeded _ = False"

fun co_code :: "CompensationOutcome \<Rightarrow> string option" where
  "co_code CoSucceeded = None"
| "co_code (CoUnknown c) = Some c"
| "co_code (CoHalted c) = Some c"

datatype TerminalForwardOutcome = TfSucceeded | TfRejected string | TfHalted string

datatype CancelOutcome =
    CancelConfirmed
  | AlreadyTerminal TerminalForwardOutcome
  | ResolutionPending string

fun cancel_is_resolved :: "CancelOutcome \<Rightarrow> bool" where
  "cancel_is_resolved (ResolutionPending c) = False"
| "cancel_is_resolved _ = True"

section \<open>Transitions\<close>

fun can_transition_to :: "SagaStatus \<Rightarrow> SagaStatus \<Rightarrow> bool" where
  "can_transition_to Running Running = True"
| "can_transition_to Cancelling Cancelling = True"
| "can_transition_to WaitingResolution WaitingResolution = True"
| "can_transition_to Compensating Compensating = True"
| "can_transition_to Running Completed = True"
| "can_transition_to Running Compensating = True"
| "can_transition_to Running Cancelling = True"
| "can_transition_to Running WaitingResolution = True"
| "can_transition_to Cancelling WaitingResolution = True"
| "can_transition_to Cancelling Running = True"
| "can_transition_to Cancelling Completed = True"
| "can_transition_to Cancelling Compensating = True"
| "can_transition_to WaitingResolution Running = True"
| "can_transition_to WaitingResolution Completed = True"
| "can_transition_to WaitingResolution Compensating = True"
| "can_transition_to Compensating WaitingResolution = True"
| "can_transition_to Compensating Compensated = True"
| "can_transition_to Running ManualIntervention = True"
| "can_transition_to Cancelling ManualIntervention = True"
| "can_transition_to WaitingResolution ManualIntervention = True"
| "can_transition_to Compensating ManualIntervention = True"
| "can_transition_to ManualIntervention Compensating = True"
| "can_transition_to ManualIntervention Running = True"
| "can_transition_to ManualIntervention WaitingResolution = True"
| "can_transition_to ManualIntervention ManuallyClosed = True"
| "can_transition_to _ _ = False"

record TransitionGuard =
  any_compensation_succeeded :: bool
  manual_close_audited :: bool

definition guard_new :: "bool \<Rightarrow> TransitionGuard" where
  "guard_new c = \<lparr>any_compensation_succeeded = c, manual_close_audited = False\<rparr>"

definition guard_manual_close :: "bool \<Rightarrow> TransitionGuard" where
  "guard_manual_close audited =
     \<lparr>any_compensation_succeeded = False, manual_close_audited = audited\<rparr>"

definition check_transition ::
  "SagaStatus \<Rightarrow> SagaStatus \<Rightarrow> TransitionGuard \<Rightarrow> unit contract_result" where
  "check_transition from to g =
     (if \<not> can_transition_to from to then Inl CODE_TRANSITION_ILLEGAL
      else if from = ManualIntervention \<and> to = Running \<and> any_compensation_succeeded g
        then Inl CODE_TRANSITION_FORWARD_AFTER_COMPENSATION
      else if to = ManuallyClosed \<and> \<not> manual_close_audited g
        then Inl CODE_TRANSITION_MANUAL_CLOSE_UNAUDITED
      else Inr ())"

lemma check_transition_Inr:
  "check_transition from to g = Inr u \<longleftrightarrow>
     can_transition_to from to \<and>
     \<not> (from = ManualIntervention \<and> to = Running \<and> any_compensation_succeeded g) \<and>
     (to = ManuallyClosed \<longrightarrow> manual_close_audited g)"
  by (auto simp: check_transition_def)

section \<open>Runs\<close>

text \<open>A run is a sequence of transitions, each checked against the status reached so far; the
  first refused transition leaves the run, as a refused compare-and-set leaves the row.\<close>

type_synonym transition = "SagaStatus \<times> TransitionGuard"

fun saga_run :: "SagaStatus \<Rightarrow> transition list \<Rightarrow> SagaStatus contract_result" where
  "saga_run s [] = Inr s"
| "saga_run s ((to, g) # ts) = bindR (check_transition s to g) (\<lambda>_. saga_run to ts)"

lemma saga_run_append:
  "saga_run s (ts @ us) = bindR (saga_run s ts) (\<lambda>t. saga_run t us)"
proof (induction ts arbitrary: s)
  case Nil
  then show ?case by simp
next
  case (Cons x ts)
  then show ?case by (cases x; cases "check_transition s (fst x) (snd x)") auto
qed

lemma saga_run_snocE:
  assumes "saga_run s (ts @ [(to, g)]) = Inr t"
  obtains u where "saga_run s ts = Inr u" and "check_transition u to g = Inr ()" and "t = to"
  using assms by (auto simp: saga_run_append)

lemma terminal_no_edge: "saga_is_terminal s \<Longrightarrow> \<not> can_transition_to s t"
  by (cases s; cases t) simp_all

lemma terminal_run: "saga_is_terminal s \<Longrightarrow> saga_run s ts = Inr t \<Longrightarrow> ts = [] \<and> t = s"
  by (cases ts) (auto simp: check_transition_Inr terminal_no_edge)

lemma edge_to_Completed:
  "can_transition_to s Completed \<Longrightarrow> s \<in> {Running, Cancelling, WaitingResolution}"
  by (cases s) simp_all

lemma edge_to_Compensated: "can_transition_to s Compensated \<Longrightarrow> s = Compensating"
  by (cases s) simp_all

lemma edge_to_ManuallyClosed: "can_transition_to s ManuallyClosed \<Longrightarrow> s = ManualIntervention"
  by (cases s) simp_all

text \<open>The last step into each terminal status.\<close>

definition terminal_entry :: "SagaStatus \<Rightarrow> SagaStatus \<Rightarrow> TransitionGuard \<Rightarrow> bool" where
  "terminal_entry from to g =
     (case to of
        Completed \<Rightarrow> from \<in> {Running, Cancelling, WaitingResolution}
      | Compensated \<Rightarrow> from = Compensating
      | ManuallyClosed \<Rightarrow> from = ManualIntervention \<and> manual_close_audited g
      | _ \<Rightarrow> False)"

lemma check_terminal_entry:
  assumes "check_transition from to g = Inr ()" and "saga_is_terminal to"
  shows "terminal_entry from to g"
  using assms
  by (cases to) (auto simp: check_transition_Inr terminal_entry_def dest: edge_to_Completed
      edge_to_Compensated edge_to_ManuallyClosed)

lemma check_terminal_source: "check_transition from to g = Inr () \<Longrightarrow> \<not> saga_is_terminal from"
  by (auto simp: check_transition_Inr dest: terminal_no_edge)

text \<open>Every live status has a short way to a terminal one.\<close>

fun close_path :: "SagaStatus \<Rightarrow> transition list" where
  "close_path Running = [(ManualIntervention, guard_new False), (ManuallyClosed, guard_manual_close True)]"
| "close_path Cancelling = [(ManualIntervention, guard_new False), (ManuallyClosed, guard_manual_close True)]"
| "close_path WaitingResolution = [(ManualIntervention, guard_new False), (ManuallyClosed, guard_manual_close True)]"
| "close_path Compensating = [(ManualIntervention, guard_new False), (ManuallyClosed, guard_manual_close True)]"
| "close_path ManualIntervention = [(ManuallyClosed, guard_manual_close True)]"
| "close_path _ = []"

lemma close_path_terminal: "\<exists>t. saga_run s (close_path s) = Inr t \<and> saga_is_terminal t"
  by (cases s) (simp_all add: check_transition_def guard_new_def guard_manual_close_def)



end
