(* ===== verification/Saga_Rows.thy ===== *)
theory Saga_Rows
  imports Saga_Envelope Saga_Plan Saga_State
begin

text \<open>
  The rows of the saga tables as the backend returns them (\<open>nasaga-backend/src/row.rs\<close>,
  \<open>journal.rs\<close>, \<open>timer.rs\<close>), the timer kinds and identities (\<open>nasaga-runtime-core/src/timers.rs\<close>),
  the management context (\<open>management.rs\<close>), and the error values of the orchestrator.
\<close>

section \<open>Errors\<close>

datatype SagaConcurrencyError = StaleSnapshot | DuplicateTrigger

datatype SagaManagementError =
  InvalidContext | PermissionDenied | NotFound | RateLimitExceeded | PreconditionFailed
  | OperationConflict

datatype StartSagaError =
  DefinitionInactive | InvalidPayload | DefinitionEmpty | RequestConflict | TenantQuotaExceeded

text \<open>Everything a handler can fail with; the last three carry the message of an untyped error of
  the store, of a store conflict, and of the runtime itself.\<close>

datatype OrchError =
    E_Concurrency SagaConcurrencyError
  | E_Management SagaManagementError
  | E_Start StartSagaError
  | E_Result SagaResultProcessingError
  | E_Envelope EnvelopeError
  | E_Violation ContractViolation
  | E_Store string
  | E_Conflict string
  | E_Other string

type_synonym 'a orch = "OrchError + 'a"

section \<open>Rows\<close>

record SagaInstanceRow =
  si_saga_id :: SagaId
  si_tenant :: TenantId
  si_workflow :: WorkflowName
  si_business_key :: BusinessKey
  si_definition_version :: DefinitionVersion
  si_definition_digest :: string
  si_start_request_digest :: "string option"
  si_status :: SagaStatus
  si_control_state :: ControlState
  si_control_version :: nat
  si_direction :: Direction
  si_current_step :: "StepName option"
  si_compensation_plan_version :: "string option"
  si_version :: nat
  si_deadline_at_ms :: "i64 option"
  si_failure_code :: "string option"
  si_traceparent :: "string option"

record SagaStepRow =
  sr_step :: StepName
  sr_ordinal :: u32
  sr_forward_status :: StepForwardStatus
  sr_cancel_status :: StepCancelStatus
  sr_compensation_status :: StepCompensationStatus
  sr_resolution_status :: StepResolutionStatus
  sr_execute_effect_id :: "string option"
  sr_execute_command_id :: "string option"
  sr_execute_attempt :: "u32 option"
  sr_cancel_effect_id :: "string option"
  sr_cancel_command_id :: "string option"
  sr_cancel_attempt :: "u32 option"
  sr_compensate_effect_id :: "string option"
  sr_compensate_command_id :: "string option"
  sr_compensate_attempt :: "u32 option"
  sr_resolve_effect_id :: "string option"
  sr_resolve_command_id :: "string option"
  sr_resolve_attempt :: "u32 option"
  sr_compensation_plan_version :: "string option"
  sr_compensation_order :: "u32 option"
  sr_last_error_code :: "string option"

record SagaStepAttemptRow =
  sa_step :: StepName
  sa_phase :: StepPhase
  sa_attempt :: AttemptNo
  sa_effect_id :: string
  sa_command_id :: string
  sa_status :: StepAttemptStatus
  sa_outcome_event_id :: "string option"

datatype AttemptStart = StartRecorded | StartAlreadyRecorded

datatype AttemptOutcomeRecord =
  OutcomeRecorded | OutcomeAlreadyRecorded | OutcomeConflicting StepAttemptStatus

record StepJournalPatch =
  pt_forward_status :: "StepForwardStatus option"
  pt_cancel_status :: "StepCancelStatus option"
  pt_compensation_status :: "StepCompensationStatus option"
  pt_resolution_status :: "StepResolutionStatus option"
  pt_last_error_code :: "string option"
  pt_mark_finished :: bool

text \<open>\<open>StepJournalPatch::default()\<close>, the value behind \<open>..Default::default()\<close>.\<close>

definition patch_default :: StepJournalPatch where
  "patch_default = \<lparr>pt_forward_status = None, pt_cancel_status = None, pt_compensation_status = None,
     pt_resolution_status = None, pt_last_error_code = None, pt_mark_finished = False\<rparr>"

section \<open>Timers\<close>

datatype TimerScope = ScopeInstance | ScopeStep StepName

fun scope_kind_str :: "TimerScope \<Rightarrow> string" where
  "scope_kind_str ScopeInstance = ''INSTANCE''"
| "scope_kind_str (ScopeStep s) = ''STEP''"

fun scope_key_str :: "TimerScope \<Rightarrow> string" where
  "scope_key_str ScopeInstance = ''instance''"
| "scope_key_str (ScopeStep s) = step_name_str s"

record TimerSpec =
  ts_timer_id :: string
  ts_saga_id :: SagaId
  ts_scope :: TimerScope
  ts_kind :: string
  ts_due_at_ms :: i64
  ts_attempt :: AttemptNo
  ts_expected_saga_version :: nat

datatype TimerSchedule = Scheduled | AlreadyScheduled
datatype TimerReschedule = Rescheduled | RescheduleNotFound
datatype TimerFencing = FencingApplied | FencingLost

record SagaTimerRow =
  tm_timer_id :: string
  tm_saga_id :: SagaId
  tm_scope_kind :: string
  tm_scope_key :: string
  tm_kind :: string
  tm_due_at_ms :: i64
  tm_available_at_ms :: i64
  tm_state :: TimerState
  tm_attempt :: AttemptNo
  tm_expected_saga_version :: nat
  tm_generation :: nat
  tm_owner :: "string option"
  tm_claimed_until_ms :: "i64 option"

definition KIND_STEP_TIMEOUT :: string where "KIND_STEP_TIMEOUT = ''step-timeout''"
definition KIND_INSTANCE_DEADLINE :: string where "KIND_INSTANCE_DEADLINE = ''instance-deadline''"
definition KIND_RESOLUTION_BUDGET :: string where "KIND_RESOLUTION_BUDGET = ''resolution-budget''"
definition KIND_FORWARD_RESOLUTION_BUDGET :: string where
  "KIND_FORWARD_RESOLUTION_BUDGET = ''forward-resolution-budget''"
definition KIND_COMPENSATION_RESOLUTION_BUDGET :: string where
  "KIND_COMPENSATION_RESOLUTION_BUDGET = ''compensation-resolution-budget''"
definition KIND_CANCEL_TIMEOUT :: string where "KIND_CANCEL_TIMEOUT = ''cancel-timeout''"
definition KIND_COMPENSATE_TIMEOUT :: string where "KIND_COMPENSATE_TIMEOUT = ''compensate-timeout''"
definition KIND_RESOLVE_TIMEOUT :: string where "KIND_RESOLVE_TIMEOUT = ''resolve-timeout''"

lemmas kind_defs = KIND_STEP_TIMEOUT_def KIND_INSTANCE_DEADLINE_def KIND_RESOLUTION_BUDGET_def
  KIND_FORWARD_RESOLUTION_BUDGET_def KIND_COMPENSATION_RESOLUTION_BUDGET_def
  KIND_CANCEL_TIMEOUT_def KIND_COMPENSATE_TIMEOUT_def KIND_RESOLVE_TIMEOUT_def

definition TIMER_ID_NAMESPACE :: bytes where
  "TIMER_ID_NAMESPACE = str_bytes ''nasasaga-v1-tmid''"

definition timer_preimage :: "SagaId \<Rightarrow> TimerScope \<Rightarrow> string \<Rightarrow> AttemptNo \<Rightarrow> bytes" where
  "timer_preimage saga scope kind attempt =
     canonical_bytes [str_bytes (saga_id_str saga), str_bytes (scope_kind_str scope),
       str_bytes (scope_key_str scope), str_bytes kind, u32_be (attempt_no_get attempt)]"

definition derive_timer_id :: "Ext \<Rightarrow> SagaId \<Rightarrow> TimerScope \<Rightarrow> string \<Rightarrow> AttemptNo \<Rightarrow> string" where
  "derive_timer_id x saga scope kind attempt =
     x_uuid_text x (x_uuid5 x TIMER_ID_NAMESPACE (timer_preimage saga scope kind attempt))"

fun phase_timeout_kind :: "StepPhase \<Rightarrow> string" where
  "phase_timeout_kind Execute = KIND_STEP_TIMEOUT"
| "phase_timeout_kind Cancel = KIND_CANCEL_TIMEOUT"
| "phase_timeout_kind Compensate = KIND_COMPENSATE_TIMEOUT"
| "phase_timeout_kind Resolve = KIND_RESOLVE_TIMEOUT"

fun resolution_budget_kind :: "Direction \<Rightarrow> string" where
  "resolution_budget_kind Forward = KIND_FORWARD_RESOLUTION_BUDGET"
| "resolution_budget_kind Backward = KIND_COMPENSATION_RESOLUTION_BUDGET"

definition parse_step_scope :: "string \<Rightarrow> string \<Rightarrow> StepName option orch" where
  "parse_step_scope scope_kind scope_key =
     (if scope_kind = ''INSTANCE'' then Inr None
      else if scope_kind = ''STEP''
        then bindR (map_err E_Violation (StepName_new scope_key)) (\<lambda>s. Inr (Some s))
      else Inl (E_Other ''unknown timer scope kind''))"

text \<open>Durations and deadlines in milliseconds.\<close>

definition duration_millis :: "Duration \<Rightarrow> i64 orch" where
  "duration_millis d =
     (if i64_max < int (as_millis d)
        then Inl (E_Other ''saga duration exceeds the supported millisecond range'')
      else if int (as_millis d) \<le> 0
        then Inl (E_Other ''saga duration must be at least one millisecond'')
      else Inr (int (as_millis d)))"

definition checked_deadline :: "i64 \<Rightarrow> i64 \<Rightarrow> i64 orch" where
  "checked_deadline now_ms delay_ms =
     (if delay_ms \<le> 0 then Inl (E_Other ''saga timer delay must be positive'')
      else ok_or (checked_add_i64 now_ms delay_ms) (E_Other ''saga timer deadline overflow''))"

section \<open>Management context\<close>

datatype SagaManagementPermission =
  PermPause | PermResume | PermRetryCompensation | PermRetryResolution | PermReadAudit
  | PermListInstances | PermManualClose

record SagaManagementContext =
  mc_actor :: string
  mc_reason :: string
  mc_permissions :: "SagaManagementPermission set"

record SagaManagementExpectation =
  mx_state_version :: "nat option"
  mx_control_version :: "nat option"

definition expectation_default :: SagaManagementExpectation where
  "expectation_default = \<lparr>mx_state_version = None, mx_control_version = None\<rparr>"

definition expectation_verify :: "SagaManagementExpectation \<Rightarrow> nat \<Rightarrow> nat \<Rightarrow> unit orch" where
  "expectation_verify ex state_version control_version =
     (if (case mx_state_version ex of None \<Rightarrow> False | Some v \<Rightarrow> v \<noteq> state_version) \<or>
         (case mx_control_version ex of None \<Rightarrow> False | Some v \<Rightarrow> v \<noteq> control_version)
      then Inl (E_Concurrency StaleSnapshot) else Inr ())"

definition valid_audit_text :: "string \<Rightarrow> nat \<Rightarrow> bool" where
  "valid_audit_text value max_len = bounded_text max_len value"

definition management_new ::
  "string \<Rightarrow> string \<Rightarrow> SagaManagementPermission list \<Rightarrow> SagaManagementContext orch" where
  "management_new actor reason permissions =
     (if \<not> valid_audit_text actor 128 \<or> \<not> valid_audit_text reason 512
      then Inl (E_Management InvalidContext)
      else Inr \<lparr>mc_actor = actor, mc_reason = reason, mc_permissions = set permissions\<rparr>)"

definition management_require ::
  "SagaManagementContext \<Rightarrow> SagaManagementPermission \<Rightarrow> unit orch" where
  "management_require m required =
     (if required \<in> mc_permissions m then Inr () else Inl (E_Management PermissionDenied))"

end
