(* ===== verification/Saga_Journal.thy ===== *)
theory Saga_Journal
  imports Saga_Rows
begin

text \<open>
  The pure decisions of the orchestrator on the committed rows (the free functions at the end of
  \<open>nasaga-runtime-core/src/orchestrator.rs\<close>): which step is next, whether a late result may still
  be projected, and what the conflicting fact is when it may not.
\<close>

section \<open>Decisions on the journal\<close>

record ResultContext =
  rc_instance :: SagaInstanceRow
  rc_definition :: WorkflowDefinition
  rc_step_def :: StepDefinition
  rc_identity :: VerifiedIdentity
  rc_status :: StepAttemptStatus
  rc_terminal :: "StepForwardStatus option"
  rc_reason_code :: "string option"
  rc_event_id :: string
  rc_now_ms :: i64

definition verify_instance_contract :: "SagaInstanceRow \<Rightarrow> VerifiedIdentity \<Rightarrow> unit orch" where
  "verify_instance_contract instance identity =
     (if si_tenant instance \<noteq> vi_tenant identity
        then Inl (E_Other ''envelope tenant does not match the instance tenant'')
      else if si_workflow instance \<noteq> vi_workflow identity \<or>
              si_definition_version instance \<noteq> vi_definition_version identity
        then Inl (E_Other ''envelope workflow/version does not match the instance'')
      else if si_definition_digest instance \<noteq> vi_definition_digest identity
        then Inl (E_Other ''envelope definition digest does not match the instance'')
      else Inr ())"

fun forward_fact :: "StepForwardStatus \<Rightarrow> StepAttemptStatus option" where
  "forward_fact FwdSucceeded = Some AttSucceeded"
| "forward_fact FwdRejected = Some AttRejected"
| "forward_fact FwdCancelled = Some AttCancelConfirmed"
| "forward_fact FwdHalted = Some AttHalted"
| "forward_fact _ = None"

fun cancel_fact :: "StepCancelStatus \<Rightarrow> StepAttemptStatus option" where
  "cancel_fact CanConfirmed = Some AttCancelConfirmed"
| "cancel_fact CanAlreadyTerminal = Some AttAlreadyTerminal"
| "cancel_fact _ = None"

fun compensation_fact :: "StepCompensationStatus \<Rightarrow> StepAttemptStatus option" where
  "compensation_fact CmpSucceeded = Some AttSucceeded"
| "compensation_fact CmpHalted = Some AttHalted"
| "compensation_fact _ = None"

fun resolution_fact :: "StepResolutionStatus \<Rightarrow> StepAttemptStatus option" where
  "resolution_fact ResSucceeded = Some AttSucceeded"
| "resolution_fact ResRejected = Some AttRejected"
| "resolution_fact ResHalted = Some AttHalted"
| "resolution_fact _ = None"

text \<open>\<open>Option::or_else\<close>.\<close>

definition or_else :: "'a option \<Rightarrow> 'a option \<Rightarrow> 'a option" where
  "or_else m n = (case m of None \<Rightarrow> n | Some a \<Rightarrow> Some a)"

definition conflicting_projection_status ::
  "SagaStepRow \<Rightarrow> ResultContext \<Rightarrow> StepAttemptStatus option" where
  "conflicting_projection_status row context =
     (let forward = forward_fact (sr_forward_status row);
          cancellation = cancel_fact (sr_cancel_status row);
          compensation = compensation_fact (sr_compensation_status row);
          resolution = resolution_fact (sr_resolution_status row)
      in case vi_phase (rc_identity context) of
           Execute \<Rightarrow> or_else forward cancellation
         | Cancel \<Rightarrow> or_else cancellation forward
         | Compensate \<Rightarrow> or_else compensation resolution
         | Resolve \<Rightarrow> or_else resolution
             (if si_direction (rc_instance context) = Backward then compensation else forward))"

text \<open>One field of \<open>merge_deferred_projection\<close>: \<open>Inl ()\<close> is the source's \<open>Err(())\<close>, \<open>Inr None\<close> a field
  left alone.\<close>

definition merge_field :: "('a \<Rightarrow> bool) \<Rightarrow> ('a \<Rightarrow> bool) \<Rightarrow> 'a \<Rightarrow> 'a option \<Rightarrow> unit + 'a option" where
  "merge_field weak_row weak_next current patch =
     (case patch of
        None \<Rightarrow> Inr None
      | Some next \<Rightarrow>
          if current = next then Inr None
          else if weak_row current then Inr (Some next)
          else if weak_next next then Inr None
          else Inl ())"

definition merge_deferred_projection ::
  "SagaStepRow \<Rightarrow> StepJournalPatch \<Rightarrow> unit + StepJournalPatch" where
  "merge_deferred_projection row patch =
     bindR (merge_field (\<lambda>s. s \<in> {FwdPending, FwdUnknown, FwdTimedOut})
        (\<lambda>s. s \<in> {FwdUnknown, FwdTimedOut}) (sr_forward_status row) (pt_forward_status patch)) (\<lambda>f.
     bindR (merge_field (\<lambda>s. s \<in> {CanNone, CanResolutionPending})
        (\<lambda>s. s = CanResolutionPending) (sr_cancel_status row) (pt_cancel_status patch)) (\<lambda>c.
     bindR (merge_field (\<lambda>s. s \<in> {CmpNone, CmpPending, CmpUnknown})
        (\<lambda>s. s \<in> {CmpUnknown, CmpPending}) (sr_compensation_status row)
        (pt_compensation_status patch)) (\<lambda>m.
     bindR (merge_field (\<lambda>s. s \<in> {ResNone, ResPending})
        (\<lambda>s. s = ResPending) (sr_resolution_status row) (pt_resolution_status patch)) (\<lambda>r.
     Inr (patch\<lparr>pt_forward_status := f, pt_cancel_status := c, pt_compensation_status := m,
       pt_resolution_status := r\<rparr>)))))"

datatype CasOutcome = CasApplied nat | CasConflict | CasDuplicateTrigger

fun ensure_applied :: "CasOutcome \<Rightarrow> nat orch" where
  "ensure_applied (CasApplied new_version) = Inr new_version"
| "ensure_applied CasConflict = Inl (E_Concurrency StaleSnapshot)"
| "ensure_applied CasDuplicateTrigger = Inl (E_Concurrency DuplicateTrigger)"

definition journal_of :: "SagaStepRow list \<Rightarrow> StepJournalEntry list" where
  "journal_of steps =
     map (\<lambda>row. \<lparr>sj_step = sr_step row, sj_forward_status = sr_forward_status row\<rparr>) steps"

text \<open>The loop of \<open>next_pending_forward\<close>, over the definition and the rows in step.\<close>

fun forward_scan ::
  "nat \<Rightarrow> StepName option \<Rightarrow> StepDefinition list \<Rightarrow> SagaStepRow list \<Rightarrow> StepName option orch" where
  "forward_scan index next (step_def # defs) (row # rows) =
     (if sr_step row \<noteq> sd_name step_def \<or> sr_ordinal row \<noteq> of_nat index + 1
        then Inl (E_Other ''step journal order does not match the workflow definition'')
      else if next = None \<and> sr_forward_status row = FwdSucceeded
        then forward_scan (index + 1) next defs rows
      else if next = None \<and> sr_forward_status row = FwdPending
        then forward_scan (index + 1) (Some (sr_step row)) defs rows
      else if next \<noteq> None \<and> sr_forward_status row = FwdPending
        then forward_scan (index + 1) next defs rows
      else Inl (E_Other ''forward journal is not a succeeded-prefix/pending-suffix''))"
| "forward_scan index next _ _ = Inr next"

definition next_pending_forward ::
  "WorkflowDefinition \<Rightarrow> SagaStepRow list \<Rightarrow> StepName option orch" where
  "next_pending_forward d steps =
     (if length steps \<noteq> length (wd_steps d)
        then Inl (E_Other ''step journal does not completely cover the workflow definition'')
      else forward_scan 0 None (wd_steps d) steps)"

text \<open>The loop of \<open>next_pending_compensation\<close> over the rebuilt plan.\<close>

fun compensation_scan ::
  "SagaStepRow list \<Rightarrow> string \<Rightarrow> bool \<Rightarrow> StepName option \<Rightarrow> CompensationEntry list \<Rightarrow>
    StepName option orch" where
  "compensation_scan steps frozen allow_halted next [] = Inr next"
| "compensation_scan steps frozen allow_halted next (entry # entries) =
     (case find (\<lambda>row. sr_step row = ce_step entry) steps of
        None \<Rightarrow> Inl (E_Other ''frozen compensation member is missing'')
      | Some row \<Rightarrow>
          if sr_compensation_plan_version row \<noteq> Some frozen \<or>
             sr_compensation_order row \<noteq> Some (ce_order entry)
            then Inl (E_Other ''durable compensation member metadata drifted'')
          else if next = None \<and> sr_compensation_status row = CmpSucceeded
            then compensation_scan steps frozen allow_halted next entries
          else if next = None \<and> (sr_compensation_status row = CmpPending \<or>
                  sr_compensation_status row = CmpHalted \<and> allow_halted)
            then compensation_scan steps frozen allow_halted (Some (sr_step row)) entries
          else if next \<noteq> None \<and> sr_compensation_status row = CmpPending
            then compensation_scan steps frozen allow_halted next entries
          else Inl (E_Other ''compensation journal is not a succeeded-prefix/pending-suffix''))"

definition marked_count :: "SagaStepRow list \<Rightarrow> string \<Rightarrow> nat" where
  "marked_count steps frozen =
     length (filter (\<lambda>row. sr_compensation_plan_version row = Some frozen) steps)"

definition next_pending_compensation ::
  "(bytes \<Rightarrow> bytes) \<Rightarrow> SagaInstanceRow \<Rightarrow> WorkflowDefinition \<Rightarrow> SagaStepRow list \<Rightarrow> bool \<Rightarrow>
    StepName option orch" where
  "next_pending_compensation sha256 instance d steps allow_halted_recovery =
     bindR (ok_or (si_compensation_plan_version instance)
       (E_Other ''compensating instance has no frozen plan'')) (\<lambda>frozen.
     bindR (map_err E_Violation (freeze_compensation_plan sha256 d (journal_of steps))) (\<lambda>rebuilt.
       if plan_version rebuilt \<noteq> frozen
         then Inl (E_Other ''frozen compensation plan digest drifted'')
       else bindR (compensation_scan steps frozen allow_halted_recovery None (plan_entries rebuilt))
         (\<lambda>next.
            if marked_count steps frozen \<noteq> length (plan_entries rebuilt)
              then Inl (E_Other ''durable compensation plan contains unexpected members'')
            else Inr next)))"

text \<open>The patch that \<open>project_deferred_result\<close> builds from a late result, with the timeout it ends.\<close>

fun deferred_forward :: "StepAttemptStatus \<Rightarrow> StepForwardStatus orch" where
  "deferred_forward AttSucceeded = Inr FwdSucceeded"
| "deferred_forward AttRejected = Inr FwdRejected"
| "deferred_forward AttUnknown = Inr FwdUnknown"
| "deferred_forward AttHalted = Inr FwdHalted"
| "deferred_forward _ = Inl (E_Other ''invalid deferred execute status'')"

fun deferred_compensation :: "StepAttemptStatus \<Rightarrow> StepCompensationStatus orch" where
  "deferred_compensation AttSucceeded = Inr CmpSucceeded"
| "deferred_compensation AttUnknown = Inr CmpUnknown"
| "deferred_compensation AttHalted = Inr CmpHalted"
| "deferred_compensation _ = Inl (E_Other ''invalid deferred compensation status'')"

fun deferred_resolution :: "StepAttemptStatus \<Rightarrow> StepResolutionStatus orch" where
  "deferred_resolution AttSucceeded = Inr ResSucceeded"
| "deferred_resolution AttRejected = Inr ResRejected"
| "deferred_resolution AttUnknown = Inr ResPending"
| "deferred_resolution AttHalted = Inr ResHalted"
| "deferred_resolution _ = Inl (E_Other ''invalid deferred resolution status'')"

fun resolved_forward :: "StepAttemptStatus \<Rightarrow> StepForwardStatus option" where
  "resolved_forward AttSucceeded = Some FwdSucceeded"
| "resolved_forward AttRejected = Some FwdRejected"
| "resolved_forward AttHalted = Some FwdHalted"
| "resolved_forward AttUnknown = Some FwdUnknown"
| "resolved_forward _ = None"

fun resolved_compensation :: "StepAttemptStatus \<Rightarrow> StepCompensationStatus option" where
  "resolved_compensation AttSucceeded = Some CmpSucceeded"
| "resolved_compensation AttRejected = Some CmpPending"
| "resolved_compensation AttHalted = Some CmpHalted"
| "resolved_compensation AttUnknown = Some CmpUnknown"
| "resolved_compensation _ = None"

definition deferred_patch :: "ResultContext \<Rightarrow> (StepJournalPatch \<times> string) orch" where
  "deferred_patch context =
     (let patch = patch_default\<lparr>pt_last_error_code := rc_reason_code context\<rparr>
      in case vi_phase (rc_identity context) of
           Execute \<Rightarrow>
             bindR (deferred_forward (rc_status context)) (\<lambda>f.
               Inr (patch\<lparr>pt_forward_status := Some f,
                      pt_mark_finished := (rc_status context \<noteq> AttUnknown)\<rparr>, KIND_STEP_TIMEOUT))
         | Cancel \<Rightarrow>
             (case rc_status context of
                AttCancelConfirmed \<Rightarrow>
                  Inr (patch\<lparr>pt_forward_status := Some FwdCancelled,
                    pt_cancel_status := Some CanConfirmed, pt_mark_finished := True\<rparr>,
                    KIND_CANCEL_TIMEOUT)
              | AttAlreadyTerminal \<Rightarrow>
                  Inr (patch\<lparr>pt_forward_status := rc_terminal context,
                    pt_cancel_status := Some CanAlreadyTerminal, pt_mark_finished := True\<rparr>,
                    KIND_CANCEL_TIMEOUT)
              | AttResolutionPending \<Rightarrow>
                  Inr (patch\<lparr>pt_cancel_status := Some CanResolutionPending\<rparr>, KIND_CANCEL_TIMEOUT)
              | _ \<Rightarrow> Inl (E_Other ''invalid deferred cancel status''))
         | Compensate \<Rightarrow>
             bindR (deferred_compensation (rc_status context)) (\<lambda>c.
               Inr (patch\<lparr>pt_compensation_status := Some c\<rparr>, KIND_COMPENSATE_TIMEOUT))
         | Resolve \<Rightarrow>
             bindR (deferred_resolution (rc_status context)) (\<lambda>r.
               Inr (if si_direction (rc_instance context) = Forward
                    then patch\<lparr>pt_resolution_status := Some r,
                           pt_forward_status := resolved_forward (rc_status context)\<rparr>
                    else patch\<lparr>pt_resolution_status := Some r,
                           pt_compensation_status := resolved_compensation (rc_status context)\<rparr>,
                    KIND_RESOLVE_TIMEOUT)))"

definition resolve_after_compensation_success ::
  "SagaStepRow \<Rightarrow> ResultContext \<Rightarrow> StepJournalPatch \<Rightarrow> bool" where
  "resolve_after_compensation_success row context patch =
     (vi_phase (rc_identity context) = Resolve \<and>
      si_direction (rc_instance context) = Backward \<and>
      rc_status context = AttRejected \<and>
      sr_compensation_status row = CmpSucceeded \<and>
      pt_compensation_status patch = Some CmpPending)"

text \<open>\<open>COALESCE(?, column)\<close> for every column a patch may set.\<close>

definition coalesce :: "'a option \<Rightarrow> 'a \<Rightarrow> 'a" where
  "coalesce p current = (case p of None \<Rightarrow> current | Some v \<Rightarrow> v)"

definition apply_patch :: "StepJournalPatch \<Rightarrow> SagaStepRow \<Rightarrow> SagaStepRow" where
  "apply_patch patch row =
     row\<lparr>sr_forward_status := coalesce (pt_forward_status patch) (sr_forward_status row),
       sr_cancel_status := coalesce (pt_cancel_status patch) (sr_cancel_status row),
       sr_compensation_status := coalesce (pt_compensation_status patch) (sr_compensation_status row),
       sr_resolution_status := coalesce (pt_resolution_status patch) (sr_resolution_status row),
       sr_last_error_code := or_else (pt_last_error_code patch) (sr_last_error_code row)\<rparr>"

section \<open>Late results\<close>

lemma not_Forward [simp]: "dir \<noteq> Forward \<longleftrightarrow> dir = Backward" and not_Backward [simp]: "dir \<noteq> Backward \<longleftrightarrow> dir = Forward"
  by (cases dir; simp)+

lemma coalesce_simps [simp]: "coalesce None v = v" "coalesce (Some w) v = w"
  by (simp_all add: coalesce_def)

lemma or_else_simps [simp]: "or_else None n = n" "or_else (Some a) n = Some a"
  by (simp_all add: or_else_def)

lemma or_else_None: "or_else m n = None \<longleftrightarrow> m = None \<and> n = None"
  by (cases m) simp_all

lemma merge_field_Inr:
  "merge_field weak_row weak_next cur p = Inr q \<Longrightarrow> q = None \<or> weak_row cur \<and> q = p"
  by (auto simp: merge_field_def split: option.splits if_splits)

lemma merge_field_Inl:
  "merge_field weak_row weak_next cur p = Inl u \<longleftrightarrow>
     (\<exists>next. p = Some next \<and> cur \<noteq> next \<and> \<not> weak_row cur \<and> \<not> weak_next next)"
  by (auto simp: merge_field_def split: option.splits)

lemma weak_forward: "forward_fact s = None \<longleftrightarrow> s \<in> {FwdPending, FwdUnknown, FwdTimedOut}"
  by (cases s) simp_all

lemma weak_cancel: "cancel_fact s = None \<longleftrightarrow> s \<in> {CanNone, CanResolutionPending}"
  by (cases s) simp_all

lemma weak_compensation: "compensation_fact s = None \<longleftrightarrow> s \<in> {CmpNone, CmpPending, CmpUnknown}"
  by (cases s) simp_all

lemma weak_resolution: "resolution_fact s = None \<longleftrightarrow> s \<in> {ResNone, ResPending}"
  by (cases s) simp_all

text \<open>A row keeps the settled facts of another when the two agree wherever the other is settled.\<close>

definition keeps_facts :: "SagaStepRow \<Rightarrow> SagaStepRow \<Rightarrow> bool" where
  "keeps_facts row row' \<longleftrightarrow>
     (forward_fact (sr_forward_status row) = None \<or> sr_forward_status row' = sr_forward_status row) \<and>
     (cancel_fact (sr_cancel_status row) = None \<or> sr_cancel_status row' = sr_cancel_status row) \<and>
     (compensation_fact (sr_compensation_status row) = None \<or>
        sr_compensation_status row' = sr_compensation_status row) \<and>
     (resolution_fact (sr_resolution_status row) = None \<or>
        sr_resolution_status row' = sr_resolution_status row)"

lemma merge_keeps_facts:
  assumes "merge_deferred_projection row patch = Inr q"
  shows "keeps_facts row (apply_patch q row)"
proof -
  from assms obtain f c m r where q: "q = patch\<lparr>pt_forward_status := f, pt_cancel_status := c,
       pt_compensation_status := m, pt_resolution_status := r\<rparr>"
    and f: "f = None \<or> forward_fact (sr_forward_status row) = None"
    and c: "c = None \<or> cancel_fact (sr_cancel_status row) = None"
    and m: "m = None \<or> compensation_fact (sr_compensation_status row) = None"
    and r: "r = None \<or> resolution_fact (sr_resolution_status row) = None"
    unfolding merge_deferred_projection_def bindR_Inr_iff
      weak_forward weak_cancel weak_compensation weak_resolution
    by (auto dest!: merge_field_Inr)
  then show ?thesis by (auto simp: keeps_facts_def apply_patch_def)
qed

lemma merge_conflict_fact:
  assumes "merge_deferred_projection row patch = Inl u"
  shows "(pt_forward_status patch \<noteq> None \<and> forward_fact (sr_forward_status row) \<noteq> None) \<or>
    (pt_cancel_status patch \<noteq> None \<and> cancel_fact (sr_cancel_status row) \<noteq> None) \<or>
    (pt_compensation_status patch \<noteq> None \<and> compensation_fact (sr_compensation_status row) \<noteq> None) \<or>
    (pt_resolution_status patch \<noteq> None \<and> resolution_fact (sr_resolution_status row) \<noteq> None)"
  using assms unfolding merge_deferred_projection_def bindR_Inl_iff merge_field_Inl
    weak_forward weak_cancel weak_compensation weak_resolution
  by auto

lemma deferred_patch_total:
  assumes "phase_allows_status (vi_phase (rc_identity context)) (rc_status context)"
  shows "\<exists>patch kind. deferred_patch context = Inr (patch, kind)"
  using assms
  by (cases "vi_phase (rc_identity context)"; cases "rc_status context")
    (simp_all add: deferred_patch_def Let_def)

text \<open>The columns a late result of each phase may touch.\<close>

definition patch_within :: "ResultContext \<Rightarrow> StepJournalPatch \<Rightarrow> bool" where
  "patch_within context patch =
     (case vi_phase (rc_identity context) of
        Execute \<Rightarrow> pt_cancel_status patch = None \<and> pt_compensation_status patch = None \<and>
          pt_resolution_status patch = None
      | Cancel \<Rightarrow> pt_compensation_status patch = None \<and> pt_resolution_status patch = None
      | Compensate \<Rightarrow> pt_forward_status patch = None \<and> pt_cancel_status patch = None \<and>
          pt_resolution_status patch = None
      | Resolve \<Rightarrow> pt_cancel_status patch = None \<and>
          (if si_direction (rc_instance context) = Backward then pt_forward_status patch = None
           else pt_compensation_status patch = None))"

lemma deferred_patch_within:
  assumes "deferred_patch context = Inr (patch, kind)"
  shows "patch_within context patch"
proof (cases "vi_phase (rc_identity context)")
  case Cancel
  with assms show ?thesis
    by (cases "rc_status context") (auto simp: patch_within_def deferred_patch_def patch_default_def Let_def)
qed (use assms in \<open>auto simp: patch_within_def deferred_patch_def patch_default_def Let_def split: if_splits\<close>)

lemma conflict_has_fact:
  assumes "patch_within context patch" and "merge_deferred_projection row patch = Inl u"
  shows "conflicting_projection_status row context \<noteq> None"
  using merge_conflict_fact [OF assms(2)] assms(1)
  by (cases "vi_phase (rc_identity context)"; cases "si_direction (rc_instance context)")
    (auto simp: patch_within_def conflicting_projection_status_def or_else_None Let_def
      simp del: not_None_eq)

lemma deferred_conflict_has_fact:
  assumes "patch_within context patch"
    and "resolve_after_compensation_success row context patch \<or>
      merge_deferred_projection row patch = Inl u"
  shows "conflicting_projection_status row context \<noteq> None"
proof (cases "resolve_after_compensation_success row context patch")
  case True
  then show ?thesis
    by (simp add: resolve_after_compensation_success_def conflicting_projection_status_def or_else_None
        Let_def)
next
  case False
  with assms conflict_has_fact show ?thesis by blast
qed


section \<open>The next forward step\<close>

text \<open>The journal agrees with the definition and its first \<open>k\<close> steps have succeeded, the rest being
  untouched.\<close>

definition forward_cut :: "WorkflowDefinition \<Rightarrow> SagaStepRow list \<Rightarrow> nat \<Rightarrow> bool" where
  "forward_cut d steps k \<longleftrightarrow>
     length steps = length (wd_steps d) \<and> k \<le> length steps \<and>
     (\<forall>j < length steps. sr_step (steps ! j) = sd_name (wd_steps d ! j) \<and>
        sr_ordinal (steps ! j) = of_nat j + 1 \<and>
        sr_forward_status (steps ! j) = (if j < k then FwdSucceeded else FwdPending))"

fun rows_fit :: "nat \<Rightarrow> nat \<Rightarrow> StepDefinition list \<Rightarrow> SagaStepRow list \<Rightarrow> bool" where
  "rows_fit i k [] [] = True"
| "rows_fit i k (d # defs) (row # rows) =
     (sr_step row = sd_name d \<and> sr_ordinal row = of_nat i + 1 \<and>
      sr_forward_status row = (if 0 < k then FwdSucceeded else FwdPending) \<and>
      rows_fit (i + 1) (k - 1) defs rows)"
| "rows_fit i k _ _ = False"

lemma rows_fit_nth:
  "rows_fit i k defs rows \<longleftrightarrow> length rows = length defs \<and>
     (\<forall>j < length rows. sr_step (rows ! j) = sd_name (defs ! j) \<and>
        sr_ordinal (rows ! j) = of_nat (i + j) + 1 \<and>
        sr_forward_status (rows ! j) = (if j < k then FwdSucceeded else FwdPending))"
proof (induction i k defs rows rule: rows_fit.induct)
  case (2 i k d defs row rows)
  have "j < k - 1 \<longleftrightarrow> Suc j < k" for j by auto
  with 2 show ?case by (auto simp: All_less_Suc2)
qed auto

lemma ex_le_Suc: "(\<exists>k \<le> Suc n. P k) \<longleftrightarrow> P 0 \<or> (\<exists>k \<le> n. P (Suc k))"
  by (metis Suc_le_mono not0_implies_Suc zero_le)

lemma forward_scan_Some:
  assumes "length rows = length defs"
  shows "forward_scan i (Some n) defs rows = Inr r \<longleftrightarrow> r = Some n \<and> rows_fit i 0 defs rows"
  using assms
proof (induction defs arbitrary: i rows)
  case (Cons d defs)
  then obtain row rows' where "rows = row # rows'" by (cases rows) auto
  with Cons show ?case by auto
qed auto

lemma forward_scan_None:
  assumes "length rows = length defs"
  shows "forward_scan i None defs rows = Inr r \<longleftrightarrow>
    (\<exists>k \<le> length rows. rows_fit i k defs rows \<and>
      r = (if k < length rows then Some (sd_name (defs ! k)) else None))"
  using assms
proof (induction defs arbitrary: i rows)
  case (Cons d defs)
  then obtain row rows' where rows: "rows = row # rows'" and len: "length rows' = length defs"
    by (cases rows) auto
  show ?case
    using Cons.IH [OF len, of "Suc i"] forward_scan_Some [OF len, of "Suc i"]
    by (auto simp: rows ex_le_Suc)
qed auto

lemma forward_cut_fit:
  "forward_cut d steps k \<longleftrightarrow> k \<le> length steps \<and> rows_fit 0 k (wd_steps d) steps"
  by (auto simp: forward_cut_def rows_fit_nth)

lemma next_pending_forward_iff:
  "next_pending_forward d steps = Inr r \<longleftrightarrow>
     (\<exists>k. forward_cut d steps k \<and>
        r = (if k < length steps then Some (sd_name (wd_steps d ! k)) else None))"
  by (auto simp: next_pending_forward_def forward_cut_fit forward_scan_None rows_fit_nth)

section \<open>The next compensation\<close>

text \<open>The compensation status of a plan member, if its row carries the frozen plan's marks.\<close>

definition member_status ::
  "SagaStepRow list \<Rightarrow> string \<Rightarrow> CompensationEntry \<Rightarrow> StepCompensationStatus option" where
  "member_status steps frozen entry =
     (case find (\<lambda>row. sr_step row = ce_step entry) steps of
        None \<Rightarrow> None
      | Some row \<Rightarrow> if sr_compensation_plan_version row = Some frozen \<and>
            sr_compensation_order row = Some (ce_order entry)
          then Some (sr_compensation_status row) else None)"

definition members_all ::
  "SagaStepRow list \<Rightarrow> string \<Rightarrow> StepCompensationStatus \<Rightarrow> CompensationEntry list \<Rightarrow> bool" where
  "members_all steps frozen status entries =
     list_all (\<lambda>e. member_status steps frozen e = Some status) entries"

lemma members_all_simps [simp]:
  "members_all steps frozen status []"
  "members_all steps frozen status (e # es) \<longleftrightarrow>
     member_status steps frozen e = Some status \<and> members_all steps frozen status es"
  by (simp_all add: members_all_def)

lemma compensation_scan_Some:
  "compensation_scan steps frozen allow (Some n) entries = Inr r \<longleftrightarrow>
     r = Some n \<and> members_all steps frozen CmpPending entries"
  by (induction entries) (auto simp: member_status_def split: option.splits)

lemma compensation_scan_None:
  "compensation_scan steps frozen allow None entries = Inr r \<longleftrightarrow>
     members_all steps frozen CmpSucceeded entries \<and> r = None \<or>
     (\<exists>pre e post. entries = pre @ e # post \<and> members_all steps frozen CmpSucceeded pre \<and>
        (member_status steps frozen e = Some CmpPending \<or>
         member_status steps frozen e = Some CmpHalted \<and> allow) \<and>
        members_all steps frozen CmpPending post \<and> r = Some (ce_step e))"
proof (induction entries)
  case (Cons e entries)
  have split: "(\<exists>pre e' post. e # entries = pre @ e' # post \<and> Q pre e' post) \<longleftrightarrow>
      Q [] e entries \<or> (\<exists>pre e' post. entries = pre @ e' # post \<and> Q (e # pre) e' post)" for Q
    by (auto simp: Cons_eq_append_conv)
  show ?case
  proof (cases "find (\<lambda>row. sr_step row = ce_step e) steps")
    case None
    then show ?thesis unfolding split by (simp add: member_status_def)
  next
    case (Some row)
    then have "sr_step row = ce_step e" by (simp add: find_Some_iff) blast
    with Some Cons show ?thesis
      unfolding split by (auto simp: member_status_def compensation_scan_Some)
  qed
qed auto

definition frozen_plan ::
  "(bytes \<Rightarrow> bytes) \<Rightarrow> SagaInstanceRow \<Rightarrow> WorkflowDefinition \<Rightarrow> SagaStepRow list \<Rightarrow> CompensationPlan \<Rightarrow> bool"
  where
  "frozen_plan sha256 instance d steps plan \<longleftrightarrow>
     freeze_compensation_plan sha256 d (journal_of steps) = Inr plan \<and>
     si_compensation_plan_version instance = Some (plan_version plan) \<and>
     marked_count steps (plan_version plan) = length (plan_entries plan)"

lemma next_pending_compensation_iff:
  "next_pending_compensation sha256 instance d steps allow = Inr r \<longleftrightarrow>
     (\<exists>plan. frozen_plan sha256 instance d steps plan \<and>
        compensation_scan steps (plan_version plan) allow None (plan_entries plan) = Inr r)"
  by (auto simp: next_pending_compensation_def frozen_plan_def bindR_Inr_iff)

text \<open>All committed forward effects of a journal have been undone.\<close>

definition all_undone :: "SagaStepRow list \<Rightarrow> bool" where
  "all_undone steps =
     list_all (\<lambda>row. sr_forward_status row = FwdSucceeded \<longrightarrow> sr_compensation_status row = CmpSucceeded)
       steps"

lemma plan_lists_succeeded:
  assumes "definition_rules d" and "freeze_compensation_plan sha256 d journal = Inr plan"
  shows "ce_step ` set (plan_entries plan)
    = sj_step ` {e \<in> set journal. sj_forward_status e = FwdSucceeded}"
proof -
  from assms(2) have fr: "journal_freezable d journal"
    and es: "plan_entries plan = plan_entries_from journal [] (rev (wd_steps d))"
    by (simp_all add: freeze_Inr_iff Let_def)
  have "n \<in> sd_name ` set (wd_steps d)" if "step_succeeded journal n" for n
    using that fr
    by (force simp: step_succeeded_iff journal_freezable_def list_all_iff entry_freezable_def
        dest: definition_step_member)
  moreover have "ce_step ` set (plan_entries plan) =
      {n \<in> sd_name ` set (wd_steps d). step_succeeded journal n}"
    using arg_cong [OF plan_names [OF assms(1) fr], of set] by (simp add: es)
  ultimately show ?thesis by (auto simp: step_succeeded_iff)
qed

lemma freeze_distinct_rows:
  assumes "freeze_compensation_plan sha256 d (journal_of steps) = Inr plan"
  shows "distinct (map sr_step steps)"
  using assms by (simp add: freeze_Inr_iff journal_freezable_def journal_of_def comp_def)

lemma members_succeeded_undone:
  assumes rules: "definition_rules d"
    and frz: "freeze_compensation_plan sha256 d (journal_of steps) = Inr plan"
    and members: "members_all steps frozen CmpSucceeded (plan_entries plan)"
  shows "all_undone steps"
  unfolding all_undone_def list_all_iff
proof (intro ballI impI)
  fix row
  assume row: "row \<in> set steps" "sr_forward_status row = FwdSucceeded"
  then have "sr_step row \<in> ce_step ` set (plan_entries plan)"
    unfolding plan_lists_succeeded [OF rules frz] by (force simp: journal_of_def)
  then obtain e where e: "e \<in> set (plan_entries plan)" "ce_step e = sr_step row" by auto
  then have "find (\<lambda>r. sr_step r = ce_step e) steps = Some row"
    using find_distinct_key [OF freeze_distinct_rows [OF frz] row(1)] by simp
  moreover from e members have "member_status steps frozen e = Some CmpSucceeded"
    by (simp add: members_all_def list_all_iff)
  ultimately show "sr_compensation_status row = CmpSucceeded"
    by (simp add: member_status_def split: if_splits)
qed

section \<open>Properties\<close>

text \<open>
  C21: The forward cursor is exact. \<open>next_pending_forward\<close> answers exactly when the journal mirrors
  the definition row by row and is a succeeded prefix followed by an untouched suffix, and then it
  names the first step of that suffix, or nothing when every step has succeeded. It never skips a
  step, never repeats one, and refuses every journal with a gap, a foreign or reordered row, or
  an undecided step.
\<close>

theorem next_forward_step_exact:
  "next_pending_forward d steps = Inr r \<longleftrightarrow>
     (\<exists>k. forward_cut d steps k \<and>
        r = (if k < length steps then Some (sd_name (wd_steps d ! k)) else None))"
  by (rule next_pending_forward_iff)

text \<open>
  C22: The compensation cursor works off the frozen plan in order and only runs dry when nothing is
  left to undo. It answers only for the plan whose digest the instance froze and whose members
  carry the plan's marks; the step it names is the first member not yet undone, every earlier
  member being undone and every later one untouched; and when it names none, every committed
  forward effect of the journal has been compensated.
\<close>

theorem next_compensation_sound:
  assumes "definition_rules d"
    and "next_pending_compensation sha256 instance d steps allow = Inr r"
  shows "\<exists>plan. frozen_plan sha256 instance d steps plan \<and>
    (case r of
       None \<Rightarrow> members_all steps (plan_version plan) CmpSucceeded (plan_entries plan) \<and> all_undone steps
     | Some step \<Rightarrow> \<exists>pre e post. plan_entries plan = pre @ e # post \<and> ce_step e = step \<and>
         members_all steps (plan_version plan) CmpSucceeded pre \<and>
         (member_status steps (plan_version plan) e = Some CmpPending \<or>
          member_status steps (plan_version plan) e = Some CmpHalted \<and> allow) \<and>
         members_all steps (plan_version plan) CmpPending post)"
proof -
  obtain plan where plan: "frozen_plan sha256 instance d steps plan"
    and scan: "compensation_scan steps (plan_version plan) allow None (plan_entries plan) = Inr r"
    using assms(2) by (auto simp: next_pending_compensation_iff)
  have frz: "freeze_compensation_plan sha256 d (journal_of steps) = Inr plan"
    using plan by (simp add: frozen_plan_def)
  show ?thesis
  proof (cases r)
    case None
    with scan have "members_all steps (plan_version plan) CmpSucceeded (plan_entries plan)"
      by (simp add: compensation_scan_None)
    with members_succeeded_undone [OF assms(1) frz] plan None show ?thesis by auto
  next
    case (Some step)
    with scan plan show ?thesis by (auto simp: compensation_scan_None)
  qed
qed

section \<open>Sample rows\<close>

definition sample_row :: "string \<Rightarrow> u32 \<Rightarrow> StepForwardStatus \<Rightarrow> SagaStepRow" where
  "sample_row name ordinal forward =
     \<lparr>sr_step = StepName name, sr_ordinal = ordinal, sr_forward_status = forward,
      sr_cancel_status = CanNone, sr_compensation_status = CmpNone, sr_resolution_status = ResNone,
      sr_execute_effect_id = None, sr_execute_command_id = None, sr_execute_attempt = None,
      sr_cancel_effect_id = None, sr_cancel_command_id = None, sr_cancel_attempt = None,
      sr_compensate_effect_id = None, sr_compensate_command_id = None, sr_compensate_attempt = None,
      sr_resolve_effect_id = None, sr_resolve_command_id = None, sr_resolve_attempt = None,
      sr_compensation_plan_version = None, sr_compensation_order = None, sr_last_error_code = None\<rparr>"

definition sample_instance :: "SagaStatus \<Rightarrow> Direction \<Rightarrow> string option \<Rightarrow> SagaInstanceRow" where
  "sample_instance status direction plan =
     \<lparr>si_saga_id = SagaId ''s-1'', si_tenant = TenantId ''t-1'', si_workflow = WorkflowName ''order'',
      si_business_key = BusinessKey ''b-1'', si_definition_version = DefinitionVersion 1,
      si_definition_digest = replicate 64 CHR ''a'', si_start_request_digest = None,
      si_status = status, si_control_state = Active, si_control_version = 1,
      si_direction = direction, si_current_step = None, si_compensation_plan_version = plan,
      si_version = 1, si_deadline_at_ms = None, si_failure_code = None, si_traceparent = None\<rparr>"

definition sample_context :: "StepAttemptStatus \<Rightarrow> ResultContext" where
  "sample_context status =
     \<lparr>rc_instance = sample_instance Compensating Backward None, rc_definition = sample_definition,
      rc_step_def = sample_step ''pay'' Compensable, rc_identity = sample_identity ''t-1'',
      rc_status = status, rc_terminal = None, rc_reason_code = None, rc_event_id = ''e-1'',
      rc_now_ms = 0\<rparr>"


definition sample_plan_version :: string where
  "sample_plan_version = hex_encode (plan_preimage (definition_digest (\<lambda>bs. bs) sample_definition)
     [\<lparr>ce_step = StepName ''reserve'', ce_order = 1\<rparr>])"

definition sample_rows :: "StepCompensationStatus \<Rightarrow> SagaStepRow list" where
  "sample_rows undone =
     [(sample_row ''reserve'' 1 FwdSucceeded)\<lparr>sr_compensation_status := undone,
        sr_compensation_plan_version := Some sample_plan_version, sr_compensation_order := Some 1\<rparr>,
      sample_row ''pay'' 2 FwdRejected, sample_row ''ship'' 3 FwdPending]"

lemma sample_rows_frozen:
  "frozen_plan (\<lambda>bs. bs) (sample_instance Compensating Backward (Some sample_plan_version))
     sample_definition (sample_rows undone)
     \<lparr>plan_version = sample_plan_version, plan_entries = [\<lparr>ce_step = StepName ''reserve'', ce_order = 1\<rparr>]\<rparr>"
proof -
  have j: "journal_of (sample_rows undone) = sample_journal FwdSucceeded FwdRejected FwdPending"
    by (simp add: journal_of_def sample_rows_def sample_row_def sample_journal_def)
  have "plan_entries_from (sample_journal FwdSucceeded FwdRejected FwdPending) []
      (rev (wd_steps sample_definition)) = [\<lparr>ce_step = StepName ''reserve'', ce_order = 1\<rparr>]"
    by (simp add: sample_definition_def sample_journal_def sample_step_def StepDefinition_new_def
        step_succeeded_def is_compensable_def)
  then have "freeze_compensation_plan (\<lambda>bs. bs) sample_definition
      (sample_journal FwdSucceeded FwdRejected FwdPending) = Inr \<lparr>plan_version = sample_plan_version,
        plan_entries = [\<lparr>ce_step = StepName ''reserve'', ce_order = 1\<rparr>]\<rparr>"
    by (simp add: freeze_Inr_iff sample_freezable' sample_plan_version_def Let_def)
  moreover have "marked_count (sample_rows undone) sample_plan_version = 1"
    by (simp add: marked_count_def sample_rows_def sample_row_def)
  ultimately show ?thesis by (simp add: frozen_plan_def j sample_instance_def)
qed

theorem next_compensation_sound_witness:
  "next_pending_compensation (\<lambda>bs. bs)
     (sample_instance Compensating Backward (Some sample_plan_version)) sample_definition
     (sample_rows CmpSucceeded) False = Inr None \<and> all_undone (sample_rows CmpSucceeded)"
proof -
  have n: "next_pending_compensation (\<lambda>bs. bs)
     (sample_instance Compensating Backward (Some sample_plan_version)) sample_definition
     (sample_rows CmpSucceeded) False = Inr None"
    unfolding next_pending_compensation_iff
    by (intro exI conjI, rule sample_rows_frozen) (simp add: sample_rows_def sample_row_def)
  from next_compensation_sound [OF sample_definition_rules n] n show ?thesis by auto
qed

end
