(* ===== verification/Saga_Db.thy ===== *)
theory Saga_Db
  imports Saga_Journal
begin

text \<open>
  The durable state of the saga runtime: the tables of \<open>nasaga-mysql/src/schema.rs\<close> (and the
  outbox and inbox tables of the same database) as lists of rows, and the programs that run on
  them inside one transaction. A program either fails, and then the transaction is rolled back and
  leaves no trace, or returns a value and the new state. The functions of the store below are
  written as such programs, statement by statement.

  \<open>db_now\<close> is the reading of the database clock in microseconds during the transaction; no program
  changes it and every theorem holds for all its values.
\<close>

section \<open>Tables\<close>

record TransitionRow =
  tn_saga_id :: SagaId
  tn_seq :: nat
  tn_from :: "SagaStatus option"
  tn_to :: SagaStatus
  tn_trigger_kind :: TriggerKind
  tn_trigger_id :: string
  tn_definition_version :: DefinitionVersion

record ControlRow =
  cn_saga_id :: SagaId
  cn_seq :: nat
  cn_from :: ControlState
  cn_to :: ControlState
  cn_operation_id :: string
  cn_actor :: string
  cn_reason :: string

record ManagementRow =
  mg_saga_id :: SagaId
  mg_operation_id :: string
  mg_action :: string
  mg_actor :: string
  mg_reason :: string

datatype SagaConflictKind = AttemptTerminal | CrossPhaseFact

record AttemptConflictFact =
  cf_saga_id :: SagaId
  cf_step :: StepName
  cf_phase :: StepPhase
  cf_attempt :: AttemptNo
  cf_existing_status :: StepAttemptStatus
  cf_incoming_status :: StepAttemptStatus
  cf_incoming_event_id :: string
  cf_conflict_kind :: SagaConflictKind

record StoredAttempt =
  at_saga_id :: SagaId
  at_started_at :: nat
  at_row :: SagaStepAttemptRow

record StoredTimer =
  tt_row :: SagaTimerRow
  tt_fencing_token :: "string option"

record QuotaRow =
  qr_tenant :: string
  qr_in_flight :: nat
  qr_initialized :: bool

record ActionRateRow =
  ar_tenant :: string
  ar_window_start :: nat
  ar_used :: nat

record SagaDb =
  db_instances :: "SagaInstanceRow list"
  db_steps :: "(SagaId \<times> SagaStepRow) list"
  db_attempts :: "StoredAttempt list"
  db_transitions :: "TransitionRow list"
  db_controls :: "ControlRow list"
  db_managements :: "ManagementRow list"
  db_conflicts :: "AttemptConflictFact list"
  db_timers :: "StoredTimer list"
  db_quotas :: "QuotaRow list"
  db_action_rates :: "ActionRateRow list"
  db_outbox :: "OutboxEvent list"
  db_outbox_quotas :: "QuotaRow list"
  db_inbox :: "(string \<times> string) list"
  db_now :: nat

section \<open>Programs in a transaction\<close>

type_synonym 'a tx = "SagaDb \<Rightarrow> OrchError + ('a \<times> SagaDb)"

definition returnT :: "'a \<Rightarrow> 'a tx" where
  "returnT a d = Inr (a, d)"

definition failT :: "OrchError \<Rightarrow> 'a tx" where
  "failT e d = Inl e"

definition bindT :: "'a tx \<Rightarrow> ('a \<Rightarrow> 'b tx) \<Rightarrow> 'b tx" where
  "bindT m f d = (case m d of Inl e \<Rightarrow> Inl e | Inr (a, d') \<Rightarrow> f a d')"

definition liftT :: "'a orch \<Rightarrow> 'a tx" where
  "liftT r d = map_sum id (\<lambda>a. (a, d)) r"

definition readT :: "(SagaDb \<Rightarrow> 'a) \<Rightarrow> 'a tx" where
  "readT f d = Inr (f d, d)"

definition writeT :: "(SagaDb \<Rightarrow> SagaDb) \<Rightarrow> unit tx" where
  "writeT f d = Inr ((), f d)"

definition requireT :: "bool \<Rightarrow> OrchError \<Rightarrow> unit tx" where
  "requireT b e = (if b then returnT () else failT e)"

text \<open>\<open>transaction::run_for\<close>: the state after a transaction whose body failed is the state before it.\<close>

definition run_for :: "'a tx \<Rightarrow> SagaDb \<Rightarrow> 'a orch \<times> SagaDb" where
  "run_for body d = (case body d of Inl e \<Rightarrow> (Inl e, d) | Inr (a, d') \<Rightarrow> (Inr a, d'))"

text \<open>What a program may do to the state: \<open>R\<close> relates the states before and after every successful
  run. The rules take a program apart along its binds and branches.\<close>

definition within :: "(SagaDb \<Rightarrow> SagaDb \<Rightarrow> bool) \<Rightarrow> 'a tx \<Rightarrow> bool" where
  "within R m \<longleftrightarrow> (\<forall>d a d'. m d = Inr (a, d') \<longrightarrow> R d d')"

lemma tx_simps [simp]:
  "returnT a d = Inr (ra, d1) \<longleftrightarrow> ra = a \<and> d1 = d"
  "failT e d = Inr rb \<longleftrightarrow> False"
  "readT f d = Inr (rc, d3) \<longleftrightarrow> rc = f d \<and> d3 = d"
  "writeT g d = Inr (re, d4) \<longleftrightarrow> d4 = g d"
  "liftT r d = Inr (rg, d5) \<longleftrightarrow> r = Inr rg \<and> d5 = d"
  "requireT c e d = Inr (rh, d6) \<longleftrightarrow> c \<and> d6 = d"
  by (auto simp: returnT_def failT_def readT_def writeT_def liftT_def requireT_def map_sum_Inr)

lemma bindT_Inr:
  "bindT m f d = Inr (b, d'') \<longleftrightarrow> (\<exists>a d'. m d = Inr (a, d') \<and> f a d' = Inr (b, d''))"
  by (auto simp: bindT_def split: sum.splits)

lemma bindT_InrE [elim]:
  assumes "bindT m f d = Inr (b, d'')"
  obtains a d' where "m d = Inr (a, d')" and "f a d' = Inr (b, d'')"
  using assms by (auto simp: bindT_Inr)

lemma run_for_Inr: "run_for m d = (Inr a, d') \<longleftrightarrow> m d = Inr (a, d')"
  by (auto simp: run_for_def split: sum.splits)

lemma run_for_Inl: "run_for m d = (Inl e, d') \<longleftrightarrow> m d = Inl e \<and> d' = d"
  by (auto simp: run_for_def split: sum.splits)

lemma withinI: "(\<And>d a d'. m d = Inr (a, d') \<Longrightarrow> R d d') \<Longrightarrow> within R m"
  by (simp add: within_def)

lemma withinD: "within R m \<Longrightarrow> m d = Inr (a, d') \<Longrightarrow> R d d'"
  by (auto simp: within_def)

named_theorems within_intro \<open>rules that take a transaction program apart\<close>

lemma within_run:
  assumes "within R m" and "\<And>d. R d d" and "run_for m d = (r, d')"
  shows "R d d'"
proof (cases r)
  case (Inl e)
  with assms show ?thesis by (simp add: run_for_Inl)
next
  case (Inr a)
  with assms show ?thesis by (auto simp: run_for_Inr dest: withinD)
qed

end
