(* ===== verification/Saga_Store.thy ===== *)
theory Saga_Store
  imports Saga_Db
begin

text \<open>
  The saga store on MySQL (\<open>nasaga-mysql/src/instance.rs\<close>, \<open>stepjournal.rs\<close>, \<open>audit.rs\<close>,
  \<open>quota.rs\<close>, \<open>action_rate.rs\<close>): one transaction program per method, with the \<open>WHERE\<close> clause of
  each statement as its condition, its \<open>SET\<close> clause as a record update, and a unique-key violation
  as a failing insert. Connection and driver failures abort a transaction before it commits and
  are not modelled.
\<close>

section \<open>Argument checks\<close>

definition validate_digest :: "string \<Rightarrow> unit orch" where
  "validate_digest digest =
     reject_if (\<not> digest_text digest)
       (E_Store ''definition digest must be 64 lowercase hex characters'')"

definition validate_reason_code :: "string \<Rightarrow> unit orch" where
  "validate_reason_code code =
     reject_if (\<not> stable_code 64 code)
       (E_Store ''reason code must be a stable identifier of at most 64 bytes'')"

definition validate_trigger_id :: "string \<Rightarrow> unit orch" where
  "validate_trigger_id trigger_id =
     reject_if (\<not> bounded_text 190 trigger_id) (E_Store ''invalid trigger id'')"

definition validate_audit_text :: "string \<Rightarrow> nat \<Rightarrow> unit orch" where
  "validate_audit_text value max_len =
     reject_if (\<not> bounded_text max_len value) (E_Store ''invalid management text'')"

definition validate_audit_identifier :: "string \<Rightarrow> nat \<Rightarrow> unit orch" where
  "validate_audit_identifier value max_len =
     reject_if (\<not> stable_code max_len value) (E_Store ''invalid management action'')"

definition validate_event_id :: "string \<Rightarrow> unit orch" where
  "validate_event_id event_id =
     reject_if (\<not> bounded_text 190 event_id) (E_Store ''invalid conflict event id'')"

text \<open>\<open>if let Some(v) = o { check(v)? }\<close>\<close>

definition check_opt :: "('a \<Rightarrow> unit orch) \<Rightarrow> 'a option \<Rightarrow> unit orch" where
  "check_opt chk o' = (case o' of None \<Rightarrow> Inr () | Some v \<Rightarrow> chk v)"

section \<open>Instances\<close>

definition find_by_id :: "SagaId \<Rightarrow> SagaDb \<Rightarrow> SagaInstanceRow option" where
  "find_by_id saga d = find (\<lambda>i. si_saga_id i = saga) (db_instances d)"

definition load_instance :: "SagaId \<Rightarrow> SagaInstanceRow option tx" where
  "load_instance saga = readT (find_by_id saga)"

definition find_by_business ::
  "TenantId \<Rightarrow> WorkflowName \<Rightarrow> BusinessKey \<Rightarrow> SagaDb \<Rightarrow> SagaInstanceRow option" where
  "find_by_business tenant workflow key d =
     find (\<lambda>i. si_tenant i = tenant \<and> si_workflow i = workflow \<and> si_business_key i = key)
       (db_instances d)"

definition find_instance ::
  "TenantId \<Rightarrow> WorkflowName \<Rightarrow> BusinessKey \<Rightarrow> SagaInstanceRow option tx" where
  "find_instance tenant workflow key = readT (find_by_business tenant workflow key)"

definition update_instances ::
  "(SagaInstanceRow \<Rightarrow> bool) \<Rightarrow> (SagaInstanceRow \<Rightarrow> SagaInstanceRow) \<Rightarrow> SagaDb \<Rightarrow> SagaDb" where
  "update_instances P f d =
     d\<lparr>db_instances := map (\<lambda>i. if P i then f i else i) (db_instances d)\<rparr>"

record NewSagaInstance =
  ni_saga_id :: SagaId
  ni_tenant :: TenantId
  ni_workflow :: WorkflowName
  ni_business_key :: BusinessKey
  ni_definition_version :: DefinitionVersion
  ni_definition_digest :: string
  ni_start_request_digest :: string
  ni_legacy_start_request_digest :: "string option"
  ni_deadline_at_ms :: "i64 option"
  ni_current_step :: "StepName option"
  ni_trigger_kind :: TriggerKind
  ni_trigger_id :: string
  ni_traceparent :: "string option"

datatype SagaCreation = Created SagaInstanceRow | Existing SagaInstanceRow

definition new_row :: "NewSagaInstance \<Rightarrow> SagaInstanceRow" where
  "new_row spec =
     \<lparr>si_saga_id = ni_saga_id spec, si_tenant = ni_tenant spec, si_workflow = ni_workflow spec,
      si_business_key = ni_business_key spec, si_definition_version = ni_definition_version spec,
      si_definition_digest = ni_definition_digest spec,
      si_start_request_digest = Some (ni_start_request_digest spec), si_status = SAGA_INITIAL,
      si_control_state = Active, si_control_version = 1, si_direction = Forward,
      si_current_step = ni_current_step spec, si_compensation_plan_version = None, si_version = 1,
      si_deadline_at_ms = ni_deadline_at_ms spec, si_failure_code = None,
      si_traceparent = ni_traceparent spec\<rparr>"

text \<open>The answer to a unique-key conflict: the existing instance, if it is the same request.\<close>

definition existing_instance :: "NewSagaInstance \<Rightarrow> SagaInstanceRow tx" where
  "existing_instance spec =
     bindT (bindT (readT (find_by_id (ni_saga_id spec))) (\<lambda>by_id.
       case by_id of
         Some existing \<Rightarrow>
           if si_tenant existing \<noteq> ni_tenant spec \<or> si_workflow existing \<noteq> ni_workflow spec \<or>
              si_business_key existing \<noteq> ni_business_key spec
           then failT (E_Conflict ''saga_id collides with a different business intent'')
           else returnT existing
       | None \<Rightarrow>
           bindT (readT (find_by_business (ni_tenant spec) (ni_workflow spec) (ni_business_key spec)))
             (\<lambda>row. liftT (ok_or row
               (E_Conflict ''creation conflict has no matching business intent''))))) (\<lambda>existing.
       if si_start_request_digest existing \<noteq> Some (ni_start_request_digest spec) \<and>
          (ni_legacy_start_request_digest spec = None \<or>
           si_start_request_digest existing \<noteq> ni_legacy_start_request_digest spec)
       then failT (E_Conflict
         ''business idempotency key was reused with a different start request'')
       else returnT existing)"

definition insert_transition :: "TransitionRow \<Rightarrow> bool tx" where
  "insert_transition row d =
     (if list_ex (\<lambda>t. tn_saga_id t = tn_saga_id row \<and>
           (tn_seq t = tn_seq row \<or>
            tn_trigger_kind t = tn_trigger_kind row \<and> tn_trigger_id t = tn_trigger_id row))
         (db_transitions d)
      then Inr (False, d)
      else Inr (True, d\<lparr>db_transitions := db_transitions d @ [row]\<rparr>))"

definition create_instance :: "NewSagaInstance \<Rightarrow> SagaCreation tx" where
  "create_instance spec =
     bindT (liftT (validate_digest (ni_definition_digest spec))) (\<lambda>_.
     bindT (liftT (validate_digest (ni_start_request_digest spec))) (\<lambda>_.
     bindT (liftT (check_opt validate_digest (ni_legacy_start_request_digest spec))) (\<lambda>_.
     bindT (liftT (validate_trigger_id (ni_trigger_id spec))) (\<lambda>_.
     bindT (liftT (check_opt (\<lambda>t. reject_if (\<not> validate_traceparent t)
       (E_Store ''invalid traceparent'')) (ni_traceparent spec))) (\<lambda>_.
     bindT (readT (\<lambda>d. find_by_id (ni_saga_id spec) d \<noteq> None \<or>
         find_by_business (ni_tenant spec) (ni_workflow spec) (ni_business_key spec) d \<noteq> None))
       (\<lambda>unique_violation.
        if unique_violation then bindT (existing_instance spec) (\<lambda>row. returnT (Existing row))
        else
          bindT (writeT (\<lambda>d. d\<lparr>db_instances := db_instances d @ [new_row spec]\<rparr>)) (\<lambda>_.
          bindT (insert_transition
            \<lparr>tn_saga_id = ni_saga_id spec, tn_seq = 1, tn_from = None, tn_to = SAGA_INITIAL,
             tn_trigger_kind = ni_trigger_kind spec, tn_trigger_id = ni_trigger_id spec,
             tn_definition_version = ni_definition_version spec\<rparr>) (\<lambda>inserted.
          bindT (requireT inserted (E_Store ''database'')) (\<lambda>_.
          bindT (load_instance (ni_saga_id spec)) (\<lambda>created.
          bindT (liftT (ok_or created
            (E_Store ''instance vanished inside its own creation transaction'')))
            (\<lambda>row. returnT (Created row))))))))))))"

definition update_trace_context :: "SagaId \<Rightarrow> string \<Rightarrow> unit tx" where
  "update_trace_context saga traceparent =
     bindT (requireT (validate_traceparent traceparent) (E_Store ''invalid traceparent'')) (\<lambda>_.
       writeT (update_instances (\<lambda>i. si_saga_id i = saga)
         (\<lambda>i. i\<lparr>si_traceparent := Some traceparent\<rparr>)))"

record TransitionSpec =
  tp_to_status :: SagaStatus
  tp_direction :: Direction
  tp_current_step :: "StepName option"
  tp_trigger_kind :: TriggerKind
  tp_trigger_id :: string
  tp_definition_version :: DefinitionVersion
  tp_failure_code :: "string option"
  tp_plan_version :: "string option"

definition db_any_compensation_succeeded :: "SagaId \<Rightarrow> SagaDb \<Rightarrow> bool" where
  "db_any_compensation_succeeded saga d =
     list_ex (\<lambda>(s, row). s = saga \<and> sr_compensation_status row = CmpSucceeded) (db_steps d)"

definition MANUAL_CLOSE_ACTION :: string where "MANUAL_CLOSE_ACTION = ''manual_close''"

definition db_manual_close_audited :: "SagaId \<Rightarrow> string \<Rightarrow> SagaDb \<Rightarrow> bool" where
  "db_manual_close_audited saga operation_id d =
     list_ex (\<lambda>m. mg_saga_id m = saga \<and> mg_operation_id m = operation_id \<and>
       mg_action m = MANUAL_CLOSE_ACTION) (db_managements d)"

definition transition_guard :: "SagaId \<Rightarrow> SagaStatus \<Rightarrow> TransitionSpec \<Rightarrow> SagaDb \<Rightarrow> TransitionGuard" where
  "transition_guard saga from_status spec d =
     (if from_status = ManualIntervention \<and> tp_to_status spec = Running
        then guard_new (db_any_compensation_succeeded saga d)
      else if tp_to_status spec = ManuallyClosed
        then guard_manual_close (tp_trigger_kind spec = TrigAdmin \<and>
          db_manual_close_audited saga (tp_trigger_id spec) d)
      else guard_new False)"

section \<open>Tenant quota\<close>

definition ensure_quota_row :: "string \<Rightarrow> QuotaRow list \<Rightarrow> QuotaRow list" where
  "ensure_quota_row tenant rows =
     (if list_ex (\<lambda>q. qr_tenant q = tenant) rows then rows
      else rows @ [\<lparr>qr_tenant = tenant, qr_in_flight = 0, qr_initialized = False\<rparr>])"

datatype QuotaReservation = QuotaReserved | QuotaExceeded

text \<open>The conditional increment both quota ledgers use; \<open>None\<close> when no row qualified.\<close>

definition reserve_quota_row :: "string \<Rightarrow> nat option \<Rightarrow> QuotaRow list \<Rightarrow> QuotaRow list option" where
  "reserve_quota_row tenant cap rows =
     (let qualifies = (\<lambda>q. qr_tenant q = tenant \<and>
            (case cap of None \<Rightarrow> True | Some c \<Rightarrow> qr_in_flight q < c \<and> qr_initialized q))
      in if list_ex qualifies rows
         then Some (map (\<lambda>q. if qualifies q then q\<lparr>qr_in_flight := qr_in_flight q + 1\<rparr> else q) rows)
         else None)"

definition reserve_tenant_quota :: "TenantId \<Rightarrow> nat option \<Rightarrow> QuotaReservation tx" where
  "reserve_tenant_quota tenant cap =
     bindT (writeT (\<lambda>d. d\<lparr>db_quotas := ensure_quota_row (tenant_id_str tenant) (db_quotas d)\<rparr>)) (\<lambda>_.
     bindT (readT (\<lambda>d. reserve_quota_row (tenant_id_str tenant) cap (db_quotas d))) (\<lambda>reserved.
       case reserved of
         Some rows \<Rightarrow> bindT (writeT (\<lambda>d. d\<lparr>db_quotas := rows\<rparr>)) (\<lambda>_. returnT QuotaReserved)
       | None \<Rightarrow>
           bindT (readT (\<lambda>d. list_ex (\<lambda>q. qr_tenant q = tenant_id_str tenant \<and> qr_initialized q)
             (db_quotas d))) (\<lambda>initialized.
             if cap \<noteq> None \<and> \<not> initialized
             then failT (E_Store ''tenant quota ledger is not initialized'')
             else returnT QuotaExceeded)))"

definition release_tenant_quota :: "SagaId \<Rightarrow> unit tx" where
  "release_tenant_quota saga =
     writeT (\<lambda>d. d\<lparr>db_quotas := map (\<lambda>q.
       if list_ex (\<lambda>i. si_saga_id i = saga \<and> tenant_id_str (si_tenant i) = qr_tenant q)
            (db_instances d) \<and> 0 < qr_in_flight q
       then q\<lparr>qr_in_flight := qr_in_flight q - 1\<rparr> else q) (db_quotas d)\<rparr>)"

definition reconcile_tenant_quota :: "TenantId \<Rightarrow> nat tx" where
  "reconcile_tenant_quota tenant =
     bindT (writeT (\<lambda>d. d\<lparr>db_quotas := ensure_quota_row (tenant_id_str tenant) (db_quotas d)\<rparr>)) (\<lambda>_.
     bindT (readT (\<lambda>d. length (filter (\<lambda>i. si_tenant i = tenant \<and>
         si_status i \<notin> {Completed, Compensated, ManuallyClosed}) (db_instances d)))) (\<lambda>actual.
     bindT (writeT (\<lambda>d. d\<lparr>db_quotas := map (\<lambda>q. if qr_tenant q = tenant_id_str tenant
         then q\<lparr>qr_in_flight := actual, qr_initialized := True\<rparr> else q) (db_quotas d)\<rparr>))
       (\<lambda>_. returnT actual)))"

section \<open>Compare-and-set of the status\<close>

definition advance_row :: "TransitionSpec \<Rightarrow> SagaInstanceRow \<Rightarrow> SagaInstanceRow" where
  "advance_row spec i =
     i\<lparr>si_status := tp_to_status spec, si_direction := tp_direction spec,
       si_current_step := tp_current_step spec,
       si_failure_code := or_else (tp_failure_code spec) (si_failure_code i),
       si_compensation_plan_version :=
         or_else (tp_plan_version spec) (si_compensation_plan_version i),
       si_version := si_version i + 1\<rparr>"

definition cas_matches :: "SagaId \<Rightarrow> nat \<Rightarrow> SagaStatus \<Rightarrow> SagaInstanceRow \<Rightarrow> bool" where
  "cas_matches saga expected_version from_status i =
     (si_saga_id i = saga \<and> si_version i = expected_version \<and> si_status i = from_status \<and>
      si_control_state i = Active)"

definition store_advance ::
  "SagaId \<Rightarrow> nat \<Rightarrow> SagaStatus \<Rightarrow> TransitionSpec \<Rightarrow> CasOutcome tx" where
  "store_advance saga expected_version from_status spec =
     bindT (liftT (validate_trigger_id (tp_trigger_id spec))) (\<lambda>_.
     bindT (liftT (check_opt validate_reason_code (tp_failure_code spec))) (\<lambda>_.
     bindT (liftT (check_opt validate_digest (tp_plan_version spec))) (\<lambda>_.
     bindT (readT (transition_guard saga from_status spec)) (\<lambda>guard.
     bindT (liftT (map_err (\<lambda>v. E_Store (violation_code v))
       (check_transition from_status (tp_to_status spec) guard))) (\<lambda>_.
     bindT (liftT (ok_or (checked_add_u64 expected_version 1) (E_Store ''saga version overflow'')))
       (\<lambda>new_version.
     bindT (readT (\<lambda>d. list_ex (cas_matches saga expected_version from_status) (db_instances d)))
       (\<lambda>matched.
        if \<not> matched then returnT CasConflict
        else
          bindT (writeT (update_instances (cas_matches saga expected_version from_status)
            (advance_row spec))) (\<lambda>_.
          bindT (insert_transition
            \<lparr>tn_saga_id = saga, tn_seq = new_version, tn_from = Some from_status,
             tn_to = tp_to_status spec, tn_trigger_kind = tp_trigger_kind spec,
             tn_trigger_id = tp_trigger_id spec,
             tn_definition_version = tp_definition_version spec\<rparr>) (\<lambda>inserted.
            if \<not> inserted then returnT CasDuplicateTrigger
            else bindT (if saga_is_terminal (tp_to_status spec)
                        then release_tenant_quota saga else returnT ())
                   (\<lambda>_. returnT (CasApplied new_version)))))))))))"

section \<open>Control state and management audit\<close>

record ControlTransitionSpec =
  cs_saga_id :: SagaId
  cs_expected_version :: nat
  cs_expected_control_version :: nat
  cs_from :: ControlState
  cs_to :: ControlState
  cs_operation_id :: string
  cs_actor :: string
  cs_reason :: string

datatype ControlCasOutcome = ControlApplied | ControlAlreadyApplied | ControlConflict

definition control_matches :: "ControlTransitionSpec \<Rightarrow> SagaInstanceRow \<Rightarrow> bool" where
  "control_matches spec i =
     (si_saga_id i = cs_saga_id spec \<and> si_version i = cs_expected_version spec \<and>
      si_control_version i = cs_expected_control_version spec \<and> si_control_state i = cs_from spec)"

definition insert_control :: "ControlRow \<Rightarrow> unit tx" where
  "insert_control row d =
     (if list_ex (\<lambda>c. cn_saga_id c = cn_saga_id row \<and>
           (cn_seq c = cn_seq row \<or> cn_operation_id c = cn_operation_id row)) (db_controls d)
      then Inl (E_Store ''database'')
      else Inr ((), d\<lparr>db_controls := db_controls d @ [row]\<rparr>))"

definition set_control_state :: "ControlTransitionSpec \<Rightarrow> ControlCasOutcome tx" where
  "set_control_state spec =
     bindT (requireT (cs_from spec \<noteq> cs_to spec)
       (E_Store ''control state transition requires distinct states'')) (\<lambda>_.
     bindT (requireT (cs_expected_control_version spec \<noteq> 0 \<and>
         cs_expected_control_version spec \<noteq> u64_max)
       (E_Store ''control version must be positive and incrementable'')) (\<lambda>_.
     bindT (liftT (validate_trigger_id (cs_operation_id spec))) (\<lambda>_.
     bindT (liftT (validate_audit_text (cs_actor spec) 128)) (\<lambda>_.
     bindT (liftT (validate_audit_text (cs_reason spec) 512)) (\<lambda>_.
     bindT (readT (\<lambda>d. find (\<lambda>c. cn_saga_id c = cs_saga_id spec \<and>
         cn_operation_id c = cs_operation_id spec) (db_controls d))) (\<lambda>prior.
       case prior of
         Some c \<Rightarrow>
           if cn_from c \<noteq> cs_from spec \<or> cn_to c \<noteq> cs_to spec \<or> cn_actor c \<noteq> cs_actor spec \<or>
              cn_reason c \<noteq> cs_reason spec
           then failT (E_Conflict ''control operation id was reused with different audit facts'')
           else returnT ControlAlreadyApplied
       | None \<Rightarrow>
           bindT (readT (\<lambda>d. list_ex (control_matches spec) (db_instances d))) (\<lambda>matched.
             if \<not> matched then returnT ControlConflict
             else
               bindT (writeT (update_instances (control_matches spec)
                 (\<lambda>i. i\<lparr>si_control_state := cs_to spec,
                    si_control_version := si_control_version i + 1\<rparr>))) (\<lambda>_.
               bindT (liftT (ok_or (checked_add_u64 (cs_expected_control_version spec) 1)
                 (E_Store ''control version overflow''))) (\<lambda>control_seq.
               bindT (insert_control
                 \<lparr>cn_saga_id = cs_saga_id spec, cn_seq = control_seq, cn_from = cs_from spec,
                  cn_to = cs_to spec, cn_operation_id = cs_operation_id spec,
                  cn_actor = cs_actor spec, cn_reason = cs_reason spec\<rparr>)
                 (\<lambda>_. returnT ControlApplied))))))))))"

datatype ManagementAuditOutcome = AuditRecorded | AuditAlreadyRecorded

definition record_management_operation ::
  "SagaId \<Rightarrow> string \<Rightarrow> string \<Rightarrow> string \<Rightarrow> string \<Rightarrow> ManagementAuditOutcome tx" where
  "record_management_operation saga operation_id action actor reason =
     bindT (liftT (validate_trigger_id operation_id)) (\<lambda>_.
     bindT (liftT (validate_audit_identifier action 64)) (\<lambda>_.
     bindT (liftT (validate_audit_text actor 128)) (\<lambda>_.
     bindT (liftT (validate_audit_text reason 512)) (\<lambda>_.
     bindT (readT (\<lambda>d. find (\<lambda>m. mg_saga_id m = saga \<and> mg_operation_id m = operation_id)
       (db_managements d))) (\<lambda>prior.
       case prior of
         Some m \<Rightarrow>
           if mg_action m \<noteq> action \<or> mg_actor m \<noteq> actor \<or> mg_reason m \<noteq> reason
           then failT (E_Conflict ''management operation id was reused with different audit facts'')
           else returnT AuditAlreadyRecorded
       | None \<Rightarrow>
           bindT (writeT (\<lambda>d. d\<lparr>db_managements := db_managements d @
             [\<lparr>mg_saga_id = saga, mg_operation_id = operation_id, mg_action = action,
               mg_actor = actor, mg_reason = reason\<rparr>]\<rparr>)) (\<lambda>_. returnT AuditRecorded))))))"

definition record_attempt_conflict :: "AttemptConflictFact \<Rightarrow> unit tx" where
  "record_attempt_conflict cf =
     bindT (requireT (\<not> is_in_flight (cf_existing_status cf) \<and>
         \<not> is_in_flight (cf_incoming_status cf))
       (E_Store ''attempt conflict requires settled statuses'')) (\<lambda>_.
     bindT (liftT (validate_event_id (cf_incoming_event_id cf))) (\<lambda>_.
     bindT (readT (\<lambda>d. list_ex (\<lambda>c. cf_saga_id c = cf_saga_id cf \<and>
         cf_incoming_event_id c = cf_incoming_event_id cf) (db_conflicts d))) (\<lambda>duplicate.
       if duplicate then failT (E_Store ''database'')
       else writeT (\<lambda>d. d\<lparr>db_conflicts := db_conflicts d @ [cf]\<rparr>))))"

section \<open>Action budget\<close>

datatype ActionRateReservation = RateReserved | RateExceeded

definition db_now_ms :: "SagaDb \<Rightarrow> nat" where
  "db_now_ms d = (db_now d + 500) div 1000"

definition reserve_tenant_action_rate ::
  "TenantId \<Rightarrow> nat \<Rightarrow> i64 \<Rightarrow> ActionRateReservation tx" where
  "reserve_tenant_action_rate tenant max_actions window_ms =
     bindT (requireT (0 < window_ms) (E_Store ''action rate window_ms must be positive'')) (\<lambda>_.
     bindT (readT db_now_ms) (\<lambda>now_ms.
       let window = nat window_ms;
           window_start = now_ms - now_ms mod window;
           mine = (\<lambda>r. ar_tenant r = tenant_id_str tenant \<and> ar_window_start r = window_start)
       in bindT (writeT (\<lambda>d. if list_ex mine (db_action_rates d) then d
            else d\<lparr>db_action_rates := db_action_rates d @
              [\<lparr>ar_tenant = tenant_id_str tenant, ar_window_start = window_start, ar_used = 0\<rparr>]\<rparr>)) (\<lambda>_.
          bindT (readT (\<lambda>d. list_ex (\<lambda>r. mine r \<and> ar_used r < max_actions) (db_action_rates d)))
            (\<lambda>updated.
          bindT (writeT (\<lambda>d. d\<lparr>db_action_rates := filter (\<lambda>r. \<not> (ar_tenant r = tenant_id_str tenant \<and>
              ar_window_start r < window_start))
              (map (\<lambda>r. if mine r \<and> ar_used r < max_actions then r\<lparr>ar_used := ar_used r + 1\<rparr> else r)
                (db_action_rates d))\<rparr>)) (\<lambda>_.
            returnT (if updated then RateReserved else RateExceeded))))))"

end
