(* ===== verification/Saga_Attempts.thy ===== *)
theory Saga_Attempts
  imports Saga_Store
begin

text \<open>
  The step journal and the attempt journal of the store (\<open>nasaga-mysql/src/stepjournal.rs\<close>):
  registering and patching the steps of a saga, and recording the start and the outcome of attempts.
\<close>

section \<open>Step journal\<close>

definition blank_step :: "StepDefinition \<Rightarrow> nat \<Rightarrow> SagaStepRow" where
  "blank_step step index =
     \<lparr>sr_step = sd_name step, sr_ordinal = of_nat index + 1, sr_forward_status = FwdPending,
      sr_cancel_status = CanNone, sr_compensation_status = CmpNone, sr_resolution_status = ResNone,
      sr_execute_effect_id = None, sr_execute_command_id = None, sr_execute_attempt = None,
      sr_cancel_effect_id = None, sr_cancel_command_id = None, sr_cancel_attempt = None,
      sr_compensate_effect_id = None, sr_compensate_command_id = None, sr_compensate_attempt = None,
      sr_resolve_effect_id = None, sr_resolve_command_id = None, sr_resolve_attempt = None,
      sr_compensation_plan_version = None, sr_compensation_order = None, sr_last_error_code = None\<rparr>"

text \<open>\<open>INSERT IGNORE\<close>, step by step.\<close>

fun insert_steps ::
  "SagaId \<Rightarrow> nat \<Rightarrow> StepDefinition list \<Rightarrow> (SagaId \<times> SagaStepRow) list \<Rightarrow> (SagaId \<times> SagaStepRow) list"
  where
  "insert_steps saga index [] rows = rows"
| "insert_steps saga index (step # steps) rows =
     insert_steps saga (index + 1) steps
       (if list_ex (\<lambda>(s, row). s = saga \<and> sr_step row = sd_name step) rows then rows
        else rows @ [(saga, blank_step step index)])"

definition register_steps :: "SagaId \<Rightarrow> WorkflowDefinition \<Rightarrow> unit tx" where
  "register_steps saga d =
     writeT (\<lambda>db. db\<lparr>db_steps := insert_steps saga 0 (wd_steps d) (db_steps db)\<rparr>)"

definition steps_of :: "SagaId \<Rightarrow> SagaDb \<Rightarrow> SagaStepRow list" where
  "steps_of saga d = sort_key sr_ordinal (map snd (filter (\<lambda>(s, row). s = saga) (db_steps d)))"

definition load_steps :: "SagaId \<Rightarrow> SagaStepRow list tx" where
  "load_steps saga = readT (steps_of saga)"

definition update_steps ::
  "(SagaId \<Rightarrow> SagaStepRow \<Rightarrow> bool) \<Rightarrow> (SagaStepRow \<Rightarrow> SagaStepRow) \<Rightarrow> SagaDb \<Rightarrow> SagaDb" where
  "update_steps P f d =
     d\<lparr>db_steps := map (\<lambda>(s, row). if P s row then (s, f row) else (s, row)) (db_steps d)\<rparr>"

definition step_exists :: "(SagaId \<Rightarrow> SagaStepRow \<Rightarrow> bool) \<Rightarrow> SagaDb \<Rightarrow> bool" where
  "step_exists P d = list_ex (\<lambda>(s, row). P s row) (db_steps d)"

text \<open>An \<open>UPDATE saga_step\<close> that must hit a row.\<close>

definition update_steps_checked ::
  "(SagaId \<Rightarrow> SagaStepRow \<Rightarrow> bool) \<Rightarrow> (SagaStepRow \<Rightarrow> SagaStepRow) \<Rightarrow> OrchError \<Rightarrow> unit tx" where
  "update_steps_checked P f e =
     bindT (readT (step_exists P)) (\<lambda>hit.
     bindT (requireT hit e) (\<lambda>_. writeT (update_steps P f)))"

definition update_step_journal :: "SagaId \<Rightarrow> StepName \<Rightarrow> StepJournalPatch \<Rightarrow> unit tx" where
  "update_step_journal saga step patch =
     bindT (liftT (check_opt validate_reason_code (pt_last_error_code patch))) (\<lambda>_.
       update_steps_checked (\<lambda>s row. s = saga \<and> sr_step row = step) (apply_patch patch)
         (E_Store ''step journal row is missing''))"

definition audited :: "SagaId \<Rightarrow> string \<Rightarrow> string \<Rightarrow> SagaDb \<Rightarrow> bool" where
  "audited saga operation_id action d =
     list_ex (\<lambda>m. mg_saga_id m = saga \<and> mg_operation_id m = operation_id \<and> mg_action m = action)
       (db_managements d)"

definition reopen_halted_compensation :: "SagaId \<Rightarrow> StepName \<Rightarrow> string \<Rightarrow> unit tx" where
  "reopen_halted_compensation saga step operation_id =
     bindT (readT (audited saga operation_id ''retry_frozen_compensation'')) (\<lambda>ok.
       update_steps_checked
         (\<lambda>s row. ok \<and> s = saga \<and> sr_step row = step \<and> sr_compensation_plan_version row \<noteq> None \<and>
            sr_compensation_status row = CmpHalted)
         (\<lambda>row. row\<lparr>sr_compensation_status := CmpPending, sr_resolution_status := ResNone\<rparr>)
         (E_Store ''halted compensation recovery requires a matching management audit and frozen plan''))"

definition reopen_halted_resolution :: "SagaId \<Rightarrow> StepName \<Rightarrow> string \<Rightarrow> unit tx" where
  "reopen_halted_resolution saga step operation_id =
     bindT (readT (audited saga operation_id ''retry_resolution'')) (\<lambda>ok.
       update_steps_checked
         (\<lambda>s row. ok \<and> s = saga \<and> sr_step row = step \<and> sr_resolution_status row = ResHalted \<and>
            (sr_forward_status row = FwdUnknown \<or> sr_compensation_status row = CmpUnknown))
         (\<lambda>row. row\<lparr>sr_resolution_status := ResPending\<rparr>)
         (E_Store ''halted resolution recovery requires a matching management audit and unknown fact''))"

definition mark_row :: "string \<Rightarrow> u32 \<Rightarrow> SagaStepRow \<Rightarrow> SagaStepRow" where
  "mark_row version order row =
     row\<lparr>sr_compensation_plan_version := Some version, sr_compensation_order := Some order,
       sr_compensation_status :=
         (if sr_compensation_status row = CmpNone then CmpPending else sr_compensation_status row)\<rparr>"

fun mark_entries :: "SagaId \<Rightarrow> string \<Rightarrow> CompensationEntry list \<Rightarrow> unit tx" where
  "mark_entries saga version [] = returnT ()"
| "mark_entries saga version (entry # entries) =
     bindT (update_steps_checked (\<lambda>s row. s = saga \<and> sr_step row = ce_step entry)
       (mark_row version (ce_order entry))
       (E_Store ''compensation plan references a missing step''))
       (\<lambda>_. mark_entries saga version entries)"

definition mark_compensation_plan :: "SagaId \<Rightarrow> CompensationPlan \<Rightarrow> unit tx" where
  "mark_compensation_plan saga plan = mark_entries saga (plan_version plan) (plan_entries plan)"

section \<open>Attempt journal\<close>

definition attempt_key :: "SagaId \<Rightarrow> StepName \<Rightarrow> StepPhase \<Rightarrow> AttemptNo \<Rightarrow> StoredAttempt \<Rightarrow> bool" where
  "attempt_key saga step phase attempt a =
     (at_saga_id a = saga \<and> sa_step (at_row a) = step \<and> sa_phase (at_row a) = phase \<and>
      sa_attempt (at_row a) = attempt)"

text \<open>The projection of the newest attempt of a phase onto the step row.\<close>

fun project_attempt ::
  "StepPhase \<Rightarrow> string \<Rightarrow> string \<Rightarrow> u32 \<Rightarrow> SagaStepRow \<Rightarrow> SagaStepRow" where
  "project_attempt Execute effect command attempt row =
     row\<lparr>sr_execute_effect_id := Some effect, sr_execute_command_id := Some command,
       sr_execute_attempt := Some attempt\<rparr>"
| "project_attempt Cancel effect command attempt row =
     row\<lparr>sr_cancel_effect_id := Some effect, sr_cancel_command_id := Some command,
       sr_cancel_attempt := Some attempt\<rparr>"
| "project_attempt Compensate effect command attempt row =
     row\<lparr>sr_compensate_effect_id := Some effect, sr_compensate_command_id := Some command,
       sr_compensate_attempt := Some attempt\<rparr>"
| "project_attempt Resolve effect command attempt row =
     row\<lparr>sr_resolve_effect_id := Some effect, sr_resolve_command_id := Some command,
       sr_resolve_attempt := Some attempt\<rparr>"

fun phase_attempt :: "StepPhase \<Rightarrow> SagaStepRow \<Rightarrow> u32 option" where
  "phase_attempt Execute row = sr_execute_attempt row"
| "phase_attempt Cancel row = sr_cancel_attempt row"
| "phase_attempt Compensate row = sr_compensate_attempt row"
| "phase_attempt Resolve row = sr_resolve_attempt row"

definition attempt_violates :: "StoredAttempt \<Rightarrow> StoredAttempt \<Rightarrow> bool" where
  "attempt_violates new a =
     (attempt_key (at_saga_id new) (sa_step (at_row new)) (sa_phase (at_row new))
        (sa_attempt (at_row new)) a \<or>
      (sa_effect_id (at_row a) = sa_effect_id (at_row new) \<and>
       sa_attempt (at_row a) = sa_attempt (at_row new)) \<or>
      sa_command_id (at_row a) = sa_command_id (at_row new))"

definition record_attempt_started ::
  "SagaId \<Rightarrow> StepName \<Rightarrow> StepPhase \<Rightarrow> AttemptNo \<Rightarrow> string \<Rightarrow> string \<Rightarrow> AttemptStart tx" where
  "record_attempt_started saga step phase attempt effect command =
     bindT (readT (\<lambda>d. \<lparr>at_saga_id = saga, at_started_at = db_now d,
       at_row = \<lparr>sa_step = step, sa_phase = phase, sa_attempt = attempt, sa_effect_id = effect,
         sa_command_id = command, sa_status = AttStarted, sa_outcome_event_id = None\<rparr>\<rparr>)) (\<lambda>new.
     bindT (readT (\<lambda>d. (list_ex (attempt_violates new) (db_attempts d),
         find (attempt_key saga step phase attempt) (db_attempts d)))) (\<lambda>(violated, existing).
       if violated then
         (case existing of
            None \<Rightarrow> failT (E_Conflict ''attempt identity collides with a different step attempt'')
          | Some a \<Rightarrow>
              if sa_effect_id (at_row a) \<noteq> effect \<or> sa_command_id (at_row a) \<noteq> command
              then failT (E_Conflict ''attempt already recorded with different identities'')
              else returnT StartAlreadyRecorded)
       else
         bindT (writeT (\<lambda>d. d\<lparr>db_attempts := db_attempts d @ [new]\<rparr>)) (\<lambda>_.
         bindT (writeT (update_steps (\<lambda>s row. s = saga \<and> sr_step row = step \<and>
             coalesce (phase_attempt phase row) 0 \<le> attempt_no_get attempt)
           (project_attempt phase effect command (attempt_no_get attempt))))
           (\<lambda>_. returnT StartRecorded))))"

definition record_attempt_outcome ::
  "SagaId \<Rightarrow> StepName \<Rightarrow> StepPhase \<Rightarrow> AttemptNo \<Rightarrow> StepAttemptStatus \<Rightarrow> string option \<Rightarrow>
    AttemptOutcomeRecord tx" where
  "record_attempt_outcome saga step phase attempt status event_id =
     bindT (requireT (\<not> is_in_flight status) (E_Store ''attempt outcome must be a settled status'')) (\<lambda>_.
     bindT (readT (\<lambda>d. find (attempt_key saga step phase attempt) (db_attempts d))) (\<lambda>existing.
       case existing of
         None \<Rightarrow> failT (E_Store ''attempt outcome arrived for an unrecorded attempt'')
       | Some a \<Rightarrow>
           if sa_status (at_row a) = AttStarted then
             bindT (writeT (\<lambda>d. d\<lparr>db_attempts := map (\<lambda>b.
                 if attempt_key saga step phase attempt b \<and> sa_status (at_row b) = AttStarted
                 then b\<lparr>at_row := (at_row b)\<lparr>sa_status := status,
                   sa_outcome_event_id := or_else event_id (sa_outcome_event_id (at_row b))\<rparr>\<rparr>
                 else b) (db_attempts d)\<rparr>)) (\<lambda>_. returnT OutcomeRecorded)
           else if sa_status (at_row a) = status then returnT OutcomeAlreadyRecorded
           else returnT (OutcomeConflicting (sa_status (at_row a)))))"

definition attempts_of :: "SagaId \<Rightarrow> StepName \<Rightarrow> SagaDb \<Rightarrow> StoredAttempt list" where
  "attempts_of saga step d =
     filter (\<lambda>a. at_saga_id a = saga \<and> sa_step (at_row a) = step) (db_attempts d)"

definition load_attempts :: "SagaId \<Rightarrow> StepName \<Rightarrow> SagaStepAttemptRow list tx" where
  "load_attempts saga step = readT (\<lambda>d. map at_row (attempts_of saga step d))"

definition count_resolutions :: "SagaId \<Rightarrow> StepName \<Rightarrow> Direction \<Rightarrow> SagaDb \<Rightarrow> nat" where
  "count_resolutions saga step direction d =
     (let mine = attempts_of saga step d;
          resolutions = filter (\<lambda>a. sa_phase (at_row a) = Resolve) mine;
          starts = map at_started_at (filter (\<lambda>a. sa_phase (at_row a) = Compensate) mine)
      in case starts of
           [] \<Rightarrow> if direction = Forward then length resolutions else 0
         | s # ss \<Rightarrow>
             let first = fold min ss s
             in length (filter (\<lambda>a. if direction = Forward then at_started_at a < first
                  else first \<le> at_started_at a) resolutions))"

definition count_resolution_attempts :: "SagaId \<Rightarrow> StepName \<Rightarrow> Direction \<Rightarrow> u32 tx" where
  "count_resolution_attempts saga step direction =
     bindT (readT (count_resolutions saga step direction)) (\<lambda>count.
       if count < 2 ^ 32 then returnT (of_nat count)
       else failT (E_Store ''resolution attempt count''))"

end
