(* ===== verification/Saga_Timers.thy ===== *)
theory Saga_Timers
  imports Saga_Attempts
begin

text \<open>
  Durable timers (\<open>nasaga-mysql/src/timer.rs\<close>): scheduling, cancellation, the leased claim and its
  fencing; and the two message tables of the same database, the outbox append of
  \<open>naoutbox-mysql/src/lib.rs\<close> and the inbox claim of \<open>nainbox-mysql/src/lib.rs\<close>. Claiming and
  releasing a lease are single statements that commit on their own.
\<close>

section \<open>Argument checks\<close>

definition validate_timer_id :: "string \<Rightarrow> unit orch" where
  "validate_timer_id timer_id = reject_if (\<not> bounded_text 190 timer_id) (E_Store ''invalid timer id'')"

definition validate_kind :: "string \<Rightarrow> unit orch" where
  "validate_kind kind = reject_if (\<not> stable_code 64 kind) (E_Store ''invalid timer kind'')"

definition validate_owner :: "string \<Rightarrow> unit orch" where
  "validate_owner owner = reject_if (\<not> bounded_text 128 owner) (E_Store ''invalid timer owner'')"

definition validate_epoch_ms :: "i64 \<Rightarrow> unit orch" where
  "validate_epoch_ms value =
     reject_if (value < 0) (E_Store ''must be a non-negative epoch millisecond'')"

definition validate_saga_version :: "nat \<Rightarrow> unit orch" where
  "validate_saga_version version =
     reject_if (version = 0) (E_Store ''timer expected saga version must start at 1'')"

section \<open>Scheduling\<close>

definition timer_key ::
  "SagaId \<Rightarrow> TimerScope \<Rightarrow> string \<Rightarrow> AttemptNo \<Rightarrow> StoredTimer \<Rightarrow> bool" where
  "timer_key saga scope kind attempt t =
     (tm_saga_id (tt_row t) = saga \<and> tm_scope_kind (tt_row t) = scope_kind_str scope \<and>
      tm_scope_key (tt_row t) = scope_key_str scope \<and> tm_kind (tt_row t) = kind \<and>
      tm_attempt (tt_row t) = attempt)"

definition new_timer :: "TimerSpec \<Rightarrow> StoredTimer" where
  "new_timer spec =
     \<lparr>tt_row = \<lparr>tm_timer_id = ts_timer_id spec, tm_saga_id = ts_saga_id spec,
        tm_scope_kind = scope_kind_str (ts_scope spec), tm_scope_key = scope_key_str (ts_scope spec),
        tm_kind = ts_kind spec, tm_due_at_ms = ts_due_at_ms spec,
        tm_available_at_ms = ts_due_at_ms spec, tm_state = TmrPending, tm_attempt = ts_attempt spec,
        tm_expected_saga_version = ts_expected_saga_version spec, tm_generation = 1,
        tm_owner = None, tm_claimed_until_ms = None\<rparr>,
      tt_fencing_token = None\<rparr>"

definition store_schedule_timer :: "TimerSpec \<Rightarrow> TimerSchedule tx" where
  "store_schedule_timer spec =
     bindT (liftT (validate_timer_id (ts_timer_id spec))) (\<lambda>_.
     bindT (liftT (validate_kind (ts_kind spec))) (\<lambda>_.
     bindT (liftT (validate_epoch_ms (ts_due_at_ms spec))) (\<lambda>_.
     bindT (liftT (validate_saga_version (ts_expected_saga_version spec))) (\<lambda>_.
     bindT (readT (\<lambda>d.
         (find (timer_key (ts_saga_id spec) (ts_scope spec) (ts_kind spec) (ts_attempt spec)) (db_timers d),
          list_ex (\<lambda>t. tm_timer_id (tt_row t) = ts_timer_id spec) (db_timers d)))) (\<lambda>(existing, taken).
       case existing of
         Some t \<Rightarrow>
           if tm_timer_id (tt_row t) = ts_timer_id spec then returnT AlreadyScheduled
           else failT (E_Store ''timer already scheduled with a different timer id'')
       | None \<Rightarrow>
           if taken then failT (E_Conflict ''timer id collides with a different timer scope'')
           else bindT (writeT (\<lambda>d. d\<lparr>db_timers := db_timers d @ [new_timer spec]\<rparr>))
                  (\<lambda>_. returnT Scheduled))))))"

definition update_timers ::
  "(StoredTimer \<Rightarrow> bool) \<Rightarrow> (StoredTimer \<Rightarrow> StoredTimer) \<Rightarrow> SagaDb \<Rightarrow> SagaDb" where
  "update_timers P f d = d\<lparr>db_timers := map (\<lambda>t. if P t then f t else t) (db_timers d)\<rparr>"

text \<open>\<open>owner = NULL, fencing_token = NULL, claimed_until = NULL\<close>, with a new state.\<close>

definition settle_timer :: "TimerState \<Rightarrow> StoredTimer \<Rightarrow> StoredTimer" where
  "settle_timer state t =
     t\<lparr>tt_row := (tt_row t)\<lparr>tm_state := state, tm_owner := None, tm_claimed_until_ms := None\<rparr>,
       tt_fencing_token := None\<rparr>"

definition timer_live :: "StoredTimer \<Rightarrow> bool" where
  "timer_live t = (tm_state (tt_row t) \<in> {TmrPending, TmrClaimed})"

definition scope_matches :: "SagaId \<Rightarrow> TimerScope \<Rightarrow> string option \<Rightarrow> StoredTimer \<Rightarrow> bool" where
  "scope_matches saga scope kind t =
     (tm_saga_id (tt_row t) = saga \<and> tm_scope_kind (tt_row t) = scope_kind_str scope \<and>
      tm_scope_key (tt_row t) = scope_key_str scope \<and>
      (case kind of None \<Rightarrow> True | Some k \<Rightarrow> tm_kind (tt_row t) = k) \<and> timer_live t)"

definition cancel_scope_timers :: "SagaId \<Rightarrow> TimerScope \<Rightarrow> string option \<Rightarrow> nat tx" where
  "cancel_scope_timers saga scope kind =
     bindT (liftT (check_opt validate_kind kind)) (\<lambda>_.
     bindT (readT (\<lambda>d. length (filter (scope_matches saga scope kind) (db_timers d)))) (\<lambda>affected.
     bindT (writeT (update_timers (scope_matches saga scope kind) (settle_timer TmrCancelled)))
       (\<lambda>_. returnT affected)))"

definition reschedule_timer ::
  "SagaId \<Rightarrow> TimerScope \<Rightarrow> string \<Rightarrow> AttemptNo \<Rightarrow> i64 \<Rightarrow> nat \<Rightarrow> TimerReschedule tx" where
  "reschedule_timer saga scope kind attempt due_at_ms version =
     bindT (liftT (validate_kind kind)) (\<lambda>_.
     bindT (liftT (validate_epoch_ms due_at_ms)) (\<lambda>_.
     bindT (liftT (validate_saga_version version)) (\<lambda>_.
     bindT (readT (\<lambda>d. list_ex (\<lambda>t. timer_key saga scope kind attempt t \<and> timer_live t) (db_timers d)))
       (\<lambda>hit.
        if \<not> hit then returnT RescheduleNotFound
        else bindT (writeT (update_timers (\<lambda>t. timer_key saga scope kind attempt t \<and> timer_live t)
            (\<lambda>t. settle_timer TmrPending (t\<lparr>tt_row := (tt_row t)\<lparr>tm_due_at_ms := due_at_ms,
               tm_available_at_ms := due_at_ms, tm_expected_saga_version := version,
               tm_generation := tm_generation (tt_row t) + 1\<rparr>\<rparr>))))
          (\<lambda>_. returnT Rescheduled)))))"

definition wake_saga_timers :: "SagaId \<Rightarrow> nat tx" where
  "wake_saga_timers saga =
     (let asleep = (\<lambda>t. tm_saga_id (tt_row t) = saga \<and> tm_state (tt_row t) = TmrPending \<and>
            tm_available_at_ms (tt_row t) \<noteq> tm_due_at_ms (tt_row t))
      in bindT (readT (\<lambda>d. length (filter asleep (db_timers d)))) (\<lambda>affected.
         bindT (writeT (update_timers asleep
           (\<lambda>t. t\<lparr>tt_row := (tt_row t)\<lparr>tm_available_at_ms := tm_due_at_ms (tt_row t)\<rparr>\<rparr>)))
           (\<lambda>_. returnT affected)))"

section \<open>Leases\<close>

definition timer_due :: "i64 \<Rightarrow> StoredTimer \<Rightarrow> bool" where
  "timer_due now_ms t =
     (tm_state (tt_row t) = TmrPending \<and> tm_available_at_ms (tt_row t) \<le> now_ms \<or>
      tm_state (tt_row t) = TmrClaimed \<and>
      (case tm_claimed_until_ms (tt_row t) of None \<Rightarrow> False | Some u \<Rightarrow> u \<le> now_ms))"

definition claim_timer :: "string \<Rightarrow> string \<Rightarrow> i64 \<Rightarrow> StoredTimer \<Rightarrow> StoredTimer" where
  "claim_timer owner token until t =
     t\<lparr>tt_row := (tt_row t)\<lparr>tm_state := TmrClaimed, tm_owner := Some owner,
         tm_claimed_until_ms := Some until\<rparr>,
       tt_fencing_token := Some token\<rparr>"

definition claim_due_timers ::
  "string \<Rightarrow> string \<Rightarrow> i64 \<Rightarrow> i64 \<Rightarrow> nat \<Rightarrow> SagaTimerRow list tx" where
  "claim_due_timers owner token now_ms lease_ms limit =
     bindT (liftT (validate_owner owner)) (\<lambda>_.
     bindT (liftT (validate_epoch_ms now_ms)) (\<lambda>_.
     bindT (requireT (0 < lease_ms \<and> limit \<noteq> 0)
       (E_Store ''timer claim requires a positive lease and limit'')) (\<lambda>_.
     bindT (liftT (ok_or (checked_add_i64 now_ms lease_ms)
       (E_Store ''timer claim lease deadline overflow''))) (\<lambda>claimed_until.
     bindT (readT (\<lambda>d. map (tm_timer_id \<circ> tt_row) (take limit
         (sort_key (tm_due_at_ms \<circ> tt_row) (filter (timer_due now_ms) (db_timers d)))))) (\<lambda>chosen.
     bindT (writeT (update_timers (\<lambda>t. tm_timer_id (tt_row t) \<in> set chosen)
         (claim_timer owner token claimed_until))) (\<lambda>_.
       readT (\<lambda>d. sort_key tm_due_at_ms (map tt_row (filter (\<lambda>t. tm_owner (tt_row t) = Some owner \<and>
         tt_fencing_token t = Some token \<and> tm_state (tt_row t) = TmrClaimed) (db_timers d))))))))))"

definition holds_lease :: "string \<Rightarrow> string \<Rightarrow> i64 \<Rightarrow> StoredTimer \<Rightarrow> bool" where
  "holds_lease timer_id token now_ms t =
     (tm_timer_id (tt_row t) = timer_id \<and> tm_state (tt_row t) = TmrClaimed \<and>
      tt_fencing_token t = Some token \<and>
      (case tm_claimed_until_ms (tt_row t) of None \<Rightarrow> False | Some u \<Rightarrow> now_ms < u))"

definition complete_timer :: "string \<Rightarrow> string \<Rightarrow> i64 \<Rightarrow> TimerFencing tx" where
  "complete_timer timer_id token now_ms =
     bindT (liftT (validate_timer_id timer_id)) (\<lambda>_.
     bindT (liftT (validate_epoch_ms now_ms)) (\<lambda>_.
     bindT (readT (\<lambda>d. list_ex (holds_lease timer_id token now_ms) (db_timers d))) (\<lambda>held.
       if \<not> held then returnT FencingLost
       else bindT (writeT (update_timers (holds_lease timer_id token now_ms) (settle_timer TmrFired)))
              (\<lambda>_. returnT FencingApplied))))"

definition release_timer :: "string \<Rightarrow> string \<Rightarrow> i64 \<Rightarrow> i64 \<Rightarrow> TimerFencing tx" where
  "release_timer timer_id token now_ms available_at_ms =
     bindT (liftT (validate_timer_id timer_id)) (\<lambda>_.
     bindT (liftT (validate_epoch_ms now_ms)) (\<lambda>_.
     bindT (liftT (validate_epoch_ms available_at_ms)) (\<lambda>_.
     bindT (readT (\<lambda>d. list_ex (\<lambda>t. holds_lease timer_id token now_ms t \<and>
         find_by_id (tm_saga_id (tt_row t)) d \<noteq> None) (db_timers d))) (\<lambda>held.
       if \<not> held then returnT FencingLost
       else bindT (writeT (\<lambda>d. update_timers (\<lambda>t. holds_lease timer_id token now_ms t \<and>
              find_by_id (tm_saga_id (tt_row t)) d \<noteq> None)
              (\<lambda>t. settle_timer TmrPending (t\<lparr>tt_row := (tt_row t)\<lparr>tm_available_at_ms :=
                 (case find_by_id (tm_saga_id (tt_row t)) d of
                    Some i \<Rightarrow> if si_control_state i = Paused then available_at_ms
                      else tm_due_at_ms (tt_row t)
                  | None \<Rightarrow> tm_available_at_ms (tt_row t))\<rparr>\<rparr>)) d))
              (\<lambda>_. returnT FencingApplied)))))"

section \<open>Inbox and outbox\<close>

datatype InboxClaim = InboxClaimed | InboxDuplicate

definition inbox_key_ok :: "nat \<Rightarrow> string \<Rightarrow> bool" where
  "inbox_key_ok max_len value =
     (value \<noteq> [] \<and> trim value = value \<and> length value \<le> max_len \<and> CHR 0x00 \<notin> set value)"

definition inbox_claim :: "string \<Rightarrow> string \<Rightarrow> InboxClaim tx" where
  "inbox_claim consumer_name message_id =
     bindT (requireT (inbox_key_ok 128 consumer_name) (E_Store ''invalid consumer_name'')) (\<lambda>_.
     bindT (requireT (inbox_key_ok 190 message_id) (E_Store ''invalid message_id'')) (\<lambda>_.
     bindT (readT (\<lambda>d. (consumer_name, message_id) \<in> set (db_inbox d))) (\<lambda>taken.
       if taken then returnT InboxDuplicate
       else bindT (writeT (\<lambda>d. d\<lparr>db_inbox := db_inbox d @ [(consumer_name, message_id)]\<rparr>))
              (\<lambda>_. returnT InboxClaimed))))"

definition outbox_context_ok :: "string \<Rightarrow> bool" where
  "outbox_context_ok tenant = (tenant \<noteq> [] \<and> length tenant \<le> 256 \<and> \<not> has_control tenant)"

text \<open>\<open>outbox_cap\<close> is the process-wide table of configured outbox quotas.\<close>

definition outbox_append :: "(string \<Rightarrow> nat option) \<Rightarrow> string \<Rightarrow> OutboxEvent \<Rightarrow> unit tx" where
  "outbox_append outbox_cap tenant event =
     bindT (case outbox_cap tenant of
         None \<Rightarrow> returnT ()
       | Some cap \<Rightarrow>
           bindT (writeT (\<lambda>d. d\<lparr>db_outbox_quotas := ensure_quota_row tenant (db_outbox_quotas d)\<rparr>)) (\<lambda>_.
           bindT (readT (\<lambda>d. reserve_quota_row tenant (Some cap) (db_outbox_quotas d))) (\<lambda>reserved.
             case reserved of
               Some rows \<Rightarrow> writeT (\<lambda>d. d\<lparr>db_outbox_quotas := rows\<rparr>)
             | None \<Rightarrow>
                 bindT (readT (\<lambda>d. list_ex (\<lambda>q. qr_tenant q = tenant \<and> qr_initialized q)
                   (db_outbox_quotas d))) (\<lambda>initialized.
                   if initialized then failT (E_Store ''outbox_tenant_quota_exceeded'')
                   else failT (E_Store ''outbox tenant quota ledger is not initialized'')))))
       (\<lambda>_.
     bindT (readT (\<lambda>d. list_ex (\<lambda>o'. oe_event_id o' = oe_event_id event) (db_outbox d))) (\<lambda>duplicate.
       if duplicate then failT (E_Store ''database'')
       else writeT (\<lambda>d. d\<lparr>db_outbox := db_outbox d @ [event\<lparr>oe_tenant := tenant\<rparr>]\<rparr>)))"

end
