(* ===== verification/Saga_Registry.thy ===== *)
theory Saga_Registry
  imports Saga_Timers "HOL-Library.List_Lexorder" "HOL-Library.Char_ord"
begin

text \<open>
  The registry of workflow definitions (\<open>nasaga-runtime-core/src/registry.rs\<close>), the orchestrator's
  configuration, and the digest that recognises a repeated start request (the types and free
  functions at the head of \<open>orchestrator.rs\<close>).
\<close>

section \<open>Registry\<close>

record DefinitionEntry =
  de_definition :: WorkflowDefinition
  de_accepts_new :: bool

record DefinitionRegistry =
  rg_definitions :: "string \<times> u32 \<rightharpoonup> DefinitionEntry"
  rg_tenant_definitions :: "string \<times> string \<times> u32 \<rightharpoonup> DefinitionEntry"

definition registry_new :: DefinitionRegistry where
  "registry_new = \<lparr>rg_definitions = Map.empty, rg_tenant_definitions = Map.empty\<rparr>"

definition validate_runtime_resolution_modes :: "WorkflowDefinition \<Rightarrow> unit orch" where
  "validate_runtime_resolution_modes d =
     reject_if (list_ex (\<lambda>step. allow_unknown (sd_resolution step) \<and>
         resolution_mode (sd_resolution step) \<noteq> Some Poll) (wd_steps d))
       (E_Other ''unsupported Saga runtime resolution mode; only poll is hosted'')"

definition definition_key :: "WorkflowDefinition \<Rightarrow> string \<times> u32" where
  "definition_key d = (workflow_name_str (wd_name d), definition_version_get (wd_version d))"

definition registry_register ::
  "Ext \<Rightarrow> WorkflowDefinition \<Rightarrow> DefinitionRegistry \<Rightarrow> DefinitionRegistry orch" where
  "registry_register x d r =
     bindR (validate_runtime_resolution_modes d) (\<lambda>_.
       case rg_definitions r (definition_key d) of
         Some existing \<Rightarrow>
           if definition_digest (x_sha256 x) (de_definition existing) \<noteq> definition_digest (x_sha256 x) d
           then Inl (E_Other ''definition already registered with a different digest'')
           else Inr r
       | None \<Rightarrow> Inr (r\<lparr>rg_definitions := (rg_definitions r)
           (definition_key d \<mapsto> \<lparr>de_definition = d, de_accepts_new = True\<rparr>)\<rparr>))"

definition tenant_key :: "TenantId \<Rightarrow> WorkflowName \<Rightarrow> DefinitionVersion \<Rightarrow> string \<times> string \<times> u32" where
  "tenant_key tenant workflow version =
     (tenant_id_str tenant, workflow_name_str workflow, definition_version_get version)"

definition registry_register_for_tenant ::
  "Ext \<Rightarrow> TenantId \<Rightarrow> WorkflowDefinition \<Rightarrow> bool \<Rightarrow> DefinitionRegistry \<Rightarrow> DefinitionRegistry orch" where
  "registry_register_for_tenant x tenant d accepts_new r =
     bindR (validate_runtime_resolution_modes d) (\<lambda>_.
       case rg_tenant_definitions r (tenant_key tenant (wd_name d) (wd_version d)) of
         Some existing \<Rightarrow>
           if definition_digest (x_sha256 x) (de_definition existing) \<noteq> definition_digest (x_sha256 x) d
              \<or> de_accepts_new existing \<noteq> accepts_new
           then Inl (E_Other ''tenant definition already registered with different content or lifecycle'')
           else Inr r
       | None \<Rightarrow> Inr (r\<lparr>rg_tenant_definitions := (rg_tenant_definitions r)
           (tenant_key tenant (wd_name d) (wd_version d) \<mapsto>
              \<lparr>de_definition = d, de_accepts_new = accepts_new\<rparr>)\<rparr>))"

definition registry_get ::
  "DefinitionRegistry \<Rightarrow> WorkflowName \<Rightarrow> DefinitionVersion \<Rightarrow> WorkflowDefinition option" where
  "registry_get r workflow version =
     map_option de_definition
       (rg_definitions r (workflow_name_str workflow, definition_version_get version))"

definition get_for_tenant ::
  "DefinitionRegistry \<Rightarrow> TenantId \<Rightarrow> WorkflowName \<Rightarrow> DefinitionVersion \<Rightarrow> WorkflowDefinition option"
  where
  "get_for_tenant r tenant workflow version =
     or_else (map_option de_definition (rg_tenant_definitions r (tenant_key tenant workflow version)))
       (registry_get r workflow version)"

definition get_for_start ::
  "DefinitionRegistry \<Rightarrow> TenantId \<Rightarrow> WorkflowName \<Rightarrow> DefinitionVersion \<Rightarrow> WorkflowDefinition option"
  where
  "get_for_start r tenant workflow version =
     (case rg_tenant_definitions r (tenant_key tenant workflow version) of
        Some entry \<Rightarrow> if de_accepts_new entry then Some (de_definition entry) else None
      | None \<Rightarrow>
          (case rg_definitions r (workflow_name_str workflow, definition_version_get version) of
             Some entry \<Rightarrow> if de_accepts_new entry then Some (de_definition entry) else None
           | None \<Rightarrow> None))"

section \<open>Configuration\<close>

record TenantActionRate =
  rate_max_actions :: nat
  rate_window_ms :: i64

record OrchestratorConfig =
  cfg_inbox_consumer :: string
  cfg_cancel_max_attempts :: u32
  cfg_compensate_max_attempts :: u32
  cfg_resolve_max_attempts :: u32
  cfg_timer_claim_limit :: u32
  cfg_timer_lease_ms :: i64
  cfg_pause_backoff_ms :: i64
  cfg_startup_scan_limit :: u32
  cfg_tenant_quotas :: "(string \<times> nat) list"
  cfg_tenant_action_rates :: "(string \<times> TenantActionRate) list"
  cfg_enable_manual_close :: bool

definition config_default :: OrchestratorConfig where
  "config_default =
     \<lparr>cfg_inbox_consumer = ''nasaga-orchestrator'', cfg_cancel_max_attempts = 5,
      cfg_compensate_max_attempts = 5, cfg_resolve_max_attempts = 10, cfg_timer_claim_limit = 32,
      cfg_timer_lease_ms = 60000, cfg_pause_backoff_ms = 30000, cfg_startup_scan_limit = 1000,
      cfg_tenant_quotas = [], cfg_tenant_action_rates = [], cfg_enable_manual_close = False\<rparr>"

definition consumer_char :: "char \<Rightarrow> bool" where
  "consumer_char c =
     (is_ascii_lowercase c \<or> is_ascii_digit c \<or> c \<in> {CHR ''_'', CHR ''-'', CHR ''.''})"

fun validate_rates :: "(string \<times> TenantActionRate) list \<Rightarrow> unit orch" where
  "validate_rates [] = Inr ()"
| "validate_rates ((tenant, rate) # rates) =
     (if isl (TenantId_new tenant)
        then Inl (E_Other ''tenant action rate key is not a valid tenant id'')
      else if rate_window_ms rate \<le> 0
        then Inl (E_Other ''tenant action rate window_ms must be positive'')
      else validate_rates rates)"

definition validate_config :: "OrchestratorConfig \<Rightarrow> unit orch" where
  "validate_config c =
     bindR (reject_if (cfg_inbox_consumer c = [] \<or> trim (cfg_inbox_consumer c) \<noteq> cfg_inbox_consumer c \<or>
         length (cfg_inbox_consumer c) > 128 \<or> CHR 0x00 \<in> set (cfg_inbox_consumer c) \<or>
         \<not> list_all consumer_char (cfg_inbox_consumer c) \<or>
         cfg_cancel_max_attempts c = 0 \<or> cfg_compensate_max_attempts c = 0 \<or>
         cfg_resolve_max_attempts c = 0 \<or> cfg_timer_claim_limit c = 0 \<or>
         cfg_timer_lease_ms c \<le> 0 \<or> cfg_pause_backoff_ms c \<le> 0 \<or> cfg_startup_scan_limit c = 0)
       (E_Other ''orchestrator config violates the Inbox key contract or positive budgets'')) (\<lambda>_.
     bindR (reject_if (list_ex (\<lambda>(tenant, cap). isl (TenantId_new tenant)) (cfg_tenant_quotas c))
       (E_Other ''tenant quota key is not a valid tenant id'')) (\<lambda>_.
     validate_rates (cfg_tenant_action_rates c)))"

text \<open>A running orchestrator: the libraries, the registry snapshot, its configuration, and the
  process-wide table of outbox quotas.\<close>

record Runtime =
  rt_ext :: Ext
  rt_registry :: DefinitionRegistry
  rt_config :: OrchestratorConfig
  rt_outbox_cap :: "string \<Rightarrow> nat option"

section \<open>Start requests\<close>

record StartSagaRequest =
  sq_saga_id :: SagaId
  sq_tenant :: TenantId
  sq_workflow :: WorkflowName
  sq_version :: DefinitionVersion
  sq_business_key :: BusinessKey
  sq_deadline_at_ms :: "i64 option"
  sq_trigger_kind :: TriggerKind
  sq_trigger_id :: string
  sq_first_command_payload :: "json option"
  sq_first_command_raw_payload :: "SagaPayload option"
  sq_now_ms :: i64

text \<open>The bytes that \<open>hash_canonical_json\<close> feeds to the hash, object keys in byte order.\<close>

function json_preimage :: "json \<Rightarrow> bytes" where
  "json_preimage JNull = canonical_bytes [str_bytes ''null'']"
| "json_preimage (JBool b) = canonical_bytes [str_bytes ''bool'', [if b then 1 else 0]]"
| "json_preimage (JNumber n) = canonical_bytes [str_bytes ''number'', str_bytes n]"
| "json_preimage (JString s) = canonical_bytes [str_bytes ''string'', str_bytes s]"
| "json_preimage (JArray vs) =
     canonical_bytes [str_bytes ''array'', be_bytes 8 (length vs)] @ concat (map json_preimage vs)"
| "json_preimage (JObject kvs) =
     canonical_bytes [str_bytes ''object'', be_bytes 8 (length kvs)] @
     concat (map (\<lambda>kv. canonical_bytes [str_bytes ''key'', str_bytes (fst kv)] @ json_preimage (snd kv))
       (sort_key fst kvs))"
  by pat_completeness auto
termination
proof (relation "measure size")
  fix kvs :: "(string \<times> json) list" and kv
  assume "kv \<in> set (sort_key fst kvs)"
  then have "kv \<in> set kvs" by simp
  then show "(snd kv, JObject kvs) \<in> measure size"
    by (induction kvs) auto
qed (auto dest: size_list_estimation' [where f = size] simp: less_Suc_eq_le)

definition i64_be :: "i64 \<Rightarrow> bytes" where
  "i64_be v = be_bytes 8 (nat (v mod 2 ^ 64))"

definition flag_byte :: "bool \<Rightarrow> bytes" where
  "flag_byte b = [if b then 1 else 0]"

definition start_preimage :: "StartSagaRequest \<Rightarrow> string \<Rightarrow> StepName \<Rightarrow> bytes" where
  "start_preimage q digest first_step =
     canonical_bytes
       [str_bytes (tenant_id_str (sq_tenant q)), str_bytes (workflow_name_str (sq_workflow q)),
        u32_be (definition_version_get (sq_version q)), str_bytes digest,
        str_bytes (business_key_str (sq_business_key q)), str_bytes (step_name_str first_step),
        flag_byte (sq_deadline_at_ms q \<noteq> None), i64_be (coalesce (sq_deadline_at_ms q) 0),
        flag_byte (sq_first_command_payload q \<noteq> None)] @
     (case sq_first_command_payload q of None \<Rightarrow> [] | Some v \<Rightarrow> json_preimage v)"

definition derive_legacy_start_request_digest ::
  "Ext \<Rightarrow> StartSagaRequest \<Rightarrow> string \<Rightarrow> StepName \<Rightarrow> string" where
  "derive_legacy_start_request_digest x q digest first_step =
     hex_encode (x_sha256 x (start_preimage q digest first_step))"

definition derive_start_request_digest ::
  "Ext \<Rightarrow> StartSagaRequest \<Rightarrow> string \<Rightarrow> StepName \<Rightarrow> SagaPayload option \<Rightarrow> string" where
  "derive_start_request_digest x q digest first_step payload =
     (let domain = derive_legacy_start_request_digest x
            (q\<lparr>sq_first_command_payload := None, sq_first_command_raw_payload := None\<rparr>) digest first_step
      in case payload of
           None \<Rightarrow> domain
         | Some p \<Rightarrow> x_hex_encode x (x_sha256 x (canonical_bytes
             [str_bytes ''saga-start-payload'', str_bytes domain, str_bytes (payload_content_type p),
              str_bytes (payload_schema_id p), payload_body p])))"

definition CONVERGE_TRIGGER_NAMESPACE :: bytes where
  "CONVERGE_TRIGGER_NAMESPACE = str_bytes ''nasasaga-v1-cvns''"

definition derive_converge_trigger_id :: "Ext \<Rightarrow> string \<Rightarrow> string" where
  "derive_converge_trigger_id x cause_id =
     x_uuid_text x (x_uuid5 x CONVERGE_TRIGGER_NAMESPACE
       (canonical_bytes [str_bytes cause_id, str_bytes ''converge'']))"

end
