(* ===== verification/Saga_Orchestrator.thy ===== *)
theory Saga_Orchestrator
  imports Saga_Registry
begin

text \<open>
  The orchestrator's result handling (\<open>nasaga-runtime-core/src/orchestrator.rs\<close>): the building
  blocks every handler uses (compare-and-set advance, issuing a command, scheduling a timer), the
  handlers of the four phases, and the entry points that start a saga and apply a result. Each is
  a program in one transaction; the runtime record \<open>rt\<close> carries the registry, the configuration and
  the libraries.
\<close>

section \<open>Building blocks\<close>

definition map_errT :: "(OrchError \<Rightarrow> OrchError) \<Rightarrow> 'a tx \<Rightarrow> 'a tx" where
  "map_errT f m d = map_err f (m d)"

definition lookup_definition :: "Runtime \<Rightarrow> SagaInstanceRow \<Rightarrow> OrchError \<Rightarrow> WorkflowDefinition tx" where
  "lookup_definition rt i e =
     liftT (ok_or (get_for_tenant (rt_registry rt) (si_tenant i) (si_workflow i)
       (si_definition_version i)) e)"

text \<open>A compare-and-set that did not apply fails the whole transaction.\<close>

definition store_applied :: "SagaId \<Rightarrow> nat \<Rightarrow> SagaStatus \<Rightarrow> TransitionSpec \<Rightarrow> nat tx" where
  "store_applied saga expected_version from_status spec =
     bindT (store_advance saga expected_version from_status spec)
       (\<lambda>outcome. liftT (ensure_applied outcome))"

definition advance ::
  "SagaInstanceRow \<Rightarrow> SagaStatus \<Rightarrow> Direction \<Rightarrow> StepName option \<Rightarrow> TriggerKind \<Rightarrow> string \<Rightarrow>
    string option \<Rightarrow> string option \<Rightarrow> nat tx" where
  "advance i to direction current_step trigger_kind trigger_id failure_code plan =
     store_applied (si_saga_id i) (si_version i) (si_status i)
       \<lparr>tp_to_status = to, tp_direction = direction, tp_current_step = current_step,
        tp_trigger_kind = trigger_kind, tp_trigger_id = trigger_id,
        tp_definition_version = si_definition_version i, tp_failure_code = failure_code,
        tp_plan_version = plan\<rparr>"

definition schedule_timer ::
  "Runtime \<Rightarrow> SagaId \<Rightarrow> TimerScope \<Rightarrow> string \<Rightarrow> AttemptNo \<Rightarrow> i64 \<Rightarrow> nat \<Rightarrow> unit tx" where
  "schedule_timer rt saga scope kind attempt due_at_ms version =
     bindT (store_schedule_timer
       \<lparr>ts_timer_id = derive_timer_id (rt_ext rt) saga scope kind attempt, ts_saga_id = saga,
        ts_scope = scope, ts_kind = kind, ts_due_at_ms = due_at_ms, ts_attempt = attempt,
        ts_expected_saga_version = version\<rparr>) (\<lambda>_. returnT ())"

definition cancel_timers :: "SagaId \<Rightarrow> TimerScope \<Rightarrow> string option \<Rightarrow> unit tx" where
  "cancel_timers saga scope kind = bindT (cancel_scope_timers saga scope kind) (\<lambda>_. returnT ())"

definition cancel_resolution_timers :: "SagaId \<Rightarrow> StepName \<Rightarrow> unit tx" where
  "cancel_resolution_timers saga step =
     bindT (cancel_timers saga (ScopeStep step) (Some KIND_RESOLUTION_BUDGET)) (\<lambda>_.
     bindT (cancel_timers saga (ScopeStep step) (Some KIND_FORWARD_RESOLUTION_BUDGET)) (\<lambda>_.
     bindT (cancel_timers saga (ScopeStep step) (Some KIND_COMPENSATION_RESOLUTION_BUDGET)) (\<lambda>_.
       cancel_timers saga (ScopeStep step) (Some KIND_RESOLVE_TIMEOUT))))"

definition patch_step :: "SagaId \<Rightarrow> StepName \<Rightarrow> StepJournalPatch \<Rightarrow> unit tx" where
  "patch_step saga step patch = update_step_journal saga step patch"

definition max_attempt :: "u32 list \<Rightarrow> u32 option" where
  "max_attempt ns = (case ns of [] \<Rightarrow> None | n # ns' \<Rightarrow> Some (fold max ns' n))"

definition next_attempt :: "SagaId \<Rightarrow> StepName \<Rightarrow> StepPhase \<Rightarrow> AttemptNo tx" where
  "next_attempt saga step phase =
     bindT (load_attempts saga step) (\<lambda>attempts.
       case max_attempt (map (attempt_no_get \<circ> sa_attempt) (filter (\<lambda>r. sa_phase r = phase) attempts)) of
         None \<Rightarrow> returnT AttemptNo_FIRST
       | Some value \<Rightarrow> liftT (map_err E_Violation (bindR (AttemptNo_new value) AttemptNo_next)))"

datatype CommandInput = InputJson json | InputRaw SagaPayload

definition command_envelope ::
  "Ext \<Rightarrow> SagaInstanceRow \<Rightarrow> StepName \<Rightarrow> StepPhase \<Rightarrow> AttemptNo \<Rightarrow> CommandInput option \<Rightarrow> string option \<Rightarrow>
    SagaCommandEnvelope" where
  "command_envelope x i step phase attempt payload recovery_operation_id =
     (let effect = EffectId_derive (x_uuid5 x) (si_saga_id i) (si_definition_version i) step phase;
          command = CommandId_derive (x_uuid5 x) effect attempt
      in \<lparr>ce_saga_id = saga_id_str (si_saga_id i), ce_tenant_id = tenant_id_str (si_tenant i),
          ce_workflow = workflow_name_str (si_workflow i),
          ce_definition_version = definition_version_get (si_definition_version i),
          ce_definition_digest = si_definition_digest i, ce_step_name = step_name_str step,
          ce_phase = step_phase_as_str phase, ce_attempt = attempt_no_get attempt,
          ce_effect_id = effect_text x effect, ce_command_id = command_text x command,
          ce_recovery_operation_id = recovery_operation_id,
          ce_payload = (case payload of Some (InputJson v) \<Rightarrow> Some v | _ \<Rightarrow> None),
          ce_raw_payload = (case payload of Some (InputRaw p) \<Rightarrow> Some p | _ \<Rightarrow> None)\<rparr>)"

definition child_traceparent :: "Ext \<Rightarrow> string option \<Rightarrow> string option" where
  "child_traceparent x traceparent =
     map_option (\<lambda>base. to_traceparent (x_hex_encode x) (trace_child base (x_span_id x)))
       (Option.bind traceparent (parse_traceparent (x_hex_decode x)))"

definition issue_command ::
  "Runtime \<Rightarrow> SagaInstanceRow \<Rightarrow> StepDefinition \<Rightarrow> StepPhase \<Rightarrow> AttemptNo \<Rightarrow> CommandInput option \<Rightarrow>
    string option \<Rightarrow> i64 \<Rightarrow> nat \<Rightarrow> unit tx" where
  "issue_command rt i step_def phase attempt payload recovery_operation_id now_ms expected_version =
     (let x = rt_ext rt;
          step = sd_name step_def;
          effect = EffectId_derive (x_uuid5 x) (si_saga_id i) (si_definition_version i) step phase;
          command = CommandId_derive (x_uuid5 x) effect attempt;
          envelope = command_envelope x i step phase attempt payload recovery_operation_id
      in bindT (record_attempt_started (si_saga_id i) step phase attempt (effect_text x effect)
           (command_text x command)) (\<lambda>_.
         bindT (liftT (map_err E_Envelope (command_to_outbox x envelope))) (\<lambda>event.
         bindT (requireT (outbox_context_ok (tenant_id_str (si_tenant i)))
           (E_Other ''outbox write context rejected'')) (\<lambda>_.
         bindT (outbox_append (rt_outbox_cap rt) (tenant_id_str (si_tenant i))
           (case child_traceparent x (si_traceparent i) of
              None \<Rightarrow> event | Some t \<Rightarrow> event\<lparr>oe_traceparent := Some t\<rparr>)) (\<lambda>_.
         bindT (liftT (duration_millis (sd_timeout step_def))) (\<lambda>timeout_ms.
         bindT (liftT (checked_deadline now_ms timeout_ms)) (\<lambda>due.
           schedule_timer rt (si_saga_id i) (ScopeStep step) (phase_timeout_kind phase) attempt due
             expected_version)))))))"

definition escalate_manual ::
  "SagaInstanceRow \<Rightarrow> TriggerKind \<Rightarrow> string \<Rightarrow> string \<Rightarrow> SagaStatus tx" where
  "escalate_manual i trigger_kind trigger_id failure_code =
     bindT (advance i ManualIntervention (si_direction i) (si_current_step i) trigger_kind trigger_id
       (Some failure_code) None) (\<lambda>_. returnT ManualIntervention)"

text \<open>The row of one step, out of the loaded journal.\<close>

definition load_step_row :: "SagaId \<Rightarrow> StepName \<Rightarrow> SagaStepRow tx" where
  "load_step_row saga step =
     bindT (load_steps saga) (\<lambda>rows.
       liftT (ok_or (find (\<lambda>row. sr_step row = step) rows) (E_Other ''step journal row is missing'')))"

section \<open>Convergence\<close>

text \<open>The loop of \<open>verify_compensation_completion\<close> over the rebuilt plan.\<close>

fun verify_members :: "SagaStepRow list \<Rightarrow> string \<Rightarrow> CompensationEntry list \<Rightarrow> unit orch" where
  "verify_members steps frozen [] = Inr ()"
| "verify_members steps frozen (entry # entries) =
     (case find (\<lambda>row. sr_step row = ce_step entry) steps of
        None \<Rightarrow> Inl (E_Other ''frozen compensation member is missing'')
      | Some row \<Rightarrow>
          if sr_compensation_plan_version row \<noteq> Some frozen \<or>
             sr_compensation_order row \<noteq> Some (ce_order entry) \<or>
             sr_compensation_status row \<noteq> CmpSucceeded
          then Inl (E_Other ''frozen compensation member is not durably succeeded'')
          else verify_members steps frozen entries)"

definition verify_compensation_completion ::
  "Runtime \<Rightarrow> SagaId \<Rightarrow> nat \<Rightarrow> DefinitionVersion tx" where
  "verify_compensation_completion rt saga expected_version =
     bindT (load_instance saga) (\<lambda>loaded.
     bindT (liftT (ok_or loaded (E_Other ''saga instance not found while converging''))) (\<lambda>i.
     bindT (requireT (si_status i = Compensating \<and> si_version i = expected_version)
       (E_Other ''compensation completion proof used a stale instance snapshot'')) (\<lambda>_.
     bindT (liftT (ok_or (si_compensation_plan_version i)
       (E_Other ''compensating instance has no frozen plan''))) (\<lambda>frozen.
     bindT (lookup_definition rt i (E_Other ''instance definition is not registered'')) (\<lambda>d.
     bindT (load_steps saga) (\<lambda>steps.
     bindT (liftT (map_err E_Violation
       (freeze_compensation_plan (x_sha256 (rt_ext rt)) d (journal_of steps)))) (\<lambda>rebuilt.
     bindT (requireT (plan_version rebuilt = frozen)
       (E_Other ''frozen compensation plan no longer matches durable forward facts'')) (\<lambda>_.
     bindT (liftT (verify_members steps frozen (plan_entries rebuilt))) (\<lambda>_.
     bindT (requireT (marked_count steps frozen = length (plan_entries rebuilt))
       (E_Other ''durable compensation plan contains unexpected members'')) (\<lambda>_.
       returnT (si_definition_version i)))))))))))"

definition converge_compensated_at ::
  "Runtime \<Rightarrow> SagaId \<Rightarrow> nat \<Rightarrow> TriggerKind \<Rightarrow> string \<Rightarrow> unit tx" where
  "converge_compensated_at rt saga version trigger_kind cause_id =
     bindT (verify_compensation_completion rt saga version) (\<lambda>definition_version.
     bindT (store_applied saga version Compensating
       \<lparr>tp_to_status = Compensated, tp_direction = Backward, tp_current_step = None,
        tp_trigger_kind = trigger_kind,
        tp_trigger_id = derive_converge_trigger_id (rt_ext rt) cause_id,
        tp_definition_version = definition_version, tp_failure_code = None, tp_plan_version = None\<rparr>)
       (\<lambda>_. cancel_timers saga ScopeInstance None))"

definition proceed_forward :: "Runtime \<Rightarrow> ResultContext \<Rightarrow> SagaStatus tx" where
  "proceed_forward rt c =
     (let saga = vi_saga_id (rc_identity c)
      in bindT (load_steps saga) (\<lambda>steps.
         bindT (liftT (next_pending_forward (rc_definition c) steps)) (\<lambda>next.
           case next of
             Some n \<Rightarrow>
               bindT (advance (rc_instance c) Running Forward (Some n) TrigEvent (rc_event_id c) None None)
                 (\<lambda>version.
               bindT (liftT (ok_or (definition_step (rc_definition c) n)
                 (E_Other ''next step absent from definition''))) (\<lambda>next_def.
               bindT (next_attempt saga n Execute) (\<lambda>attempt.
               bindT (issue_command rt (rc_instance c) next_def Execute attempt None None (rc_now_ms c)
                 version) (\<lambda>_. returnT Running))))
           | None \<Rightarrow>
               bindT (advance (rc_instance c) Completed Forward None TrigEvent (rc_event_id c) None None)
                 (\<lambda>_.
               bindT (cancel_timers saga ScopeInstance None) (\<lambda>_. returnT Completed)))))"

definition enter_compensation :: "Runtime \<Rightarrow> ResultContext \<Rightarrow> SagaStatus tx" where
  "enter_compensation rt c =
     (let saga = vi_saga_id (rc_identity c)
      in bindT (load_steps saga) (\<lambda>steps.
         case freeze_compensation_plan (x_sha256 (rt_ext rt)) (rc_definition c) (journal_of steps) of
           Inl violation \<Rightarrow>
             escalate_manual (rc_instance c) TrigEvent (rc_event_id c) (violation_code violation)
         | Inr plan \<Rightarrow>
             let first = (case plan_entries plan of [] \<Rightarrow> None | e # es \<Rightarrow> Some (ce_step e))
             in bindT (advance (rc_instance c) Compensating Backward first TrigEvent (rc_event_id c) None
                  (Some (plan_version plan))) (\<lambda>version.
                bindT (mark_compensation_plan saga plan) (\<lambda>_.
                  case first of
                    Some step \<Rightarrow>
                      bindT (liftT (ok_or (definition_step (rc_definition c) step)
                        (E_Other ''plan step absent from definition''))) (\<lambda>step_def.
                      bindT (next_attempt saga step Compensate) (\<lambda>attempt.
                      bindT (issue_command rt (rc_instance c) step_def Compensate attempt None None
                        (rc_now_ms c) version) (\<lambda>_. returnT Compensating)))
                  | None \<Rightarrow>
                      bindT (converge_compensated_at rt (si_saga_id (rc_instance c)) version TrigEvent
                        (rc_event_id c)) (\<lambda>_. returnT Compensated)))))"

definition continue_compensation :: "Runtime \<Rightarrow> ResultContext \<Rightarrow> SagaStatus tx" where
  "continue_compensation rt c =
     (let saga = vi_saga_id (rc_identity c)
      in bindT (load_steps saga) (\<lambda>steps.
         case next_pending_compensation (x_sha256 (rt_ext rt)) (rc_instance c) (rc_definition c) steps
             False of
           Inl e \<Rightarrow> escalate_manual (rc_instance c) TrigEvent (rc_event_id c) ''compensation_plan_drift''
         | Inr next \<Rightarrow>
             bindT (advance (rc_instance c) Compensating Backward next TrigEvent (rc_event_id c) None None)
               (\<lambda>version.
                case next of
                  Some step \<Rightarrow>
                    bindT (liftT (ok_or (definition_step (rc_definition c) step)
                      (E_Other ''plan step absent from definition''))) (\<lambda>step_def.
                    bindT (next_attempt saga step Compensate) (\<lambda>attempt.
                    bindT (issue_command rt (rc_instance c) step_def Compensate attempt None None
                      (rc_now_ms c) version) (\<lambda>_. returnT Compensating)))
                | None \<Rightarrow>
                    bindT (converge_compensated_at rt saga version TrigEvent (rc_event_id c))
                      (\<lambda>_. returnT Compensated))))"

section \<open>Resolution of unknown effects\<close>

definition enter_waiting_resolution ::
  "Runtime \<Rightarrow> ResultContext \<Rightarrow> Direction \<Rightarrow> SagaStatus tx" where
  "enter_waiting_resolution rt c direction =
     (let saga = vi_saga_id (rc_identity c);
          step = vi_step (rc_identity c);
          resolution = sd_resolution (rc_step_def c)
      in if \<not> allow_unknown resolution then
           bindT (if vi_phase (rc_identity c) = Execute
                  then patch_step saga step (patch_default\<lparr>pt_forward_status := Some FwdUnknown\<rparr>)
                  else returnT ()) (\<lambda>_.
             escalate_manual (rc_instance c) TrigEvent (rc_event_id c) ''unknown_not_allowed'')
         else
           bindT (if vi_phase (rc_identity c) = Execute
                  then patch_step saga step (patch_default\<lparr>pt_forward_status := Some FwdUnknown,
                         pt_resolution_status := Some ResPending\<rparr>)
                  else patch_step saga step (patch_default\<lparr>pt_resolution_status := Some ResPending\<rparr>)) (\<lambda>_.
           bindT (cancel_timers saga (ScopeStep step) (Some KIND_STEP_TIMEOUT)) (\<lambda>_.
           bindT (advance (rc_instance c) WaitingResolution direction (Some step) TrigEvent
             (rc_event_id c) None None) (\<lambda>version.
           bindT (liftT (duration_millis (resolution_budget resolution))) (\<lambda>budget.
           bindT (liftT (checked_deadline (rc_now_ms c) budget)) (\<lambda>due.
           bindT (schedule_timer rt saga (ScopeStep step) (resolution_budget_kind direction)
             (vi_attempt (rc_identity c)) due version) (\<lambda>_.
           bindT (if resolution_mode resolution = Some Poll
                  then bindT (next_attempt saga step Resolve) (\<lambda>attempt.
                    issue_command rt (rc_instance c) (rc_step_def c) Resolve attempt None None
                      (rc_now_ms c) version)
                  else returnT ()) (\<lambda>_. returnT WaitingResolution))))))))"

definition reissue_resolve :: "Runtime \<Rightarrow> ResultContext \<Rightarrow> SagaStatus tx" where
  "reissue_resolve rt c =
     (let saga = vi_saga_id (rc_identity c);
          step = vi_step (rc_identity c);
          direction = si_direction (rc_instance c)
      in bindT (count_resolution_attempts saga step direction) (\<lambda>used.
         if cfg_resolve_max_attempts (rt_config rt) \<le> used
         then escalate_manual (rc_instance c) TrigEvent (rc_event_id c) ''resolve_attempts_exhausted''
         else
           bindT (next_attempt saga step Resolve) (\<lambda>attempt.
           bindT (advance (rc_instance c) WaitingResolution direction (Some step) TrigEvent
             (rc_event_id c) None None) (\<lambda>version.
           bindT (issue_command rt (rc_instance c) (rc_step_def c) Resolve attempt None None
             (rc_now_ms c) version) (\<lambda>_. returnT WaitingResolution)))))"

section \<open>Late and contradictory results\<close>

definition record_projection_conflict ::
  "ResultContext \<Rightarrow> SagaStepRow \<Rightarrow> SagaStatus tx" where
  "record_projection_conflict c row =
     bindT (liftT (ok_or (conflicting_projection_status row c)
       (E_Other ''conflicting projection has no settled fact''))) (\<lambda>existing.
     bindT (record_attempt_conflict
       \<lparr>cf_saga_id = vi_saga_id (rc_identity c), cf_step = vi_step (rc_identity c),
        cf_phase = vi_phase (rc_identity c), cf_attempt = vi_attempt (rc_identity c),
        cf_existing_status = existing, cf_incoming_status = rc_status c,
        cf_incoming_event_id = rc_event_id c, cf_conflict_kind = CrossPhaseFact\<rparr>) (\<lambda>_.
       if \<not> saga_is_terminal (si_status (rc_instance c)) \<and>
          si_status (rc_instance c) \<noteq> ManualIntervention
       then escalate_manual (rc_instance c) TrigEvent (rc_event_id c) ''cross_phase_fact_conflict''
       else returnT (si_status (rc_instance c))))"

definition project_deferred_result :: "ResultContext \<Rightarrow> SagaStatus tx" where
  "project_deferred_result c =
     (let saga = vi_saga_id (rc_identity c); step = vi_step (rc_identity c)
      in bindT (load_step_row saga step) (\<lambda>row.
         if phase_attempt (vi_phase (rc_identity c)) row \<noteq> Some (attempt_no_get (vi_attempt (rc_identity c)))
         then returnT (si_status (rc_instance c))
         else
           bindT (liftT (deferred_patch c)) (\<lambda>(patch, timeout_kind).
             if resolve_after_compensation_success row c patch
             then record_projection_conflict c row
             else
               (case merge_deferred_projection row patch of
                  Inl u \<Rightarrow> record_projection_conflict c row
                | Inr merged \<Rightarrow>
                    bindT (cancel_timers saga (ScopeStep step) (Some timeout_kind)) (\<lambda>_.
                    bindT (patch_step saga step merged) (\<lambda>_.
                      returnT (si_status (rc_instance c))))))))"

definition apply_monotonic_projection ::
  "ResultContext \<Rightarrow> StepJournalPatch \<Rightarrow> SagaStatus option tx" where
  "apply_monotonic_projection c patch =
     (let saga = vi_saga_id (rc_identity c); step = vi_step (rc_identity c)
      in bindT (load_step_row saga step) (\<lambda>row.
         if resolve_after_compensation_success row c patch
         then bindT (record_projection_conflict c row) (\<lambda>s. returnT (Some s))
         else
           (case merge_deferred_projection row patch of
              Inl u \<Rightarrow> bindT (record_projection_conflict c row) (\<lambda>s. returnT (Some s))
            | Inr merged \<Rightarrow> bindT (patch_step saga step merged) (\<lambda>_. returnT None))))"

text \<open>\<open>if let Some(status) = self.apply_monotonic_projection(..).await? { return Ok(status); }\<close>\<close>

definition project_or :: "ResultContext \<Rightarrow> StepJournalPatch \<Rightarrow> SagaStatus tx \<Rightarrow> SagaStatus tx" where
  "project_or c patch continue =
     bindT (apply_monotonic_projection c patch) (\<lambda>verdict.
       case verdict of Some status \<Rightarrow> returnT status | None \<Rightarrow> continue)"

section \<open>Results of the four phases\<close>

definition off_course :: "ResultContext \<Rightarrow> SagaStatus \<Rightarrow> bool" where
  "off_course c status =
     (si_status (rc_instance c) \<noteq> status \<or>
      si_current_step (rc_instance c) \<noteq> Some (vi_step (rc_identity c)))"

definition on_execute_result :: "Runtime \<Rightarrow> ResultContext \<Rightarrow> SagaStatus tx" where
  "on_execute_result rt c =
     (if off_course c Running then project_deferred_result c
      else
        let saga = vi_saga_id (rc_identity c); step = vi_step (rc_identity c)
        in case rc_status c of
             AttSucceeded \<Rightarrow>
               bindT (patch_step saga step
                 (patch_default\<lparr>pt_forward_status := Some FwdSucceeded, pt_mark_finished := True\<rparr>)) (\<lambda>_.
               bindT (cancel_timers saga (ScopeStep step) (Some KIND_STEP_TIMEOUT)) (\<lambda>_.
                 proceed_forward rt c))
           | AttRejected \<Rightarrow>
               bindT (patch_step saga step
                 (patch_default\<lparr>pt_forward_status := Some FwdRejected,
                    pt_last_error_code := rc_reason_code c, pt_mark_finished := True\<rparr>)) (\<lambda>_.
               bindT (cancel_timers saga (ScopeStep step) (Some KIND_STEP_TIMEOUT)) (\<lambda>_.
                 enter_compensation rt c))
           | AttUnknown \<Rightarrow> enter_waiting_resolution rt c Forward
           | AttHalted \<Rightarrow>
               bindT (patch_step saga step
                 (patch_default\<lparr>pt_forward_status := Some FwdHalted,
                    pt_last_error_code := rc_reason_code c, pt_mark_finished := True\<rparr>)) (\<lambda>_.
               bindT (cancel_timers saga (ScopeStep step) None) (\<lambda>_.
                 escalate_manual (rc_instance c) TrigEvent (rc_event_id c) ''step_halted''))
           | _ \<Rightarrow> failT (E_Other ''cancel-vocabulary status on an execute result''))"

definition on_cancel_result :: "Runtime \<Rightarrow> ResultContext \<Rightarrow> SagaStatus tx" where
  "on_cancel_result rt c =
     (if off_course c Cancelling then project_deferred_result c
      else
        let saga = vi_saga_id (rc_identity c); step = vi_step (rc_identity c);
            end_timeout = cancel_timers saga (ScopeStep step) (Some KIND_CANCEL_TIMEOUT)
        in case rc_status c of
             AttCancelConfirmed \<Rightarrow>
               project_or c (patch_default\<lparr>pt_forward_status := Some FwdCancelled,
                   pt_cancel_status := Some CanConfirmed, pt_mark_finished := True\<rparr>)
                 (bindT end_timeout (\<lambda>_. enter_compensation rt c))
           | AttAlreadyTerminal \<Rightarrow>
               bindT (liftT (ok_or (rc_terminal c)
                 (E_Other ''ALREADY_TERMINAL requires a terminal status''))) (\<lambda>terminal.
                 project_or c (patch_default\<lparr>pt_forward_status := Some terminal,
                     pt_cancel_status := Some CanAlreadyTerminal, pt_mark_finished := True\<rparr>)
                   (bindT end_timeout (\<lambda>_.
                      case terminal of
                        FwdSucceeded \<Rightarrow>
                          (case sd_timeout_policy (rc_step_def c) of
                             AcceptLateSuccess \<Rightarrow> proceed_forward rt c
                           | CompensateLateSuccess \<Rightarrow> enter_compensation rt c)
                      | FwdRejected \<Rightarrow> enter_compensation rt c
                      | FwdHalted \<Rightarrow>
                          escalate_manual (rc_instance c) TrigEvent (rc_event_id c) ''step_halted''
                      | _ \<Rightarrow> failT (E_Other ''ALREADY_TERMINAL carried a non-terminal forward status''))))
           | AttResolutionPending \<Rightarrow>
               project_or c (patch_default\<lparr>pt_cancel_status := Some CanResolutionPending\<rparr>)
                 (bindT end_timeout (\<lambda>_. enter_waiting_resolution rt c Forward))
           | _ \<Rightarrow> failT (E_Other ''non-cancel status on a cancel result''))"

definition on_compensate_result :: "Runtime \<Rightarrow> ResultContext \<Rightarrow> SagaStatus tx" where
  "on_compensate_result rt c =
     (if off_course c Compensating then project_deferred_result c
      else
        let saga = vi_saga_id (rc_identity c); step = vi_step (rc_identity c)
        in bindT (cancel_timers saga (ScopeStep step) (Some KIND_COMPENSATE_TIMEOUT)) (\<lambda>_.
           case rc_status c of
             AttSucceeded \<Rightarrow>
               bindT (patch_step saga step
                 (patch_default\<lparr>pt_compensation_status := Some CmpSucceeded\<rparr>)) (\<lambda>_.
                 continue_compensation rt c)
           | AttUnknown \<Rightarrow>
               bindT (patch_step saga step
                 (patch_default\<lparr>pt_compensation_status := Some CmpUnknown\<rparr>)) (\<lambda>_.
                 enter_waiting_resolution rt c Backward)
           | AttHalted \<Rightarrow>
               bindT (patch_step saga step
                 (patch_default\<lparr>pt_compensation_status := Some CmpHalted,
                    pt_last_error_code := rc_reason_code c\<rparr>)) (\<lambda>_.
                 escalate_manual (rc_instance c) TrigEvent (rc_event_id c) ''compensation_halted'')
           | _ \<Rightarrow> failT (E_Other ''invalid status on a compensate result'')))"

definition settle_resolution_from_committed_success ::
  "Runtime \<Rightarrow> ResultContext \<Rightarrow> SagaStatus option tx" where
  "settle_resolution_from_committed_success rt c =
     (let saga = vi_saga_id (rc_identity c); step = vi_step (rc_identity c)
      in bindT (load_step_row saga step) (\<lambda>row.
         if \<not> (case si_direction (rc_instance c) of
                  Forward \<Rightarrow> sr_forward_status row = FwdSucceeded
                | Backward \<Rightarrow> sr_compensation_status row = CmpSucceeded)
         then returnT None
         else
           bindT (apply_monotonic_projection c (case si_direction (rc_instance c) of
               Forward \<Rightarrow> patch_default\<lparr>pt_resolution_status := Some ResSucceeded,
                 pt_forward_status := Some FwdSucceeded, pt_mark_finished := True\<rparr>
             | Backward \<Rightarrow> patch_default\<lparr>pt_resolution_status := Some ResSucceeded,
                 pt_compensation_status := Some CmpSucceeded\<rparr>)) (\<lambda>verdict.
             case verdict of
               Some status \<Rightarrow> returnT (Some status)
             | None \<Rightarrow>
                 bindT (cancel_resolution_timers saga step) (\<lambda>_.
                 bindT (case si_direction (rc_instance c) of
                     Forward \<Rightarrow>
                       (case sd_timeout_policy (rc_step_def c) of
                          AcceptLateSuccess \<Rightarrow> proceed_forward rt c
                        | CompensateLateSuccess \<Rightarrow> enter_compensation rt c)
                   | Backward \<Rightarrow> continue_compensation rt c) (\<lambda>status. returnT (Some status))))))"

text \<open>A rejected resolution of a compensation: the effect did not happen and is tried again.\<close>

definition retry_rejected_compensation :: "Runtime \<Rightarrow> ResultContext \<Rightarrow> SagaStatus tx" where
  "retry_rejected_compensation rt c =
     (let saga = vi_saga_id (rc_identity c); step = vi_step (rc_identity c)
      in bindT (next_attempt saga step Compensate) (\<lambda>attempt.
         if cfg_compensate_max_attempts (rt_config rt) < attempt_no_get attempt
         then escalate_manual (rc_instance c) TrigEvent (rc_event_id c) ''compensation_attempts_exhausted''
         else
           bindT (advance (rc_instance c) Compensating Backward (Some step) TrigEvent (rc_event_id c)
             None None) (\<lambda>version.
           bindT (issue_command rt (rc_instance c) (rc_step_def c) Compensate attempt None None
             (rc_now_ms c) version) (\<lambda>_. returnT Compensating))))"

definition on_resolve_result :: "Runtime \<Rightarrow> ResultContext \<Rightarrow> SagaStatus tx" where
  "on_resolve_result rt c =
     (if off_course c WaitingResolution then project_deferred_result c
      else
        let saga = vi_saga_id (rc_identity c); step = vi_step (rc_identity c);
            halt = project_or c (patch_default\<lparr>pt_resolution_status := Some ResHalted,
                pt_last_error_code := rc_reason_code c\<rparr>)
              (escalate_manual (rc_instance c) TrigEvent (rc_event_id c) ''resolution_halted'')
        in bindT (settle_resolution_from_committed_success rt c) (\<lambda>settled.
           case settled of
             Some status \<Rightarrow> returnT status
           | None \<Rightarrow>
               (case si_direction (rc_instance c) of
                  Forward \<Rightarrow>
                    (case rc_status c of
                       AttSucceeded \<Rightarrow>
                         project_or c (patch_default\<lparr>pt_forward_status := Some FwdSucceeded,
                             pt_resolution_status := Some ResSucceeded, pt_mark_finished := True\<rparr>)
                           (bindT (cancel_resolution_timers saga step) (\<lambda>_. proceed_forward rt c))
                     | AttRejected \<Rightarrow>
                         project_or c (patch_default\<lparr>pt_forward_status := Some FwdRejected,
                             pt_resolution_status := Some ResRejected,
                             pt_last_error_code := rc_reason_code c, pt_mark_finished := True\<rparr>)
                           (bindT (cancel_resolution_timers saga step) (\<lambda>_. enter_compensation rt c))
                     | AttUnknown \<Rightarrow> reissue_resolve rt c
                     | AttHalted \<Rightarrow> halt
                     | _ \<Rightarrow> failT (E_Other ''invalid status on a resolve result''))
                | Backward \<Rightarrow>
                    (case rc_status c of
                       AttSucceeded \<Rightarrow>
                         project_or c (patch_default\<lparr>pt_compensation_status := Some CmpSucceeded,
                             pt_resolution_status := Some ResSucceeded\<rparr>)
                           (bindT (cancel_resolution_timers saga step) (\<lambda>_. continue_compensation rt c))
                     | AttRejected \<Rightarrow>
                         project_or c (patch_default\<lparr>pt_compensation_status := Some CmpPending,
                             pt_resolution_status := Some ResRejected\<rparr>)
                           (bindT (cancel_resolution_timers saga step)
                             (\<lambda>_. retry_rejected_compensation rt c))
                     | AttUnknown \<Rightarrow> reissue_resolve rt c
                     | AttHalted \<Rightarrow> halt
                     | _ \<Rightarrow> failT (E_Other ''invalid status on a resolve result'')))))"

end
