(* ===== verification/Saga_Entry.thy ===== *)
theory Saga_Entry
  imports Saga_Orchestrator
begin

text \<open>
  The entry points of the orchestrator (\<open>nasaga-runtime-core/src/orchestrator.rs\<close>): starting a saga,
  applying an authenticated result, and firing durable timers. Each body runs in one transaction;
  the tracing and latency records of the source write no state and are left out.
\<close>

section \<open>Authorisation\<close>

text \<open>
  The caller's eligibility is asked again at four kinds of moments: on entry, whenever the
  transaction body is resumed, at a fixed place inside the body, and before the commit. The answer
  at each is an argument. A refusal while the body is suspended discards the body, as a refusal
  before it does.
\<close>

datatype AuthPoint = AuthEntry | AuthPoll | AuthBody | AuthCommit

type_synonym authorize = "AuthPoint \<Rightarrow> unit orch"

definition run_authorized_for :: "authorize \<Rightarrow> 'a tx \<Rightarrow> 'a tx" where
  "run_authorized_for authorize body =
     bindT (liftT (authorize AuthPoll)) (\<lambda>_.
     bindT body (\<lambda>outcome.
     bindT (liftT (authorize AuthCommit)) (\<lambda>_. returnT outcome)))"

section \<open>Starting a saga\<close>

datatype StartOutcome = Started SagaInstanceRow | AlreadyExists SagaInstanceRow

definition first_payload :: "Ext \<Rightarrow> StartSagaRequest \<Rightarrow> SagaPayload option" where
  "first_payload x q =
     or_else (sq_first_command_raw_payload q) (map_option (payload_json x) (sq_first_command_payload q))"

definition check_first_payload :: "Ext \<Rightarrow> StepDefinition \<Rightarrow> SagaPayload option \<Rightarrow> unit orch" where
  "check_first_payload x first_step payload =
     (case payload of
        None \<Rightarrow> Inr ()
      | Some p \<Rightarrow>
          bindR (map_err (\<lambda>_. E_Start InvalidPayload) (payload_validate (x_json_ok x) p)) (\<lambda>_.
            reject_if (payload_contract_of p \<noteq> sd_payload_contract first_step) (E_Start InvalidPayload)))"

definition legacy_digest ::
  "Ext \<Rightarrow> StartSagaRequest \<Rightarrow> string \<Rightarrow> StepDefinition \<Rightarrow> SagaPayload option \<Rightarrow> string option orch" where
  "legacy_digest x q digest first_step payload =
     (case payload of
        None \<Rightarrow> Inr None
      | Some p \<Rightarrow>
          if payload_contract_of p = payload_contract_default
          then bindR (ok_or (x_json_parse x (payload_body p)) (E_Start InvalidPayload)) (\<lambda>v.
            Inr (Some (derive_legacy_start_request_digest x (q\<lparr>sq_first_command_payload := Some v\<rparr>)
              digest (sd_name first_step))))
          else Inr None)"

definition command_input :: "StartSagaRequest \<Rightarrow> CommandInput option" where
  "command_input q =
     or_else (map_option InputRaw (sq_first_command_raw_payload q))
       (map_option InputJson (sq_first_command_payload q))"

text \<open>The transaction body of \<open>start_saga_authorized_traced\<close>, after the request was checked.\<close>

fun conflict_to_start :: "OrchError \<Rightarrow> OrchError" where
  "conflict_to_start (E_Conflict m) = E_Start RequestConflict"
| "conflict_to_start e = e"

definition start_created ::
  "Runtime \<Rightarrow> StartSagaRequest \<Rightarrow> WorkflowDefinition \<Rightarrow> StepDefinition \<Rightarrow> SagaInstanceRow \<Rightarrow>
    StartOutcome tx" where
  "start_created rt q d first_step i =
     bindT (requireT (get_for_start (rt_registry rt) (sq_tenant q) (sq_workflow q) (sq_version q) \<noteq> None)
       (E_Start DefinitionInactive)) (\<lambda>_.
     bindT (reserve_tenant_quota (sq_tenant q)
       (map_of (cfg_tenant_quotas (rt_config rt)) (tenant_id_str (sq_tenant q)))) (\<lambda>reservation.
     bindT (requireT (reservation \<noteq> QuotaExceeded) (E_Start TenantQuotaExceeded)) (\<lambda>_.
     bindT (register_steps (sq_saga_id q) d) (\<lambda>_.
     bindT (issue_command rt i first_step Execute AttemptNo_FIRST (command_input q) None (sq_now_ms q)
       (si_version i)) (\<lambda>_.
     bindT (case sq_deadline_at_ms q of
         None \<Rightarrow> returnT ()
       | Some deadline \<Rightarrow>
           schedule_timer rt (sq_saga_id q) ScopeInstance KIND_INSTANCE_DEADLINE AttemptNo_FIRST
             deadline (si_version i)) (\<lambda>_.
       returnT (Started i)))))))"

definition start_body ::
  "Runtime \<Rightarrow> StartSagaRequest \<Rightarrow> WorkflowDefinition \<Rightarrow> StepDefinition \<Rightarrow> string \<Rightarrow> string \<Rightarrow>
    string option \<Rightarrow> string option \<Rightarrow> StartOutcome tx" where
  "start_body rt q d first_step digest request_digest legacy trace =
     bindT (map_errT conflict_to_start (create_instance
       \<lparr>ni_saga_id = sq_saga_id q, ni_tenant = sq_tenant q, ni_workflow = sq_workflow q,
        ni_business_key = sq_business_key q, ni_definition_version = sq_version q,
        ni_definition_digest = digest, ni_start_request_digest = request_digest,
        ni_legacy_start_request_digest = legacy, ni_deadline_at_ms = sq_deadline_at_ms q,
        ni_current_step = Some (sd_name first_step), ni_trigger_kind = sq_trigger_kind q,
        ni_trigger_id = sq_trigger_id q, ni_traceparent = trace\<rparr>)) (\<lambda>creation.
       case creation of
         Existing row \<Rightarrow> returnT (AlreadyExists row)
       | Created row \<Rightarrow> start_created rt q d first_step row)"

definition start_saga ::
  "Runtime \<Rightarrow> StartSagaRequest \<Rightarrow> TraceContext option \<Rightarrow> authorize \<Rightarrow> StartOutcome tx" where
  "start_saga rt q trace authorize =
     (let x = rt_ext rt
      in bindT (liftT (authorize AuthEntry)) (\<lambda>_.
         bindT (liftT (ok_or (get_for_tenant (rt_registry rt) (sq_tenant q) (sq_workflow q) (sq_version q))
           (E_Start DefinitionInactive))) (\<lambda>d.
         let digest = definition_digest (x_sha256 x) d
         in bindT (liftT (case wd_steps d of [] \<Rightarrow> Inl (E_Start DefinitionEmpty) | s # ss \<Rightarrow> Inr s))
              (\<lambda>first_step.
            bindT (requireT (sq_first_command_payload q = None \<or> sq_first_command_raw_payload q = None)
              (E_Start InvalidPayload)) (\<lambda>_.
            bindT (liftT (check_first_payload x first_step (first_payload x q))) (\<lambda>_.
            bindT (liftT (legacy_digest x q digest first_step (first_payload x q))) (\<lambda>legacy.
              run_authorized_for authorize (start_body rt q d first_step digest
                (derive_start_request_digest x q digest (sd_name first_step) (first_payload x q))
                legacy (map_option (to_traceparent (x_hex_encode x)) trace)))))))))"

section \<open>Applying a result\<close>

datatype HandleOutcome = HandleApplied SagaStatus | HandleDuplicate

definition verify_result_producer ::
  "Runtime \<Rightarrow> SagaResultEnvelope \<Rightarrow> ServiceIdentity \<Rightarrow> unit orch" where
  "verify_result_producer rt e producer =
     bindR (map_err E_Result (result_verified_for_delivery (rt_ext rt) e)) (\<lambda>identity.
     bindR (ok_or (get_for_tenant (rt_registry rt) (vi_tenant identity) (vi_workflow identity)
         (vi_definition_version identity)) (E_Result Proc_ContractInvalid)) (\<lambda>d.
     bindR (reject_if (definition_digest (x_sha256 (rt_ext rt)) d \<noteq> vi_definition_digest identity)
       (E_Result Proc_ContractInvalid)) (\<lambda>_.
     bindR (ok_or (definition_step d (vi_step identity)) (E_Result Proc_ContractInvalid)) (\<lambda>step.
       reject_if (sd_owner step \<noteq> producer) (E_Result Proc_ProducerUnauthorized)))))"

text \<open>The contradiction of a second, different outcome for the same attempt.\<close>

definition record_outcome_conflict ::
  "SagaInstanceRow \<Rightarrow> VerifiedIdentity \<Rightarrow> StepAttemptStatus \<Rightarrow> StepAttemptStatus \<Rightarrow> string \<Rightarrow>
    SagaStatus tx" where
  "record_outcome_conflict i identity existing status event_id =
     bindT (record_attempt_conflict
       \<lparr>cf_saga_id = vi_saga_id identity, cf_step = vi_step identity, cf_phase = vi_phase identity,
        cf_attempt = vi_attempt identity, cf_existing_status = existing, cf_incoming_status = status,
        cf_incoming_event_id = event_id, cf_conflict_kind = AttemptTerminal\<rparr>) (\<lambda>_.
       if saga_is_terminal (si_status i) \<or> si_status i = ManualIntervention then returnT (si_status i)
       else escalate_manual i TrigEvent event_id ''attempt_outcome_conflict'')"

text \<open>The routing on the phase of the result, on the instance as refreshed with the receipt's trace.\<close>

definition route_result :: "Runtime \<Rightarrow> ResultContext \<Rightarrow> SagaStatus tx" where
  "route_result rt c =
     (case vi_phase (rc_identity c) of
        Execute \<Rightarrow> on_execute_result rt c
      | Cancel \<Rightarrow> on_cancel_result rt c
      | Compensate \<Rightarrow> on_compensate_result rt c
      | Resolve \<Rightarrow> on_resolve_result rt c)"

definition refresh_trace ::
  "Ext \<Rightarrow> SagaInstanceRow \<Rightarrow> VerifiedIdentity \<Rightarrow> TraceContext option \<Rightarrow> SagaInstanceRow tx" where
  "refresh_trace x i identity receipt_trace =
     (case receipt_trace of
        None \<Rightarrow> returnT i
      | Some trace \<Rightarrow>
          let canonical = to_traceparent (x_hex_encode x) trace
          in bindT (update_trace_context (vi_saga_id identity) canonical) (\<lambda>_.
               returnT (i\<lparr>si_traceparent := Some canonical\<rparr>)))"

definition apply_result ::
  "Runtime \<Rightarrow> SagaInstanceRow \<Rightarrow> SagaResultEnvelope \<Rightarrow> VerifiedIdentity \<Rightarrow> StepAttemptStatus \<Rightarrow>
    StepForwardStatus option \<Rightarrow> TraceContext option \<Rightarrow> i64 \<Rightarrow> HandleOutcome tx" where
  "apply_result rt i e identity status terminal receipt_trace now_ms =
     bindT (lookup_definition rt i (E_Other ''instance definition is not registered'')) (\<lambda>d.
     bindT (liftT (ok_or (definition_step d (vi_step identity)) (E_Result Proc_ContractInvalid)))
       (\<lambda>step_def.
     bindT (record_attempt_outcome (vi_saga_id identity) (vi_step identity) (vi_phase identity)
       (vi_attempt identity) status (Some (re_event_id e))) (\<lambda>recorded.
       case recorded of
         OutcomeAlreadyRecorded \<Rightarrow> returnT (HandleApplied (si_status i))
       | OutcomeConflicting existing \<Rightarrow>
           bindT (record_outcome_conflict i identity existing status (re_event_id e))
             (\<lambda>s. returnT (HandleApplied s))
       | OutcomeRecorded \<Rightarrow>
           bindT (refresh_trace (rt_ext rt) i identity receipt_trace) (\<lambda>i'.
           bindT (route_result rt
             \<lparr>rc_instance = i', rc_definition = d, rc_step_def = step_def, rc_identity = identity,
              rc_status = status, rc_terminal = terminal, rc_reason_code = re_reason_code e,
              rc_event_id = re_event_id e, rc_now_ms = now_ms\<rparr>)
             (\<lambda>s. returnT (HandleApplied s))))))"

definition result_body ::
  "Runtime \<Rightarrow> SagaResultEnvelope \<Rightarrow> VerifiedIdentity \<Rightarrow> StepAttemptStatus \<Rightarrow> StepForwardStatus option \<Rightarrow>
    TraceContext option \<Rightarrow> i64 \<Rightarrow> authorize \<Rightarrow> HandleOutcome tx" where
  "result_body rt e identity status terminal receipt_trace now_ms authorize =
     bindT (inbox_claim (cfg_inbox_consumer (rt_config rt)) (re_event_id e)) (\<lambda>claim.
       case claim of
         InboxDuplicate \<Rightarrow> returnT HandleDuplicate
       | InboxClaimed \<Rightarrow>
           bindT (load_instance (vi_saga_id identity)) (\<lambda>loaded.
           bindT (liftT (ok_or loaded (E_Result Proc_ContractInvalid))) (\<lambda>i.
           bindT (liftT (map_err (\<lambda>_. E_Result Proc_ContractInvalid) (verify_instance_contract i identity)))
             (\<lambda>_.
           bindT (liftT (authorize AuthBody)) (\<lambda>_.
           bindT (requireT (allows_automatic_actions (si_control_state i)) (E_Result Proc_Paused)) (\<lambda>_.
             apply_result rt i e identity status terminal receipt_trace now_ms))))))"

definition handle_verified_result ::
  "Runtime \<Rightarrow> SagaResultEnvelope \<Rightarrow> TraceContext option \<Rightarrow> i64 \<Rightarrow> authorize \<Rightarrow> HandleOutcome tx" where
  "handle_verified_result rt e receipt_trace now_ms authorize =
     bindT (liftT (map_err E_Result (result_verified_for_delivery (rt_ext rt) e))) (\<lambda>identity.
     bindT (liftT (map_err (\<lambda>_. E_Result Proc_ContractInvalid) (parsed_status e))) (\<lambda>status.
     bindT (liftT (map_err (\<lambda>_. E_Result Proc_ContractInvalid) (parsed_terminal e))) (\<lambda>terminal.
       run_authorized_for authorize
         (result_body rt e identity status terminal receipt_trace now_ms authorize))))"

definition handle_authenticated_result ::
  "Runtime \<Rightarrow> SagaResultEnvelope \<Rightarrow> ServiceIdentity \<Rightarrow> TraceContext option \<Rightarrow> i64 \<Rightarrow> authorize \<Rightarrow>
    HandleOutcome tx" where
  "handle_authenticated_result rt e producer receipt_trace now_ms authorize =
     bindT (liftT (authorize AuthEntry)) (\<lambda>_.
     bindT (liftT (verify_result_producer rt e producer)) (\<lambda>_.
       handle_verified_result rt e receipt_trace now_ms authorize))"

section \<open>Timer verdicts\<close>

text \<open>Entering the resolution channel after a timeout of a step that cannot be cancelled.\<close>

definition timeout_to_resolution ::
  "Runtime \<Rightarrow> SagaInstanceRow \<Rightarrow> StepDefinition \<Rightarrow> StepName \<Rightarrow> SagaTimerRow \<Rightarrow> i64 \<Rightarrow>
    SagaStatus option tx" where
  "timeout_to_resolution rt i step_def step timer now_ms =
     (let resolution = sd_resolution step_def
      in bindT (patch_step (si_saga_id i) step (patch_default\<lparr>pt_forward_status := Some FwdUnknown,
           pt_resolution_status := Some ResPending\<rparr>)) (\<lambda>_.
         bindT (advance i WaitingResolution Forward (Some step) TrigTimer (tm_timer_id timer) None None)
           (\<lambda>version.
         bindT (liftT (duration_millis (resolution_budget resolution))) (\<lambda>budget.
         bindT (liftT (checked_deadline now_ms budget)) (\<lambda>due.
         bindT (schedule_timer rt (si_saga_id i) (ScopeStep step) (resolution_budget_kind Forward)
           (tm_attempt timer) due version) (\<lambda>_.
         bindT (if resolution_mode resolution = Some Poll
                then bindT (next_attempt (si_saga_id i) step Resolve) (\<lambda>attempt.
                  issue_command rt i step_def Resolve attempt None None now_ms version)
                else returnT ()) (\<lambda>_. returnT (Some WaitingResolution))))))))"

definition on_step_timeout ::
  "Runtime \<Rightarrow> SagaInstanceRow \<Rightarrow> WorkflowDefinition \<Rightarrow> StepName option \<Rightarrow> SagaTimerRow \<Rightarrow> i64 \<Rightarrow>
    SagaStatus option tx" where
  "on_step_timeout rt i d step_scope timer now_ms =
     (case step_scope of
        None \<Rightarrow> failT (E_Other ''step-timeout timer without a step scope'')
      | Some step \<Rightarrow>
          if si_status i \<noteq> Running \<or> si_current_step i \<noteq> Some step then returnT None
          else
            bindT (liftT (ok_or (definition_step d step)
              (E_Other ''timer step absent from definition''))) (\<lambda>step_def.
              if sd_cancel_mode step_def = ResolveOnly
              then timeout_to_resolution rt i step_def step timer now_ms
              else
                bindT (patch_step (si_saga_id i) step
                  (patch_default\<lparr>pt_forward_status := Some FwdTimedOut\<rparr>)) (\<lambda>_.
                bindT (advance i Cancelling Forward (Some step) TrigTimer (tm_timer_id timer) None None)
                  (\<lambda>version.
                bindT (next_attempt (si_saga_id i) step Cancel) (\<lambda>attempt.
                bindT (issue_command rt i step_def Cancel attempt None None now_ms version)
                  (\<lambda>_. returnT (Some Cancelling)))))))"

definition on_phase_retry_timeout ::
  "Runtime \<Rightarrow> SagaInstanceRow \<Rightarrow> WorkflowDefinition \<Rightarrow> StepName option \<Rightarrow> SagaTimerRow \<Rightarrow> StepPhase \<Rightarrow>
    SagaStatus \<Rightarrow> u32 \<Rightarrow> string \<Rightarrow> i64 \<Rightarrow> SagaStatus option tx" where
  "on_phase_retry_timeout rt i d step_scope timer phase required_status max_attempts exhausted_code
     now_ms =
     (case step_scope of
        None \<Rightarrow> failT (E_Other ''phase retry timer without a step scope'')
      | Some step \<Rightarrow>
          if si_status i \<noteq> required_status \<or> si_current_step i \<noteq> Some step then returnT None
          else
            bindT (liftT (ok_or (definition_step d step)
              (E_Other ''timer step absent from definition''))) (\<lambda>step_def.
            bindT (if phase = Resolve
                   then bindT (count_resolution_attempts (si_saga_id i) step (si_direction i))
                     (\<lambda>used. returnT (max_attempts \<le> used))
                   else bindT (next_attempt (si_saga_id i) step phase)
                     (\<lambda>attempt. returnT (max_attempts < attempt_no_get attempt))) (\<lambda>exhausted.
              if exhausted
              then bindT (escalate_manual i TrigTimer (tm_timer_id timer) exhausted_code)
                     (\<lambda>s. returnT (Some s))
              else
                bindT (next_attempt (si_saga_id i) step phase) (\<lambda>attempt.
                bindT (advance i required_status (si_direction i) (Some step) TrigTimer
                  (tm_timer_id timer) None None) (\<lambda>version.
                bindT (issue_command rt i step_def phase attempt None None now_ms version)
                  (\<lambda>_. returnT (Some required_status)))))))"

definition on_instance_deadline ::
  "Runtime \<Rightarrow> SagaInstanceRow \<Rightarrow> WorkflowDefinition \<Rightarrow> SagaTimerRow \<Rightarrow> i64 \<Rightarrow> SagaStatus option tx" where
  "on_instance_deadline rt i d timer now_ms =
     (case si_status i of
        Running \<Rightarrow>
          (case si_current_step i of
             None \<Rightarrow> returnT None
           | Some step \<Rightarrow> on_step_timeout rt i d (Some step) timer now_ms)
      | Cancelling \<Rightarrow>
          bindT (escalate_manual i TrigTimer (tm_timer_id timer) ''deadline_exceeded'') (\<lambda>s. returnT (Some s))
      | WaitingResolution \<Rightarrow>
          bindT (escalate_manual i TrigTimer (tm_timer_id timer) ''deadline_exceeded'') (\<lambda>s. returnT (Some s))
      | Compensating \<Rightarrow>
          bindT (escalate_manual i TrigTimer (tm_timer_id timer) ''deadline_exceeded'') (\<lambda>s. returnT (Some s))
      | _ \<Rightarrow> returnT None)"

datatype TimerOutcome = TimerApplied SagaStatus | SkippedPaused | SkippedFencingLost | SkippedStale

text \<open>The clock: milliseconds elapsed on the monotonic clock since the claim, added to its time.\<close>

definition elapsed_epoch_ms :: "i64 \<Rightarrow> nat \<Rightarrow> i64 orch" where
  "elapsed_epoch_ms base_now_ms elapsed =
     (if i64_max < int elapsed then Inl (E_Other ''timer lease elapsed duration overflow'')
      else ok_or (checked_add_i64 base_now_ms (int elapsed)) (E_Other ''timer lease clock overflow''))"

definition timer_clock :: "i64 \<Rightarrow> nat option \<Rightarrow> i64 orch" where
  "timer_clock base_now_ms elapsed =
     (case elapsed of Some e \<Rightarrow> elapsed_epoch_ms base_now_ms e | None \<Rightarrow> Inr base_now_ms)"

text \<open>The \<open>match\<close> on the timer kind.\<close>

definition timer_verdict ::
  "Runtime \<Rightarrow> SagaInstanceRow \<Rightarrow> WorkflowDefinition \<Rightarrow> StepName option \<Rightarrow> SagaTimerRow \<Rightarrow> i64 \<Rightarrow>
    SagaStatus option tx" where
  "timer_verdict rt i d step_scope timer now_ms =
     (let kind = tm_kind timer; cfg = rt_config rt
      in if kind = KIND_STEP_TIMEOUT then on_step_timeout rt i d step_scope timer now_ms
         else if kind = KIND_CANCEL_TIMEOUT then
           on_phase_retry_timeout rt i d step_scope timer Cancel Cancelling
             (cfg_cancel_max_attempts cfg) ''cancel_attempts_exhausted'' now_ms
         else if kind = KIND_COMPENSATE_TIMEOUT then
           on_phase_retry_timeout rt i d step_scope timer Compensate Compensating
             (cfg_compensate_max_attempts cfg) ''compensation_attempts_exhausted'' now_ms
         else if kind = KIND_RESOLVE_TIMEOUT then
           on_phase_retry_timeout rt i d step_scope timer Resolve WaitingResolution
             (cfg_resolve_max_attempts cfg) ''resolve_attempts_exhausted'' now_ms
         else if kind \<in> {KIND_RESOLUTION_BUDGET, KIND_FORWARD_RESOLUTION_BUDGET,
             KIND_COMPENSATION_RESOLUTION_BUDGET} then
           (if si_status i = WaitingResolution
            then bindT (escalate_manual i TrigTimer (tm_timer_id timer) ''resolution_budget_exhausted'')
                   (\<lambda>s. returnT (Some s))
            else returnT None)
         else if kind = KIND_INSTANCE_DEADLINE then on_instance_deadline rt i d timer now_ms
         else failT (E_Other ''unknown timer kind''))"

definition attempt_timer :: "SagaTimerRow \<Rightarrow> bool" where
  "attempt_timer timer =
     (tm_kind timer \<in> {KIND_STEP_TIMEOUT, KIND_CANCEL_TIMEOUT, KIND_COMPENSATE_TIMEOUT,
        KIND_RESOLVE_TIMEOUT})"

definition fire_timer ::
  "Runtime \<Rightarrow> SagaTimerRow \<Rightarrow> string \<Rightarrow> i64 \<Rightarrow> nat option \<Rightarrow> TimerOutcome tx" where
  "fire_timer rt timer token base_now_ms elapsed =
     bindT (liftT (parse_step_scope (tm_scope_kind timer) (tm_scope_key timer))) (\<lambda>step_scope.
     bindT (load_instance (tm_saga_id timer)) (\<lambda>loaded.
       case loaded of
         None \<Rightarrow>
           bindT (liftT (timer_clock base_now_ms elapsed)) (\<lambda>fencing_now.
           bindT (complete_timer (tm_timer_id timer) token fencing_now) (\<lambda>fencing.
             returnT (case fencing of FencingApplied \<Rightarrow> SkippedStale | FencingLost \<Rightarrow> SkippedFencingLost)))
       | Some i \<Rightarrow>
           if \<not> allows_automatic_actions (si_control_state i) then returnT SkippedPaused
           else
             bindT (liftT (timer_clock base_now_ms elapsed)) (\<lambda>now_ms.
             bindT (complete_timer (tm_timer_id timer) token now_ms) (\<lambda>fencing.
               if fencing = FencingLost then returnT SkippedFencingLost
               else if attempt_timer timer \<and> tm_expected_saga_version timer \<noteq> si_version i
                 then returnT SkippedStale
               else
                 bindT (lookup_definition rt i (E_Other ''instance definition is not registered'')) (\<lambda>d.
                 bindT (timer_verdict rt i d step_scope timer now_ms) (\<lambda>status.
                   returnT (case status of Some s \<Rightarrow> TimerApplied s | None \<Rightarrow> SkippedStale)))))))"

section \<open>The timer worker\<close>

record TimerFencingTokenIssuer =
  ti_runtime_nonce :: bytes
  ti_claim_seq :: nat

definition FENCING_TOKEN_NAMESPACE :: bytes where
  "FENCING_TOKEN_NAMESPACE = str_bytes ''nasasaga-v1-fcns''"

definition issue_token ::
  "Ext \<Rightarrow> TimerFencingTokenIssuer \<Rightarrow> string \<Rightarrow> i64 \<Rightarrow> string \<times> TimerFencingTokenIssuer" where
  "issue_token x issuer owner now_ms =
     (x_uuid_text x (x_uuid5 x FENCING_TOKEN_NAMESPACE
        (canonical_bytes [ti_runtime_nonce issuer, str_bytes owner, i64_be now_ms,
          be_bytes 8 (ti_claim_seq issuer)])),
      issuer\<lparr>ti_claim_seq := (ti_claim_seq issuer + 1) mod 2 ^ 64\<rparr>)"

text \<open>
  The loop of \<open>run_due_timers\<close>: each timer fires in a transaction of its own, and an error ends the
  round. \<open>clock\<close> gives the elapsed milliseconds at the two readings for the \<open>n\<close>-th timer.
\<close>

fun fire_claimed ::
  "Runtime \<Rightarrow> string \<Rightarrow> i64 \<Rightarrow> (nat \<Rightarrow> nat \<times> nat) \<Rightarrow> nat \<Rightarrow> u32 \<Rightarrow> SagaTimerRow list \<Rightarrow> SagaDb \<Rightarrow>
    u32 orch \<times> SagaDb" where
  "fire_claimed rt token now_ms clock n applied [] d = (Inr applied, d)"
| "fire_claimed rt token now_ms clock n applied (timer # timers) d =
     (case run_for (fire_timer rt timer token now_ms (Some (fst (clock n)))) d of
        (Inl e, d') \<Rightarrow> (Inl e, d')
      | (Inr (TimerApplied s), d') \<Rightarrow>
          fire_claimed rt token now_ms clock (n + 1) (applied + 1) timers d'
      | (Inr SkippedPaused, d') \<Rightarrow>
          (case run_for (bindT (liftT (elapsed_epoch_ms now_ms (snd (clock n)))) (\<lambda>release_now.
               bindT (liftT (checked_deadline release_now (cfg_pause_backoff_ms (rt_config rt)))) (\<lambda>due.
                 release_timer (tm_timer_id timer) token release_now due))) d' of
             (Inl e, d'') \<Rightarrow> (Inl e, d'')
           | (Inr released, d'') \<Rightarrow> fire_claimed rt token now_ms clock (n + 1) applied timers d'')
      | (Inr SkippedFencingLost, d') \<Rightarrow> fire_claimed rt token now_ms clock (n + 1) applied timers d'
      | (Inr SkippedStale, d') \<Rightarrow> fire_claimed rt token now_ms clock (n + 1) applied timers d')"

definition run_due_timers ::
  "Runtime \<Rightarrow> TimerFencingTokenIssuer \<Rightarrow> string \<Rightarrow> i64 \<Rightarrow> (nat \<Rightarrow> nat \<times> nat) \<Rightarrow> SagaDb \<Rightarrow>
    u32 orch \<times> SagaDb \<times> TimerFencingTokenIssuer" where
  "run_due_timers rt issuer owner now_ms clock d =
     (let (token, issuer') = issue_token (rt_ext rt) issuer owner now_ms
      in case run_for (claim_due_timers owner token now_ms (cfg_timer_lease_ms (rt_config rt))
             (unat (cfg_timer_claim_limit (rt_config rt)))) d of
           (Inl e, d') \<Rightarrow> (Inl e, d', issuer')
         | (Inr claimed, d') \<Rightarrow>
             (let (r, d'') = fire_claimed rt token now_ms clock 0 0 claimed d' in (r, d'', issuer')))"

end
