(* ===== verification/Saga_Management.thy ===== *)
theory Saga_Management
  imports Saga_Entry
begin

text \<open>
  The management actions of the orchestrator (\<open>nasaga-runtime-core/src/orchestrator.rs\<close>): pause and
  resume, the two audited retries, and the manual close. All check the permission before they read
  the instance, and recognise a repeated operation id before any other effect.
\<close>

definition reserve_action_rate_budget :: "Runtime \<Rightarrow> TenantId \<Rightarrow> unit tx" where
  "reserve_action_rate_budget rt tenant =
     (case map_of (cfg_tenant_action_rates (rt_config rt)) (tenant_id_str tenant) of
        None \<Rightarrow> returnT ()
      | Some rate \<Rightarrow>
          bindT (reserve_tenant_action_rate tenant (rate_max_actions rate) (rate_window_ms rate))
            (\<lambda>reservation.
              if reservation = RateExceeded then failT (E_Management RateLimitExceeded)
              else returnT ()))"

definition management_precondition :: "'a orch" where
  "management_precondition = Inl (E_Management PreconditionFailed)"

definition requireM :: "bool \<Rightarrow> unit tx" where
  "requireM b = (if b then returnT () else liftT management_precondition)"

definition expectM :: "'a option \<Rightarrow> 'a tx" where
  "expectM o' = (case o' of Some a \<Rightarrow> returnT a | None \<Rightarrow> liftT management_precondition)"

text \<open>The instance, if it belongs to the caller's tenant.\<close>

definition load_managed :: "TenantId \<Rightarrow> SagaId \<Rightarrow> SagaInstanceRow tx" where
  "load_managed tenant saga =
     bindT (load_instance saga) (\<lambda>loaded.
       liftT (case loaded of
         Some i \<Rightarrow> if si_tenant i = tenant then Inr i else Inl (E_Management NotFound)
       | None \<Rightarrow> Inl (E_Management NotFound)))"

definition control_spec ::
  "SagaManagementContext \<Rightarrow> SagaInstanceRow \<Rightarrow> SagaId \<Rightarrow> string \<Rightarrow> ControlState \<Rightarrow> ControlState \<Rightarrow>
    ControlTransitionSpec" where
  "control_spec m i saga operation_id from to =
     \<lparr>cs_saga_id = saga, cs_expected_version = si_version i,
      cs_expected_control_version = si_control_version i, cs_from = from, cs_to = to,
      cs_operation_id = operation_id, cs_actor = mc_actor m, cs_reason = mc_reason m\<rparr>"

text \<open>A lost compare-and-set: stale if the state allowed the action, refused otherwise.\<close>

definition control_lost ::
  "SagaManagementExpectation \<Rightarrow> SagaInstanceRow \<Rightarrow> ControlState \<Rightarrow> unit tx" where
  "control_lost expectation i from =
     bindT (liftT (expectation_verify expectation (si_version i) (si_control_version i))) (\<lambda>_.
       if si_control_state i = from then failT (E_Concurrency StaleSnapshot)
       else liftT management_precondition)"

definition pause ::
  "Runtime \<Rightarrow> SagaManagementContext \<Rightarrow> TenantId \<Rightarrow> SagaId \<Rightarrow> string \<Rightarrow> SagaManagementExpectation \<Rightarrow>
    unit tx" where
  "pause rt m tenant saga operation_id expectation =
     bindT (liftT (management_require m PermPause)) (\<lambda>_.
     bindT (load_managed tenant saga) (\<lambda>i.
     bindT (set_control_state (control_spec m i saga operation_id Active Paused)) (\<lambda>outcome.
       case outcome of
         ControlApplied \<Rightarrow>
           bindT (liftT (expectation_verify expectation (si_version i) (si_control_version i)))
             (\<lambda>_. reserve_action_rate_budget rt tenant)
       | ControlAlreadyApplied \<Rightarrow> returnT ()
       | ControlConflict \<Rightarrow> control_lost expectation i Active)))"

definition resume ::
  "Runtime \<Rightarrow> SagaManagementContext \<Rightarrow> TenantId \<Rightarrow> SagaId \<Rightarrow> string \<Rightarrow> SagaManagementExpectation \<Rightarrow>
    unit tx" where
  "resume rt m tenant saga operation_id expectation =
     bindT (liftT (management_require m PermResume)) (\<lambda>_.
     bindT (load_managed tenant saga) (\<lambda>i.
     bindT (set_control_state (control_spec m i saga operation_id Paused Active)) (\<lambda>outcome.
       case outcome of
         ControlApplied \<Rightarrow>
           bindT (liftT (expectation_verify expectation (si_version i) (si_control_version i))) (\<lambda>_.
           bindT (reserve_action_rate_budget rt tenant) (\<lambda>_.
           bindT (wake_saga_timers saga) (\<lambda>_. returnT ())))
       | ControlAlreadyApplied \<Rightarrow> returnT ()
       | ControlConflict \<Rightarrow> control_lost expectation i Paused)))"

text \<open>
  The common head of the audited actions: load, record the operation, reserve the budget, verify
  the caller's expectation and the preconditions. A repeated operation returns the present status.
\<close>

definition audited_action ::
  "Runtime \<Rightarrow> SagaManagementContext \<Rightarrow> TenantId \<Rightarrow> SagaId \<Rightarrow> string \<Rightarrow> string \<Rightarrow>
    SagaManagementExpectation \<Rightarrow> (SagaInstanceRow \<Rightarrow> SagaStatus tx) \<Rightarrow> SagaStatus tx" where
  "audited_action rt m tenant saga operation_id action expectation continue =
     bindT (load_managed tenant saga) (\<lambda>i.
     bindT (record_management_operation saga operation_id action (mc_actor m) (mc_reason m)) (\<lambda>outcome.
       case outcome of
         AuditAlreadyRecorded \<Rightarrow> returnT (si_status i)
       | AuditRecorded \<Rightarrow>
           bindT (reserve_action_rate_budget rt tenant) (\<lambda>_.
           bindT (liftT (expectation_verify expectation (si_version i) (si_control_version i))) (\<lambda>_.
           bindT (requireM (allows_automatic_actions (si_control_state i))) (\<lambda>_.
           bindT (requireM (si_status i = ManualIntervention)) (\<lambda>_.
             continue i))))))"

definition retry_compensation_step ::
  "Runtime \<Rightarrow> SagaId \<Rightarrow> string \<Rightarrow> i64 \<Rightarrow> SagaInstanceRow \<Rightarrow> WorkflowDefinition \<Rightarrow> SagaStepRow list \<Rightarrow>
    StepName \<Rightarrow> SagaStatus tx" where
  "retry_compensation_step rt saga operation_id now_ms i d steps step =
     bindT (if list_ex (\<lambda>row. sr_step row = step \<and> sr_compensation_status row = CmpHalted) steps
            then reopen_halted_compensation saga step operation_id else returnT ()) (\<lambda>_.
     bindT (advance i Compensating Backward (Some step) TrigAdmin operation_id None None) (\<lambda>version.
     bindT (expectM (definition_step d step)) (\<lambda>step_def.
     bindT (next_attempt saga step Compensate) (\<lambda>attempt.
     bindT (issue_command rt i step_def Compensate attempt None (Some operation_id) now_ms version)
       (\<lambda>_. returnT Compensating)))))"

definition retry_compensation ::
  "Runtime \<Rightarrow> SagaManagementContext \<Rightarrow> TenantId \<Rightarrow> SagaId \<Rightarrow> string \<Rightarrow> i64 \<Rightarrow>
    SagaManagementExpectation \<Rightarrow> SagaStatus tx" where
  "retry_compensation rt m tenant saga operation_id now_ms expectation =
     bindT (liftT (management_require m PermRetryCompensation)) (\<lambda>_.
     audited_action rt m tenant saga operation_id ''retry_frozen_compensation'' expectation (\<lambda>i.
     bindT (requireM (si_compensation_plan_version i \<noteq> None)) (\<lambda>_.
     bindT (expectM (get_for_tenant (rt_registry rt) (si_tenant i) (si_workflow i)
       (si_definition_version i))) (\<lambda>d.
     bindT (load_steps saga) (\<lambda>steps.
     bindT (liftT (next_pending_compensation (x_sha256 (rt_ext rt)) i d steps True)) (\<lambda>next.
       case next of
         Some step \<Rightarrow> retry_compensation_step rt saga operation_id now_ms i d steps step
       | None \<Rightarrow>
           bindT (advance i Compensating Backward None TrigAdmin operation_id None None) (\<lambda>version.
           bindT (converge_compensated_at rt (si_saga_id i) version TrigAdmin operation_id)
             (\<lambda>_. returnT Compensated))))))))"

definition unresolved_unknown :: "SagaInstanceRow \<Rightarrow> SagaStepRow \<Rightarrow> bool" where
  "unresolved_unknown i row =
     ((case si_direction i of
         Forward \<Rightarrow> sr_forward_status row = FwdUnknown
       | Backward \<Rightarrow> sr_compensation_status row = CmpUnknown) \<and>
      sr_resolution_status row \<in> {ResPending, ResHalted})"

definition retry_resolution ::
  "Runtime \<Rightarrow> SagaManagementContext \<Rightarrow> TenantId \<Rightarrow> SagaId \<Rightarrow> string \<Rightarrow> i64 \<Rightarrow>
    SagaManagementExpectation \<Rightarrow> SagaStatus tx" where
  "retry_resolution rt m tenant saga operation_id now_ms expectation =
     bindT (liftT (management_require m PermRetryResolution)) (\<lambda>_.
     audited_action rt m tenant saga operation_id ''retry_resolution'' expectation (\<lambda>i.
     bindT (expectM (si_current_step i)) (\<lambda>step.
     bindT (expectM (get_for_tenant (rt_registry rt) (si_tenant i) (si_workflow i)
       (si_definition_version i))) (\<lambda>d.
     bindT (expectM (definition_step d step)) (\<lambda>step_def.
     bindT (requireM (resolution_mode (sd_resolution step_def) = Some Poll)) (\<lambda>_.
     bindT (load_steps saga) (\<lambda>steps.
     bindT (expectM (find (\<lambda>row. sr_step row = step) steps)) (\<lambda>row.
     bindT (requireM (unresolved_unknown i row)) (\<lambda>_.
     bindT (next_attempt saga step Resolve) (\<lambda>attempt.
     bindT (if sr_resolution_status row = ResHalted
            then reopen_halted_resolution saga step operation_id else returnT ()) (\<lambda>_.
     bindT (advance i WaitingResolution (si_direction i) (Some step) TrigAdmin operation_id None None)
       (\<lambda>version.
     bindT (liftT (duration_millis (resolution_budget (sd_resolution step_def)))) (\<lambda>budget.
     bindT (liftT (checked_deadline now_ms budget)) (\<lambda>due.
     bindT (schedule_timer rt saga (ScopeStep step) (resolution_budget_kind (si_direction i)) attempt
       due version) (\<lambda>_.
     bindT (issue_command rt i step_def Resolve attempt None (Some operation_id) now_ms version)
       (\<lambda>_. returnT WaitingResolution))))))))))))))))"

definition manual_close ::
  "Runtime \<Rightarrow> SagaManagementContext \<Rightarrow> TenantId \<Rightarrow> SagaId \<Rightarrow> string \<Rightarrow> SagaManagementExpectation \<Rightarrow>
    SagaStatus tx" where
  "manual_close rt m tenant saga operation_id expectation =
     bindT (liftT (management_require m PermManualClose)) (\<lambda>_.
     bindT (requireM (cfg_enable_manual_close (rt_config rt))) (\<lambda>_.
     audited_action rt m tenant saga operation_id MANUAL_CLOSE_ACTION expectation (\<lambda>i.
     bindT (advance i ManuallyClosed (si_direction i) None TrigAdmin operation_id None None) (\<lambda>_.
     bindT (cancel_timers saga ScopeInstance None) (\<lambda>_. returnT ManuallyClosed)))))"

end
