(* ===== verification/Saga_Relation.thy ===== *)
theory Saga_Relation
  imports Saga_Management
begin

text \<open>
  What the transactions of the orchestrator can do to the database, proved once for every relation
  between the states before and after. The locale \<open>orchestrator_relation\<close> states what a relation has
  to satisfy for the operations of the store; its lemmas then give the relation for every handler
  and every entry point. Two relations are used together: \<open>R\<close> composes and covers the ordinary
  operations, \<open>T\<close> covers in addition the operations that close a saga, which always come last.
\<close>

section \<open>Composition of transaction programs\<close>

locale db_relation =
  fixes R :: "SagaDb \<Rightarrow> SagaDb \<Rightarrow> bool" and T :: "SagaDb \<Rightarrow> SagaDb \<Rightarrow> bool"
  assumes R_refl: "R d d"
    and R_trans: "R d d' \<Longrightarrow> R d' d'' \<Longrightarrow> R d d''"
    and R_T: "R d d' \<Longrightarrow> T d d'"
    and R_then_T: "R d d' \<Longrightarrow> T d' d'' \<Longrightarrow> T d d''"
begin

lemma within_return [within_intro]: "within R (returnT a)" "within T (returnT a)"
  by (auto simp: within_def R_refl R_T)

lemma within_fail [within_intro]: "within R (failT e)" "within T (failT e)"
  by (auto simp: within_def)

lemma within_lift [within_intro]: "within R (liftT r)" "within T (liftT r)"
  by (auto simp: within_def R_refl R_T)

lemma within_read [within_intro]: "within R (readT f)" "within T (readT f)"
  by (auto simp: within_def R_refl R_T)

lemma within_require [within_intro]: "within R (requireT b e)" "within T (requireT b e)"
  by (auto simp: within_def R_refl R_T)

lemma within_tail: "within R m \<Longrightarrow> within T m"
  by (auto simp: within_def R_T)

lemma bind_lift [within_intro]:
  assumes "\<And>a. r = Inr a \<Longrightarrow> within X (f a)"
  shows "within X (bindT (liftT r) f)"
  using assms by (fastforce simp: within_def bindT_Inr)

lemma bind_read [within_intro]:
  assumes "\<And>d. within X (f (g d))"
  shows "within X (bindT (readT g) f)"
  using assms by (auto simp: within_def bindT_Inr)

lemma bind_require [within_intro]:
  assumes "b \<Longrightarrow> within X (f ())"
  shows "within X (bindT (requireT b e) f)"
  using assms by (auto simp: within_def bindT_Inr)

lemma bind_R [within_intro]:
  assumes "within R m" and "\<And>a. within R (f a)"
  shows "within R (bindT m f)"
  using assms unfolding within_def bindT_Inr by (blast intro: R_trans)

lemma bind_T [within_intro]:
  assumes "within R m" and "\<And>a. within T (f a)"
  shows "within T (bindT m f)"
  using assms unfolding within_def bindT_Inr by (blast intro: R_then_T)

lemma bind_return:
  assumes "within X m"
  shows "within X (bindT m (\<lambda>a. returnT (g a)))"
  using assms by (auto simp: within_def bindT_Inr)

lemma within_if [within_intro]:
  assumes "b \<Longrightarrow> within X m" and "\<not> b \<Longrightarrow> within X n"
  shows "within X (if b then m else n)"
  using assms by simp

lemma within_option [within_intro]:
  assumes "v = None \<Longrightarrow> within X m" and "\<And>a. v = Some a \<Longrightarrow> within X (f a)"
  shows "within X (case v of None \<Rightarrow> m | Some a \<Rightarrow> f a)"
  using assms by (cases v) auto

lemma within_sum [within_intro]:
  assumes "\<And>e. v = Inl e \<Longrightarrow> within X (f e)" and "\<And>a. v = Inr a \<Longrightarrow> within X (g a)"
  shows "within X (case v of Inl e \<Rightarrow> f e | Inr a \<Rightarrow> g a)"
  using assms by (cases v) auto

lemma within_prod [within_intro]:
  assumes "\<And>a b. v = (a, b) \<Longrightarrow> within X (f a b)"
  shows "within X (case v of (a, b) \<Rightarrow> f a b)"
  using assms by (cases v) auto

lemma within_direction [within_intro]:
  assumes "v = Forward \<Longrightarrow> within X m" and "v = Backward \<Longrightarrow> within X n"
  shows "within X (case v of Forward \<Rightarrow> m | Backward \<Rightarrow> n)"
  using assms by (cases v) auto

lemma within_attempt [within_intro]:
  assumes "within X f1" "within X f2" "within X f3" "within X f4" "within X f5" "within X f6"
    "within X f7" "within X f8"
  shows "within X (case_StepAttemptStatus f1 f2 f3 f4 f5 f6 f7 f8 v)"
  using assms by (cases v) auto

lemma within_forward [within_intro]:
  assumes "within X f1" "within X f2" "within X f3" "within X f4" "within X f5" "within X f6"
    "within X f7"
  shows "within X (case_StepForwardStatus f1 f2 f3 f4 f5 f6 f7 v)"
  using assms by (cases v) auto

lemma within_saga_status [within_intro]:
  assumes "within X f1" "within X f2" "within X f3" "within X f4" "within X f5" "within X f6"
    "within X f7" "within X f8"
  shows "within X (case_SagaStatus f1 f2 f3 f4 f5 f6 f7 f8 v)"
  using assms by (cases v) auto

lemma within_phase [within_intro]:
  assumes "within X f1" "within X f2" "within X f3" "within X f4"
  shows "within X (case_StepPhase f1 f2 f3 f4 v)"
  using assms by (cases v) auto

lemma within_policy [within_intro]:
  assumes "within X m" and "within X n"
  shows "within X (case v of AcceptLateSuccess \<Rightarrow> m | CompensateLateSuccess \<Rightarrow> n)"
  using assms by (cases v) auto

end

section \<open>The interface of the store\<close>

text \<open>The context of a result is built from the loaded instance and its registered definition.\<close>

definition instance_definition :: "Runtime \<Rightarrow> SagaInstanceRow \<Rightarrow> WorkflowDefinition \<Rightarrow> bool" where
  "instance_definition rt i d \<longleftrightarrow>
     get_for_tenant (rt_registry rt) (si_tenant i) (si_workflow i) (si_definition_version i) = Some d"

definition context_ok :: "Runtime \<Rightarrow> ResultContext \<Rightarrow> bool" where
  "context_ok rt c \<longleftrightarrow>
     si_saga_id (rc_instance c) = vi_saga_id (rc_identity c) \<and>
     instance_definition rt (rc_instance c) (rc_definition c)"

locale orchestrator_relation = db_relation R T
  for R :: "SagaDb \<Rightarrow> SagaDb \<Rightarrow> bool" and T :: "SagaDb \<Rightarrow> SagaDb \<Rightarrow> bool" +
  fixes rt :: Runtime
  assumes advance_law:
      "tp_to_status spec \<noteq> Completed \<Longrightarrow> tp_to_status spec \<noteq> Compensated \<Longrightarrow>
       within R (store_applied saga version from spec)"
    and forward_law: "context_ok rt c \<Longrightarrow> within T (proceed_forward rt c)"
    and converge_law: "within T (converge_compensated_at rt saga version trigger cause)"
    and start_law: "within T (start_body rt q wd s digest request_digest legacy trace)"
    and issue_law: "within R (issue_command rt i step_def phase attempt payload operation now version)"
    and trace_law: "within R (update_trace_context saga traceparent)"
    and conflict_law: "within R (record_attempt_conflict cf)"
    and outcome_law: "within R (record_attempt_outcome saga step phase attempt status event)"
    and management_law: "within R (record_management_operation saga op action actor reason)"
    and control_law: "within R (set_control_state cspec)"
    and rate_law: "within R (reserve_tenant_action_rate tenant cap window)"
    and patch_law: "within R (update_step_journal saga step patch)"
    and reopen_compensation_law: "within R (reopen_halted_compensation saga step op)"
    and reopen_resolution_law: "within R (reopen_halted_resolution saga step op)"
    and mark_law: "within R (mark_compensation_plan saga plan)"
    and schedule_law: "within R (store_schedule_timer tspec)"
    and cancel_law: "within R (cancel_scope_timers saga scope kind)"
    and wake_law: "within R (wake_saga_timers saga)"
    and complete_law: "within R (complete_timer timer token now)"
    and release_law: "within R (release_timer timer token now due)"
    and claim_law: "within R (claim_due_timers owner token now lease limit)"
    and inbox_law: "within R (inbox_claim consumer message)"
    and reconcile_law: "within R (reconcile_tenant_quota tenant)"
    and clock_law: "R d (d\<lparr>db_now := n\<rparr>)"
begin

lemmas laws [within_intro] =
  issue_law trace_law conflict_law outcome_law management_law control_law rate_law patch_law
  reopen_compensation_law reopen_resolution_law mark_law schedule_law cancel_law wake_law
  complete_law release_law claim_law inbox_law reconcile_law

lemma load_within [within_intro]:
  "within R (load_instance saga)" "within R (load_steps saga)" "within R (load_attempts saga step)"
  by (simp_all add: load_instance_def load_steps_def load_attempts_def within_intro)

lemma advance_within [within_intro]:
  "to \<noteq> Completed \<Longrightarrow> to \<noteq> Compensated \<Longrightarrow> within R (advance i to dir step kind trigger code plan)"
  unfolding advance_def by (rule advance_law) simp_all

lemma small_within [within_intro]:
  "within R (schedule_timer rt saga scope kind attempt due version)"
  "within R (cancel_timers saga scope only)"
  "within R (patch_step saga step patch)"
  unfolding schedule_timer_def cancel_timers_def patch_step_def
  by (intro within_intro)+

lemma cancel_resolution_within [within_intro]: "within R (cancel_resolution_timers saga step)"
  unfolding cancel_resolution_timers_def by (intro within_intro)

lemma attempts_within [within_intro]:
  "within R (next_attempt saga step phase)"
  "within R (count_resolution_attempts saga step dir)"
  "within R (load_step_row saga step)"
  "within R (lookup_definition rt i e)"
  unfolding next_attempt_def count_resolution_attempts_def load_step_row_def lookup_definition_def
  by (intro within_intro)+

lemma escalate_within [within_intro]: "within R (escalate_manual i kind trigger code)"
  unfolding escalate_manual_def by (intro within_intro) simp_all

end

section \<open>The handlers\<close>

lemma find_by_id_saga: "find_by_id saga d = Some i \<Longrightarrow> si_saga_id i = saga"
  by (auto simp: find_by_id_def dest: find_Some_set)

context orchestrator_relation
begin

lemma record_projection_within [within_intro]: "within R (record_projection_conflict c row)"
  unfolding record_projection_conflict_def by (intro within_intro)

lemma project_deferred_within [within_intro]: "within R (project_deferred_result c)"
  unfolding project_deferred_result_def Let_def by (intro within_intro)

lemma monotonic_within [within_intro]: "within R (apply_monotonic_projection c patch)"
  unfolding apply_monotonic_projection_def Let_def by (intro within_intro)

lemma project_or_T [within_intro]: "within T m \<Longrightarrow> within T (project_or c patch m)"
  unfolding project_or_def by (intro within_intro)

lemma project_or_R [within_intro]: "within R m \<Longrightarrow> within R (project_or c patch m)"
  unfolding project_or_def by (intro within_intro)

lemma converge_return [within_intro]:
  "within T (bindT (converge_compensated_at rt saga version kind cause) (\<lambda>_. returnT s))"
  by (rule bind_return [OF converge_law])

lemma enter_compensation_within [within_intro]: "within T (enter_compensation rt c)"
  unfolding enter_compensation_def Let_def by (intro within_intro within_tail [OF escalate_within]) simp_all

lemma continue_compensation_within [within_intro]: "within T (continue_compensation rt c)"
  unfolding continue_compensation_def Let_def
  by (intro within_intro within_tail [OF escalate_within]) simp_all

lemma waiting_resolution_within [within_intro]: "within R (enter_waiting_resolution rt c dir)"
  unfolding enter_waiting_resolution_def Let_def by (intro within_intro) simp_all

lemma reissue_within [within_intro]: "within R (reissue_resolve rt c)"
  unfolding reissue_resolve_def Let_def by (intro within_intro) simp_all

lemma retry_rejected_within [within_intro]: "within R (retry_rejected_compensation rt c)"
  unfolding retry_rejected_compensation_def Let_def by (intro within_intro) simp_all

lemmas tails = within_tail [OF escalate_within] within_tail [OF project_deferred_within]
  within_tail [OF waiting_resolution_within] within_tail [OF reissue_within]
  within_tail [OF retry_rejected_within] forward_law

lemma on_execute_within [within_intro]: "context_ok rt c \<Longrightarrow> within T (on_execute_result rt c)"
  unfolding on_execute_result_def Let_def by (intro within_intro tails)

lemma on_cancel_within [within_intro]: "context_ok rt c \<Longrightarrow> within T (on_cancel_result rt c)"
  unfolding on_cancel_result_def Let_def by (intro within_intro tails)

lemma on_compensate_within [within_intro]: "within T (on_compensate_result rt c)"
  unfolding on_compensate_result_def Let_def by (intro within_intro tails)

text \<open>Settling a resolution from a committed success either decides nothing or may close the saga.\<close>

lemma settle_within: "context_ok rt c \<Longrightarrow> within T (settle_resolution_from_committed_success rt c)"
  unfolding settle_resolution_from_committed_success_def Let_def
  by (intro within_intro tails bind_return [where X = T])

lemma settle_undecided:
  assumes "settle_resolution_from_committed_success rt c d = Inr (None, d')"
  shows "d' = d"
  using assms
  by (auto simp: settle_resolution_from_committed_success_def Let_def bindT_Inr load_step_row_def
      load_steps_def split: if_splits option.splits)

lemma bind_settled:
  assumes "within T m" and "\<And>d d'. m d = Inr (None, d') \<Longrightarrow> d' = d" and "within T f"
  shows "within T (bindT m (\<lambda>v. case v of Some s \<Rightarrow> returnT s | None \<Rightarrow> f))"
proof (rule withinI)
  fix d a d'
  assume "bindT m (\<lambda>v. case v of Some s \<Rightarrow> returnT s | None \<Rightarrow> f) d = Inr (a, d')"
  then obtain v d1 where m: "m d = Inr (v, d1)"
    and f: "(case v of Some s \<Rightarrow> returnT s | None \<Rightarrow> f) d1 = Inr (a, d')" by auto
  show "T d d'"
  proof (cases v)
    case None
    with m f assms(2) have "f d = Inr (a, d')" by fastforce
    with assms(3) show ?thesis by (rule withinD)
  next
    case (Some s)
    with m f assms(1) show ?thesis by (auto dest: withinD)
  qed
qed

lemma on_resolve_within [within_intro]:
  assumes "context_ok rt c"
  shows "within T (on_resolve_result rt c)"
  unfolding on_resolve_result_def Let_def
  by (intro within_if tails bind_settled settle_within settle_undecided within_intro assms)

section \<open>The entry points\<close>

lemma route_within: "context_ok rt c \<Longrightarrow> within T (route_result rt c)"
  unfolding route_result_def by (intro within_intro)

lemma outcome_conflict_within [within_intro]:
  "within R (record_outcome_conflict i identity existing status event)"
  unfolding record_outcome_conflict_def by (intro within_intro)

lemma refresh_value:
  "refresh_trace x i identity trace d = Inr (i', d') \<Longrightarrow>
     si_saga_id i' = si_saga_id i \<and> instance_definition rt i' = instance_definition rt i"
  by (cases trace) (auto simp: refresh_trace_def Let_def bindT_Inr instance_definition_def fun_eq_iff)

lemma refresh_within [within_intro]: "within R (refresh_trace x i identity trace)"
  unfolding refresh_trace_def Let_def by (intro within_intro)

lemma bind_refresh:
  assumes "\<And>i'. si_saga_id i' = si_saga_id i \<Longrightarrow>
      instance_definition rt i' = instance_definition rt i \<Longrightarrow> within T (f i')"
  shows "within T (bindT (refresh_trace x i identity trace) f)"
proof (rule withinI)
  fix d a d'
  assume "bindT (refresh_trace x i identity trace) f d = Inr (a, d')"
  then obtain i' d1 where r: "refresh_trace x i identity trace d = Inr (i', d1)"
    and f: "f i' d1 = Inr (a, d')" by auto
  with refresh_value [OF r] assms have "T d1 d'" by (auto dest: withinD)
  with withinD [OF refresh_within r] show "T d d'" by (rule R_then_T)
qed

lemma apply_result_within:
  assumes "si_saga_id i = vi_saga_id identity"
  shows "within T (apply_result rt i e identity status terminal trace now)"
  unfolding apply_result_def lookup_definition_def
  apply (intro bind_lift bind_T [OF outcome_law])
  subgoal for d step_def recorded
    using assms
    by (cases recorded)
      (auto intro!: within_intro bind_refresh bind_return route_within
        simp: context_ok_def instance_definition_def within_tail [OF bind_return [OF outcome_conflict_within]])
  done

lemma authorized_within:
  assumes "within T m"
  shows "within T (run_authorized_for authorize m)"
  using assms by (fastforce simp: run_authorized_for_def within_def bindT_Inr)

lemma result_claimedE:
  assumes "result_body rt e identity status terminal trace now authorize d = Inr (out, d')"
  obtains claim da where "inbox_claim (cfg_inbox_consumer (rt_config rt)) (re_event_id e) d = Inr (claim, da)"
    and "T da d'"
proof -
  have "within T (case claim of InboxClaimed \<Rightarrow>
        bindT (load_instance (vi_saga_id identity)) (\<lambda>loaded.
        bindT (liftT (ok_or loaded (E_Result Proc_ContractInvalid))) (\<lambda>i.
        bindT (liftT (map_err (\<lambda>_. E_Result Proc_ContractInvalid) (verify_instance_contract i identity)))
          (\<lambda>_.
        bindT (liftT (authorize AuthBody)) (\<lambda>_.
        bindT (requireT (allows_automatic_actions (si_control_state i)) (E_Result Proc_Paused)) (\<lambda>_.
          apply_result rt i e identity status terminal trace now)))))
      | InboxDuplicate \<Rightarrow> returnT HandleDuplicate)" for claim
    unfolding load_instance_def
    by (cases claim)
      (auto intro!: bind_read bind_lift bind_require within_return apply_result_within find_by_id_saga)
  with assms that show ?thesis unfolding result_body_def by (blast dest: withinD)
qed

lemma result_body_within: "within T (result_body rt e identity status terminal trace now authorize)"
  by (rule withinI, erule result_claimedE) (blast intro: R_then_T withinD [OF inbox_law])

lemma handle_within: "within T (handle_authenticated_result rt e producer trace now authorize)"
  unfolding handle_authenticated_result_def handle_verified_result_def
  by (intro bind_lift authorized_within result_body_within)

lemma start_within: "within T (start_saga rt q trace authorize)"
  unfolding start_saga_def Let_def by (intro bind_lift bind_require authorized_within start_law)

lemma step_timeout_within [within_intro]: "within R (on_step_timeout rt i d scope timer now)"
  unfolding on_step_timeout_def timeout_to_resolution_def Let_def by (intro within_intro) simp_all

lemma phase_retry_within:
  assumes "status \<noteq> Completed" and "status \<noteq> Compensated"
  shows "within R (on_phase_retry_timeout rt i d scope timer phase status cap code now)"
  unfolding on_phase_retry_timeout_def by (intro within_intro assms)

lemma deadline_within [within_intro]: "within R (on_instance_deadline rt i d timer now)"
  unfolding on_instance_deadline_def by (intro within_intro)

lemma verdict_within [within_intro]: "within R (timer_verdict rt i d scope timer now)"
  unfolding timer_verdict_def Let_def by (intro within_intro phase_retry_within) simp_all

lemma fire_within: "within R (fire_timer rt timer token now elapsed)"
  unfolding fire_timer_def by (intro within_intro)

lemma rate_budget_within [within_intro]: "within R (reserve_action_rate_budget rt tenant)"
  unfolding reserve_action_rate_budget_def by (intro within_intro)

lemma managed_within [within_intro]:
  "within R (load_managed tenant saga)" "within R (requireM b)" "within R (expectM v)"
  "within R (control_lost ex i from)"
  unfolding load_managed_def requireM_def expectM_def control_lost_def by (intro within_intro)+

lemma within_control_outcome [within_intro]:
  assumes "within X m" "within X n" "within X l"
  shows "within X (case v of ControlApplied \<Rightarrow> m | ControlAlreadyApplied \<Rightarrow> n | ControlConflict \<Rightarrow> l)"
  using assms by (cases v) auto

lemma pause_within: "within R (pause rt m tenant saga op ex)"
  unfolding pause_def by (intro within_intro)

lemma resume_within: "within R (resume rt m tenant saga op ex)"
  unfolding resume_def by (intro within_intro)

lemma within_audit_outcome [within_intro]:
  assumes "within X m" "within X n"
  shows "within X (case v of AuditRecorded \<Rightarrow> m | AuditAlreadyRecorded \<Rightarrow> n)"
  using assms by (cases v) auto

lemma audited_within:
  assumes "\<And>i. within T (f i)"
  shows "within T (audited_action rt m tenant saga op action ex f)"
  unfolding audited_action_def by (intro within_intro assms)

lemma retry_step_within: "within T (retry_compensation_step rt saga op now i d steps step)"
  unfolding retry_compensation_step_def by (intro within_intro) simp_all

lemma retry_compensation_within: "within T (retry_compensation rt m tenant saga op now ex)"
  unfolding retry_compensation_def by (intro within_intro audited_within retry_step_within) simp_all

lemma retry_resolution_within: "within T (retry_resolution rt m tenant saga op now ex)"
  unfolding retry_resolution_def by (intro within_intro audited_within) simp_all

lemma manual_close_within: "within T (manual_close rt m tenant saga op ex)"
  unfolding manual_close_def by (intro within_intro audited_within) simp_all

end

section \<open>The system\<close>

text \<open>
  Everything that commits a transaction on the saga tables: a start, an authenticated result, the
  timer worker's claim, firing and release, the management actions, and the quota reconciliation,
  in any order and from any number of processes; and the database clock. A transaction that fails
  changes nothing.
\<close>

datatype SagaAction =
    ActStart StartSagaRequest "TraceContext option" authorize
  | ActResult SagaResultEnvelope ServiceIdentity "TraceContext option" i64 authorize
  | ActClaim string string i64
  | ActFire SagaTimerRow string i64 "nat option"
  | ActRelease string string i64 i64
  | ActPause SagaManagementContext TenantId SagaId string SagaManagementExpectation
  | ActResume SagaManagementContext TenantId SagaId string SagaManagementExpectation
  | ActRetryCompensation SagaManagementContext TenantId SagaId string i64 SagaManagementExpectation
  | ActRetryResolution SagaManagementContext TenantId SagaId string i64 SagaManagementExpectation
  | ActManualClose SagaManagementContext TenantId SagaId string SagaManagementExpectation
  | ActReconcile TenantId
  | ActClock nat

fun transact :: "Runtime \<Rightarrow> SagaAction \<Rightarrow> SagaDb \<Rightarrow> SagaDb" where
  "transact rt (ActStart q trace authorize) d = snd (run_for (start_saga rt q trace authorize) d)"
| "transact rt (ActResult e producer trace now authorize) d =
     snd (run_for (handle_authenticated_result rt e producer trace now authorize) d)"
| "transact rt (ActClaim owner token now) d =
     snd (run_for (claim_due_timers owner token now (cfg_timer_lease_ms (rt_config rt))
       (unat (cfg_timer_claim_limit (rt_config rt)))) d)"
| "transact rt (ActFire timer token now elapsed) d =
     snd (run_for (fire_timer rt timer token now elapsed) d)"
| "transact rt (ActRelease timer token now due) d = snd (run_for (release_timer timer token now due) d)"
| "transact rt (ActPause m tenant saga op ex) d = snd (run_for (pause rt m tenant saga op ex) d)"
| "transact rt (ActResume m tenant saga op ex) d = snd (run_for (resume rt m tenant saga op ex) d)"
| "transact rt (ActRetryCompensation m tenant saga op now ex) d =
     snd (run_for (retry_compensation rt m tenant saga op now ex) d)"
| "transact rt (ActRetryResolution m tenant saga op now ex) d =
     snd (run_for (retry_resolution rt m tenant saga op now ex) d)"
| "transact rt (ActManualClose m tenant saga op ex) d =
     snd (run_for (manual_close rt m tenant saga op ex) d)"
| "transact rt (ActReconcile tenant) d = snd (run_for (reconcile_tenant_quota tenant) d)"
| "transact rt (ActClock n) d = d\<lparr>db_now := n\<rparr>"

definition run_actions :: "Runtime \<Rightarrow> SagaAction list \<Rightarrow> SagaDb \<Rightarrow> SagaDb" where
  "run_actions rt as d = fold (transact rt) as d"

lemma run_actions_simps [simp]:
  "run_actions rt [] d = d"
  "run_actions rt (a # as) d = run_actions rt as (transact rt a d)"
  "run_actions rt (as @ bs) d = run_actions rt bs (run_actions rt as d)"
  by (simp_all add: run_actions_def)

definition empty_db :: SagaDb where
  "empty_db = \<lparr>db_instances = [], db_steps = [], db_attempts = [], db_transitions = [],
     db_controls = [], db_managements = [], db_conflicts = [], db_timers = [], db_quotas = [],
     db_action_rates = [], db_outbox = [], db_outbox_quotas = [], db_inbox = [], db_now = 0\<rparr>"

lemma run_for_snd: "X d d \<Longrightarrow> within X m \<Longrightarrow> X d (snd (run_for m d))"
  by (auto simp: run_for_def within_def split: sum.splits)

context orchestrator_relation
begin

lemma T_refl: "T d d"
  by (rule R_T [OF R_refl])

lemma run_T: "within T m \<Longrightarrow> T d (snd (run_for m d))"
  by (rule run_for_snd [OF T_refl])

lemmas action_within =
  handle_within start_within retry_compensation_within retry_resolution_within manual_close_within
  within_tail [OF fire_within] within_tail [OF pause_within] within_tail [OF resume_within]
  within_tail [OF claim_law] within_tail [OF release_law] within_tail [OF reconcile_law]

lemma transact_T: "T d (transact rt a d)"
  by (cases a) (simp_all add: run_T action_within R_T [OF clock_law])

end

section \<open>One relation for all operations\<close>

text \<open>
  The simpler interface: one relation, preserved by each operation on its own. Only the creation of
  a saga, with its quota reservation, is still taken as a whole.
\<close>

locale advance_relation =
  fixes R :: "SagaDb \<Rightarrow> SagaDb \<Rightarrow> bool" and rt :: Runtime
  assumes refl: "R d d"
    and trans: "R d d' \<Longrightarrow> R d' d'' \<Longrightarrow> R d d''"
    and applied_law: "within R (store_applied saga version from spec)"
    and s_start_law: "within R (start_body rt q wd s digest request_digest legacy trace)"
    and started_law: "within R (record_attempt_started saga step phase attempt effect command)"
    and append_law: "within R (outbox_append (rt_outbox_cap rt) t event)"
    and s_trace_law: "within R (update_trace_context saga traceparent)"
    and s_conflict_law: "within R (record_attempt_conflict cf)"
    and s_outcome_law: "within R (record_attempt_outcome saga step phase attempt status eid)"
    and s_management_law: "within R (record_management_operation saga op action actor reason)"
    and s_control_law: "within R (set_control_state cspec)"
    and s_rate_law: "within R (reserve_tenant_action_rate tenant cap window)"
    and s_patch_law: "within R (update_step_journal saga step patch)"
    and s_reopen_compensation_law: "within R (reopen_halted_compensation saga step op)"
    and s_reopen_resolution_law: "within R (reopen_halted_resolution saga step op)"
    and s_mark_law: "within R (mark_compensation_plan saga plan)"
    and s_schedule_law: "within R (store_schedule_timer tspec)"
    and s_cancel_law: "within R (cancel_scope_timers saga scope only)"
    and s_wake_law: "within R (wake_saga_timers saga)"
    and s_complete_law: "within R (complete_timer timer token now)"
    and s_release_law: "within R (release_timer timer token now due)"
    and s_claim_law: "within R (claim_due_timers owner token now lease limit)"
    and s_inbox_law: "within R (inbox_claim consumer message)"
    and s_reconcile_law: "within R (reconcile_tenant_quota tenant)"
    and s_clock_law: "R d (d\<lparr>db_now := n\<rparr>)"

sublocale advance_relation \<subseteq> db_relation R R
  by unfold_locales (auto intro: refl trans)

context advance_relation
begin

lemmas store_laws [within_intro] =
  applied_law started_law append_law s_trace_law s_conflict_law
  s_outcome_law s_management_law s_control_law s_rate_law s_patch_law s_reopen_compensation_law
  s_reopen_resolution_law s_mark_law s_schedule_law s_cancel_law s_wake_law s_complete_law
  s_release_law s_claim_law s_inbox_law s_reconcile_law

lemma s_small [within_intro]:
  "within R (advance i to dir step kind trigger code plan)"
  "within R (schedule_timer rt saga scope k attempt due version)"
  "within R (cancel_timers saga scope only)"
  "within R (load_instance saga)"
  "within R (load_steps saga)"
  unfolding advance_def schedule_timer_def cancel_timers_def load_instance_def load_steps_def
  by (intro within_intro)+

lemma s_next [within_intro]:
  "within R (next_attempt saga step phase)"
  unfolding next_attempt_def load_attempts_def by (intro within_intro)

lemma s_issue [within_intro]:
  "within R (issue_command rt i step_def phase attempt payload operation now version)"
  unfolding issue_command_def Let_def by (intro within_intro)

lemma s_forward: "within R (proceed_forward rt c)"
  unfolding proceed_forward_def Let_def by (intro within_intro)

lemma s_converge: "within R (converge_compensated_at rt saga version kind cause)"
  unfolding converge_compensated_at_def verify_compensation_completion_def lookup_definition_def
  by (intro within_intro)

end

sublocale advance_relation \<subseteq> orchestrator_relation R R rt
  by unfold_locales (auto intro: within_intro s_forward s_converge s_start_law s_clock_law)

context advance_relation
begin

lemma run_R: "R d (run_actions rt as d)"
  by (induction as arbitrary: d) (auto intro: refl trans transact_T)

end

text \<open>And the interface with creation and reservation apart.\<close>

locale store_relation =
  fixes R :: "SagaDb \<Rightarrow> SagaDb \<Rightarrow> bool" and rt :: Runtime
  assumes p_refl: "R d d"
    and p_trans: "R d d' \<Longrightarrow> R d' d'' \<Longrightarrow> R d d''"
    and p_applied_law: "within R (store_applied saga version from spec)"
    and create_law: "within R (create_instance nspec)"
    and quota_law: "within R (reserve_tenant_quota tenant qcap)"
    and register_law: "within R (register_steps saga wd)"
    and p_started_law: "within R (record_attempt_started saga step phase attempt effect command)"
    and p_append_law: "within R (outbox_append (rt_outbox_cap rt) t event)"
    and p_trace_law: "within R (update_trace_context saga traceparent)"
    and p_conflict_law: "within R (record_attempt_conflict cf)"
    and p_outcome_law: "within R (record_attempt_outcome saga step phase attempt status eid)"
    and p_management_law: "within R (record_management_operation saga op action actor reason)"
    and p_control_law: "within R (set_control_state cspec)"
    and p_rate_law: "within R (reserve_tenant_action_rate tenant cap window)"
    and p_patch_law: "within R (update_step_journal saga step patch)"
    and p_reopen_compensation_law: "within R (reopen_halted_compensation saga step op)"
    and p_reopen_resolution_law: "within R (reopen_halted_resolution saga step op)"
    and p_mark_law: "within R (mark_compensation_plan saga plan)"
    and p_schedule_law: "within R (store_schedule_timer tspec)"
    and p_cancel_law: "within R (cancel_scope_timers saga scope only)"
    and p_wake_law: "within R (wake_saga_timers saga)"
    and p_complete_law: "within R (complete_timer timer token now)"
    and p_release_law: "within R (release_timer timer token now due)"
    and p_claim_law: "within R (claim_due_timers owner token now lease limit)"
    and p_inbox_law: "within R (inbox_claim consumer message)"
    and p_reconcile_law: "within R (reconcile_tenant_quota tenant)"
    and p_clock_law: "R d (d\<lparr>db_now := n\<rparr>)"

sublocale store_relation \<subseteq> base: db_relation R R
  by unfold_locales (auto intro: p_refl p_trans)

context store_relation
begin

lemmas primitive_laws =
  p_applied_law create_law quota_law register_law p_started_law p_append_law p_trace_law
  p_conflict_law p_outcome_law p_management_law p_control_law p_rate_law p_patch_law
  p_reopen_compensation_law p_reopen_resolution_law p_mark_law p_schedule_law p_cancel_law
  p_wake_law p_complete_law p_release_law p_claim_law p_inbox_law p_reconcile_law

lemma p_schedule: "within R (schedule_timer rt saga scope k attempt due version)"
  unfolding schedule_timer_def by (intro within_intro primitive_laws)

lemma p_issue: "within R (issue_command rt i step_def phase attempt payload operation now version)"
  unfolding issue_command_def Let_def by (intro within_intro primitive_laws p_schedule)

lemma p_map_err: "within R m \<Longrightarrow> within R (map_errT f m)"
  by (simp add: within_def map_errT_def)

lemma p_start: "within R (start_body rt q wd s digest request_digest legacy trace)"
  unfolding start_body_def
proof (rule base.bind_R)
  show "within R (case creation of Created row \<Rightarrow> start_created rt q wd s row
      | Existing row \<Rightarrow> returnT (AlreadyExists row))" for creation
    by (cases creation)
      (auto simp: start_created_def intro!: within_intro primitive_laws p_issue p_schedule)
qed (intro p_map_err create_law)

end

sublocale store_relation \<subseteq> advance_relation R rt
proof unfold_locales
  show "R d d' \<Longrightarrow> R d' d'' \<Longrightarrow> R d d''" for d d' d'' by (rule p_trans)
qed (rule p_refl primitive_laws p_start p_clock_law)+

end
