(* ===== verification/Saga_Frames.thy ===== *)
theory Saga_Frames
  imports Saga_Relation
begin

text \<open>
  Which tables each operation of the store writes, and what it writes to them: the facts from which
  the relations of \<open>Saga_Relation\<close> are established for the store.
\<close>

section \<open>Tables written\<close>

definition writes_steps :: "SagaDb \<Rightarrow> SagaDb \<Rightarrow> bool" where
  "writes_steps d d' \<longleftrightarrow> (\<exists>x. d' = d\<lparr>db_steps := x\<rparr>)"

definition writes_attempts :: "SagaDb \<Rightarrow> SagaDb \<Rightarrow> bool" where
  "writes_attempts d d' \<longleftrightarrow> (\<exists>x. d' = d\<lparr>db_attempts := x\<rparr>)"

definition writes_instances :: "SagaDb \<Rightarrow> SagaDb \<Rightarrow> bool" where
  "writes_instances d d' \<longleftrightarrow> (\<exists>x. d' = d\<lparr>db_instances := x\<rparr>)"

definition writes_controls :: "SagaDb \<Rightarrow> SagaDb \<Rightarrow> bool" where
  "writes_controls d d' \<longleftrightarrow> (\<exists>x y. d' = d\<lparr>db_instances := x, db_controls := y\<rparr>)"

definition writes_managements :: "SagaDb \<Rightarrow> SagaDb \<Rightarrow> bool" where
  "writes_managements d d' \<longleftrightarrow> (\<exists>x. d' = d\<lparr>db_managements := x\<rparr>)"

definition writes_conflicts :: "SagaDb \<Rightarrow> SagaDb \<Rightarrow> bool" where
  "writes_conflicts d d' \<longleftrightarrow> (\<exists>x. d' = d\<lparr>db_conflicts := x\<rparr>)"

definition writes_timers :: "SagaDb \<Rightarrow> SagaDb \<Rightarrow> bool" where
  "writes_timers d d' \<longleftrightarrow> (\<exists>x. d' = d\<lparr>db_timers := x\<rparr>)"

definition writes_quotas :: "SagaDb \<Rightarrow> SagaDb \<Rightarrow> bool" where
  "writes_quotas d d' \<longleftrightarrow> (\<exists>x. d' = d\<lparr>db_quotas := x\<rparr>)"

definition writes_rates :: "SagaDb \<Rightarrow> SagaDb \<Rightarrow> bool" where
  "writes_rates d d' \<longleftrightarrow> (\<exists>x. d' = d\<lparr>db_action_rates := x\<rparr>)"

definition writes_outbox :: "SagaDb \<Rightarrow> SagaDb \<Rightarrow> bool" where
  "writes_outbox d d' \<longleftrightarrow> (\<exists>x y. d' = d\<lparr>db_outbox := x, db_outbox_quotas := y\<rparr>)"

definition writes_inbox :: "SagaDb \<Rightarrow> SagaDb \<Rightarrow> bool" where
  "writes_inbox d d' \<longleftrightarrow> (\<exists>x. d' = d\<lparr>db_inbox := x\<rparr>)"

definition writes_started :: "SagaDb \<Rightarrow> SagaDb \<Rightarrow> bool" where
  "writes_started d d' \<longleftrightarrow> (\<exists>x y. d' = d\<lparr>db_attempts := x, db_steps := y\<rparr>)"

definition writes_advance :: "SagaDb \<Rightarrow> SagaDb \<Rightarrow> bool" where
  "writes_advance d d' \<longleftrightarrow>
     (\<exists>x y z. d' = d\<lparr>db_instances := x, db_transitions := y, db_quotas := z\<rparr>)"

lemmas writes_defs = writes_steps_def writes_attempts_def writes_instances_def writes_controls_def
  writes_managements_def writes_conflicts_def writes_timers_def writes_quotas_def writes_rates_def
  writes_outbox_def writes_inbox_def writes_started_def writes_advance_def

text \<open>No change is a change to any table.\<close>

lemma same_writes [simp]:
  "writes_steps d d" "writes_attempts d d" "writes_instances d d" "writes_controls d d"
  "writes_managements d d" "writes_conflicts d d" "writes_timers d d" "writes_quotas d d"
  "writes_rates d d" "writes_outbox d d" "writes_inbox d d" "writes_started d d" "writes_advance d d"
  unfolding writes_defs by (cases d; simp; metis)+

lemma update_writes [simp]:
  "writes_instances d (update_instances P f d)" "writes_steps d (update_steps P' f' d)"
  "writes_timers d (update_timers P'' f'' d)"
  by (auto simp: writes_defs update_instances_def update_steps_def update_timers_def)

lemma table_writes [simp]:
  "writes_steps d (d\<lparr>db_steps := a1\<rparr>)"
  "writes_attempts d (d\<lparr>db_attempts := a2\<rparr>)"
  "writes_instances d (d\<lparr>db_instances := a3\<rparr>)"
  "writes_controls d (d\<lparr>db_instances := a3, db_controls := a4\<rparr>)"
  "writes_managements d (d\<lparr>db_managements := a5\<rparr>)"
  "writes_conflicts d (d\<lparr>db_conflicts := a6\<rparr>)"
  "writes_timers d (d\<lparr>db_timers := a7\<rparr>)"
  "writes_quotas d (d\<lparr>db_quotas := a8\<rparr>)"
  "writes_rates d (d\<lparr>db_action_rates := a9\<rparr>)"
  "writes_outbox d (d\<lparr>db_outbox := a10, db_outbox_quotas := a11\<rparr>)"
  "writes_inbox d (d\<lparr>db_inbox := a12\<rparr>)"
  "writes_started d (d\<lparr>db_attempts := a2, db_steps := a1\<rparr>)"
  by (auto simp: writes_defs)

named_theorems frame \<open>the tables an operation writes\<close>

lemma update_steps_checked_frame [frame]: "within writes_steps (update_steps_checked P f e)"
  by (auto simp: within_def update_steps_checked_def bindT_Inr)

lemma writes_steps_trans: "writes_steps d d' \<Longrightarrow> writes_steps d' d'' \<Longrightarrow> writes_steps d d''"
  by (auto simp: writes_steps_def)

lemma mark_entries_frame: "within writes_steps (mark_entries saga version entries)"
proof (induction entries)
  case Nil
  show ?case by (simp add: within_def)
next
  case (Cons e es)
  then show ?case
    using update_steps_checked_frame unfolding within_def
    by (simp add: bindT_Inr) (blast intro: writes_steps_trans)
qed

lemma steps_frame [frame]:
  "within writes_steps (update_step_journal saga step patch)"
  "within writes_steps (reopen_halted_compensation saga step op)"
  "within writes_steps (reopen_halted_resolution saga step op)"
  "within writes_steps (mark_compensation_plan saga plan)"
  "within writes_steps (register_steps saga wd)"
  using update_steps_checked_frame mark_entries_frame
  by (auto simp: within_def update_step_journal_def reopen_halted_compensation_def
      reopen_halted_resolution_def mark_compensation_plan_def register_steps_def bindT_Inr)

lemma timers_frame [frame]:
  "within writes_timers (store_schedule_timer tspec)"
  "within writes_timers (cancel_scope_timers saga scope only)"
  "within writes_timers (wake_saga_timers saga)"
  "within writes_timers (complete_timer timer token now)"
  "within writes_timers (claim_due_timers owner token now lease limit)"
  by (auto simp: within_def store_schedule_timer_def cancel_scope_timers_def wake_saga_timers_def
      complete_timer_def claim_due_timers_def bindT_Inr Let_def split: option.splits if_splits)

lemma release_frame [frame]: "within writes_timers (release_timer timer token now due)"
  by (auto simp: within_def release_timer_def bindT_Inr split: if_splits)

lemma within_write: "(\<And>d. X d (g d)) \<Longrightarrow> within X (writeT g)"
  by (simp add: within_def)

interpretation rates: db_relation writes_rates writes_rates
  by unfold_locales (auto simp: writes_rates_def)

interpretation quotas: db_relation writes_quotas writes_quotas
  by unfold_locales (auto simp: writes_quotas_def)

lemma ledger_frame [frame]:
  "within writes_rates (reserve_tenant_action_rate tenant cap window)"
  "within writes_quotas (reserve_tenant_quota tenant qcap)"
  "within writes_quotas (reconcile_tenant_quota tenant)"
  unfolding reserve_tenant_action_rate_def reserve_tenant_quota_def reconcile_tenant_quota_def Let_def
  by (intro within_intro within_write; simp)+

lemma journal_frame [frame]:
  "within writes_attempts (record_attempt_outcome saga step phase attempt status event)"
  "within writes_managements (record_management_operation saga op action actor reason)"
  "within writes_conflicts (record_attempt_conflict cf)"
  "within writes_inbox (inbox_claim consumer message)"
  "within writes_instances (update_trace_context saga traceparent)"
  by (auto simp: within_def record_attempt_outcome_def record_management_operation_def
      record_attempt_conflict_def inbox_claim_def update_trace_context_def bindT_Inr
      split: option.splits if_splits)

lemma started_frame [frame]:
  "within writes_started (record_attempt_started saga step phase attempt effect command)"
  by (auto simp: within_def record_attempt_started_def bindT_Inr update_steps_def
      split: option.splits if_splits)

lemma control_frame [frame]: "within writes_controls (set_control_state cspec)"
  by (auto simp: within_def set_control_state_def insert_control_def bindT_Inr update_instances_def
      split: option.splits if_splits)

lemma writes_outbox_trans: "writes_outbox d d' \<Longrightarrow> writes_outbox d' d'' \<Longrightarrow> writes_outbox d d''"
  unfolding writes_outbox_def by (elim exE) (simp, blast)

lemma writes_advance_trans:
  "writes_advance d d' \<Longrightarrow> writes_advance d' d'' \<Longrightarrow> writes_advance d d''"
  unfolding writes_advance_def by (elim exE) (simp, blast)

interpretation outbox: db_relation writes_outbox writes_outbox
  by unfold_locales (auto intro: writes_outbox_trans)

lemma outbox_frame [frame]: "within writes_outbox (outbox_append caps t event)"
proof -
  have "writes_outbox d (d\<lparr>db_outbox_quotas := q\<rparr>)" "writes_outbox d (d\<lparr>db_outbox := o'\<rparr>)" for d q o'
    unfolding writes_outbox_def by (cases d; simp; metis)+
  then show ?thesis
    unfolding outbox_append_def by (intro within_intro within_write; simp)
qed

interpretation advances: db_relation writes_advance writes_advance
  by unfold_locales (auto intro: writes_advance_trans)

lemma insert_transition_frame: "within writes_advance (insert_transition row)"
proof -
  have "writes_advance d (d\<lparr>db_transitions := t\<rparr>)" for d t
    unfolding writes_advance_def by (cases d; simp; metis)
  then show ?thesis by (auto simp: within_def insert_transition_def split: if_splits)
qed

lemma writes_advance_parts [simp]:
  "writes_advance d (d\<lparr>db_instances := i\<rparr>)" "writes_advance d (update_instances P f d)"
  "writes_advance d (d\<lparr>db_quotas := q\<rparr>)"
  unfolding writes_advance_def update_instances_def by (cases d; simp; metis)+

lemma advance_frame [frame]:
  "within writes_advance (store_applied saga version from spec)"
  unfolding store_applied_def store_advance_def release_tenant_quota_def
  by (intro within_intro within_write insert_transition_frame; simp)

lemma create_frame [frame]: "within writes_advance (create_instance nspec)"
  unfolding create_instance_def existing_instance_def load_instance_def
  by (intro within_intro within_write insert_transition_frame; simp)

section \<open>Relations that ignore a table\<close>

lemma frame_rule:
  assumes "within W m" and "\<And>d d'. W d d' \<Longrightarrow> R d d'"
  shows "within R m"
  using assms by (auto simp: within_def)

section \<open>What the compare-and-set writes\<close>

definition applied_state :: "SagaId \<Rightarrow> nat \<Rightarrow> SagaStatus \<Rightarrow> TransitionSpec \<Rightarrow> SagaDb \<Rightarrow> SagaDb" where
  "applied_state saga version from spec d =
     d\<lparr>db_instances := map (\<lambda>i. if cas_matches saga version from i then advance_row spec i else i)
         (db_instances d),
       db_transitions := db_transitions d @
         [\<lparr>tn_saga_id = saga, tn_seq = version + 1, tn_from = Some from, tn_to = tp_to_status spec,
           tn_trigger_kind = tp_trigger_kind spec, tn_trigger_id = tp_trigger_id spec,
           tn_definition_version = tp_definition_version spec\<rparr>]\<rparr>"

definition released_quotas :: "SagaId \<Rightarrow> SagaDb \<Rightarrow> QuotaRow list" where
  "released_quotas saga d =
     map (\<lambda>q. if list_ex (\<lambda>i. si_saga_id i = saga \<and> tenant_id_str (si_tenant i) = qr_tenant q)
            (db_instances d) \<and> 0 < qr_in_flight q
          then q\<lparr>qr_in_flight := qr_in_flight q - 1\<rparr> else q) (db_quotas d)"

lemma store_appliedE:
  assumes "store_applied saga version from spec d = Inr (n, d')"
  obtains "check_transition from (tp_to_status spec) (transition_guard saga from spec d) = Inr ()"
    and "n = version + 1" and "n \<le> u64_max"
    and "\<exists>i \<in> set (db_instances d). cas_matches saga version from i"
    and "\<forall>t \<in> set (db_transitions d). tn_saga_id t = saga \<longrightarrow> tn_seq t \<noteq> version + 1 \<and>
          \<not> (tn_trigger_kind t = tp_trigger_kind spec \<and> tn_trigger_id t = tp_trigger_id spec)"
    and "d' = (if saga_is_terminal (tp_to_status spec)
           then (applied_state saga version from spec d)
             \<lparr>db_quotas := released_quotas saga (applied_state saga version from spec d)\<rparr>
           else applied_state saga version from spec d)"
  using assms
  by (auto simp: store_applied_def store_advance_def insert_transition_def update_instances_def
      bindT_Inr release_tenant_quota_def applied_state_def released_quotas_def list_ex_iff
      split: if_splits)

lemma applied_tables [simp]:
  "db_steps (applied_state saga version from spec d) = db_steps d"
  "db_quotas (applied_state saga version from spec d) = db_quotas d"
  "db_managements (applied_state saga version from spec d) = db_managements d"
  by (simp_all add: applied_state_def)

lemma find_skip: "\<forall>x \<in> set xs. \<not> P x \<Longrightarrow> find P (xs @ ys) = find P ys"
  by (induction xs) auto

lemma create_instanceE:
  assumes "create_instance nspec d = Inr (creation, d')"
  obtains (existing) row where "creation = Existing row" and "d' = d"
    | (created) "creation = Created (new_row nspec)"
      and "\<forall>i \<in> set (db_instances d). si_saga_id i \<noteq> ni_saga_id nspec"
      and "\<forall>i \<in> set (db_instances d). \<not> (si_tenant i = ni_tenant nspec \<and>
            si_workflow i = ni_workflow nspec \<and> si_business_key i = ni_business_key nspec)"
      and "\<forall>t \<in> set (db_transitions d). tn_saga_id t = ni_saga_id nspec \<longrightarrow> tn_seq t \<noteq> 1"
      and "d' = d\<lparr>db_instances := db_instances d @ [new_row nspec],
        db_transitions := db_transitions d @
          [\<lparr>tn_saga_id = ni_saga_id nspec, tn_seq = 1, tn_from = None, tn_to = SAGA_INITIAL,
            tn_trigger_kind = ni_trigger_kind nspec, tn_trigger_id = ni_trigger_id nspec,
            tn_definition_version = ni_definition_version nspec\<rparr>]\<rparr>"
proof (cases "find_by_id (ni_saga_id nspec) d \<noteq> None \<or>
    find_by_business (ni_tenant nspec) (ni_workflow nspec) (ni_business_key nspec) d \<noteq> None")
  case True
  with assms that(1) show ?thesis
    by (auto simp: create_instance_def bindT_Inr existing_instance_def split: option.splits if_splits)
next
  case False
  then have fresh: "\<forall>i \<in> set (db_instances d). si_saga_id i \<noteq> ni_saga_id nspec"
    "\<forall>i \<in> set (db_instances d). \<not> (si_tenant i = ni_tenant nspec \<and>
       si_workflow i = ni_workflow nspec \<and> si_business_key i = ni_business_key nspec)"
    by (auto simp: find_by_id_def find_by_business_def find_None_iff)
  then have "find (\<lambda>i. si_saga_id i = ni_saga_id nspec) (db_instances d @ [new_row nspec])
      = Some (new_row nspec)"
    by (simp add: find_skip new_row_def)
  with False assms that(2) fresh show ?thesis
    by (auto simp: create_instance_def bindT_Inr insert_transition_def load_instance_def find_by_id_def
        list_ex_iff split: if_splits)
qed

lemma set_controlE:
  assumes "set_control_state cspec d = Inr (outcome, d')"
  obtains (unchanged) "d' = d" and "outcome \<noteq> ControlApplied"
    | (changed) "outcome = ControlApplied" and "cs_from cspec \<noteq> cs_to cspec"
      and "\<exists>i \<in> set (db_instances d). control_matches cspec i"
      and "\<forall>c \<in> set (db_controls d). cn_saga_id c = cs_saga_id cspec \<longrightarrow>
            cn_seq c \<noteq> cs_expected_control_version cspec + 1 \<and>
            cn_operation_id c \<noteq> cs_operation_id cspec"
      and "d' = d\<lparr>db_instances := map (\<lambda>i. if control_matches cspec i
             then i\<lparr>si_control_state := cs_to cspec, si_control_version := si_control_version i + 1\<rparr>
             else i) (db_instances d),
           db_controls := db_controls d @
             [\<lparr>cn_saga_id = cs_saga_id cspec, cn_seq = cs_expected_control_version cspec + 1,
               cn_from = cs_from cspec, cn_to = cs_to cspec, cn_operation_id = cs_operation_id cspec,
               cn_actor = cs_actor cspec, cn_reason = cs_reason cspec\<rparr>]\<rparr>"
  using assms
  by (auto simp: set_control_state_def bindT_Inr insert_control_def update_instances_def list_ex_iff
      split: option.splits if_splits)

end
