(* ===== verification/Saga_Evolution.thy ===== *)
theory Saga_Evolution
  imports Saga_Frames
begin

text \<open>
  How the rows of a table change over time. Rows are only ever appended or updated in place, so the
  rows of an earlier state are the first rows of a later one, each related to its earlier self. The
  locale \<open>row_relation\<close> lifts a relation on instance rows to the whole system; its interpretations
  give the finality of terminal states, the freeze of paused sagas and the fixed identity of a
  saga. The attempt journal, the timers, the inbox and the outbox get the same treatment.
\<close>

section \<open>Evolution of a list of rows\<close>

definition evolve :: "('a \<Rightarrow> 'a \<Rightarrow> bool) \<Rightarrow> 'a list \<Rightarrow> 'a list \<Rightarrow> bool" where
  "evolve P xs ys \<longleftrightarrow> (\<exists>us vs. ys = us @ vs \<and> list_all2 P xs us)"

lemma evolve_append [intro]: "(\<And>x. P x x) \<Longrightarrow> evolve P xs (xs @ ys)"
  unfolding evolve_def by (blast intro: list_all2_refl)

lemma evolve_map [intro]: "(\<And>x. x \<in> set xs \<Longrightarrow> P x (f x)) \<Longrightarrow> evolve P xs (map f xs)"
  unfolding evolve_def by (rule exI [of _ "map f xs"]) (simp add: list_all2_conv_all_nth)

lemma evolve_refl: "(\<And>x. P x x) \<Longrightarrow> evolve P xs xs"
  using evolve_append [of P xs "[]"] by simp

lemma evolve_trans:
  assumes P: "\<And>x y z. P x y \<Longrightarrow> P y z \<Longrightarrow> P x z"
    and "evolve P xs ys" and "evolve P ys zs"
  shows "evolve P xs zs"
proof -
  from assms(2) obtain us vs where ys: "ys = us @ vs" "list_all2 P xs us" by (auto simp: evolve_def)
  from assms(3) obtain us' vs' where zs: "zs = us' @ vs'" "list_all2 P ys us'" by (auto simp: evolve_def)
  then obtain a b where ab: "us' = a @ b" "list_all2 P us a"
    by (auto simp: ys list_all2_append1)
  have "list_all2 P xs a"
    using ys(2) ab(2) by (rule list_all2_trans [rotated 1, of P]) (rule P)
  with zs ab show ?thesis by (auto simp: evolve_def)
qed

lemma evolve_nth:
  assumes "evolve P xs ys" and "k < length xs"
  shows "k < length ys \<and> P (xs ! k) (ys ! k)"
  using assms by (auto simp: evolve_def nth_append list_all2_conv_all_nth)

lemma evolve_member:
  assumes "evolve P xs ys" and "x \<in> set xs"
  obtains y where "y \<in> set ys" and "P x y"
  using assms by (metis evolve_nth in_set_conv_nth)

text \<open>The first row with a key: related to the first row with that key before, if the relation keeps
  keys.\<close>

lemma evolve_find:
  assumes "evolve P xs ys" and key: "\<And>x y. P x y \<Longrightarrow> Q x = Q y" and "find Q xs = Some x"
  obtains y where "find Q ys = Some y" and "P x y"
proof -
  from assms(1) obtain us vs where ys: "ys = us @ vs" "list_all2 P xs us" by (auto simp: evolve_def)
  have "\<exists>y. find Q (us @ vs) = Some y \<and> P x y"
    using ys(2) assms(3) by (induction rule: list_all2_induct) (auto dest: key split: if_splits)
  with ys that show ?thesis by auto
qed

section \<open>Instance rows\<close>

definition rows_evolve ::
  "(SagaInstanceRow \<Rightarrow> SagaInstanceRow \<Rightarrow> bool) \<Rightarrow> SagaDb \<Rightarrow> SagaDb \<Rightarrow> bool" where
  "rows_evolve P d d' \<longleftrightarrow> evolve P (db_instances d) (db_instances d')"

locale row_relation =
  fixes P :: "SagaInstanceRow \<Rightarrow> SagaInstanceRow \<Rightarrow> bool"
  assumes row_refl: "P i i"
    and row_trans: "P i j \<Longrightarrow> P j k \<Longrightarrow> P i k"
    and row_advance: "cas_matches saga version from i \<Longrightarrow> can_transition_to from (tp_to_status spec) \<Longrightarrow>
        P i (advance_row spec i)"
    and row_trace: "P i (i\<lparr>si_traceparent := t\<rparr>)"
    and row_control: "P i (i\<lparr>si_control_state := s, si_control_version := Suc (si_control_version i)\<rparr>)"
begin

abbreviation "rows \<equiv> rows_evolve P"

lemmas rows_def = rows_evolve_def

lemma rows_same: "db_instances d' = db_instances d \<Longrightarrow> rows d d'"
  by (simp add: rows_def evolve_refl row_refl)

lemma rows_applied: "within rows (store_applied saga version from spec)"
proof (rule withinI)
  fix d n d'
  assume "store_applied saga version from spec d = Inr (n, d')"
  then show "rows d d'"
    by (elim store_appliedE)
      (auto simp: rows_def applied_state_def check_transition_Inr intro!: evolve_map row_refl row_advance
        split: if_splits)
qed

lemma rows_create: "within rows (create_instance nspec)"
proof (rule withinI)
  fix d c d'
  assume "create_instance nspec d = Inr (c, d')"
  then show "rows d d'"
    by (cases rule: create_instanceE) (auto simp: rows_def intro: evolve_refl row_refl)
qed

lemma rows_control: "within rows (set_control_state cspec)"
proof (rule withinI)
  fix d c d'
  assume "set_control_state cspec d = Inr (c, d')"
  then show "rows d d'"
    by (cases rule: set_controlE)
      (auto simp: rows_def intro!: evolve_map evolve_refl row_refl row_control)
qed

lemma rows_trace: "within rows (update_trace_context saga t)"
  by (auto simp: within_def rows_def update_trace_context_def bindT_Inr update_instances_def
      intro!: evolve_map row_refl row_trace)

lemmas rows_frames = frame_rule [where R = rows, OF _ rows_same]

end

sublocale row_relation \<subseteq> store_relation rows rt for rt
proof unfold_locales
  show "rows d d" for d
    by (simp add: rows_same)
  show "rows d d' \<Longrightarrow> rows d' d'' \<Longrightarrow> rows d d''" for d d' d''
    unfolding rows_def by (rule evolve_trans) (auto intro: row_trans)
qed (rule rows_applied rows_create rows_control rows_trace
    | (rule frame [THEN rows_frames]; auto simp: writes_defs) | simp add: rows_same)+

context row_relation
begin

lemma find_row:
  assumes "\<And>i j. P i j \<Longrightarrow> si_saga_id i = si_saga_id j" and "find_by_id saga d = Some i"
  obtains j where "find_by_id saga (run_actions rt as d) = Some j" and "P i j"
proof -
  have "rows d (run_actions rt as d)" by (rule run_R)
  then show ?thesis
    using assms that unfolding rows_def find_by_id_def by (elim evolve_find) auto
qed

end

text \<open>A terminal row is final.\<close>

definition row_final :: "SagaInstanceRow \<Rightarrow> SagaInstanceRow \<Rightarrow> bool" where
  "row_final i j \<longleftrightarrow> si_saga_id i = si_saga_id j \<and>
     (saga_is_terminal (si_status i) \<longrightarrow>
        si_status j = si_status i \<and> si_version j = si_version i \<and> si_direction j = si_direction i \<and>
        si_current_step j = si_current_step i \<and> si_failure_code j = si_failure_code i \<and>
        si_compensation_plan_version j = si_compensation_plan_version i)"

interpretation finality: row_relation row_final
  by unfold_locales
    (auto simp: row_final_def advance_row_def cas_matches_def dest: terminal_no_edge)

text \<open>A paused row does not move until its control version changes.\<close>

definition row_frozen :: "SagaInstanceRow \<Rightarrow> SagaInstanceRow \<Rightarrow> bool" where
  "row_frozen i j \<longleftrightarrow> si_saga_id i = si_saga_id j \<and> si_control_version i \<le> si_control_version j \<and>
     (si_control_version j = si_control_version i \<longrightarrow>
        si_control_state j = si_control_state i \<and>
        (si_control_state i = Paused \<longrightarrow> si_status j = si_status i \<and> si_version j = si_version i \<and>
           si_direction j = si_direction i \<and> si_current_step j = si_current_step i))"

interpretation freeze: row_relation row_frozen
  by unfold_locales (auto simp: row_frozen_def advance_row_def cas_matches_def)

text \<open>
  The abstract specification of a saga: its identity is fixed, and its status walks along the edges
  of the state machine, one version per edge.
\<close>

definition same_identity :: "SagaInstanceRow \<Rightarrow> SagaInstanceRow \<Rightarrow> bool" where
  "same_identity i j \<longleftrightarrow> si_saga_id j = si_saga_id i \<and> si_tenant j = si_tenant i \<and>
     si_workflow j = si_workflow i \<and> si_business_key j = si_business_key i \<and>
     si_definition_version j = si_definition_version i \<and>
     si_definition_digest j = si_definition_digest i \<and>
     si_start_request_digest j = si_start_request_digest i \<and>
     si_deadline_at_ms j = si_deadline_at_ms i"

definition row_machine :: "SagaInstanceRow \<Rightarrow> SagaInstanceRow \<Rightarrow> bool" where
  "row_machine i j \<longleftrightarrow> same_identity i j \<and> si_version i \<le> si_version j \<and>
     (can_transition_to ^^ (si_version j - si_version i)) (si_status i) (si_status j)"

lemma row_machine_trans:
  assumes "row_machine i j" and "row_machine j k"
  shows "row_machine i k"
proof -
  have "(can_transition_to ^^ ((si_version j - si_version i) + (si_version k - si_version j)))
      (si_status i) (si_status k)"
    using assms by (intro relpowp_trans) (auto simp: row_machine_def)
  moreover have "(si_version j - si_version i) + (si_version k - si_version j)
      = si_version k - si_version i"
    using assms by (simp add: row_machine_def)
  ultimately show ?thesis
    using assms by (auto simp: row_machine_def same_identity_def)
qed

interpretation machine: row_relation row_machine
proof unfold_locales
  show "cas_matches saga version from i \<Longrightarrow> can_transition_to from (tp_to_status spec) \<Longrightarrow>
      row_machine i (advance_row spec i)" for saga version "from" i and spec :: TransitionSpec
    by (auto simp: row_machine_def same_identity_def advance_row_def cas_matches_def)
  show "row_machine i j \<Longrightarrow> row_machine j k \<Longrightarrow> row_machine i k" for i j k
    by (rule row_machine_trans)
qed (auto simp: row_machine_def same_identity_def)

text \<open>
  C3: A saga in a terminal state stays exactly there. Whatever sequence of starts, results, timers
  and management actions follows, its row is still present with the same status, version,
  direction, current step, failure code and plan.
\<close>

theorem terminal_saga_final:
  assumes "find_by_id saga d = Some i" and "saga_is_terminal (si_status i)"
  shows "\<exists>j. find_by_id saga (run_actions rt as d) = Some j \<and> si_status j = si_status i \<and>
    si_version j = si_version i \<and> si_direction j = si_direction i \<and>
    si_current_step j = si_current_step i \<and> si_failure_code j = si_failure_code i \<and>
    si_compensation_plan_version j = si_compensation_plan_version i"
  using finality.find_row [OF _ assms(1), of rt as] assms(2) by (auto simp: row_final_def)

text \<open>
  C11: While a saga is paused nothing advances it: after any sequence of actions in which its
  control version did not change, it is still paused at the same status, version, direction and
  step.
\<close>

theorem paused_saga_frozen:
  assumes "find_by_id saga d = Some i" and "si_control_state i = Paused"
  shows "\<exists>j. find_by_id saga (run_actions rt as d) = Some j \<and>
    si_control_version i \<le> si_control_version j \<and>
    (si_control_version j = si_control_version i \<longrightarrow>
       si_control_state j = Paused \<and> si_status j = si_status i \<and> si_version j = si_version i \<and>
       si_direction j = si_direction i \<and> si_current_step j = si_current_step i)"
  using freeze.find_row [OF _ assms(1), of rt as] assms(2) by (auto simp: row_frozen_def)

text \<open>
  C2: The stored sagas implement the abstract state machine. From any state, after any sequence of
  actions, a saga keeps its identity (tenant, workflow, business key, definition, start digest,
  deadline), and its status has moved along exactly as many legal edges of the machine as its
  version has grown.
\<close>

theorem saga_refines_machine:
  assumes "find_by_id saga d = Some i"
  shows "\<exists>j. find_by_id saga (run_actions rt as d) = Some j \<and> same_identity i j \<and>
    si_version i \<le> si_version j \<and>
    (can_transition_to ^^ (si_version j - si_version i)) (si_status i) (si_status j)"
  using machine.find_row [OF _ assms, of rt as] by (auto simp: row_machine_def same_identity_def)

end
