(* ===== verification/Saga_Tables.thy ===== *)
theory Saga_Tables
  imports Saga_Evolution
begin

text \<open>
  The other tables over time: the attempt journal never forgets or rewrites a settled outcome, a
  timer that fired or was cancelled stays so, and inbox and outbox only grow.
\<close>

section \<open>Attempt journal\<close>

definition attempt_kept :: "StoredAttempt \<Rightarrow> StoredAttempt \<Rightarrow> bool" where
  "attempt_kept a b \<longleftrightarrow> at_saga_id b = at_saga_id a \<and> at_started_at b = at_started_at a \<and>
     sa_step (at_row b) = sa_step (at_row a) \<and> sa_phase (at_row b) = sa_phase (at_row a) \<and>
     sa_attempt (at_row b) = sa_attempt (at_row a) \<and>
     sa_effect_id (at_row b) = sa_effect_id (at_row a) \<and>
     sa_command_id (at_row b) = sa_command_id (at_row a) \<and>
     (sa_status (at_row a) \<noteq> AttStarted \<longrightarrow> b = a)"

lemma attempt_kept_refl [simp]: "attempt_kept a a"
  by (simp add: attempt_kept_def)

definition attempts_kept :: "SagaDb \<Rightarrow> SagaDb \<Rightarrow> bool" where
  "attempts_kept d d' \<longleftrightarrow> evolve attempt_kept (db_attempts d) (db_attempts d')"

lemma attempts_kept_same: "db_attempts d' = db_attempts d \<Longrightarrow> attempts_kept d d'"
  by (simp add: attempts_kept_def evolve_refl)

lemmas attempts_frame = frame_rule [where R = attempts_kept, OF _ attempts_kept_same]

lemma started_kept: "within attempts_kept (record_attempt_started saga step phase attempt effect command)"
  by (auto simp: within_def record_attempt_started_def attempts_kept_def bindT_Inr update_steps_def
      intro: evolve_refl split: option.splits if_splits)

lemma outcome_kept: "within attempts_kept (record_attempt_outcome saga step phase attempt status event)"
  by (auto simp: within_def record_attempt_outcome_def attempts_kept_def bindT_Inr attempt_kept_def
      intro: evolve_refl intro!: evolve_map split: option.splits if_splits)

interpretation attempts: store_relation attempts_kept rt for rt
proof unfold_locales
  show "attempts_kept d d" for d
    by (simp add: attempts_kept_same)
  show "attempts_kept d d' \<Longrightarrow> attempts_kept d' d'' \<Longrightarrow> attempts_kept d d''" for d d' d''
    unfolding attempts_kept_def by (rule evolve_trans) (auto simp: attempt_kept_def)
qed (rule started_kept outcome_kept | (rule frame [THEN attempts_frame]; auto simp: writes_defs)
    | simp add: attempts_kept_same)+

section \<open>Timers\<close>

definition timer_kept :: "StoredTimer \<Rightarrow> StoredTimer \<Rightarrow> bool" where
  "timer_kept t u \<longleftrightarrow> tm_timer_id (tt_row u) = tm_timer_id (tt_row t) \<and>
     tm_saga_id (tt_row u) = tm_saga_id (tt_row t) \<and>
     tm_scope_kind (tt_row u) = tm_scope_kind (tt_row t) \<and>
     tm_scope_key (tt_row u) = tm_scope_key (tt_row t) \<and> tm_kind (tt_row u) = tm_kind (tt_row t) \<and>
     tm_attempt (tt_row u) = tm_attempt (tt_row t) \<and>
     tm_due_at_ms (tt_row u) = tm_due_at_ms (tt_row t) \<and>
     tm_expected_saga_version (tt_row u) = tm_expected_saga_version (tt_row t) \<and>
     (\<not> timer_live t \<longrightarrow> u = t)"

lemma timer_kept_refl [simp]: "timer_kept t t"
  by (simp add: timer_kept_def)

lemma timer_kept_changes:
  "timer_live t \<Longrightarrow> timer_kept t (settle_timer state t)"
  "timer_live t \<Longrightarrow> timer_kept t (claim_timer owner token until t)"
  "timer_live t \<Longrightarrow> timer_kept t (t\<lparr>tt_row := (tt_row t)\<lparr>tm_available_at_ms := v\<rparr>\<rparr>)"
  "timer_live t \<Longrightarrow> timer_kept t (settle_timer state (t\<lparr>tt_row := (tt_row t)\<lparr>tm_available_at_ms := v\<rparr>\<rparr>))"
  by (simp_all add: timer_kept_def settle_timer_def claim_timer_def)

definition timer_ids :: "SagaDb \<Rightarrow> string list" where
  "timer_ids d = map (tm_timer_id \<circ> tt_row) (db_timers d)"

definition timers_kept :: "SagaDb \<Rightarrow> SagaDb \<Rightarrow> bool" where
  "timers_kept d d' \<longleftrightarrow> (distinct (timer_ids d) \<longrightarrow>
     distinct (timer_ids d') \<and> evolve timer_kept (db_timers d) (db_timers d'))"

lemma timers_kept_same: "db_timers d' = db_timers d \<Longrightarrow> timers_kept d d'"
  by (simp add: timers_kept_def timer_ids_def evolve_refl)

lemmas timers_frame_rule = frame_rule [where R = timers_kept, OF _ timers_kept_same]

lemma timers_kept_update:
  assumes "\<And>t. distinct (timer_ids d) \<Longrightarrow> t \<in> set (db_timers d) \<Longrightarrow> Q t \<Longrightarrow> timer_kept t (f t)"
  shows "timers_kept d (update_timers Q f d)"
proof -
  have "timer_ids (update_timers Q f d) = timer_ids d" if "distinct (timer_ids d)"
    using assms [OF that]
    by (auto simp: timer_ids_def update_timers_def timer_kept_def)
  then show ?thesis
    using assms by (auto simp: timers_kept_def update_timers_def intro!: evolve_map)
qed

lemma schedule_kept: "within timers_kept (store_schedule_timer tspec)"
  by (auto simp: within_def store_schedule_timer_def bindT_Inr timers_kept_def timer_ids_def new_timer_def
      list_ex_iff intro: evolve_refl split: option.splits if_splits)

lemma cancel_kept: "within timers_kept (cancel_scope_timers saga scope only)"
  by (auto simp: within_def cancel_scope_timers_def bindT_Inr scope_matches_def
      intro!: timers_kept_update timer_kept_changes)

lemma wake_kept: "within timers_kept (wake_saga_timers saga)"
  by (auto simp: within_def wake_saga_timers_def bindT_Inr Let_def timer_live_def
      intro!: timers_kept_update timer_kept_changes)

lemma holds_lease_live: "holds_lease timer token now t \<Longrightarrow> timer_live t"
  by (simp add: holds_lease_def timer_live_def)

lemma complete_kept: "within timers_kept (complete_timer timer token now)"
  by (auto simp: within_def complete_timer_def bindT_Inr intro!: timers_kept_update timer_kept_changes
      intro: timers_kept_same dest: holds_lease_live split: if_splits)

lemma release_kept: "within timers_kept (release_timer timer token now due)"
  by (auto simp: within_def release_timer_def bindT_Inr intro!: timers_kept_update timer_kept_changes
      intro: timers_kept_same dest: holds_lease_live split: if_splits)

lemma chosen_due:
  assumes "distinct (timer_ids d)" and "t \<in> set (db_timers d)"
    and "u \<in> set (take n (sort_key k (filter (timer_due now) (db_timers d))))"
    and "tm_timer_id (tt_row t) = tm_timer_id (tt_row u)"
  shows "timer_live t"
proof -
  from assms(3) have u: "u \<in> set (db_timers d)" "timer_due now u"
    by (auto dest: in_set_takeD)
  with assms have "u = t" by (auto simp: timer_ids_def distinct_map inj_on_def)
  with u show ?thesis by (auto simp: timer_due_def timer_live_def)
qed

lemma claim_kept: "within timers_kept (claim_due_timers owner token now lease limit)"
  by (auto simp: within_def claim_due_timers_def bindT_Inr
      intro!: timers_kept_update timer_kept_changes dest: chosen_due)

interpretation timers: store_relation timers_kept rt for rt
proof unfold_locales
  show "timers_kept d d" for d
    by (simp add: timers_kept_same)
  show "timers_kept d d' \<Longrightarrow> timers_kept d' d'' \<Longrightarrow> timers_kept d d''" for d d' d''
    unfolding timers_kept_def
    by (auto intro: evolve_trans [rotated 1] simp: timer_kept_def)
qed (rule schedule_kept cancel_kept wake_kept complete_kept release_kept claim_kept
    | (rule frame [THEN timers_frame_rule]; auto simp: writes_defs) | simp add: timers_kept_same)+

section \<open>Inbox and outbox\<close>

definition event_ids :: "SagaDb \<Rightarrow> string list" where
  "event_ids d = map oe_event_id (db_outbox d)"

definition messages_kept :: "SagaDb \<Rightarrow> SagaDb \<Rightarrow> bool" where
  "messages_kept d d' \<longleftrightarrow> (\<exists>new. db_outbox d' = db_outbox d @ new) \<and> (\<exists>new. db_inbox d' = db_inbox d @ new) \<and>
     (distinct (event_ids d) \<longrightarrow> distinct (event_ids d'))"

lemma messages_kept_same:
  "db_outbox d' = db_outbox d \<and> db_inbox d' = db_inbox d \<Longrightarrow> messages_kept d d'"
  by (simp add: messages_kept_def event_ids_def)

lemmas messages_frame_rule = frame_rule [where R = messages_kept, OF _ messages_kept_same]

lemma inbox_messages: "within messages_kept (inbox_claim consumer message)"
  by (auto simp: within_def inbox_claim_def bindT_Inr messages_kept_def event_ids_def split: if_splits)

interpretation messages: db_relation messages_kept messages_kept
  by unfold_locales (auto simp: messages_kept_def)

lemma insert_event_messages:
  "within messages_kept (bindT (readT (\<lambda>d. list_ex (\<lambda>o'. oe_event_id o' = oe_event_id event) (db_outbox d)))
    (\<lambda>duplicate. if duplicate then failT e
       else writeT (\<lambda>d. d\<lparr>db_outbox := db_outbox d @ [event\<lparr>oe_tenant := t\<rparr>]\<rparr>)))"
proof (rule withinI)
  fix d u d'
  assume "bindT (readT (\<lambda>d. list_ex (\<lambda>o'. oe_event_id o' = oe_event_id event) (db_outbox d)))
    (\<lambda>duplicate. if duplicate then failT e
       else writeT (\<lambda>d. d\<lparr>db_outbox := db_outbox d @ [event\<lparr>oe_tenant := t\<rparr>]\<rparr>)) d = Inr (u, d')"
  then have new: "\<not> list_ex (\<lambda>o'. oe_event_id o' = oe_event_id event) (db_outbox d)"
    and d': "d' = d\<lparr>db_outbox := db_outbox d @ [event\<lparr>oe_tenant := t\<rparr>]\<rparr>"
    by (simp_all add: bindT_Inr split: if_splits)
  from new have "oe_event_id event \<notin> set (event_ids d)" by (auto simp: event_ids_def list_ex_iff)
  then show "messages_kept d d'" by (simp add: d' messages_kept_def event_ids_def)
qed

lemma append_messages: "within messages_kept (outbox_append caps t event)"
proof -
  have q: "messages_kept d (d\<lparr>db_outbox_quotas := q\<rparr>)" for d q
    by (simp add: messages_kept_same)
  show ?thesis
    unfolding outbox_append_def
  proof (rule messages.bind_R)
    show "within messages_kept (case caps t of None \<Rightarrow> returnT ()
       | Some cap \<Rightarrow>
           bindT (writeT (\<lambda>d. d\<lparr>db_outbox_quotas := ensure_quota_row t (db_outbox_quotas d)\<rparr>)) (\<lambda>_.
           bindT (readT (\<lambda>d. reserve_quota_row t (Some cap) (db_outbox_quotas d))) (\<lambda>reserved.
             case reserved of
               Some rows \<Rightarrow> writeT (\<lambda>d. d\<lparr>db_outbox_quotas := rows\<rparr>)
             | None \<Rightarrow>
                 bindT (readT (\<lambda>d. list_ex (\<lambda>q. qr_tenant q = t \<and> qr_initialized q)
                   (db_outbox_quotas d))) (\<lambda>initialized.
                   if initialized then failT (E_Store ''outbox_tenant_quota_exceeded'')
                   else failT (E_Store ''outbox tenant quota ledger is not initialized'')))))"
      by (intro messages.within_option messages.bind_R messages.bind_read messages.within_return
          messages.within_if messages.within_fail within_write q)
  qed (rule insert_event_messages)
qed

interpretation message_store: store_relation messages_kept rt for rt
proof unfold_locales
  show "messages_kept d d' \<Longrightarrow> messages_kept d' d'' \<Longrightarrow> messages_kept d d''" for d d' d''
    by (rule messages.R_trans)
qed (rule append_messages inbox_messages | (rule frame [THEN messages_frame_rule]; auto simp: writes_defs)
    | simp add: messages_kept_same)+

section \<open>Consequences\<close>

text \<open>
  C12: The attempt journal is append-only. After any sequence of actions every recorded attempt is
  still there with its identity (saga, step, phase, number, effect and command id), and once its
  outcome is settled, no later result, retry or management action changes it.
\<close>

theorem attempt_journal_append_only:
  assumes "k < length (db_attempts d)"
  shows "k < length (db_attempts (run_actions rt as d)) \<and>
    at_saga_id (db_attempts (run_actions rt as d) ! k) = at_saga_id (db_attempts d ! k) \<and>
    sa_command_id (at_row (db_attempts (run_actions rt as d) ! k)) = sa_command_id (at_row (db_attempts d ! k)) \<and>
    sa_effect_id (at_row (db_attempts (run_actions rt as d) ! k)) = sa_effect_id (at_row (db_attempts d ! k)) \<and>
    (sa_status (at_row (db_attempts d ! k)) \<noteq> AttStarted \<longrightarrow>
       db_attempts (run_actions rt as d) ! k = db_attempts d ! k)"
  using evolve_nth [OF attempts.run_R [unfolded attempts_kept_def] assms, of rt as]
  by (auto simp: attempt_kept_def)

text \<open>A settled timer stays settled, and nobody holds its lease again.\<close>

definition timer_settled :: "string \<Rightarrow> SagaDb \<Rightarrow> bool" where
  "timer_settled timer_id d \<longleftrightarrow> distinct (timer_ids d) \<and> timer_id \<in> set (timer_ids d) \<and>
     (\<forall>t \<in> set (db_timers d). tm_timer_id (tt_row t) = timer_id \<longrightarrow> \<not> timer_live t)"

lemma timer_settled_kept:
  assumes "timers_kept d d'" and "timer_settled timer_id d"
  shows "timer_settled timer_id d'"
proof -
  from assms have ev: "evolve timer_kept (db_timers d) (db_timers d')" and ids: "distinct (timer_ids d')"
    by (auto simp: timers_kept_def timer_settled_def)
  from assms(2) obtain t where t: "t \<in> set (db_timers d)" "tm_timer_id (tt_row t) = timer_id" "\<not> timer_live t"
    by (auto simp: timer_settled_def timer_ids_def)
  obtain u where "u \<in> set (db_timers d')" "timer_kept t u" using evolve_member [OF ev t(1)] .
  with t(3) have t': "t \<in> set (db_timers d')" by (simp add: timer_kept_def)
  have "\<not> timer_live v" if "v \<in> set (db_timers d')" "tm_timer_id (tt_row v) = timer_id" for v
  proof -
    have "inj_on (tm_timer_id \<circ> tt_row) (set (db_timers d'))"
      using ids by (simp add: timer_ids_def distinct_map)
    with that t' t(2) have "v = t" by (simp add: inj_on_def)
    with t(3) show ?thesis by simp
  qed
  moreover have "timer_id \<in> set (timer_ids d')"
    using t' t(2) by (force simp: timer_ids_def)
  ultimately show ?thesis
    using ids by (simp add: timer_settled_def)
qed

lemma settled_no_lease: "timer_settled timer_id d \<Longrightarrow> \<not> list_ex (holds_lease timer_id token now) (db_timers d)"
  by (auto simp: timer_settled_def list_ex_iff holds_lease_def timer_live_def)

lemma complete_settled:
  "timer_settled timer_id d \<Longrightarrow> complete_timer timer_id token now d = Inr (f, d') \<Longrightarrow> f = FencingLost \<and> d' = d"
  by (auto simp: complete_timer_def bindT_Inr settled_no_lease)

lemma complete_applied:
  assumes "complete_timer timer_id token now d = Inr (FencingApplied, d')" and "distinct (timer_ids d)"
  shows "timer_settled timer_id d' \<and> list_ex (holds_lease timer_id token now) (db_timers d)"
proof -
  from assms(1) have held: "list_ex (holds_lease timer_id token now) (db_timers d)"
    and d': "d' = update_timers (holds_lease timer_id token now) (settle_timer TmrFired) d"
    by (auto simp: complete_timer_def bindT_Inr split: if_splits)
  from held obtain t where t: "t \<in> set (db_timers d)" "holds_lease timer_id token now t"
    by (auto simp: list_ex_iff)
  have "u = t" if "u \<in> set (db_timers d)" "tm_timer_id (tt_row u) = timer_id" for u
    using that t assms(2) by (auto simp: timer_ids_def distinct_map inj_on_def holds_lease_def)
  then have "\<not> timer_live v" if "v \<in> set (db_timers d')" "tm_timer_id (tt_row v) = timer_id" for v
    using that t by (auto simp: d' update_timers_def settle_timer_def timer_live_def split: if_splits)
  moreover have "timer_ids d' = timer_ids d"
    by (auto simp: d' timer_ids_def update_timers_def settle_timer_def)
  moreover have "timer_id \<in> set (timer_ids d)"
    using t by (force simp: timer_ids_def holds_lease_def)
  ultimately show ?thesis
    using held assms(2) by (simp add: timer_settled_def)
qed

lemma not_lost [simp]: "f \<noteq> FencingLost \<longleftrightarrow> f = FencingApplied" "f \<noteq> FencingApplied \<longleftrightarrow> f = FencingLost"
  by (cases f; simp)+

lemma fire_appliedE:
  assumes "fire_timer rt timer token now elapsed d = Inr (TimerApplied s, d1)"
  obtains i n da wd scope status where "timer_clock now elapsed = Inr n"
    and "complete_timer (tm_timer_id timer) token n d = Inr (FencingApplied, da)"
    and "timer_verdict rt i wd scope timer n da = Inr (status, d1)"
proof (cases "find_by_id (tm_saga_id timer) d")
  case None
  with assms show ?thesis
    by (auto simp: fire_timer_def bindT_Inr load_instance_def split: TimerFencing.splits)
next
  case (Some i)
  from Some assms show ?thesis
    by (auto simp: fire_timer_def bindT_Inr load_instance_def lookup_definition_def
        intro: that split: if_splits option.splits)
qed

lemma fire_settled:
  assumes "timer_settled (tm_timer_id timer) d" and "fire_timer rt timer token now elapsed d = Inr (out, d2)"
  shows "d2 = d \<and> (\<forall>s. out \<noteq> TimerApplied s)"
proof (cases "find_by_id (tm_saga_id timer) d")
  case None
  with assms(2) show ?thesis
    by (auto simp: fire_timer_def bindT_Inr load_instance_def split: TimerFencing.splits
        dest!: complete_settled [OF assms(1)])
next
  case (Some i)
  with assms(2) show ?thesis
    by (auto simp: fire_timer_def bindT_Inr load_instance_def split: if_splits
        dest!: complete_settled [OF assms(1)])
qed

text \<open>
  C9: A durable timer takes effect at most once. If firing a timer moved its saga, the caller held
  the unexpired lease on it, and from then on, whatever else happens, firing a timer with that id
  under any token and at any time neither moves a saga nor changes the database.
\<close>

theorem timer_takes_effect_once:
  assumes "distinct (timer_ids d)"
    and "fire_timer rt timer token now elapsed d = Inr (TimerApplied s, d1)"
  shows "(\<exists>t \<in> set (db_timers d). \<exists>n. timer_clock now elapsed = Inr n \<and>
      holds_lease (tm_timer_id timer) token n t) \<and>
    (tm_timer_id timer' = tm_timer_id timer \<longrightarrow>
     fire_timer rt' timer' token' now' elapsed' (run_actions rt as d1) = Inr (out, d2) \<longrightarrow>
     d2 = run_actions rt as d1 \<and> (\<forall>s'. out \<noteq> TimerApplied s'))"
proof -
  obtain i n da wd scope status where clock: "timer_clock now elapsed = Inr n"
    and fenced: "complete_timer (tm_timer_id timer) token n d = Inr (FencingApplied, da)"
    and verdict: "timer_verdict rt i wd scope timer n da = Inr (status, d1)"
    using assms(2) by (rule fire_appliedE)
  note settled = complete_applied [OF fenced assms(1)]
  have "timers_kept da d1" by (rule withinD [OF timers.verdict_within verdict])
  then have "timers_kept da (run_actions rt as d1)" using timers.run_R by (rule timers.trans)
  then have once: "timer_settled (tm_timer_id timer) (run_actions rt as d1)"
    using settled by (blast intro: timer_settled_kept)
  have "d2 = run_actions rt as d1 \<and> (\<forall>s'. out \<noteq> TimerApplied s')"
    if "tm_timer_id timer' = tm_timer_id timer"
      "fire_timer rt' timer' token' now' elapsed' (run_actions rt as d1) = Inr (out, d2)"
    using once that(2) unfolding that(1) [symmetric] by (rule fire_settled)
  with settled clock show ?thesis by (auto simp: list_ex_iff)
qed

lemma claim_marks: "inbox_claim consumer message d = Inr (claim, d') \<Longrightarrow>
   (consumer, message) \<in> set (db_inbox d') \<and> inbox_key_ok 128 consumer \<and> inbox_key_ok 190 message"
  by (auto simp: inbox_claim_def bindT_Inr split: if_splits)

lemma messages_inbox: "messages_kept d d' \<Longrightarrow> set (db_inbox d) \<subseteq> set (db_inbox d')"
  by (auto simp: messages_kept_def)

lemma handle_claims:
  assumes "handle_authenticated_result rt e producer trace now authorize d = Inr (out, d1)"
  shows "(cfg_inbox_consumer (rt_config rt), re_event_id e) \<in> set (db_inbox d1) \<and>
    inbox_key_ok 128 (cfg_inbox_consumer (rt_config rt)) \<and> inbox_key_ok 190 (re_event_id e) \<and>
    verify_result_producer rt e producer = Inr () \<and>
    (\<exists>identity status terminal. result_verified_for_delivery (rt_ext rt) e = Inr identity \<and>
       parsed_status e = Inr status \<and> parsed_terminal e = Inr terminal)"
proof -
  from assms obtain identity status terminal
    where checked: "verify_result_producer rt e producer = Inr ()"
      "result_verified_for_delivery (rt_ext rt) e = Inr identity"
      "parsed_status e = Inr status" "parsed_terminal e = Inr terminal"
      and body: "result_body rt e identity status terminal trace now authorize d = Inr (out, d1)"
    by (auto simp: handle_authenticated_result_def handle_verified_result_def run_authorized_for_def
        bindT_Inr)
  from body obtain claim da
    where "inbox_claim (cfg_inbox_consumer (rt_config rt)) (re_event_id e) d = Inr (claim, da)"
      and "messages_kept da d1" by (rule message_store.result_claimedE)
  with checked show ?thesis by (auto dest!: claim_marks messages_inbox)
qed


end
