(* ===== verification/Saga_Audit.thy ===== *)
theory Saga_Audit
  imports Saga_Tables
begin

text \<open>
  The transition log (\<open>saga_transition\<close>) against the instance rows: the log of every saga replays to
  its status, without gaps, and the tenant quota ledger counts the live sagas.
\<close>

section \<open>The transition log\<close>

definition log_of :: "SagaId \<Rightarrow> SagaDb \<Rightarrow> TransitionRow list" where
  "log_of saga d = filter (\<lambda>t. tn_saga_id t = saga) (db_transitions d)"

text \<open>Replaying a log from a state; no state at all before the saga exists.\<close>

fun replay :: "SagaStatus option \<Rightarrow> TransitionRow list \<Rightarrow> SagaStatus option option" where
  "replay s [] = Some s"
| "replay s (t # ts) =
     (if tn_from t = s \<and>
         (case s of None \<Rightarrow> tn_to t = SAGA_INITIAL | Some f \<Rightarrow> can_transition_to f (tn_to t))
      then replay (Some (tn_to t)) ts else None)"

lemma replay_append: "replay s (xs @ ys) = Option.bind (replay s xs) (\<lambda>u. replay u ys)"
  by (induction xs arbitrary: s) auto

definition trigger_of :: "TransitionRow \<Rightarrow> TriggerKind \<times> string" where
  "trigger_of t = (tn_trigger_kind t, tn_trigger_id t)"

definition log_exact :: "SagaInstanceRow \<Rightarrow> TransitionRow list \<Rightarrow> bool" where
  "log_exact i ts \<longleftrightarrow> map tn_seq ts = [1..<Suc (si_version i)] \<and>
     replay None ts = Some (Some (si_status i)) \<and> distinct (map trigger_of ts)"

definition closes_audited :: "SagaDb \<Rightarrow> TransitionRow \<Rightarrow> bool" where
  "closes_audited d t \<longleftrightarrow> (tn_to t = ManuallyClosed \<longrightarrow>
     tn_trigger_kind t = TrigAdmin \<and> db_manual_close_audited (tn_saga_id t) (tn_trigger_id t) d)"

definition instance_ids :: "SagaDb \<Rightarrow> SagaId list" where
  "instance_ids d = map si_saga_id (db_instances d)"

definition audit_ok :: "SagaDb \<Rightarrow> bool" where
  "audit_ok d \<longleftrightarrow> distinct (instance_ids d) \<and>
     (\<forall>t \<in> set (db_transitions d). tn_saga_id t \<in> set (instance_ids d) \<and> closes_audited d t) \<and>
     (\<forall>i \<in> set (db_instances d). log_exact i (log_of (si_saga_id i) d))"

text \<open>\<open>audit_ok\<close> is about identity, status and version of the instances, and the log.\<close>

definition row_key :: "SagaInstanceRow \<Rightarrow> SagaId \<times> SagaStatus \<times> nat" where
  "row_key i = (si_saga_id i, si_status i, si_version i)"

lemma log_exact_key: "row_key i = row_key j \<Longrightarrow> log_exact i ts = log_exact j ts"
  by (simp add: log_exact_def row_key_def)

lemma audit_ok_keys:
  assumes "map row_key (db_instances d') = map row_key (db_instances d)"
    and "db_transitions d' = db_transitions d" and "set (db_managements d) \<subseteq> set (db_managements d')"
    and "audit_ok d"
  shows "audit_ok d'"
proof -
  have ids: "instance_ids d' = instance_ids d"
    using arg_cong [OF assms(1), of "map fst"] by (simp add: instance_ids_def row_key_def comp_def)
  have "log_exact i (log_of (si_saga_id i) d')" if "i \<in> set (db_instances d')" for i
  proof -
    from that have "row_key i \<in> set (map row_key (db_instances d))" unfolding assms(1) [symmetric] by simp
    then obtain j where "j \<in> set (db_instances d)" "row_key i = row_key j" by auto
    with assms(2,4) show ?thesis
      by (auto simp: audit_ok_def log_of_def row_key_def log_exact_def)
  qed
  moreover have "closes_audited d' t" if "closes_audited d t" for t
    using that assms(3) by (auto simp: closes_audited_def db_manual_close_audited_def list_ex_iff)
  ultimately show ?thesis
    using assms(2,4) ids by (auto simp: audit_ok_def)
qed

definition keeps_audit :: "SagaDb \<Rightarrow> SagaDb \<Rightarrow> bool" where
  "keeps_audit d d' \<longleftrightarrow> (audit_ok d \<longrightarrow> audit_ok d')"

lemma keeps_audit_same:
  "db_instances d' = db_instances d \<and> db_transitions d' = db_transitions d \<and>
   db_managements d' = db_managements d \<Longrightarrow> keeps_audit d d'"
  unfolding keeps_audit_def by (auto intro: audit_ok_keys)

lemmas audit_frame = frame_rule [where R = keeps_audit, OF _ keeps_audit_same]

lemma management_audit: "within keeps_audit (record_management_operation saga op action actor reason)"
  by (auto simp: within_def record_management_operation_def bindT_Inr keeps_audit_def
      intro: audit_ok_keys split: option.splits if_splits)

lemma update_keys:
  assumes "\<And>i. row_key (f i) = row_key i" and "db_instances d' = map (\<lambda>i. if P i then f i else i) (db_instances d)"
    and "db_transitions d' = db_transitions d" and "db_managements d' = db_managements d"
  shows "keeps_audit d d'"
  unfolding keeps_audit_def using assms by (intro impI, elim audit_ok_keys [rotated -1]) simp_all

lemma trace_audit: "within keeps_audit (update_trace_context saga traceparent)"
proof (rule withinI)
  fix d u d'
  assume "update_trace_context saga traceparent d = Inr (u, d')"
  then have "d' = update_instances (\<lambda>i. si_saga_id i = saga) (\<lambda>i. i\<lparr>si_traceparent := Some traceparent\<rparr>) d"
    by (simp add: update_trace_context_def bindT_Inr)
  then show "keeps_audit d d'"
    by (intro update_keys [where f = "\<lambda>i. i\<lparr>si_traceparent := Some traceparent\<rparr>"
          and P = "\<lambda>i. si_saga_id i = saga"])
      (simp_all add: update_instances_def row_key_def)
qed

lemma control_audit: "within keeps_audit (set_control_state cspec)"
proof (rule withinI)
  fix d c d'
  assume "set_control_state cspec d = Inr (c, d')"
  then show "keeps_audit d d'"
  proof (cases rule: set_controlE)
    case unchanged
    then show ?thesis by (simp add: keeps_audit_def)
  next
    case changed
    then show ?thesis
      by (intro update_keys [where P = "control_matches cspec" and f = "\<lambda>i. i\<lparr>si_control_state := cs_to cspec,
            si_control_version := si_control_version i + 1\<rparr>"]) (simp_all add: row_key_def)
  qed
qed

lemma log_of_append:
  "log_of saga (d\<lparr>db_transitions := db_transitions d @ [t]\<rparr>) =
     log_of saga d @ (if tn_saga_id t = saga then [t] else [])"
  by (simp add: log_of_def)

lemma create_audit: "within keeps_audit (create_instance nspec)"
proof (rule withinI)
  fix d c d'
  assume "create_instance nspec d = Inr (c, d')"
  then show "keeps_audit d d'"
  proof (cases rule: create_instanceE)
    case existing
    then show ?thesis by (simp add: keeps_audit_def)
  next
    case created
    have "audit_ok d'" if ok: "audit_ok d"
    proof -
      from ok created(2) have "log_of (ni_saga_id nspec) d = []"
        by (auto simp: audit_ok_def log_of_def instance_ids_def filter_empty_conv)
      with ok created(2) show ?thesis
        by (auto simp: created(5) audit_ok_def instance_ids_def log_of_def log_exact_def new_row_def
            SAGA_INITIAL_def closes_audited_def db_manual_close_audited_def)
    qed
    then show ?thesis by (simp add: keeps_audit_def)
  qed
qed

lemma guard_close:
  assumes "check_transition from (tp_to_status spec) (transition_guard saga from spec d) = Inr ()"
    and "tp_to_status spec = ManuallyClosed"
  shows "tp_trigger_kind spec = TrigAdmin \<and> db_manual_close_audited saga (tp_trigger_id spec) d"
  using assms by (auto simp: check_transition_Inr transition_guard_def guard_manual_close_def split: if_splits)

text \<open>The log of the advanced saga grows by the one row that the new status needs.\<close>

lemma log_exact_advance:
  assumes "log_exact i ts" and "cas_matches saga version from i"
    and "can_transition_to from (tp_to_status spec)"
    and "tn_seq t = version + 1" "tn_from t = Some from" "tn_to t = tp_to_status spec"
    and "\<forall>u \<in> set ts. trigger_of u \<noteq> trigger_of t"
  shows "log_exact (advance_row spec i) (ts @ [t])"
  using assms
  by (auto simp: log_exact_def cas_matches_def advance_row_def replay_append)

lemma applied_audit_ok:
  assumes ok: "audit_ok d" and "store_applied saga version from spec d = Inr (n, d')"
  shows "audit_ok (applied_state saga version from spec d)"
proof -
  from assms(2) obtain i where i: "i \<in> set (db_instances d)" "cas_matches saga version from i"
    and chk: "check_transition from (tp_to_status spec) (transition_guard saga from spec d) = Inr ()"
    and fresh: "\<forall>t \<in> set (db_transitions d). tn_saga_id t = saga \<longrightarrow> tn_seq t \<noteq> version + 1 \<and>
          \<not> (tn_trigger_kind t = tp_trigger_kind spec \<and> tn_trigger_id t = tp_trigger_id spec)"
    by (elim store_appliedE) blast
  let ?d = "applied_state saga version from spec d"
  let ?f = "\<lambda>i. if cas_matches saga version from i then advance_row spec i else i"
  have ids: "instance_ids ?d = instance_ids d"
    by (auto simp: instance_ids_def applied_state_def advance_row_def)
  have log_same: "log_of s ?d = log_of s d" if "s \<noteq> saga" for s
    using that by (simp add: log_of_def applied_state_def)
  let ?t = "\<lparr>tn_saga_id = saga, tn_seq = version + 1, tn_from = Some from,
     tn_to = tp_to_status spec, tn_trigger_kind = tp_trigger_kind spec,
     tn_trigger_id = tp_trigger_id spec, tn_definition_version = tp_definition_version spec\<rparr>"
  have log_saga: "log_of saga ?d = log_of saga d @ [?t]"
    by (simp add: log_of_def applied_state_def)
  have other: "j = i" if "j \<in> set (db_instances d)" "si_saga_id j = saga" for j
    using ok that i by (auto simp: audit_ok_def instance_ids_def distinct_map inj_on_def cas_matches_def)
  have exact: "log_exact (?f j) (log_of (si_saga_id (?f j)) ?d)" if j: "j \<in> set (db_instances d)" for j
  proof (cases "si_saga_id j = saga")
    case True
    with other [OF j] have j': "j = i" by simp
    have fj: "?f j = advance_row spec i" "si_saga_id (advance_row spec i) = saga"
      using i(2) True by (simp_all add: j' advance_row_def cas_matches_def)
    have "log_exact (advance_row spec i) (log_of saga d @ [?t])"
      using i(2) ok i(1) chk fresh True
      by (intro log_exact_advance)
        (auto simp: audit_ok_def check_transition_Inr trigger_of_def log_of_def j')
    then show ?thesis unfolding fj by (simp add: log_saga)
  next
    case False
    with ok j show ?thesis by (simp add: log_same audit_ok_def cas_matches_def)
  qed
  have "closes_audited ?d t" if "closes_audited d t" for t
    using that by (simp add: closes_audited_def db_manual_close_audited_def)
  moreover have "saga \<in> set (instance_ids d)" using i by (auto simp: instance_ids_def cas_matches_def)
  ultimately have rows: "\<forall>t \<in> set (db_transitions ?d). tn_saga_id t \<in> set (instance_ids d) \<and> closes_audited ?d t"
    using ok guard_close [OF chk]
    by (auto simp: applied_state_def audit_ok_def closes_audited_def db_manual_close_audited_def)
  have "db_instances ?d = map ?f (db_instances d)" by (simp add: applied_state_def)
  then have "j \<in> ?f ` set (db_instances d)" if "j \<in> set (db_instances ?d)" for j using that by simp
  with exact have "\<forall>j \<in> set (db_instances ?d). log_exact j (log_of (si_saga_id j) ?d)" by blast
  with rows ids ok show ?thesis by (simp add: audit_ok_def)
qed

lemma applied_audit: "within keeps_audit (store_applied saga version from spec)"
proof (rule withinI)
  fix d n d'
  assume app: "store_applied saga version from spec d = Inr (n, d')"
  have "audit_ok d'" if "audit_ok d"
  proof -
    have "audit_ok (applied_state saga version from spec d)"
      using that app by (rule applied_audit_ok)
    then show ?thesis
      using app by (elim store_appliedE) (auto intro: audit_ok_keys split: if_splits)
  qed
  then show "keeps_audit d d'" by (simp add: keeps_audit_def)
qed

interpretation audit: store_relation keeps_audit rt for rt
proof unfold_locales
  show "keeps_audit d d' \<Longrightarrow> keeps_audit d' d'' \<Longrightarrow> keeps_audit d d''" for d d' d''
    by (simp add: keeps_audit_def)
qed (rule applied_audit create_audit control_audit trace_audit management_audit
    | (rule frame [THEN audit_frame]; auto simp: writes_defs) | simp add: keeps_audit_same)+

lemma audit_empty: "audit_ok empty_db"
  by (simp add: audit_ok_def empty_db_def instance_ids_def)

lemma audit_reachable: "audit_ok (run_actions rt as empty_db)"
  using audit.run_R [of empty_db rt as] by (simp add: keeps_audit_def audit_empty)

text \<open>
  C10: The transition log is a faithful history. In every state the system reaches from an empty
  database, saga ids are unique, every log row belongs to a stored saga, and the log of each saga is
  numbered without gaps from one to its version, replays from nothing through \<open>Running\<close> along legal
  edges to exactly the stored status, uses no trigger twice, and enters \<open>ManuallyClosed\<close> only on an
  audited administrative operation.
\<close>

theorem transition_log_faithful:
  assumes "i \<in> set (db_instances (run_actions rt as empty_db))"
  shows "distinct (map si_saga_id (db_instances (run_actions rt as empty_db))) \<and>
    map tn_seq (log_of (si_saga_id i) (run_actions rt as empty_db)) = [1..<Suc (si_version i)] \<and>
    replay None (log_of (si_saga_id i) (run_actions rt as empty_db)) = Some (Some (si_status i)) \<and>
    distinct (map trigger_of (log_of (si_saga_id i) (run_actions rt as empty_db))) \<and>
    (\<forall>t \<in> set (log_of (si_saga_id i) (run_actions rt as empty_db)).
       tn_to t = ManuallyClosed \<longrightarrow> tn_trigger_kind t = TrigAdmin \<and>
       db_manual_close_audited (si_saga_id i) (tn_trigger_id t) (run_actions rt as empty_db))"
  using audit_reachable [of rt as] assms
  by (auto simp: audit_ok_def log_exact_def instance_ids_def log_of_def closes_audited_def)

end
