(* ===== verification/Saga_Scenario.thy ===== *)
theory Saga_Scenario
  imports Saga_Audit
begin

text \<open>
  One order workflow, run on the model: a saga is started, its only step succeeds, and the result
  is delivered again. Constant functions stand for the digests and identifiers of the libraries.
  The theorems on whole runs are applied here.
\<close>

definition scenario_ext :: Ext where
  "scenario_ext = sample_ext\<lparr>x_sha256 := (\<lambda>_. replicate 32 0), x_uuid5 := (\<lambda>_ _. replicate 16 0),
     x_uuid_text := (\<lambda>_. ''u-1'')\<rparr>"

definition scenario_definition :: WorkflowDefinition where
  "scenario_definition = \<lparr>wd_name = WorkflowName ''order'', wd_version = DefinitionVersion 1,
     wd_steps = [sample_step ''reserve'' Compensable]\<rparr>"

definition scenario_runtime :: Runtime where
  "scenario_runtime =
     \<lparr>rt_ext = scenario_ext,
      rt_registry = registry_new\<lparr>rg_definitions := [definition_key scenario_definition \<mapsto>
        \<lparr>de_definition = scenario_definition, de_accepts_new = True\<rparr>]\<rparr>,
      rt_config = config_default, rt_outbox_cap = (\<lambda>_. None)\<rparr>"

definition scenario_request :: StartSagaRequest where
  "scenario_request =
     \<lparr>sq_saga_id = SagaId ''s-1'', sq_tenant = TenantId ''t-1'', sq_workflow = WorkflowName ''order'',
      sq_version = DefinitionVersion 1, sq_business_key = BusinessKey ''b-1'', sq_deadline_at_ms = None,
      sq_trigger_kind = TrigEvent, sq_trigger_id = ''r-1'', sq_first_command_payload = None,
      sq_first_command_raw_payload = None, sq_now_ms = 1000\<rparr>"

text \<open>The row the start creates, and the rows of the other tables after it.\<close>

definition scenario_spec :: NewSagaInstance where
  "scenario_spec =
     \<lparr>ni_saga_id = SagaId ''s-1'', ni_tenant = TenantId ''t-1'', ni_workflow = WorkflowName ''order'',
      ni_business_key = BusinessKey ''b-1'', ni_definition_version = DefinitionVersion 1,
      ni_definition_digest = replicate 64 CHR ''0'', ni_start_request_digest = replicate 64 CHR ''0'',
      ni_legacy_start_request_digest = None, ni_deadline_at_ms = None,
      ni_current_step = Some (StepName ''reserve''), ni_trigger_kind = TrigEvent,
      ni_trigger_id = ''r-1'', ni_traceparent = None\<rparr>"

definition scenario_created :: SagaDb where
  "scenario_created = empty_db\<lparr>db_instances := [new_row scenario_spec], db_transitions :=
     [\<lparr>tn_saga_id = SagaId ''s-1'', tn_seq = 1, tn_from = None, tn_to = Running,
       tn_trigger_kind = TrigEvent, tn_trigger_id = ''r-1'', tn_definition_version = DefinitionVersion 1\<rparr>]\<rparr>"

definition scenario_started :: SagaDb where
  "scenario_started = scenario_created\<lparr>
     db_steps := [(SagaId ''s-1'', (blank_step (sample_step ''reserve'' Compensable) 0)
       \<lparr>sr_execute_effect_id := Some ''u-1'', sr_execute_command_id := Some ''u-1'',
        sr_execute_attempt := Some 1\<rparr>)],
     db_attempts := [\<lparr>at_saga_id = SagaId ''s-1'', at_started_at = 0,
       at_row = \<lparr>sa_step = StepName ''reserve'', sa_phase = Execute, sa_attempt = AttemptNo 1,
         sa_effect_id = ''u-1'', sa_command_id = ''u-1'', sa_status = AttStarted,
         sa_outcome_event_id = None\<rparr>\<rparr>],
     db_timers := [new_timer \<lparr>ts_timer_id = ''u-1'', ts_saga_id = SagaId ''s-1'',
       ts_scope = ScopeStep (StepName ''reserve''), ts_kind = KIND_STEP_TIMEOUT, ts_due_at_ms = 31000,
       ts_attempt = AttemptNo 1, ts_expected_saga_version = 1\<rparr>],
     db_quotas := [\<lparr>qr_tenant = ''t-1'', qr_in_flight = Suc 0, qr_initialized = False\<rparr>],
     db_outbox := [\<lparr>oe_event_id = ''u-1'', oe_aggregate_type = SAGA_AGGREGATE_TYPE,
       oe_aggregate_id = ''s-1'', oe_event_type = COMMAND_EVENT_TYPE, oe_payload = str_bytes ''u-1'',
       oe_traceparent = None, oe_tenant = ''t-1''\<rparr>]\<rparr>"

lemma scenario_texts:
  "digest_text (replicate 64 CHR ''0'')" "bounded_text 190 ''r-1''" "bounded_text 190 ''u-1''"
  "hex_encode (replicate 32 0) = replicate 64 CHR ''0''" "validate_kind KIND_STEP_TIMEOUT = Inr ()"
  "validate_timer_id ''u-1'' = Inr ()"
  by code_simp+

lemma scenario_ids:
  "SagaId_new ''s-1'' = Inr (SagaId ''s-1'')" "TenantId_new ''t-1'' = Inr (TenantId ''t-1'')"
  "WorkflowName_new ''order'' = Inr (WorkflowName ''order'')"
  "StepName_new ''reserve'' = Inr (StepName ''reserve'')" "outbox_context_ok ''t-1''"
  "step_phase_parse ''execute'' = Some Execute" "step_phase_as_str Execute = ''execute''"
  by code_simp+

lemmas tx_run = returnT_def failT_def bindT_def liftT_def readT_def writeT_def requireT_def

lemma scenario_ext_simps [simp]:
  "x_sha256 scenario_ext bs = replicate 32 0" "x_uuid5 scenario_ext ns name = replicate 16 0"
  "x_uuid_text scenario_ext bs = ''u-1''"
  "effect_text scenario_ext ef = ''u-1''" "command_text scenario_ext cm = ''u-1''"
  "x_command_bytes scenario_ext ev = str_bytes (ce_command_id ev)"
  "derive_timer_id scenario_ext saga scope kind attempt = ''u-1''"
  by (simp_all add: scenario_ext_def sample_ext_def effect_text_def command_text_def derive_timer_id_def)

lemma scenario_runtime_simps [simp]:
  "rt_ext scenario_runtime = scenario_ext" "rt_config scenario_runtime = config_default"
  "rt_outbox_cap scenario_runtime t = None"
  "get_for_tenant (rt_registry scenario_runtime) tenant (WorkflowName ''order'') (DefinitionVersion 1)
    = Some scenario_definition"
  "get_for_start (rt_registry scenario_runtime) tenant (WorkflowName ''order'') (DefinitionVersion 1)
    = Some scenario_definition"
  by (simp_all add: scenario_runtime_def get_for_tenant_def registry_get_def get_for_start_def
      registry_new_def definition_key_def scenario_definition_def)

lemma scenario_digest [simp]: "definition_digest (x_sha256 scenario_ext) d = replicate 64 CHR ''0''"
  by (simp add: definition_digest_def scenario_texts)

lemma scenario_create: "create_instance scenario_spec empty_db = Inr (Created (new_row scenario_spec), scenario_created)"
  by (simp add: create_instance_def tx_run scenario_texts validate_digest_def validate_trigger_id_def
      check_opt_def find_by_id_def find_by_business_def empty_db_def insert_transition_def
      load_instance_def new_row_def scenario_spec_def scenario_created_def SAGA_INITIAL_def)

lemma scenario_command:
  "command_to_outbox scenario_ext (command_envelope scenario_ext (new_row scenario_spec)
     (StepName ''reserve'') Execute (AttemptNo 1) None None) = Inr
       \<lparr>oe_event_id = ''u-1'', oe_aggregate_type = SAGA_AGGREGATE_TYPE, oe_aggregate_id = ''s-1'',
        oe_event_type = COMMAND_EVENT_TYPE, oe_payload = str_bytes ''u-1'', oe_traceparent = None,
        oe_tenant = ''t-1''\<rparr>"
  by (simp add: command_to_outbox_def command_envelope_def Let_def command_verified_def
      command_identity_def verify_identity_def new_row_def scenario_spec_def scenario_ids scenario_texts
      DefinitionVersion_new_def AttemptNo_new_def)

lemma scenario_timeout: "duration_millis (sd_timeout (sample_step n c)) = Inr 30000"
  "checked_deadline 1000 30000 = Inr 31000"
  by (simp_all add: duration_millis_def checked_deadline_def sample_step_def StepDefinition_new_def
      as_millis_def i64_max_def i64_min_def checked_add_i64_def)

lemma scenario_issue:
  "issue_command scenario_runtime (new_row scenario_spec) (sample_step ''reserve'' Compensable) Execute
     AttemptNo_FIRST None None 1000 (Suc 0)
     (scenario_created\<lparr>db_quotas := [\<lparr>qr_tenant = ''t-1'', qr_in_flight = Suc 0, qr_initialized = False\<rparr>],
        db_steps := [(SagaId ''s-1'', blank_step (sample_step ''reserve'' Compensable) 0)]\<rparr>)
   = Inr ((), scenario_started)"
proof -
  have step: "sd_name (sample_step ''reserve'' Compensable) = StepName ''reserve''"
    by (simp add: sample_step_def StepDefinition_new_def)
  have row: "si_saga_id (new_row scenario_spec) = SagaId ''s-1''" "si_traceparent (new_row scenario_spec) = None"
    "tenant_id_str (si_tenant (new_row scenario_spec)) = ''t-1''"
    by (simp_all add: new_row_def scenario_spec_def)
  show ?thesis
    by (simp add: issue_command_def Let_def step row AttemptNo_FIRST_def scenario_command scenario_ids
        scenario_timeout child_traceparent_def outbox_append_def schedule_timer_def store_schedule_timer_def
        validate_epoch_ms_def validate_saga_version_def scenario_texts record_attempt_started_def tx_run
        scenario_started_def scenario_created_def empty_db_def update_steps_def blank_step_def)
qed

lemma scenario_start_created:
  "start_created scenario_runtime scenario_request scenario_definition (sample_step ''reserve'' Compensable)
     (new_row scenario_spec) scenario_created = Inr (Started (new_row scenario_spec), scenario_started)"
proof -
  have v: "si_version (new_row scenario_spec) = 1" by (simp add: new_row_def)
  have c: "command_input scenario_request = None" by (simp add: command_input_def or_else_def scenario_request_def)
  have r: "reserve_tenant_quota (TenantId ''t-1'') None scenario_created = Inr (QuotaReserved,
      scenario_created\<lparr>db_quotas := [\<lparr>qr_tenant = ''t-1'', qr_in_flight = Suc 0, qr_initialized = False\<rparr>]\<rparr>)"
    by (simp add: reserve_tenant_quota_def tx_run ensure_quota_row_def reserve_quota_row_def
        scenario_created_def empty_db_def)
  have s: "register_steps (SagaId ''s-1'') scenario_definition (scenario_created\<lparr>db_quotas := qs\<rparr>)
      = Inr ((), scenario_created\<lparr>db_quotas := qs,
          db_steps := [(SagaId ''s-1'', blank_step (sample_step ''reserve'' Compensable) 0)]\<rparr>)" for qs
    by (simp add: register_steps_def tx_run scenario_definition_def scenario_created_def empty_db_def)
  have q: "sq_saga_id scenario_request = SagaId ''s-1''" "sq_tenant scenario_request = TenantId ''t-1''"
    "sq_workflow scenario_request = WorkflowName ''order''" "sq_version scenario_request = DefinitionVersion 1"
    "sq_now_ms scenario_request = 1000" "sq_deadline_at_ms scenario_request = None"
    by (simp_all add: scenario_request_def)
  show ?thesis
    by (simp add: start_created_def bindT_def requireT_def returnT_def q v c r s scenario_issue
        config_default_def)
qed

lemma scenario_start:
  "start_saga scenario_runtime scenario_request None (\<lambda>_. Inr ()) empty_db
    = Inr (Started (new_row scenario_spec), scenario_started)"
proof -
  have spec: "\<lparr>ni_saga_id = SagaId ''s-1'', ni_tenant = TenantId ''t-1'', ni_workflow = WorkflowName ''order'',
      ni_business_key = BusinessKey ''b-1'', ni_definition_version = DefinitionVersion 1,
      ni_definition_digest = replicate 64 CHR ''0'', ni_start_request_digest = replicate 64 CHR ''0'',
      ni_legacy_start_request_digest = None, ni_deadline_at_ms = None,
      ni_current_step = Some (StepName ''reserve''), ni_trigger_kind = TrigEvent,
      ni_trigger_id = ''r-1'', ni_traceparent = None\<rparr> = scenario_spec"
    by (simp add: scenario_spec_def)
  have step: "sd_name (sample_step ''reserve'' Compensable) = StepName ''reserve''"
    by (simp add: sample_step_def StepDefinition_new_def)
  have steps: "wd_steps scenario_definition = [sample_step ''reserve'' Compensable]"
    by (simp add: scenario_definition_def)
  have q: "sq_saga_id scenario_request = SagaId ''s-1''" "sq_tenant scenario_request = TenantId ''t-1''"
    "sq_workflow scenario_request = WorkflowName ''order''" "sq_version scenario_request = DefinitionVersion 1"
    "sq_business_key scenario_request = BusinessKey ''b-1''" "sq_deadline_at_ms scenario_request = None"
    "sq_trigger_kind scenario_request = TrigEvent" "sq_trigger_id scenario_request = ''r-1''"
    "sq_first_command_payload scenario_request = None" "sq_first_command_raw_payload scenario_request = None"
    by (simp_all add: scenario_request_def)
  show ?thesis
    by (simp add: start_saga_def Let_def bindT_def requireT_def returnT_def liftT_def q step steps
        first_payload_def or_else_def check_first_payload_def legacy_digest_def run_authorized_for_def
        start_body_def derive_start_request_digest_def derive_legacy_start_request_digest_def
        scenario_texts map_errT_def spec scenario_create scenario_start_created)
qed

section \<open>The result of the only step\<close>

definition scenario_identity :: VerifiedIdentity where
  "scenario_identity =
     (let effect = EffectId_derive (x_uuid5 scenario_ext) (SagaId ''s-1'') (DefinitionVersion 1)
            (StepName ''reserve'') Execute
      in \<lparr>vi_saga_id = SagaId ''s-1'', vi_tenant = TenantId ''t-1'', vi_workflow = WorkflowName ''order'',
          vi_definition_version = DefinitionVersion 1, vi_definition_digest = replicate 64 CHR ''0'',
          vi_step = StepName ''reserve'', vi_phase = Execute, vi_attempt = AttemptNo 1,
          vi_effect = effect, vi_command = CommandId_derive (x_uuid5 scenario_ext) effect (AttemptNo 1)\<rparr>)"

definition scenario_result :: SagaResultEnvelope where
  "scenario_result =
     \<lparr>re_event_id = ''u-1'', re_saga_id = ''s-1'', re_tenant_id = ''t-1'', re_workflow = ''order'',
      re_definition_version = 1, re_definition_digest = replicate 64 CHR ''0'',
      re_step_name = ''reserve'', re_phase = ''execute'', re_attempt = 1, re_effect_id = ''u-1'',
      re_command_id = ''u-1'', re_status = attempt_status_as_str AttSucceeded,
      re_terminal_status = None, re_reason_code = None\<rparr>"

lemma scenario_result_verified: "result_verified scenario_ext scenario_result = Inr scenario_identity"
proof -
  have "valid_SagaId (SagaId ''s-1'')" "valid_WorkflowName (WorkflowName ''order'')"
    "valid_StepName (StepName ''reserve'')" "valid_TenantId (TenantId ''t-1'')"
    by code_simp+
  then show ?thesis
    by (simp add: result_verified_iff scenario_result_def scenario_identity_def Let_def identity_ok_def
        result_fields_def identity_fields_def verdict_ok_def terminal_fits_def scenario_texts
        derive_result_event_id_def scenario_ids)
      (rule exI [of _ AttSucceeded], simp)
qed

lemma scenario_result_parsed:
  "parsed_status scenario_result = Inr AttSucceeded" "parsed_terminal scenario_result = Inr None"
  by (simp_all add: scenario_result_def parsed_status_iff parsed_terminal_iff)

lemma scenario_delivery: "result_verified_for_delivery scenario_ext scenario_result = Inr scenario_identity"
  using scenario_result_verified
  by (auto simp: result_verified_for_delivery_def result_verified_def bindR_Inr_iff)

lemma scenario_producer: "verify_result_producer scenario_runtime scenario_result (ServiceIdentity ''orders'') = Inr ()"
  by (simp add: verify_result_producer_def scenario_delivery
      scenario_identity_def Let_def scenario_definition_def definition_step_def sample_step_def
      StepDefinition_new_def)

definition scenario_completed :: SagaDb where
  "scenario_completed = scenario_started\<lparr>
     db_instances := [(new_row scenario_spec)\<lparr>si_status := Completed, si_current_step := None, si_version := 2\<rparr>],
     db_transitions := db_transitions scenario_started @
       [\<lparr>tn_saga_id = SagaId ''s-1'', tn_seq = 2, tn_from = Some Running, tn_to = Completed,
         tn_trigger_kind = TrigEvent, tn_trigger_id = ''u-1'', tn_definition_version = DefinitionVersion 1\<rparr>],
     db_steps := [(SagaId ''s-1'', (blank_step (sample_step ''reserve'' Compensable) 0)
       \<lparr>sr_forward_status := FwdSucceeded, sr_execute_effect_id := Some ''u-1'',
        sr_execute_command_id := Some ''u-1'', sr_execute_attempt := Some 1\<rparr>)],
     db_attempts := [\<lparr>at_saga_id = SagaId ''s-1'', at_started_at = 0,
       at_row = \<lparr>sa_step = StepName ''reserve'', sa_phase = Execute, sa_attempt = AttemptNo 1,
         sa_effect_id = ''u-1'', sa_command_id = ''u-1'', sa_status = AttSucceeded,
         sa_outcome_event_id = Some ''u-1''\<rparr>\<rparr>],
     db_timers := map (settle_timer TmrCancelled) (db_timers scenario_started),
     db_quotas := [\<lparr>qr_tenant = ''t-1'', qr_in_flight = 0, qr_initialized = False\<rparr>],
     db_inbox := [(''nasaga-orchestrator'', ''u-1'')]\<rparr>"

definition scenario_recorded :: SagaDb where
  "scenario_recorded = scenario_started\<lparr>
     db_attempts := [\<lparr>at_saga_id = SagaId ''s-1'', at_started_at = 0,
       at_row = \<lparr>sa_step = StepName ''reserve'', sa_phase = Execute, sa_attempt = AttemptNo 1,
         sa_effect_id = ''u-1'', sa_command_id = ''u-1'', sa_status = AttSucceeded,
         sa_outcome_event_id = Some ''u-1''\<rparr>\<rparr>],
     db_inbox := [(''nasaga-orchestrator'', ''u-1'')]\<rparr>"

lemma scenario_record:
  "record_attempt_outcome (SagaId ''s-1'') (StepName ''reserve'') Execute (AttemptNo 1) AttSucceeded
     (Some ''u-1'') (scenario_started\<lparr>db_inbox := [(''nasaga-orchestrator'', ''u-1'')]\<rparr>)
   = Inr (OutcomeRecorded, scenario_recorded)"
  by (simp add: record_attempt_outcome_def tx_run scenario_started_def scenario_recorded_def
      scenario_created_def empty_db_def is_in_flight_iff attempt_key_def or_else_def)

lemma scenario_claim:
  "inbox_claim ''nasaga-orchestrator'' ''u-1'' scenario_started
    = Inr (InboxClaimed, scenario_started\<lparr>db_inbox := [(''nasaga-orchestrator'', ''u-1'')]\<rparr>)"
proof -
  have "inbox_key_ok 128 ''nasaga-orchestrator''" "inbox_key_ok 190 ''u-1''" by code_simp+
  then show ?thesis
    by (simp add: inbox_claim_def tx_run scenario_started_def scenario_created_def empty_db_def)
qed

definition scenario_patched :: SagaDb where
  "scenario_patched = scenario_recorded\<lparr>
     db_steps := [(SagaId ''s-1'', (blank_step (sample_step ''reserve'' Compensable) 0)
       \<lparr>sr_forward_status := FwdSucceeded, sr_execute_effect_id := Some ''u-1'',
        sr_execute_command_id := Some ''u-1'', sr_execute_attempt := Some 1\<rparr>)],
     db_timers := map (settle_timer TmrCancelled) (db_timers scenario_started)\<rparr>"

lemma scenario_patch:
  "patch_step (SagaId ''s-1'') (StepName ''reserve'')
     (patch_default\<lparr>pt_forward_status := Some FwdSucceeded, pt_mark_finished := True\<rparr>) scenario_recorded
   = Inr ((), scenario_recorded\<lparr>db_steps := db_steps scenario_patched\<rparr>)"
  by (simp add: patch_step_def update_step_journal_def update_steps_checked_def tx_run check_opt_def
      patch_default_def step_exists_def update_steps_def apply_patch_def scenario_recorded_def
      scenario_started_def scenario_created_def scenario_patched_def empty_db_def blank_step_def
      sample_step_def StepDefinition_new_def)

lemma scenario_cancel:
  "cancel_timers (SagaId ''s-1'') (ScopeStep (StepName ''reserve'')) (Some KIND_STEP_TIMEOUT)
     (scenario_recorded\<lparr>db_steps := db_steps scenario_patched\<rparr>) = Inr ((), scenario_patched)"
  by (simp add: cancel_timers_def cancel_scope_timers_def tx_run check_opt_def scenario_texts
      update_timers_def scope_matches_def timer_live_def new_timer_def scenario_recorded_def
      scenario_started_def scenario_created_def scenario_patched_def empty_db_def)

lemma scenario_proceed:
  assumes "vi_saga_id (rc_identity c) = SagaId ''s-1''" "rc_definition c = scenario_definition"
    "rc_instance c = new_row scenario_spec" "rc_event_id c = ''u-1''"
  shows "proceed_forward scenario_runtime c scenario_patched = Inr (Completed, scenario_completed)"
proof -
  have "load_steps (SagaId ''s-1'') scenario_patched = Inr (map snd (db_steps scenario_patched), scenario_patched)"
    by (simp add: load_steps_def tx_run steps_of_def scenario_patched_def)
  moreover have "next_pending_forward scenario_definition (map snd (db_steps scenario_patched)) = Inr None"
    by (simp add: next_pending_forward_def scenario_definition_def scenario_patched_def blank_step_def
        sample_step_def StepDefinition_new_def)
  moreover have "advance (new_row scenario_spec) Completed Forward None TrigEvent ''u-1'' None None scenario_patched
      = Inr (2, scenario_completed)"
    by (simp add: advance_def store_applied_def store_advance_def tx_run validate_trigger_id_def scenario_texts
        check_opt_def transition_guard_def check_transition_def guard_new_def checked_add_u64_def u64_max_def
        cas_matches_def update_instances_def advance_row_def insert_transition_def release_tenant_quota_def
        new_row_def scenario_spec_def SAGA_INITIAL_def scenario_patched_def scenario_recorded_def
        scenario_started_def scenario_created_def scenario_completed_def empty_db_def)
  moreover have "cancel_timers (SagaId ''s-1'') ScopeInstance None scenario_completed = Inr ((), scenario_completed)"
    by (simp add: cancel_timers_def cancel_scope_timers_def tx_run check_opt_def
      update_timers_def scope_matches_def new_timer_def settle_timer_def scenario_completed_def
      scenario_started_def scenario_created_def empty_db_def)
  ultimately show ?thesis
    using assms by (simp add: proceed_forward_def Let_def bindT_def liftT_def returnT_def)
qed

lemma scenario_handle:
  "handle_authenticated_result scenario_runtime scenario_result (ServiceIdentity ''orders'') None 2000
     (\<lambda>_. Inr ()) scenario_started = Inr (HandleApplied Completed, scenario_completed)"
proof -
  let ?d = "scenario_started\<lparr>db_inbox := [(''nasaga-orchestrator'', ''u-1'')]\<rparr>"
  have ev: "re_event_id scenario_result = ''u-1''" "re_reason_code scenario_result = None"
    by (simp_all add: scenario_result_def)
  have id: "vi_saga_id scenario_identity = SagaId ''s-1''" "vi_step scenario_identity = StepName ''reserve''"
    "vi_phase scenario_identity = Execute" "vi_attempt scenario_identity = AttemptNo 1"
    by (simp_all add: scenario_identity_def Let_def)
  have load: "load_instance (SagaId ''s-1'') ?d = Inr (Some (new_row scenario_spec), ?d)"
    by (simp add: load_instance_def tx_run find_by_id_def scenario_started_def scenario_created_def
        new_row_def scenario_spec_def)
  have contract: "verify_instance_contract (new_row scenario_spec) scenario_identity = Inr ()"
    by (simp add: verify_instance_contract_def new_row_def scenario_spec_def scenario_identity_def Let_def)
  have row: "si_tenant (new_row scenario_spec) = TenantId ''t-1''" "si_workflow (new_row scenario_spec) = WorkflowName ''order''"
    "si_definition_version (new_row scenario_spec) = DefinitionVersion 1" "si_status (new_row scenario_spec) = Running"
    "si_current_step (new_row scenario_spec) = Some (StepName ''reserve'')" "si_control_state (new_row scenario_spec) = Active"
    by (simp_all add: new_row_def scenario_spec_def SAGA_INITIAL_def)
  have step: "definition_step scenario_definition (StepName ''reserve'') = Some (sample_step ''reserve'' Compensable)"
    by (simp add: definition_step_def scenario_definition_def sample_step_def StepDefinition_new_def)
  show ?thesis
    by (simp add: handle_authenticated_result_def handle_verified_result_def run_authorized_for_def
        result_body_def apply_result_def lookup_definition_def refresh_trace_def route_result_def
        on_execute_result_def off_course_def Let_def bindT_def liftT_def returnT_def requireT_def
        scenario_producer scenario_delivery scenario_result_parsed config_default_def ev id row load
        contract step scenario_claim scenario_record scenario_patch scenario_cancel scenario_proceed)
qed

text \<open>The whole run.\<close>

definition scenario_actions :: "SagaAction list" where
  "scenario_actions = [ActStart scenario_request None (\<lambda>_. Inr ()),
     ActResult scenario_result (ServiceIdentity ''orders'') None 2000 (\<lambda>_. Inr ())]"

lemma scenario_run: "run_actions scenario_runtime scenario_actions empty_db = scenario_completed"
  by (simp add: scenario_actions_def run_for_def scenario_start scenario_handle)

section \<open>A timer\<close>

text \<open>The only step waits for its resolution, and a worker holds the lease of the budget timer.\<close>

definition scenario_timer :: SagaTimerRow where
  "scenario_timer =
     \<lparr>tm_timer_id = ''u-1'', tm_saga_id = SagaId ''s-1'', tm_scope_kind = ''STEP'',
      tm_scope_key = ''reserve'', tm_kind = KIND_FORWARD_RESOLUTION_BUDGET, tm_due_at_ms = 1000,
      tm_available_at_ms = 1000, tm_state = TmrClaimed, tm_attempt = AttemptNo 1,
      tm_expected_saga_version = 1, tm_generation = 1, tm_owner = Some ''w-1'',
      tm_claimed_until_ms = Some 61000\<rparr>"

definition scenario_waiting :: SagaDb where
  "scenario_waiting = scenario_created\<lparr>
     db_instances := [(new_row scenario_spec)\<lparr>si_status := WaitingResolution\<rparr>],
     db_timers := [\<lparr>tt_row = scenario_timer, tt_fencing_token = Some ''k-1''\<rparr>]\<rparr>"

definition scenario_escalated :: SagaDb where
  "scenario_escalated = scenario_waiting\<lparr>
     db_instances := [(new_row scenario_spec)\<lparr>si_status := ManualIntervention, si_version := 2,
       si_failure_code := Some ''resolution_budget_exhausted''\<rparr>],
     db_transitions := db_transitions scenario_created @
       [\<lparr>tn_saga_id = SagaId ''s-1'', tn_seq = 2, tn_from = Some WaitingResolution,
         tn_to = ManualIntervention, tn_trigger_kind = TrigTimer, tn_trigger_id = ''u-1'',
         tn_definition_version = DefinitionVersion 1\<rparr>],
     db_timers := [settle_timer TmrFired \<lparr>tt_row = scenario_timer, tt_fencing_token = Some ''k-1''\<rparr>]\<rparr>"

lemma scenario_fire:
  "fire_timer scenario_runtime scenario_timer ''k-1'' 2000 None scenario_waiting
    = Inr (TimerApplied ManualIntervention, scenario_escalated)"
proof -
  let ?i = "(new_row scenario_spec)\<lparr>si_status := WaitingResolution\<rparr>"
  let ?d = "scenario_waiting\<lparr>db_timers :=
    [settle_timer TmrFired \<lparr>tt_row = scenario_timer, tt_fencing_token = Some ''k-1''\<rparr>]\<rparr>"
  have scope: "parse_step_scope ''STEP'' ''reserve'' = Inr (Some (StepName ''reserve''))"
    by (simp add: parse_step_scope_def scenario_ids)
  have load: "load_instance (SagaId ''s-1'') scenario_waiting = Inr (Some ?i, scenario_waiting)"
    by (simp add: load_instance_def tx_run find_by_id_def scenario_waiting_def new_row_def scenario_spec_def)
  have complete: "complete_timer ''u-1'' ''k-1'' 2000 scenario_waiting = Inr (FencingApplied, ?d)"
    by (simp add: complete_timer_def tx_run scenario_texts validate_epoch_ms_def holds_lease_def
        update_timers_def scenario_waiting_def scenario_timer_def)
  have code: "validate_reason_code ''resolution_budget_exhausted'' = Inr ()" by code_simp
  have "advance ?i ManualIntervention Forward (Some (StepName ''reserve'')) TrigTimer ''u-1''
      (Some ''resolution_budget_exhausted'') None ?d = Inr (2, scenario_escalated)"
    by (simp add: advance_def store_applied_def store_advance_def tx_run validate_trigger_id_def scenario_texts
        check_opt_def code transition_guard_def check_transition_def guard_new_def checked_add_u64_def u64_max_def
        cas_matches_def update_instances_def advance_row_def insert_transition_def
        new_row_def scenario_spec_def SAGA_INITIAL_def scenario_waiting_def
        scenario_created_def scenario_escalated_def empty_db_def)
  then have "escalate_manual ?i TrigTimer ''u-1'' ''resolution_budget_exhausted'' ?d
      = Inr (ManualIntervention, scenario_escalated)"
    by (simp add: escalate_manual_def bindT_def returnT_def) (simp add: new_row_def scenario_spec_def)
  moreover have "si_control_state ?i = Active" "si_tenant ?i = TenantId ''t-1''"
    "si_workflow ?i = WorkflowName ''order''" "si_definition_version ?i = DefinitionVersion 1"
    by (simp_all add: new_row_def scenario_spec_def)
  moreover have "tm_timer_id scenario_timer = ''u-1''" "tm_saga_id scenario_timer = SagaId ''s-1''"
    "tm_scope_kind scenario_timer = ''STEP''" "tm_scope_key scenario_timer = ''reserve''"
    "tm_kind scenario_timer = KIND_FORWARD_RESOLUTION_BUDGET"
    by (simp_all add: scenario_timer_def)
  ultimately show ?thesis
    using scope load complete
    by (simp add: fire_timer_def timer_clock_def lookup_definition_def attempt_timer_def kind_defs
        timer_verdict_def Let_def bindT_def liftT_def returnT_def)
qed

section \<open>The theorems on runs, applied\<close>

definition scenario_again :: "SagaAction list" where
  "scenario_again = [ActResult scenario_result (ServiceIdentity ''orders'') None 3000 (\<lambda>_. Inr ()),
     ActReconcile (TenantId ''t-1''), ActClock 7]"

lemma scenario_completed_row:
  "find_by_id (SagaId ''s-1'') scenario_completed = Some
     ((new_row scenario_spec)\<lparr>si_status := Completed, si_current_step := None, si_version := 2\<rparr>)"
  by (simp add: find_by_id_def scenario_completed_def new_row_def scenario_spec_def)

theorem terminal_saga_final_witness:
  "\<exists>j. find_by_id (SagaId ''s-1'') (run_actions scenario_runtime scenario_again scenario_completed) = Some j \<and>
     si_status j = Completed \<and> si_version j = 2"
  using terminal_saga_final [OF scenario_completed_row, of scenario_runtime scenario_again] by auto

lemma scenario_started_row:
  "find_by_id (SagaId ''s-1'') scenario_started = Some (new_row scenario_spec)"
  by (simp add: find_by_id_def scenario_started_def scenario_created_def new_row_def scenario_spec_def)

theorem saga_refines_machine_witness:
  "\<exists>j. find_by_id (SagaId ''s-1'') (run_actions scenario_runtime (tl scenario_actions) scenario_started) = Some j \<and>
     same_identity (new_row scenario_spec) j \<and> si_version j = 2 \<and> si_status j = Completed \<and>
     (can_transition_to ^^ (si_version j - 1)) Running (si_status j)"
proof -
  have "run_actions scenario_runtime (tl scenario_actions) scenario_started = scenario_completed"
    by (simp add: scenario_actions_def run_for_def scenario_handle)
  with saga_refines_machine [OF scenario_started_row, of scenario_runtime "tl scenario_actions"] show ?thesis
    by (auto simp: scenario_completed_row new_row_def SAGA_INITIAL_def)
qed

definition scenario_paused :: SagaDb where
  "scenario_paused = scenario_started\<lparr>db_instances := [(new_row scenario_spec)\<lparr>si_control_state := Paused\<rparr>]\<rparr>"

lemma scenario_paused_row:
  "find_by_id (SagaId ''s-1'') scenario_paused = Some ((new_row scenario_spec)\<lparr>si_control_state := Paused\<rparr>)"
  by (simp add: find_by_id_def scenario_paused_def new_row_def scenario_spec_def)

lemma scenario_paused_unmoved:
  "run_actions scenario_runtime (tl scenario_actions) scenario_paused = scenario_paused"
proof -
  have keys: "inbox_key_ok 128 ''nasaga-orchestrator''" "inbox_key_ok 190 ''u-1''" by code_simp+
  have "db_inbox scenario_paused = []"
    by (simp add: scenario_paused_def scenario_started_def scenario_created_def empty_db_def)
  then have claim: "inbox_claim ''nasaga-orchestrator'' ''u-1'' scenario_paused
      = Inr (InboxClaimed, scenario_paused\<lparr>db_inbox := [(''nasaga-orchestrator'', ''u-1'')]\<rparr>)"
    using keys by (simp add: inbox_claim_def tx_run)
  have load: "load_instance (SagaId ''s-1'') (scenario_paused\<lparr>db_inbox := m\<rparr>)
      = Inr (Some ((new_row scenario_spec)\<lparr>si_control_state := Paused\<rparr>), scenario_paused\<lparr>db_inbox := m\<rparr>)" for m
    using scenario_paused_row by (simp add: load_instance_def tx_run find_by_id_def)
  have contract: "verify_instance_contract ((new_row scenario_spec)\<lparr>si_control_state := Paused\<rparr>) scenario_identity = Inr ()"
    by (simp add: verify_instance_contract_def new_row_def scenario_spec_def scenario_identity_def Let_def)
  have ev: "re_event_id scenario_result = ''u-1''" "vi_saga_id scenario_identity = SagaId ''s-1''"
    by (simp_all add: scenario_result_def scenario_identity_def Let_def)
  have "handle_authenticated_result scenario_runtime scenario_result (ServiceIdentity ''orders'') None 2000
     (\<lambda>_. Inr ()) scenario_paused = Inl (E_Result Proc_Paused)"
    by (simp add: handle_authenticated_result_def handle_verified_result_def run_authorized_for_def
        result_body_def bindT_def liftT_def returnT_def requireT_def failT_def
        scenario_producer scenario_delivery scenario_result_parsed config_default_def ev load
        contract claim)
  then show ?thesis by (simp add: scenario_actions_def run_for_def)
qed

theorem paused_saga_frozen_witness:
  "\<exists>j. find_by_id (SagaId ''s-1'') (run_actions scenario_runtime (tl scenario_actions) scenario_paused) = Some j \<and>
     si_control_state j = Paused \<and> si_status j = Running \<and> si_version j = 1"
  using paused_saga_frozen [OF scenario_paused_row, of scenario_runtime "tl scenario_actions"]
  by (auto simp: scenario_paused_unmoved scenario_paused_row new_row_def SAGA_INITIAL_def)

theorem attempt_journal_append_only_witness:
  "db_attempts (run_actions scenario_runtime scenario_again scenario_completed) ! 0
     = db_attempts scenario_completed ! 0 \<and>
   sa_status (at_row (db_attempts scenario_completed ! 0)) = AttSucceeded"
proof -
  have "0 < length (db_attempts scenario_completed)"
    "sa_status (at_row (db_attempts scenario_completed ! 0)) = AttSucceeded"
    by (simp_all add: scenario_completed_def)
  with attempt_journal_append_only [of 0 scenario_completed scenario_runtime scenario_again] show ?thesis
    by simp
qed


theorem timer_takes_effect_once_witness:
  "fire_timer scenario_runtime scenario_timer ''k-1'' 2000 None scenario_waiting
     = Inr (TimerApplied ManualIntervention, scenario_escalated) \<and>
   (\<exists>out. fire_timer scenario_runtime scenario_timer ''k-1'' 2000 None scenario_escalated
     = Inr (out, scenario_escalated) \<and> (\<forall>s. out \<noteq> TimerApplied s))"
proof -
  have ids: "distinct (timer_ids scenario_waiting)" by (simp add: timer_ids_def scenario_waiting_def)
  have scope: "parse_step_scope ''STEP'' ''reserve'' = Inr (Some (StepName ''reserve''))"
    by (simp add: parse_step_scope_def scenario_ids)
  have "\<exists>out d2. fire_timer scenario_runtime scenario_timer ''k-1'' 2000 None scenario_escalated = Inr (out, d2)"
    by (simp add: fire_timer_def timer_clock_def bindT_def liftT_def returnT_def readT_def load_instance_def
        complete_timer_def scenario_texts validate_epoch_ms_def find_by_id_def scenario_escalated_def
        scenario_timer_def new_row_def scenario_spec_def scope holds_lease_def settle_timer_def)
  then obtain out d2 where again:
    "fire_timer scenario_runtime scenario_timer ''k-1'' 2000 None scenario_escalated = Inr (out, d2)"
    by blast
  with timer_takes_effect_once [OF ids scenario_fire, of scenario_timer scenario_runtime "''k-1''" 2000 None "[]"]
  show ?thesis using scenario_fire by auto
qed

theorem transition_log_faithful_witness:
  "map tn_seq (log_of (SagaId ''s-1'') (run_actions scenario_runtime scenario_actions empty_db)) = [1, 2] \<and>
   replay None (log_of (SagaId ''s-1'') (run_actions scenario_runtime scenario_actions empty_db))
     = Some (Some Completed)"
proof -
  let ?i = "(new_row scenario_spec)\<lparr>si_status := Completed, si_current_step := None, si_version := 2\<rparr>"
  have "?i \<in> set (db_instances (run_actions scenario_runtime scenario_actions empty_db))"
    by (simp add: scenario_run scenario_completed_def)
  from transition_log_faithful [OF this] show ?thesis
    by (simp add: new_row_def scenario_spec_def numeral_2_eq_2)
qed

end
