(* ===== verification/Participant_Gate.thy ===== *)
theory Participant_Gate
  imports Saga_Timers
begin

text \<open>
  The participant's side of a saga step: the gate table and its admission and settlement methods
  (\<open>nasaga-mysql/src/participant.rs\<close>). A participant has a database of its own, with the gate
  table beside its inbox and outbox tables. The row of a gate is the one place where execution,
  cancellation, compensation and resolution of a step meet.

  Statements run inside the caller's transaction, as in \<open>Saga_Db\<close>. An \<open>UPDATE\<close> reports the rows
  it matched.
\<close>

section \<open>State\<close>

datatype PartError =
    P_Command SagaCommandProcessingError
  | P_Store string
  | P_Tables OrchError
  | P_Retryable string
  | P_Other string

record ParticipantGateKey =
  gk_saga_id :: SagaId
  gk_step :: StepName
  gk_tenant :: TenantId
  gk_workflow :: WorkflowName
  gk_definition_version :: DefinitionVersion
  gk_definition_digest :: string

record GateRow =
  gr_saga_id :: SagaId
  gr_step :: StepName
  gr_tenant :: TenantId
  gr_workflow :: WorkflowName
  gr_definition_version :: DefinitionVersion
  gr_definition_digest :: string
  gr_forward :: StepForwardStatus
  gr_cancel :: StepCancelStatus
  gr_compensation :: StepCompensationStatus
  gr_resolution :: StepResolutionStatus
  gr_execute_effect :: string
  gr_cancel_effect :: "string option"
  gr_compensate_effect :: "string option"
  gr_resolve_effect :: "string option"

text \<open>
  \<open>pd_calls\<close> lists the calls of the business handlers whose transaction was committed, with the
  verdict each returned: the handlers' writes share the transaction of the gate, so these are the
  effects that happened.
\<close>

record BusinessCall =
  bc_saga_id :: SagaId
  bc_step :: StepName
  bc_phase :: StepPhase
  bc_status :: StepAttemptStatus

record PartDb =
  pd_gates :: "GateRow list"
  pd_tables :: SagaDb
  pd_calls :: "BusinessCall list"

type_synonym 'a ptx = "PartDb \<Rightarrow> PartError + ('a \<times> PartDb)"

definition returnP :: "'a \<Rightarrow> 'a ptx" where
  "returnP a d = Inr (a, d)"

definition failP :: "PartError \<Rightarrow> 'a ptx" where
  "failP e d = Inl e"

definition bindP :: "'a ptx \<Rightarrow> ('a \<Rightarrow> 'b ptx) \<Rightarrow> 'b ptx" where
  "bindP m f d = (case m d of Inl e \<Rightarrow> Inl e | Inr (a, d') \<Rightarrow> f a d')"

definition liftP :: "(PartError + 'a) \<Rightarrow> 'a ptx" where
  "liftP r d = map_sum id (\<lambda>a. (a, d)) r"

definition requireP :: "bool \<Rightarrow> PartError \<Rightarrow> unit ptx" where
  "requireP b e = (if b then returnP () else failP e)"

definition tablesP :: "'a tx \<Rightarrow> 'a ptx" where
  "tablesP m d = (case m (pd_tables d) of
       Inl e \<Rightarrow> Inl (P_Tables e) | Inr (a, t) \<Rightarrow> Inr (a, d\<lparr>pd_tables := t\<rparr>))"

lemma ptx_simps [simp]:
  "returnP a d = Inr (ra, d1) \<longleftrightarrow> ra = a \<and> d1 = d"
  "failP e d = Inr rb \<longleftrightarrow> False"
  "liftP r d = Inr (rg, d5) \<longleftrightarrow> r = Inr rg \<and> d5 = d"
  "requireP c e d = Inr (rh, d6) \<longleftrightarrow> c \<and> d6 = d"
  by (auto simp: returnP_def failP_def liftP_def requireP_def map_sum_Inr)

lemma bindP_Inr:
  "bindP m f d = Inr (b, d'') \<longleftrightarrow> (\<exists>a d'. m d = Inr (a, d') \<and> f a d' = Inr (b, d''))"
  by (auto simp: bindP_def split: sum.splits)

lemma tablesP_Inr:
  "tablesP m d = Inr (a, d') \<longleftrightarrow>
     (\<exists>t. m (pd_tables d) = Inr (a, t) \<and> d' = d\<lparr>pd_tables := t\<rparr>)"
  by (auto simp: tablesP_def split: sum.splits)

section \<open>Rows\<close>

definition at_gate :: "SagaId \<Rightarrow> StepName \<Rightarrow> GateRow \<Rightarrow> bool" where
  "at_gate saga step r \<longleftrightarrow> gr_saga_id r = saga \<and> gr_step r = step"

definition select_gate :: "ParticipantGateKey \<Rightarrow> GateRow option ptx" where
  "select_gate gate d = Inr (find (at_gate (gk_saga_id gate) (gk_step gate)) (pd_gates d), d)"

text \<open>\<open>INSERT\<close>: refused by the primary key, by the unique key on the execute effect, and by the
  check on the digest; the result tells a unique violation from another refusal.\<close>

datatype InsertOutcome = Inserted | UniqueViolation

definition insert_gate :: "GateRow \<Rightarrow> InsertOutcome ptx" where
  "insert_gate row d =
     (if list_ex (\<lambda>r. at_gate (gr_saga_id row) (gr_step row) r \<or>
           gr_execute_effect r = gr_execute_effect row) (pd_gates d)
        then Inr (UniqueViolation, d)
      else if \<not> digest_text (gr_definition_digest row) then Inl (P_Store ''database'')
      else Inr (Inserted, d\<lparr>pd_gates := pd_gates d @ [row]\<rparr>))"

definition update_gates :: "(GateRow \<Rightarrow> bool) \<Rightarrow> (GateRow \<Rightarrow> GateRow) \<Rightarrow> nat ptx" where
  "update_gates P f d =
     Inr (length (filter P (pd_gates d)),
       d\<lparr>pd_gates := map (\<lambda>r. if P r then f r else r) (pd_gates d)\<rparr>)"

definition new_gate :: "ParticipantGateKey \<Rightarrow> string \<Rightarrow> GateRow" where
  "new_gate gate execute_effect =
     \<lparr>gr_saga_id = gk_saga_id gate, gr_step = gk_step gate, gr_tenant = gk_tenant gate,
      gr_workflow = gk_workflow gate, gr_definition_version = gk_definition_version gate,
      gr_definition_digest = gk_definition_digest gate, gr_forward = FwdPending,
      gr_cancel = CanNone, gr_compensation = CmpNone, gr_resolution = ResNone,
      gr_execute_effect = execute_effect, gr_cancel_effect = None, gr_compensate_effect = None,
      gr_resolve_effect = None\<rparr>"

definition verify_gate_contract :: "GateRow \<Rightarrow> ParticipantGateKey \<Rightarrow> PartError + unit" where
  "verify_gate_contract row gate =
     reject_if (gr_tenant row \<noteq> gk_tenant gate \<or> gr_workflow row \<noteq> gk_workflow gate \<or>
         gr_definition_version row \<noteq> gk_definition_version gate \<or>
         gr_definition_digest row \<noteq> gk_definition_digest gate)
       (P_Store ''gate contract mismatch: command targets a different tenant, workflow, version, or digest'')"

section \<open>Execute\<close>

datatype ExecuteAdmission =
  ExecAdmitted | ExecAlreadyTerminal StepForwardStatus | ExecSuppressed

definition admit_execute :: "ParticipantGateKey \<Rightarrow> string \<Rightarrow> ExecuteAdmission ptx" where
  "admit_execute gate execute_effect =
     bindP (select_gate gate) (\<lambda>existing.
       case existing of
         None \<Rightarrow>
           bindP (insert_gate (new_gate gate execute_effect)) (\<lambda>inserted.
             case inserted of
               Inserted \<Rightarrow> returnP ExecAdmitted
             | UniqueViolation \<Rightarrow>
                 failP (P_Store ''concurrent gate admission lost the race; redeliver to adjudicate''))
       | Some row \<Rightarrow>
           bindP (liftP (verify_gate_contract row gate)) (\<lambda>_.
           bindP (requireP (gr_execute_effect row = execute_effect)
             (P_Store ''gate effect identity mismatch; command is not for this step effect'')) (\<lambda>_.
             case gr_forward row of
               FwdCancelled \<Rightarrow> returnP ExecSuppressed
             | FwdPending \<Rightarrow>
                 failP (P_Store ''gate row committed in PENDING state; protocol was bypassed'')
             | settled \<Rightarrow> returnP (ExecAlreadyTerminal settled))))"

definition settle_execute :: "SagaId \<Rightarrow> StepName \<Rightarrow> StepForwardStatus \<Rightarrow> unit ptx" where
  "settle_execute saga step status =
     bindP (requireP (status \<in> {FwdSucceeded, FwdRejected, FwdUnknown, FwdHalted})
       (P_Store ''execute settlement requires a business adjudication status'')) (\<lambda>_.
     bindP (update_gates (\<lambda>r. at_gate saga step r \<and> gr_forward r = FwdPending)
       (\<lambda>r. r\<lparr>gr_forward := status\<rparr>)) (\<lambda>affected.
       requireP (affected \<noteq> 0) (P_Store ''execute settlement found no admitted gate row'')))"

section \<open>Cancel\<close>

datatype CancelAdjudication =
  CancelAdjConfirmed | CancelAdjTerminal StepForwardStatus | CancelAdjPending

fun cancel_adjudication_of :: "StepForwardStatus \<Rightarrow> CancelAdjudication" where
  "cancel_adjudication_of FwdCancelled = CancelAdjConfirmed"
| "cancel_adjudication_of FwdSucceeded = CancelAdjTerminal FwdSucceeded"
| "cancel_adjudication_of FwdRejected = CancelAdjTerminal FwdRejected"
| "cancel_adjudication_of FwdHalted = CancelAdjTerminal FwdHalted"
| "cancel_adjudication_of FwdUnknown = CancelAdjPending"
| "cancel_adjudication_of FwdPending = CancelAdjPending"
| "cancel_adjudication_of FwdTimedOut = CancelAdjPending"

fun cancel_status_of :: "CancelAdjudication \<Rightarrow> StepCancelStatus" where
  "cancel_status_of CancelAdjConfirmed = CanConfirmed"
| "cancel_status_of (CancelAdjTerminal f) = CanAlreadyTerminal"
| "cancel_status_of CancelAdjPending = CanResolutionPending"

definition adjudicate_cancel ::
  "ParticipantGateKey \<Rightarrow> string \<Rightarrow> string \<Rightarrow> CancelAdjudication ptx" where
  "adjudicate_cancel gate execute_effect cancel_effect =
     bindP (select_gate gate) (\<lambda>existing.
       case existing of
         None \<Rightarrow>
           bindP (insert_gate ((new_gate gate execute_effect)\<lparr>gr_forward := FwdCancelled,
               gr_cancel := CanConfirmed, gr_cancel_effect := Some cancel_effect\<rparr>)) (\<lambda>inserted.
             case inserted of
               Inserted \<Rightarrow> returnP CancelAdjConfirmed
             | UniqueViolation \<Rightarrow>
                 failP (P_Store ''concurrent gate admission lost the race; redeliver to adjudicate''))
       | Some row \<Rightarrow>
           bindP (liftP (verify_gate_contract row gate)) (\<lambda>_.
           bindP (requireP (gr_execute_effect row = execute_effect)
             (P_Store ''gate execute effect identity mismatch during cancel adjudication'')) (\<lambda>_.
             let adjudication = cancel_adjudication_of (gr_forward row);
                 cancel_status = cancel_status_of adjudication
             in if gr_cancel row \<noteq> CanNone
                then bindP (requireP (gr_cancel row = cancel_status \<and>
                         gr_cancel_effect row = Some cancel_effect)
                       (P_Store ''cancel adjudication conflicts with the persisted gate fact''))
                       (\<lambda>_. returnP adjudication)
                else
                  bindP (update_gates (\<lambda>r. at_gate (gk_saga_id gate) (gk_step gate) r \<and>
                      gr_cancel r = CanNone)
                    (\<lambda>r. r\<lparr>gr_cancel := cancel_status, gr_cancel_effect := Some cancel_effect\<rparr>))
                    (\<lambda>affected.
                  bindP (requireP (affected = 1) (P_Store ''cancel adjudication lost gate authority''))
                    (\<lambda>_. returnP adjudication)))))"

datatype ExternalCancelAdmission = ExtAdmitted | ExtAlreadyAdjudicated CancelAdjudication

definition persist_existing_cancel_adjudication ::
  "SagaId \<Rightarrow> StepName \<Rightarrow> string \<Rightarrow> StepCancelStatus \<Rightarrow> unit ptx" where
  "persist_existing_cancel_adjudication saga step cancel_effect status =
     bindP (update_gates (\<lambda>r. at_gate saga step r \<and> gr_cancel r = CanNone)
       (\<lambda>r. r\<lparr>gr_cancel := status, gr_cancel_effect := Some cancel_effect\<rparr>)) (\<lambda>affected.
       requireP (affected = 1)
         (P_Store ''existing external cancel adjudication lost gate authority''))"

fun existing_cancel ::
  "StepCancelStatus \<Rightarrow> StepForwardStatus \<Rightarrow> PartError + CancelAdjudication option" where
  "existing_cancel CanConfirmed forward = Inr (Some CancelAdjConfirmed)"
| "existing_cancel CanAlreadyTerminal forward =
     (if forward \<in> {FwdSucceeded, FwdRejected, FwdHalted}
      then Inr (Some (CancelAdjTerminal forward))
      else Inl (P_Store ''external cancel terminal adjudication has no terminal forward fact''))"
| "existing_cancel CanResolutionPending forward = Inr (Some CancelAdjPending)"
| "existing_cancel CanNone forward = Inr None"

definition admit_unknown_cancel :: "ParticipantGateKey \<Rightarrow> string \<Rightarrow> ExternalCancelAdmission ptx" where
  "admit_unknown_cancel gate cancel_effect =
     bindP (update_gates (\<lambda>r. at_gate (gk_saga_id gate) (gk_step gate) r \<and> gr_cancel r = CanNone)
       (\<lambda>r. r\<lparr>gr_cancel_effect := Some cancel_effect\<rparr>)) (\<lambda>_. returnP ExtAdmitted)"

definition admit_external_cancel ::
  "ParticipantGateKey \<Rightarrow> string \<Rightarrow> string \<Rightarrow> ExternalCancelAdmission ptx" where
  "admit_external_cancel gate execute_effect cancel_effect =
     bindP (select_gate gate) (\<lambda>selected.
       case selected of
         None \<Rightarrow>
           bindP (insert_gate ((new_gate gate execute_effect)\<lparr>gr_cancel_effect := Some cancel_effect\<rparr>))
             (\<lambda>inserted.
             case inserted of
               Inserted \<Rightarrow> returnP ExtAdmitted
             | UniqueViolation \<Rightarrow> failP (P_Store
                 ''concurrent external cancel admission lost the race; redeliver to adjudicate''))
       | Some row \<Rightarrow>
           bindP (liftP (verify_gate_contract row gate)) (\<lambda>_.
           bindP (requireP (gr_execute_effect row = execute_effect)
             (P_Store ''gate execute effect identity mismatch during external cancel'')) (\<lambda>_.
           bindP (requireP (case gr_cancel_effect row of None \<Rightarrow> True | Some stored \<Rightarrow> stored = cancel_effect)
             (P_Store ''gate cancel effect identity mismatch during external cancel'')) (\<lambda>_.
           bindP (liftP (existing_cancel (gr_cancel row) (gr_forward row))) (\<lambda>existing.
             case existing of
               Some adjudication \<Rightarrow> returnP (ExtAlreadyAdjudicated adjudication)
             | None \<Rightarrow>
                 (case gr_forward row of
                    FwdCancelled \<Rightarrow>
                      bindP (persist_existing_cancel_adjudication (gk_saga_id gate) (gk_step gate)
                        cancel_effect CanConfirmed)
                        (\<lambda>_. returnP (ExtAlreadyAdjudicated CancelAdjConfirmed))
                  | FwdUnknown \<Rightarrow> admit_unknown_cancel gate cancel_effect
                  | FwdTimedOut \<Rightarrow> admit_unknown_cancel gate cancel_effect
                  | FwdPending \<Rightarrow> failP (P_Store ''external cancel gate row was committed in PENDING state'')
                  | terminal \<Rightarrow>
                      bindP (persist_existing_cancel_adjudication (gk_saga_id gate) (gk_step gate)
                        cancel_effect CanAlreadyTerminal)
                        (\<lambda>_. returnP (ExtAlreadyAdjudicated (CancelAdjTerminal terminal)))))))))"

definition settle_external_cancel ::
  "SagaId \<Rightarrow> StepName \<Rightarrow> StepForwardStatus \<Rightarrow> StepCancelStatus \<Rightarrow> unit ptx" where
  "settle_external_cancel saga step forward cancel =
     bindP (requireP ((forward, cancel) \<in> {(FwdCancelled, CanConfirmed), (FwdSucceeded, CanAlreadyTerminal),
         (FwdRejected, CanAlreadyTerminal), (FwdHalted, CanAlreadyTerminal),
         (FwdUnknown, CanResolutionPending)})
       (P_Store ''external cancel settlement has an invalid forward/cancel combination'')) (\<lambda>_.
     bindP (update_gates (\<lambda>r. at_gate saga step r \<and> gr_cancel r = CanNone \<and>
         gr_forward r \<in> {FwdPending, FwdUnknown, FwdTimedOut})
       (\<lambda>r. r\<lparr>gr_forward := forward, gr_cancel := cancel\<rparr>)) (\<lambda>affected.
       requireP (affected = 1) (P_Store ''external cancel settlement lost gate authority'')))"

section \<open>Compensate\<close>

datatype CompensationAdmission =
  CmpAdmitted | CmpAlreadySettled StepCompensationStatus | CmpMissingForwardEffect

definition insert_or_fail :: "GateRow \<Rightarrow> unit ptx" where
  "insert_or_fail row =
     bindP (insert_gate row) (\<lambda>inserted. requireP (inserted = Inserted) (P_Store ''database''))"

text \<open>\<open>execute_effect\<close> is the effect the method derives for a row that does not exist yet.\<close>

definition admit_compensation ::
  "ParticipantGateKey \<Rightarrow> string \<Rightarrow> string \<Rightarrow> string option \<Rightarrow> CompensationAdmission ptx" where
  "admit_compensation gate execute_effect compensate_effect recovery_operation_id =
     bindP (select_gate gate) (\<lambda>existing.
       case existing of
         None \<Rightarrow>
           bindP (insert_or_fail ((new_gate gate execute_effect)\<lparr>gr_forward := FwdHalted,
               gr_compensation := CmpHalted, gr_compensate_effect := Some compensate_effect\<rparr>))
             (\<lambda>_. returnP CmpMissingForwardEffect)
       | Some row \<Rightarrow>
           bindP (liftP (verify_gate_contract row gate)) (\<lambda>_.
             let forward = gr_forward row; compensation = gr_compensation row;
                 here = at_gate (gk_saga_id gate) (gk_step gate)
             in if compensation \<in> {CmpSucceeded, CmpUnknown}
                then returnP (CmpAlreadySettled compensation)
                else if compensation = CmpHalted \<and>
                    (recovery_operation_id = None \<or> forward \<noteq> FwdSucceeded)
                then returnP (CmpAlreadySettled compensation)
                else if compensation = CmpPending
                then failP (P_Store ''compensation gate committed in PENDING state; protocol was bypassed'')
                else if forward \<noteq> FwdSucceeded
                then bindP (update_gates here (\<lambda>r. r\<lparr>gr_compensation := CmpHalted,
                       gr_compensate_effect := Some compensate_effect\<rparr>))
                       (\<lambda>_. returnP CmpMissingForwardEffect)
                else bindP (update_gates here (\<lambda>r. r\<lparr>gr_compensation := CmpPending,
                       gr_compensate_effect := Some compensate_effect, gr_resolution := ResNone\<rparr>))
                       (\<lambda>_. returnP CmpAdmitted)))"

definition settle_compensation :: "SagaId \<Rightarrow> StepName \<Rightarrow> StepCompensationStatus \<Rightarrow> unit ptx" where
  "settle_compensation saga step status =
     bindP (requireP (status \<in> {CmpSucceeded, CmpUnknown, CmpHalted})
       (P_Store ''compensation settlement requires a business adjudication status'')) (\<lambda>_.
     bindP (update_gates (\<lambda>r. at_gate saga step r \<and> gr_compensation r = CmpPending)
       (\<lambda>r. r\<lparr>gr_compensation := status\<rparr>)) (\<lambda>affected.
       requireP (affected \<noteq> 0) (P_Store ''compensation settlement found no admitted gate row'')))"

section \<open>Resolve\<close>

datatype ResolutionTarget = TargetForward | TargetCompensation

datatype ResolutionAdmission =
  ResAdmitted ResolutionTarget | ResAlreadySettled ResolutionTarget StepResolutionStatus
  | ResMissingUnknownEffect

definition resolved_target ::
  "StepForwardStatus \<Rightarrow> StepCompensationStatus \<Rightarrow> StepResolutionStatus \<Rightarrow> ResolutionTarget" where
  "resolved_target forward compensation resolution =
     (if resolution = ResSucceeded \<and> compensation = CmpSucceeded then TargetCompensation
      else if resolution = ResRejected \<and> forward \<noteq> FwdRejected then TargetCompensation
      else if resolution = ResHalted \<and> compensation = CmpUnknown then TargetCompensation
      else TargetForward)"

definition mark_resolution ::
  "ParticipantGateKey \<Rightarrow> string \<Rightarrow> StepResolutionStatus \<Rightarrow> unit ptx" where
  "mark_resolution gate resolve_effect status =
     bindP (update_gates (at_gate (gk_saga_id gate) (gk_step gate))
       (\<lambda>r. r\<lparr>gr_resolution := status, gr_resolve_effect := Some resolve_effect\<rparr>)) (\<lambda>_. returnP ())"

definition admit_resolution ::
  "ParticipantGateKey \<Rightarrow> string \<Rightarrow> string \<Rightarrow> string option \<Rightarrow> ResolutionAdmission ptx" where
  "admit_resolution gate execute_effect resolve_effect recovery_operation_id =
     bindP (select_gate gate) (\<lambda>existing.
       case existing of
         None \<Rightarrow>
           bindP (insert_or_fail ((new_gate gate execute_effect)\<lparr>gr_forward := FwdHalted,
               gr_resolution := ResHalted, gr_resolve_effect := Some resolve_effect\<rparr>))
             (\<lambda>_. returnP ResMissingUnknownEffect)
       | Some row \<Rightarrow>
           bindP (liftP (verify_gate_contract row gate)) (\<lambda>_.
           bindP (requireP (case gr_resolve_effect row of None \<Rightarrow> True | Some stored \<Rightarrow> stored = resolve_effect)
             (P_Store ''resolution effect identity mismatch; command is not for this step effect'')) (\<lambda>_.
             let forward = gr_forward row; compensation = gr_compensation row;
                 resolution = gr_resolution row
             in if resolution \<in> {ResSucceeded, ResRejected} \<or>
                   resolution = ResHalted \<and> recovery_operation_id = None
                then returnP (ResAlreadySettled (resolved_target forward compensation resolution) resolution)
                else if resolution = ResNone \<and> compensation = CmpNone \<and>
                    forward \<in> {FwdSucceeded, FwdRejected}
                then
                  let status = (if forward = FwdSucceeded then ResSucceeded else ResRejected)
                  in bindP (mark_resolution gate resolve_effect status)
                       (\<lambda>_. returnP (ResAlreadySettled TargetForward status))
                else if compensation = CmpUnknown
                then bindP (mark_resolution gate resolve_effect ResPending)
                       (\<lambda>_. returnP (ResAdmitted TargetCompensation))
                else if forward = FwdUnknown
                then bindP (mark_resolution gate resolve_effect ResPending)
                       (\<lambda>_. returnP (ResAdmitted TargetForward))
                else bindP (mark_resolution gate resolve_effect ResHalted)
                       (\<lambda>_. returnP ResMissingUnknownEffect))))"

definition settled_forward :: "StepResolutionStatus \<Rightarrow> StepForwardStatus option" where
  "settled_forward status =
     (if status = ResSucceeded then Some FwdSucceeded
      else if status = ResRejected then Some FwdRejected else None)"

definition settled_compensation :: "StepResolutionStatus \<Rightarrow> StepCompensationStatus option" where
  "settled_compensation status =
     (if status = ResSucceeded then Some CmpSucceeded
      else if status = ResRejected then Some CmpNone else None)"

definition settle_resolution ::
  "SagaId \<Rightarrow> StepName \<Rightarrow> ResolutionTarget \<Rightarrow> StepResolutionStatus \<Rightarrow> unit ptx" where
  "settle_resolution saga step target status =
     bindP (requireP (status \<noteq> ResNone)
       (P_Store ''resolution settlement requires a query adjudication status'')) (\<lambda>_.
     bindP (case target of
         TargetForward \<Rightarrow>
           update_gates (\<lambda>r. at_gate saga step r \<and> gr_forward r = FwdUnknown \<and> gr_resolution r = ResPending)
             (\<lambda>r. r\<lparr>gr_resolution := status, gr_forward := coalesce (settled_forward status) (gr_forward r)\<rparr>)
       | TargetCompensation \<Rightarrow>
           update_gates (\<lambda>r. at_gate saga step r \<and> gr_compensation r = CmpUnknown \<and>
               gr_resolution r = ResPending)
             (\<lambda>r. r\<lparr>gr_resolution := status,
                gr_compensation := coalesce (settled_compensation status) (gr_compensation r)\<rparr>))
       (\<lambda>affected.
     bindP (requireP (affected \<noteq> 0)
       (P_Store ''resolution settlement found no matching unknown gate fact'')) (\<lambda>_.
       if target = TargetForward \<and> status \<in> {ResSucceeded, ResRejected}
       then bindP (update_gates (\<lambda>r. at_gate saga step r \<and> gr_cancel r = CanResolutionPending)
              (\<lambda>r. r\<lparr>gr_cancel := CanAlreadyTerminal\<rparr>)) (\<lambda>_. returnP ())
       else returnP ())))"

end
