(* ===== verification/Participant_Runtime.thy ===== *)
theory Participant_Runtime
  imports Participant_Gate Saga_Registry Saga_State
begin

text \<open>
  The participant runtime (\<open>nasaga-runtime-core/src/participant.rs\<close>): it verifies a command, claims
  it in the inbox, asks the gate for admission, calls the business handler, settles the gate and
  emits the result, all in one transaction. The business handlers and the typed decoding of their
  input belong to the application and are arguments; a different handler may be passed to every
  call. The latency records write no state and are left out.
\<close>

section \<open>Business handlers\<close>

text \<open>A handler returns its verdict, or the code of a retryable error; \<open>sv_decode\<close> tells whether the
  input decodes to its command type.\<close>

record 'o Service =
  sv_decode :: "SagaPayload option \<Rightarrow> bool"
  sv_handle :: "SagaContext \<Rightarrow> SagaPayload option \<Rightarrow> string + 'o"

section \<open>Trust\<close>

record ParticipantCommandTrust =
  ct_producer :: ServiceIdentity
  ct_workflow :: WorkflowName
  ct_definition_version :: DefinitionVersion
  ct_definition_digest :: "string option"

definition valid_definition_digest :: "string \<Rightarrow> bool" where
  "valid_definition_digest digest = digest_text digest"

definition trust_new ::
  "ServiceIdentity \<Rightarrow> WorkflowName \<Rightarrow> DefinitionVersion \<Rightarrow> string \<Rightarrow>
    PartError + ParticipantCommandTrust" where
  "trust_new producer workflow version digest =
     (if \<not> valid_definition_digest digest
      then Inl (P_Other ''participant command trust requires a canonical definition digest'')
      else Inr \<lparr>ct_producer = producer, ct_workflow = workflow, ct_definition_version = version,
        ct_definition_digest = Some digest\<rparr>)"

definition trust_for_definition_version ::
  "ServiceIdentity \<Rightarrow> WorkflowName \<Rightarrow> DefinitionVersion \<Rightarrow> ParticipantCommandTrust" where
  "trust_for_definition_version producer workflow version =
     \<lparr>ct_producer = producer, ct_workflow = workflow, ct_definition_version = version,
      ct_definition_digest = None\<rparr>"

text \<open>What a local step declares; the runtime reads the payload contract of the step it serves.\<close>

record SagaStepDescriptor =
  ds_payload_content_type :: string
  ds_payload_schema_id :: string
  ds_workflow :: string
  ds_definition_version :: u32
  ds_step :: string
  ds_binding :: "string option"
  ds_service_type :: string
  ds_compensation :: Compensation
  ds_cancel_mode :: CancelMode
  ds_allow_unknown :: bool
  ds_resolution_mode :: "ResolutionMode option"
  ds_source :: string

type_synonym trust_key = "WorkflowName \<times> DefinitionVersion \<times> string option"

record ParticipantRuntime =
  pr_ext :: Ext
  pr_consumer :: string
  pr_trusted_producers :: "ServiceIdentity set"
  pr_command_trust :: "trust_key \<rightharpoonup> ServiceIdentity"
  pr_descriptors :: "SagaStepDescriptor list"
  pr_outbox_cap :: "string \<Rightarrow> nat option"

definition trust_key_of :: "ParticipantCommandTrust \<Rightarrow> trust_key" where
  "trust_key_of t = (ct_workflow t, ct_definition_version t, ct_definition_digest t)"

fun project_trust ::
  "(trust_key \<rightharpoonup> ServiceIdentity) \<Rightarrow> ParticipantCommandTrust list \<Rightarrow>
    PartError + (trust_key \<rightharpoonup> ServiceIdentity)" where
  "project_trust m [] = Inr m"
| "project_trust m (t # ts) =
     (if m (trust_key_of t) \<noteq> None
      then Inl (P_Other ''participant command trust contains a duplicate definition projection'')
      else project_trust (m(trust_key_of t \<mapsto> ct_producer t)) ts)"

definition participant_build ::
  "Ext \<Rightarrow> SagaStepDescriptor list \<Rightarrow> (string \<Rightarrow> nat option) \<Rightarrow> string \<Rightarrow> ParticipantCommandTrust list \<Rightarrow>
    PartError + ParticipantRuntime" where
  "participant_build x descriptors cap consumer trusts =
     bindR (reject_if (consumer = [] \<or> trim consumer \<noteq> consumer \<or> length consumer > 128 \<or>
         CHR 0x00 \<in> set consumer \<or> \<not> list_all consumer_char consumer)
       (P_Other ''participant consumer must satisfy the Inbox key contract'')) (\<lambda>_.
     bindR (project_trust Map.empty trusts) (\<lambda>projected.
     bindR (reject_if (trusts = [])
       (P_Other ''participant requires at least one command trust projection'')) (\<lambda>_.
       Inr \<lparr>pr_ext = x, pr_consumer = consumer, pr_trusted_producers = ct_producer ` set trusts,
         pr_command_trust = projected, pr_descriptors = descriptors, pr_outbox_cap = cap\<rparr>)))"

definition participant_authenticate :: "ParticipantRuntime \<Rightarrow> ServiceIdentity \<Rightarrow> PartError + unit" where
  "participant_authenticate rt producer =
     reject_if (producer \<notin> pr_trusted_producers rt) (P_Command Cmd_ProducerUnauthorized)"

definition verify_command_producer ::
  "ParticipantRuntime \<Rightarrow> ServiceIdentity \<Rightarrow> VerifiedIdentity \<Rightarrow> PartError + unit" where
  "verify_command_producer rt producer identity =
     reject_if (pr_command_trust rt (vi_workflow identity, vi_definition_version identity,
           Some (vi_definition_digest identity)) \<noteq> Some producer \<and>
         pr_command_trust rt (vi_workflow identity, vi_definition_version identity, None)
           \<noteq> Some producer)
       (P_Command Cmd_ProducerUnauthorized)"

definition verified_command_identity ::
  "ParticipantRuntime \<Rightarrow> SagaCommandEnvelope \<Rightarrow> ServiceIdentity \<Rightarrow> PartError + VerifiedIdentity" where
  "verified_command_identity rt e producer =
     bindR (map_err (\<lambda>_. P_Command Cmd_IdentityInvalid) (command_verified (pr_ext rt) e)) (\<lambda>identity.
     bindR (verify_command_producer rt producer identity) (\<lambda>_.
       let descriptor = find (\<lambda>ds. ds_workflow ds = ce_workflow e \<and>
             ds_definition_version ds = ce_definition_version e \<and> ds_step ds = ce_step_name e)
             (pr_descriptors rt);
           (content_type, schema_id) = (case descriptor of
               None \<Rightarrow> (''application/json'', '''')
             | Some ds \<Rightarrow> (ds_payload_content_type ds, ds_payload_schema_id ds))
       in bindR (map_err P_Command (verify_payload_contract (pr_ext rt) e content_type schema_id))
            (\<lambda>_. Inr identity)))"

section \<open>Pieces of the handlers\<close>

definition context_of ::
  "ParticipantRuntime \<Rightarrow> VerifiedIdentity \<Rightarrow> SagaCommandEnvelope \<Rightarrow> PartError + SagaContext" where
  "context_of rt identity e =
     bindR (map_err P_Command (business_payload (pr_ext rt) e)) (\<lambda>payload.
       Inr (with_payload payload (SagaContext_new (x_uuid5 (pr_ext rt)) (vi_saga_id identity)
         (vi_tenant identity) (vi_workflow identity) (vi_definition_version identity)
         (ce_definition_digest e) (vi_step identity) (vi_phase identity) (vi_attempt identity))))"

definition decode_payload ::
  "ParticipantRuntime \<Rightarrow> 'o Service \<Rightarrow> SagaCommandEnvelope \<Rightarrow> PartError + SagaPayload option" where
  "decode_payload rt service e =
     bindR (map_err P_Command (business_payload (pr_ext rt) e)) (\<lambda>payload.
       if sv_decode service payload then Inr payload else Inl (P_Command Cmd_ContractInvalid))"

definition safe_reason_code :: "string \<Rightarrow> string" where
  "safe_reason_code code =
     (if valid_reason_code code then code else ''participant_reason_code_invalid'')"

definition emit_result ::
  "ParticipantRuntime \<Rightarrow> TraceContext option \<Rightarrow> SagaCommandEnvelope \<Rightarrow> StepAttemptStatus \<Rightarrow>
    StepForwardStatus option \<Rightarrow> string option \<Rightarrow> unit ptx" where
  "emit_result rt receipt_trace e status terminal reason_code =
     (let x = pr_ext rt;
          result = \<lparr>re_event_id = derive_result_event_id x (ce_command_id e),
            re_saga_id = ce_saga_id e, re_tenant_id = ce_tenant_id e, re_workflow = ce_workflow e,
            re_definition_version = ce_definition_version e,
            re_definition_digest = ce_definition_digest e, re_step_name = ce_step_name e,
            re_phase = ce_phase e, re_attempt = ce_attempt e, re_effect_id = ce_effect_id e,
            re_command_id = ce_command_id e, re_status = attempt_status_as_str status,
            re_terminal_status = map_option forward_status_as_str terminal,
            re_reason_code = reason_code\<rparr>
      in bindP (liftP (map_err (\<lambda>_. P_Command Cmd_ContractInvalid) (result_to_outbox x result)))
           (\<lambda>event.
         bindP (requireP (outbox_context_ok (ce_tenant_id e)) (P_Command Cmd_ContractInvalid)) (\<lambda>_.
           tablesP (outbox_append (pr_outbox_cap rt) (ce_tenant_id e)
             (case receipt_trace of
                None \<Rightarrow> event
              | Some trace \<Rightarrow> event\<lparr>oe_traceparent := Some (to_traceparent (x_hex_encode x)
                  (trace_child trace (x_span_id x)))\<rparr>)))))"

datatype ParticipantHandled =
    HandledExecuted StepAttemptStatus | HandledDuplicate | HandledSuppressed
  | HandledReplayed StepAttemptStatus | HandledContractViolation

fun forward_to_attempt_status :: "StepForwardStatus \<Rightarrow> PartError + StepAttemptStatus" where
  "forward_to_attempt_status FwdSucceeded = Inr AttSucceeded"
| "forward_to_attempt_status FwdRejected = Inr AttRejected"
| "forward_to_attempt_status FwdUnknown = Inr AttUnknown"
| "forward_to_attempt_status FwdHalted = Inr AttHalted"
| "forward_to_attempt_status _ = Inl (P_Other ''gate terminal status is not replayable'')"

fun cancel_adjudication_result ::
  "CancelAdjudication \<Rightarrow> StepAttemptStatus \<times> StepForwardStatus option" where
  "cancel_adjudication_result CancelAdjConfirmed = (AttCancelConfirmed, None)"
| "cancel_adjudication_result (CancelAdjTerminal forward) = (AttAlreadyTerminal, Some forward)"
| "cancel_adjudication_result CancelAdjPending = (AttResolutionPending, None)"

fun terminal_outcome :: "TerminalForwardOutcome \<Rightarrow> StepForwardStatus \<times> string option" where
  "terminal_outcome TfSucceeded = (FwdSucceeded, None)"
| "terminal_outcome (TfRejected code) = (FwdRejected, Some code)"
| "terminal_outcome (TfHalted code) = (FwdHalted, Some code)"

fun external_cancel_result ::
  "CancelOutcome \<Rightarrow> StepForwardStatus \<times> StepCancelStatus \<times> StepAttemptStatus \<times>
    StepForwardStatus option \<times> string option" where
  "external_cancel_result CancelConfirmed =
     (FwdCancelled, CanConfirmed, AttCancelConfirmed, None, None)"
| "external_cancel_result (AlreadyTerminal terminal) =
     (let (forward, reason) = terminal_outcome terminal
      in (forward, CanAlreadyTerminal, AttAlreadyTerminal, Some forward, reason))"
| "external_cancel_result (ResolutionPending code) =
     (FwdUnknown, CanResolutionPending, AttResolutionPending, None, Some code)"

fun compensation_to_attempt_status :: "StepCompensationStatus \<Rightarrow> PartError + StepAttemptStatus" where
  "compensation_to_attempt_status CmpSucceeded = Inr AttSucceeded"
| "compensation_to_attempt_status CmpUnknown = Inr AttUnknown"
| "compensation_to_attempt_status CmpHalted = Inr AttHalted"
| "compensation_to_attempt_status _ = Inl (P_Other ''compensation gate status is not replayable'')"

fun resolution_to_attempt_status :: "StepResolutionStatus \<Rightarrow> PartError + StepAttemptStatus" where
  "resolution_to_attempt_status ResSucceeded = Inr AttSucceeded"
| "resolution_to_attempt_status ResRejected = Inr AttRejected"
| "resolution_to_attempt_status ResHalted = Inr AttHalted"
| "resolution_to_attempt_status _ = Inl (P_Other ''resolution gate status is not replayable'')"

section \<open>Handlers\<close>

text \<open>The beginning that the four handlers share: verification, phase, inbox claim, gate key.\<close>

definition gate_of :: "VerifiedIdentity \<Rightarrow> SagaCommandEnvelope \<Rightarrow> ParticipantGateKey" where
  "gate_of identity e =
     \<lparr>gk_saga_id = vi_saga_id identity, gk_step = vi_step identity, gk_tenant = vi_tenant identity,
      gk_workflow = vi_workflow identity, gk_definition_version = vi_definition_version identity,
      gk_definition_digest = ce_definition_digest e\<rparr>"

definition claim_command ::
  "ParticipantRuntime \<Rightarrow> SagaCommandEnvelope \<Rightarrow> ServiceIdentity \<Rightarrow> StepPhase \<Rightarrow>
    (VerifiedIdentity \<Rightarrow> ParticipantHandled ptx) \<Rightarrow> ParticipantHandled ptx" where
  "claim_command rt e producer phase body =
     bindP (liftP (verified_command_identity rt e producer)) (\<lambda>identity.
     bindP (requireP (vi_phase identity = phase) (P_Command Cmd_ContractInvalid)) (\<lambda>_.
     bindP (tablesP (inbox_claim (pr_consumer rt) (ce_command_id e))) (\<lambda>claim.
       case claim of
         InboxDuplicate \<Rightarrow> returnP HandledDuplicate
       | InboxClaimed \<Rightarrow> body identity)))"

definition execute_effect_of :: "ParticipantRuntime \<Rightarrow> VerifiedIdentity \<Rightarrow> string" where
  "execute_effect_of rt identity =
     effect_text (pr_ext rt) (EffectId_derive (x_uuid5 (pr_ext rt)) (vi_saga_id identity)
       (vi_definition_version identity) (vi_step identity) Execute)"

text \<open>The call of a handler: its verdict joins the committed calls if the transaction commits.\<close>

definition call_service ::
  "ParticipantRuntime \<Rightarrow> 'o Service \<Rightarrow> SagaCommandEnvelope \<Rightarrow> VerifiedIdentity \<Rightarrow> StepPhase \<Rightarrow>
    ('o \<Rightarrow> StepAttemptStatus) \<Rightarrow> 'o ptx" where
  "call_service rt service e identity target verdict =
     bindP (liftP (context_of rt identity e)) (\<lambda>context.
     bindP (liftP (decode_payload rt service e)) (\<lambda>command.
       case sv_handle service (with_target_phase (x_uuid5 (pr_ext rt)) target context) command of
         Inl code \<Rightarrow> failP (P_Retryable code)
       | Inr outcome \<Rightarrow> (\<lambda>d. Inr (outcome, d\<lparr>pd_calls := pd_calls d @
           [\<lparr>bc_saga_id = vi_saga_id identity, bc_step = vi_step identity,
             bc_phase = vi_phase identity, bc_status = verdict outcome\<rparr>]\<rparr>))))"

fun outcome_verdict :: "'v SagaOutcome \<Rightarrow> StepAttemptStatus" where
  "outcome_verdict (OutSucceeded v) = AttSucceeded"
| "outcome_verdict (OutRejected code) = AttRejected"
| "outcome_verdict (OutUnknown code) = AttUnknown"
| "outcome_verdict (OutHalted code) = AttHalted"

text \<open>The arms of the match on the outcome of \<open>execute\<close>: the fact settled at the gate, the status and
  the reason reported.\<close>

fun execute_arm ::
  "bool \<Rightarrow> 'v SagaOutcome \<Rightarrow> StepForwardStatus \<times> StepAttemptStatus \<times> string option" where
  "execute_arm unknown_ok (OutSucceeded v) = (FwdSucceeded, AttSucceeded, None)"
| "execute_arm unknown_ok (OutRejected code) =
     (FwdRejected, AttRejected, Some (safe_reason_code code))"
| "execute_arm unknown_ok (OutUnknown code) =
     (if unknown_ok then (FwdUnknown, AttUnknown, Some (safe_reason_code code))
      else (FwdHalted, AttHalted, Some ''unknown_not_allowed''))"
| "execute_arm unknown_ok (OutHalted code) = (FwdHalted, AttHalted, Some (safe_reason_code code))"

definition handle_authenticated_execute ::
  "ParticipantRuntime \<Rightarrow> 'v SagaOutcome Service \<Rightarrow> SagaCommandEnvelope \<Rightarrow> ServiceIdentity \<Rightarrow>
    TraceContext option \<Rightarrow> bool \<Rightarrow> ParticipantHandled ptx" where
  "handle_authenticated_execute rt service e producer receipt_trace unknown_ok =
     claim_command rt e producer Execute (\<lambda>identity.
     bindP (admit_execute (gate_of identity e) (effect_text (pr_ext rt) (vi_effect identity)))
       (\<lambda>admission.
       case admission of
         ExecSuppressed \<Rightarrow> returnP HandledSuppressed
       | ExecAlreadyTerminal terminal \<Rightarrow>
           bindP (liftP (forward_to_attempt_status terminal)) (\<lambda>status.
           bindP (emit_result rt receipt_trace e status None None)
             (\<lambda>_. returnP (HandledReplayed status)))
       | ExecAdmitted \<Rightarrow>
           bindP (call_service rt service e identity Execute outcome_verdict) (\<lambda>outcome.
             let (forward, status, reason) = execute_arm unknown_ok outcome
             in bindP (settle_execute (vi_saga_id identity) (vi_step identity) forward) (\<lambda>_.
                bindP (emit_result rt receipt_trace e status None reason)
                  (\<lambda>_. returnP (HandledExecuted status))))))"

definition handle_authenticated_cancel_local ::
  "ParticipantRuntime \<Rightarrow> SagaCommandEnvelope \<Rightarrow> ServiceIdentity \<Rightarrow> TraceContext option \<Rightarrow>
    ParticipantHandled ptx" where
  "handle_authenticated_cancel_local rt e producer receipt_trace =
     claim_command rt e producer Cancel (\<lambda>identity.
     bindP (adjudicate_cancel (gate_of identity e) (execute_effect_of rt identity)
       (effect_text (pr_ext rt) (vi_effect identity))) (\<lambda>adjudication.
       let (status, terminal) = cancel_adjudication_result adjudication
       in bindP (emit_result rt receipt_trace e status terminal None)
            (\<lambda>_. returnP (HandledExecuted status))))"

definition cancel_verdict :: "CancelOutcome \<Rightarrow> StepAttemptStatus" where
  "cancel_verdict outcome = (case external_cancel_result outcome of (f, c, status, t, r) \<Rightarrow> status)"

definition handle_authenticated_cancel_external ::
  "ParticipantRuntime \<Rightarrow> CancelOutcome Service \<Rightarrow> SagaCommandEnvelope \<Rightarrow> ServiceIdentity \<Rightarrow>
    TraceContext option \<Rightarrow> ParticipantHandled ptx" where
  "handle_authenticated_cancel_external rt service e producer receipt_trace =
     claim_command rt e producer Cancel (\<lambda>identity.
     bindP (admit_external_cancel (gate_of identity e) (execute_effect_of rt identity)
       (effect_text (pr_ext rt) (vi_effect identity))) (\<lambda>admission.
       case admission of
         ExtAlreadyAdjudicated adjudication \<Rightarrow>
           (let (status, terminal) = cancel_adjudication_result adjudication
            in bindP (emit_result rt receipt_trace e status terminal None)
                 (\<lambda>_. returnP (HandledReplayed status)))
       | ExtAdmitted \<Rightarrow>
           bindP (call_service rt service e identity Execute cancel_verdict) (\<lambda>outcome.
             let (forward, cancel, status, terminal, reason) = external_cancel_result outcome
             in bindP (settle_external_cancel (vi_saga_id identity) (vi_step identity) forward cancel)
                  (\<lambda>_.
                bindP (emit_result rt receipt_trace e status terminal (map_option safe_reason_code reason))
                  (\<lambda>_. returnP (HandledExecuted status))))))"

fun compensate_arm ::
  "CompensationOutcome \<Rightarrow> StepCompensationStatus \<times> StepAttemptStatus \<times> string option" where
  "compensate_arm CoSucceeded = (CmpSucceeded, AttSucceeded, None)"
| "compensate_arm (CoUnknown code) = (CmpUnknown, AttUnknown, Some (safe_reason_code code))"
| "compensate_arm (CoHalted code) = (CmpHalted, AttHalted, Some (safe_reason_code code))"

definition compensate_verdict :: "CompensationOutcome \<Rightarrow> StepAttemptStatus" where
  "compensate_verdict outcome = (case compensate_arm outcome of (c, status, r) \<Rightarrow> status)"

definition handle_authenticated_compensate ::
  "ParticipantRuntime \<Rightarrow> CompensationOutcome Service \<Rightarrow> SagaCommandEnvelope \<Rightarrow> ServiceIdentity \<Rightarrow>
    TraceContext option \<Rightarrow> ParticipantHandled ptx" where
  "handle_authenticated_compensate rt service e producer receipt_trace =
     claim_command rt e producer Compensate (\<lambda>identity.
     bindP (admit_compensation (gate_of identity e) (execute_effect_of rt identity)
       (effect_text (pr_ext rt) (vi_effect identity)) (ce_recovery_operation_id e)) (\<lambda>admission.
       case admission of
         CmpAlreadySettled terminal \<Rightarrow>
           bindP (liftP (compensation_to_attempt_status terminal)) (\<lambda>status.
           bindP (emit_result rt receipt_trace e status None
             (if terminal = CmpUnknown then Some ''compensation_outcome_unknown''
              else if terminal = CmpHalted then Some ''compensation_already_halted'' else None))
             (\<lambda>_. returnP (HandledReplayed status)))
       | CmpMissingForwardEffect \<Rightarrow>
           bindP (emit_result rt receipt_trace e AttHalted None (Some ''compensation_contract_violation''))
             (\<lambda>_. returnP HandledContractViolation)
       | CmpAdmitted \<Rightarrow>
           bindP (call_service rt service e identity Compensate compensate_verdict) (\<lambda>outcome.
             let (compensation, status, reason) = compensate_arm outcome
             in bindP (settle_compensation (vi_saga_id identity) (vi_step identity) compensation) (\<lambda>_.
                bindP (emit_result rt receipt_trace e status None reason)
                  (\<lambda>_. returnP (HandledExecuted status))))))"

fun resolve_arm :: "'v SagaOutcome \<Rightarrow> StepResolutionStatus \<times> StepAttemptStatus \<times> string option" where
  "resolve_arm (OutSucceeded v) = (ResSucceeded, AttSucceeded, None)"
| "resolve_arm (OutRejected code) = (ResRejected, AttRejected, Some (safe_reason_code code))"
| "resolve_arm (OutUnknown code) = (ResPending, AttUnknown, Some (safe_reason_code code))"
| "resolve_arm (OutHalted code) = (ResHalted, AttHalted, Some (safe_reason_code code))"

fun target_phase_of :: "ResolutionTarget \<Rightarrow> StepPhase" where
  "target_phase_of TargetForward = Execute"
| "target_phase_of TargetCompensation = Compensate"

definition handle_authenticated_resolve ::
  "ParticipantRuntime \<Rightarrow> 'v SagaOutcome Service \<Rightarrow> SagaCommandEnvelope \<Rightarrow> ServiceIdentity \<Rightarrow>
    TraceContext option \<Rightarrow> ParticipantHandled ptx" where
  "handle_authenticated_resolve rt service e producer receipt_trace =
     claim_command rt e producer Resolve (\<lambda>identity.
     bindP (admit_resolution (gate_of identity e) (execute_effect_of rt identity)
       (effect_text (pr_ext rt) (vi_effect identity)) (ce_recovery_operation_id e)) (\<lambda>admission.
       case admission of
         ResAlreadySettled target settled \<Rightarrow>
           bindP (liftP (resolution_to_attempt_status settled)) (\<lambda>status.
           bindP (emit_result rt receipt_trace e status None None)
             (\<lambda>_. returnP (HandledReplayed status)))
       | ResMissingUnknownEffect \<Rightarrow>
           bindP (emit_result rt receipt_trace e AttHalted None (Some ''resolution_contract_violation''))
             (\<lambda>_. returnP HandledContractViolation)
       | ResAdmitted target \<Rightarrow>
           bindP (call_service rt service e identity (target_phase_of target) outcome_verdict) (\<lambda>outcome.
             let (resolution, status, reason) = resolve_arm outcome
             in bindP (settle_resolution (vi_saga_id identity) (vi_step identity) target resolution) (\<lambda>_.
                bindP (emit_result rt receipt_trace e status None reason)
                  (\<lambda>_. returnP (HandledExecuted status))))))"

end
