(* ===== verification/Participant_Safety.thy ===== *)
theory Participant_Safety
  imports Participant_Runtime Saga_Evolution
begin

text \<open>
  What the participant promises. \<open>gate_step\<close> is the abstract machine of one gate: its four facts and
  the committed calls of the business handlers, with one rule per kind of transaction. Every
  handler refines it, and the promises are invariants of the machine.
\<close>

section \<open>The abstract gate\<close>

type_synonym gate_facts =
  "StepForwardStatus \<times> StepCancelStatus \<times> StepCompensationStatus \<times> StepResolutionStatus"

type_synonym gate_state = "gate_facts option \<times> (StepPhase \<times> StepAttemptStatus) list"

definition execute_verdicts :: "(StepForwardStatus \<times> StepAttemptStatus) set" where
  "execute_verdicts = {(FwdSucceeded, AttSucceeded), (FwdRejected, AttRejected),
     (FwdUnknown, AttUnknown), (FwdHalted, AttUnknown), (FwdHalted, AttHalted)}"

definition cancel_verdicts :: "(StepForwardStatus \<times> StepCancelStatus \<times> StepAttemptStatus) set" where
  "cancel_verdicts = {(FwdCancelled, CanConfirmed, AttCancelConfirmed),
     (FwdSucceeded, CanAlreadyTerminal, AttAlreadyTerminal),
     (FwdRejected, CanAlreadyTerminal, AttAlreadyTerminal),
     (FwdHalted, CanAlreadyTerminal, AttAlreadyTerminal),
     (FwdUnknown, CanResolutionPending, AttResolutionPending)}"

definition compensate_verdicts :: "(StepCompensationStatus \<times> StepAttemptStatus) set" where
  "compensate_verdicts =
     {(CmpSucceeded, AttSucceeded), (CmpUnknown, AttUnknown), (CmpHalted, AttHalted)}"

definition resolve_verdicts :: "(StepResolutionStatus \<times> StepAttemptStatus) set" where
  "resolve_verdicts = {(ResSucceeded, AttSucceeded), (ResRejected, AttRejected),
     (ResPending, AttUnknown), (ResHalted, AttHalted)}"

lemmas verdict_defs = execute_verdicts_def cancel_verdicts_def compensate_verdicts_def
  resolve_verdicts_def

inductive gate_step :: "gate_state \<Rightarrow> gate_state \<Rightarrow> bool" where
  executed: "(f, v) \<in> execute_verdicts \<Longrightarrow>
    gate_step (None, cs) (Some (f, CanNone, CmpNone, ResNone), cs @ [(Execute, v)])"
| fenced: "gate_step (None, cs) (Some (FwdCancelled, CanConfirmed, CmpNone, ResNone), cs)"
| cancel_noted: "gate_step (Some (f, CanNone, m, r), cs)
    (Some (f, cancel_status_of (cancel_adjudication_of f), m, r), cs)"
| cancel_called: "(f, c, v) \<in> cancel_verdicts \<Longrightarrow>
    gate_step (None, cs) (Some (f, c, CmpNone, ResNone), cs @ [(Cancel, v)])"
| cancel_unknown: "(f, c, v) \<in> cancel_verdicts \<Longrightarrow> f0 \<in> {FwdUnknown, FwdTimedOut} \<Longrightarrow>
    gate_step (Some (f0, CanNone, m, r), cs) (Some (f, c, m, r), cs @ [(Cancel, v)])"
| compensation_orphan:
    "gate_step (None, cs) (Some (FwdHalted, CanNone, CmpHalted, ResNone), cs)"
| compensation_refused: "f \<noteq> FwdSucceeded \<Longrightarrow>
    gate_step (Some (f, c, CmpNone, r), cs) (Some (f, c, CmpHalted, r), cs)"
| compensated: "(m, v) \<in> compensate_verdicts \<Longrightarrow> m0 \<in> {CmpNone, CmpHalted} \<Longrightarrow>
    gate_step (Some (FwdSucceeded, c, m0, r), cs)
      (Some (FwdSucceeded, c, m, ResNone), cs @ [(Compensate, v)])"
| resolution_orphan:
    "gate_step (None, cs) (Some (FwdHalted, CanNone, CmpNone, ResHalted), cs)"
| resolution_replayed: "(f, r) \<in> {(FwdSucceeded, ResSucceeded), (FwdRejected, ResRejected)} \<Longrightarrow>
    gate_step (Some (f, c, CmpNone, ResNone), cs) (Some (f, c, CmpNone, r), cs)"
| resolution_refused: "m \<noteq> CmpUnknown \<Longrightarrow> f \<noteq> FwdUnknown \<Longrightarrow> r \<in> {ResNone, ResPending, ResHalted} \<Longrightarrow>
    gate_step (Some (f, c, m, r), cs) (Some (f, c, m, ResHalted), cs)"
| resolved_forward: "(r, v) \<in> resolve_verdicts \<Longrightarrow> m \<noteq> CmpUnknown \<Longrightarrow> r0 \<in> {ResNone, ResPending, ResHalted} \<Longrightarrow>
    gate_step (Some (FwdUnknown, c, m, r0), cs)
      (Some (coalesce (settled_forward r) FwdUnknown,
         if r \<in> {ResSucceeded, ResRejected} \<and> c = CanResolutionPending then CanAlreadyTerminal else c,
         m, r), cs @ [(Resolve, v)])"
| resolved_compensation: "(r, v) \<in> resolve_verdicts \<Longrightarrow> r0 \<in> {ResNone, ResPending, ResHalted} \<Longrightarrow>
    gate_step (Some (f, c, CmpUnknown, r0), cs)
      (Some (f, c, coalesce (settled_compensation r) CmpUnknown, r), cs @ [(Resolve, v)])"

section \<open>Invariants of the machine\<close>

definition executions :: "(StepPhase \<times> StepAttemptStatus) list \<Rightarrow> nat" where
  "executions cs = length (filter (\<lambda>(p, v). p = Execute) cs)"

definition undone :: "(StepPhase \<times> StepAttemptStatus) list \<Rightarrow> nat" where
  "undone cs = length (filter (\<lambda>c. c = (Compensate, AttSucceeded)) cs)"

text \<open>The verdicts that prove a forward effect.\<close>

definition evidence :: "(StepPhase \<times> StepAttemptStatus) list \<Rightarrow> bool" where
  "evidence cs \<longleftrightarrow> (Execute, AttSucceeded) \<in> set cs \<or> (Resolve, AttSucceeded) \<in> set cs \<or>
     (Cancel, AttAlreadyTerminal) \<in> set cs"

fun gate_ok :: "gate_state \<Rightarrow> bool" where
  "gate_ok (None, cs) = (cs = [])"
| "gate_ok (Some (f, c, m, r), cs) =
     (f \<noteq> FwdPending \<and> f \<noteq> FwdTimedOut \<and> m \<noteq> CmpPending \<and> executions cs \<le> 1 \<and>
      (f = FwdCancelled \<longrightarrow> (\<forall>v. (Execute, v) \<in> set cs \<longrightarrow> v = AttUnknown)) \<and>
      (f = FwdUnknown \<longrightarrow> (\<forall>v. (Execute, v) \<in> set cs \<longrightarrow> v = AttUnknown)) \<and>
      (f = FwdSucceeded \<longrightarrow> evidence cs) \<and>
      ((\<exists>v. (Compensate, v) \<in> set cs) \<longrightarrow> f = FwdSucceeded) \<and>
      (m = CmpUnknown \<longrightarrow> f = FwdSucceeded) \<and>
      (0 < undone cs \<longrightarrow> m = CmpSucceeded) \<and> undone cs \<le> 1)"

lemma gate_ok_step: "gate_step s t \<Longrightarrow> gate_ok s \<Longrightarrow> gate_ok t"
  by (induction rule: gate_step.induct)
    (auto simp: verdict_defs executions_def undone_def evidence_def settled_forward_def
      settled_compensation_def coalesce_def)

lemma gate_ok_steps: "gate_step\<^sup>*\<^sup>* s t \<Longrightarrow> gate_ok s \<Longrightarrow> gate_ok t"
  by (induction rule: rtranclp_induct) (auto dest: gate_ok_step)

text \<open>Facts that no step takes back.\<close>

definition facts_final :: "gate_state \<Rightarrow> gate_state \<Rightarrow> bool" where
  "facts_final s t \<longleftrightarrow>
     (case fst s of None \<Rightarrow> True | Some (f, c, m, r) \<Rightarrow>
        (\<exists>f' c' m' r'. fst t = Some (f', c', m', r') \<and>
          (f \<in> {FwdSucceeded, FwdRejected, FwdCancelled, FwdHalted} \<longrightarrow> f' = f) \<and>
          (c \<in> {CanConfirmed, CanAlreadyTerminal} \<longrightarrow> c' = c) \<and>
          (m = CmpSucceeded \<longrightarrow> m' = m))) \<and>
     (\<exists>cs. snd t = snd s @ cs)"

lemma facts_final_step: "gate_step s t \<Longrightarrow> facts_final s t"
  by (induction rule: gate_step.induct)
    (auto simp: facts_final_def verdict_defs settled_forward_def settled_compensation_def coalesce_def)

lemma facts_final_trans: "facts_final s t \<Longrightarrow> facts_final t u \<Longrightarrow> facts_final s u"
  by (auto simp: facts_final_def split: option.splits)

lemma facts_final_steps: "gate_step\<^sup>*\<^sup>* s t \<Longrightarrow> facts_final s t"
proof (induction rule: rtranclp_induct)
  case base
  show ?case by (auto simp: facts_final_def split: option.splits)
next
  case (step t u)
  then show ?case by (blast intro: facts_final_step facts_final_trans)
qed

section \<open>The handlers refine the machine\<close>

definition facts_of :: "GateRow \<Rightarrow> gate_facts" where
  "facts_of r = (gr_forward r, gr_cancel r, gr_compensation r, gr_resolution r)"

definition calls_at :: "SagaId \<Rightarrow> StepName \<Rightarrow> PartDb \<Rightarrow> (StepPhase \<times> StepAttemptStatus) list" where
  "calls_at saga step d = map (\<lambda>c. (bc_phase c, bc_status c))
     (filter (\<lambda>c. bc_saga_id c = saga \<and> bc_step c = step) (pd_calls d))"

definition gate_at :: "SagaId \<Rightarrow> StepName \<Rightarrow> PartDb \<Rightarrow> GateRow option" where
  "gate_at saga step d = find (at_gate saga step) (pd_gates d)"

definition view :: "SagaId \<Rightarrow> StepName \<Rightarrow> PartDb \<Rightarrow> gate_state" where
  "view saga step d = (map_option facts_of (gate_at saga step d), calls_at saga step d)"

lemma gate_at_append:
  "gate_at saga step (d\<lparr>pd_gates := pd_gates d @ [row]\<rparr>) =
     (case gate_at saga step d of None \<Rightarrow> if at_gate saga step row then Some row else None | Some r \<Rightarrow> Some r)"
proof -
  have "find P (xs @ [y]) = (case find P xs of None \<Rightarrow> if P y then Some y else None | Some r \<Rightarrow> Some r)"
    for P and xs :: "GateRow list" and y
    by (induction xs) auto
  then show ?thesis by (simp add: gate_at_def)
qed

lemma gate_at_update:
  assumes "\<And>r. gr_saga_id (f r) = gr_saga_id r \<and> gr_step (f r) = gr_step r"
  shows "gate_at saga step (d\<lparr>pd_gates := map (\<lambda>r. if at_gate s t r \<and> Q r then f r else r) (pd_gates d)\<rparr>) =
    (if (saga, step) = (s, t) then map_option (\<lambda>r. if Q r then f r else r) (gate_at saga step d)
     else gate_at saga step d)"
proof -
  have "find (at_gate saga step) (map (\<lambda>r. if at_gate s t r \<and> Q r then f r else r) xs) =
    (if (saga, step) = (s, t) then map_option (\<lambda>r. if Q r then f r else r) (find (at_gate saga step) xs)
     else find (at_gate saga step) xs)" for xs
    using assms by (induction xs) (auto simp: at_gate_def)
  then show ?thesis by (simp add: gate_at_def)
qed

lemma calls_at_simps [simp]:
  "calls_at saga step (d\<lparr>pd_gates := gs\<rparr>) = calls_at saga step d"
  "calls_at saga step (d\<lparr>pd_tables := t\<rparr>) = calls_at saga step d"
  "gate_at saga step (d\<lparr>pd_tables := t\<rparr>) = gate_at saga step d"
  "gate_at saga step (d\<lparr>pd_calls := cs\<rparr>) = gate_at saga step d"
  "calls_at saga step (d\<lparr>pd_calls := pd_calls d @ [c]\<rparr>) = calls_at saga step d @
     (if bc_saga_id c = saga \<and> bc_step c = step then [(bc_phase c, bc_status c)] else [])"
  by (simp_all add: calls_at_def gate_at_def)

text \<open>A program changes only the gate of its key.\<close>

definition elsewhere_same :: "SagaId \<Rightarrow> StepName \<Rightarrow> PartDb \<Rightarrow> PartDb \<Rightarrow> bool" where
  "elsewhere_same s t d d' \<longleftrightarrow>
     (\<forall>saga step. (saga, step) \<noteq> (s, t) \<longrightarrow> gate_at saga step d' = gate_at saga step d)"

lemma elsewhere_simps [simp]:
  "elsewhere_same s t d d"
  "elsewhere_same s t d (d'\<lparr>pd_tables := tb\<rparr>) = elsewhere_same s t d d'"
  "elsewhere_same s t d (d'\<lparr>pd_calls := cs\<rparr>) = elsewhere_same s t d d'"
  "elsewhere_same s t (d\<lparr>pd_tables := tb\<rparr>) d' = elsewhere_same s t d d'"
  "elsewhere_same s t (d\<lparr>pd_calls := cs\<rparr>) d' = elsewhere_same s t d d'"
  by (auto simp: elsewhere_same_def)

lemma elsewhere_trans: "elsewhere_same s t d d' \<Longrightarrow> elsewhere_same s t d' d'' \<Longrightarrow> elsewhere_same s t d d''"
  by (auto simp: elsewhere_same_def)

lemma select_Inr:
  "select_gate gate d = Inr (r, d') \<longleftrightarrow> d' = d \<and> r = gate_at (gk_saga_id gate) (gk_step gate) d"
  by (auto simp: select_gate_def gate_at_def)

lemma insert_Inr:
  "insert_gate row d = Inr (Inserted, d') \<Longrightarrow>
     gate_at (gr_saga_id row) (gr_step row) d = None \<and> d' = d\<lparr>pd_gates := pd_gates d @ [row]\<rparr>"
  by (auto simp: insert_gate_def gate_at_def find_None_iff list_ex_iff split: if_splits)

lemma update_effect:
  assumes "update_gates (\<lambda>r. at_gate s t r \<and> Q r) f d = Inr (n, d')"
    and "\<And>r. gr_saga_id (f r) = gr_saga_id r \<and> gr_step (f r) = gr_step r"
  shows "gate_at s t d' = map_option (\<lambda>r. if Q r then f r else r) (gate_at s t d) \<and>
    pd_calls d' = pd_calls d \<and> elsewhere_same s t d d'"
  using assms gate_at_update [of f, OF assms(2)]
  by (auto simp: update_gates_def elsewhere_same_def)

definition refines :: "SagaId \<Rightarrow> StepName \<Rightarrow> PartDb \<Rightarrow> PartDb \<Rightarrow> bool" where
  "refines s t d d' \<longleftrightarrow>
     (\<forall>saga step. (saga, step) \<noteq> (s, t) \<longrightarrow> view saga step d' = view saga step d) \<and>
     (view s t d' = view s t d \<or> gate_step (view s t d) (view s t d'))"

lemma refines_tables [simp]:
  "refines s t (d\<lparr>pd_tables := tb\<rparr>) d' = refines s t d d'"
  "refines s t d (d'\<lparr>pd_tables := tb\<rparr>) = refines s t d d'"
  by (auto simp: refines_def view_def)

lemma refines_refl [simp]: "refines s t d d"
  by (simp add: refines_def)

text \<open>The row of the key after the transaction, and the calls it added.\<close>

lemma refines_at:
  assumes "elsewhere_same s t d d'" and "pd_calls d' = pd_calls d @ cs"
    and "list_all (\<lambda>c. bc_saga_id c = s \<and> bc_step c = t) cs"
    and "gate_step (map_option facts_of (gate_at s t d), calls_at s t d)
      (map_option facts_of (gate_at s t d'), calls_at s t d @ map (\<lambda>c. (bc_phase c, bc_status c)) cs)"
  shows "refines s t d d'"
proof -
  have "calls_at s t d' = calls_at s t d @ map (\<lambda>c. (bc_phase c, bc_status c)) cs"
    using assms(2,3) by (simp add: calls_at_def list_all_iff filter_id_conv [THEN iffD2])
  moreover have "calls_at saga step d' = calls_at saga step d" if "(saga, step) \<noteq> (s, t)" for saga step
    using assms(2,3) that by (auto simp: calls_at_def list_all_iff filter_empty_conv)
  ultimately show ?thesis
    using assms(1,4) by (auto simp: refines_def view_def elsewhere_same_def)
qed

lemma emit_Inr: "emit_result rt tr e status terminal reason d = Inr (u, d') \<Longrightarrow> \<exists>tb. d' = d\<lparr>pd_tables := tb\<rparr>"
  by (auto simp: emit_result_def Let_def bindP_Inr tablesP_Inr)

lemma call_Inr:
  assumes "call_service rt service e identity target verdict d = Inr (out, d')"
  shows "d' = d\<lparr>pd_calls := pd_calls d @ [\<lparr>bc_saga_id = vi_saga_id identity, bc_step = vi_step identity,
    bc_phase = vi_phase identity, bc_status = verdict out\<rparr>]\<rparr>"
proof -
  from assms obtain ctx cmd where
    "(case sv_handle service (with_target_phase (x_uuid5 (pr_ext rt)) target ctx) cmd of
         Inl code \<Rightarrow> failP (P_Retryable code)
       | Inr outcome \<Rightarrow> (\<lambda>d. Inr (outcome, d\<lparr>pd_calls := pd_calls d @
           [\<lparr>bc_saga_id = vi_saga_id identity, bc_step = vi_step identity,
             bc_phase = vi_phase identity, bc_status = verdict outcome\<rparr>]\<rparr>))) d = Inr (out, d')"
    by (auto simp: call_service_def bindP_Inr)
  then show ?thesis by (auto split: sum.splits)
qed

lemma claim_commandE:
  assumes "claim_command rt e producer phase body d = Inr (out, d')"
  obtains (duplicate) tb where "out = HandledDuplicate" and "d' = d\<lparr>pd_tables := tb\<rparr>"
  | (claimed) identity tb where "verified_command_identity rt e producer = Inr identity"
      and "vi_phase identity = phase" and "body identity (d\<lparr>pd_tables := tb\<rparr>) = Inr (out, d')"
proof -
  from assms obtain identity claim tb where i: "verified_command_identity rt e producer = Inr identity"
    "vi_phase identity = phase"
    and c: "(case claim of InboxDuplicate \<Rightarrow> returnP HandledDuplicate | InboxClaimed \<Rightarrow> body identity)
      (d\<lparr>pd_tables := tb\<rparr>) = Inr (out, d')"
    by (auto simp: claim_command_def bindP_Inr tablesP_Inr)
  show thesis
  proof (cases claim)
    case InboxDuplicate
    with c show thesis by (intro duplicate [of tb]) auto
  next
    case InboxClaimed
    with c i show thesis by (intro claimed [of identity tb]) auto
  qed
qed

lemma new_gate_keys [simp]:
  "gr_saga_id (new_gate g ef) = gk_saga_id g" "gr_step (new_gate g ef) = gk_step g"
  "at_gate (gk_saga_id g) (gk_step g) (new_gate g ef)"
  by (simp_all add: new_gate_def at_gate_def)

lemma gate_of_keys [simp]: "gk_saga_id (gate_of i e) = vi_saga_id i" "gk_step (gate_of i e) = vi_step i"
  by (simp_all add: gate_of_def)

lemma inserted_Inr [simp]:
  "(case i of Inserted \<Rightarrow> m | UniqueViolation \<Rightarrow> failP er) d = Inr r \<longleftrightarrow> i = Inserted \<and> m d = Inr r"
  by (cases i; cases r) auto

lemma insert_effect:
  assumes "insert_gate row d = Inr (Inserted, d')" and "gr_saga_id row = s" and "gr_step row = t"
  shows "gate_at s t d = None \<and> gate_at s t d' = Some row \<and> pd_calls d' = pd_calls d \<and>
    elsewhere_same s t d d'"
proof -
  from insert_Inr [OF assms(1)] assms(2,3) have "gate_at s t d = None"
    and d': "d' = d\<lparr>pd_gates := pd_gates d @ [row]\<rparr>" by auto
  then show ?thesis
    using assms(2,3) by (auto simp: gate_at_append elsewhere_same_def at_gate_def split: option.splits)
qed

section \<open>Admission and settlement\<close>

lemma admit_execute_Inr:
  assumes "admit_execute g ef d = Inr (a, d1)"
  shows "(if a = ExecAdmitted
     then gate_at (gk_saga_id g) (gk_step g) d = None \<and>
       gate_at (gk_saga_id g) (gk_step g) d1 = Some (new_gate g ef) \<and>
       pd_calls d1 = pd_calls d \<and> elsewhere_same (gk_saga_id g) (gk_step g) d d1
     else d1 = d)"
proof (cases "gate_at (gk_saga_id g) (gk_step g) d")
  case None
  with assms obtain i where "insert_gate (new_gate g ef) d = Inr (i, d1)" and "i = Inserted" "a = ExecAdmitted"
    by (auto simp: admit_execute_def bindP_Inr select_Inr)
  then show ?thesis using insert_effect [of "new_gate g ef" d d1] by simp
next
  case (Some row)
  with assms show ?thesis
    by (cases "gr_forward row") (auto simp: admit_execute_def bindP_Inr select_Inr)
qed

lemma settle_execute_Inr:
  assumes "settle_execute s t f d = Inr (u, d')" and "gate_at s t d = Some r" and "gr_forward r = FwdPending"
  shows "gate_at s t d' = Some (r\<lparr>gr_forward := f\<rparr>) \<and> pd_calls d' = pd_calls d \<and> elsewhere_same s t d d'"
proof -
  from assms(1) obtain n where
    "update_gates (\<lambda>r. at_gate s t r \<and> gr_forward r = FwdPending) (\<lambda>r. r\<lparr>gr_forward := f\<rparr>) d = Inr (n, d')"
    by (auto simp: settle_execute_def bindP_Inr)
  from update_effect [OF this] assms(2,3) show ?thesis by simp
qed

lemma adjudicate_cancel_Inr:
  assumes "adjudicate_cancel g ef ce d = Inr (a, d1)"
  defines "s \<equiv> gk_saga_id g" and "t \<equiv> gk_step g"
  shows "pd_calls d1 = pd_calls d \<and> elsewhere_same s t d d1 \<and>
    (case gate_at s t d of
       None \<Rightarrow> \<exists>row. gate_at s t d1 = Some row \<and> facts_of row = (FwdCancelled, CanConfirmed, CmpNone, ResNone) \<and>
         a = CancelAdjConfirmed
     | Some row \<Rightarrow> a = cancel_adjudication_of (gr_forward row) \<and>
         (if gr_cancel row \<noteq> CanNone then d1 = d
          else \<exists>row'. gate_at s t d1 = Some row' \<and> facts_of row' = (gr_forward row, cancel_status_of a,
            gr_compensation row, gr_resolution row)))"
proof (cases "gate_at s t d")
  case None
  with assms have a: "a = CancelAdjConfirmed" and ins: "insert_gate ((new_gate g ef)\<lparr>gr_forward := FwdCancelled,
       gr_cancel := CanConfirmed, gr_cancel_effect := Some ce\<rparr>) d = Inr (Inserted, d1)"
    by (auto simp: adjudicate_cancel_def bindP_Inr select_Inr)
  from insert_effect [OF ins, of s t] a None show ?thesis
    by (auto simp: facts_of_def new_gate_def s_def t_def)
next
  case (Some row)
  show ?thesis
  proof (cases "gr_cancel row = CanNone")
    case True
    with Some assms obtain n where a: "a = cancel_adjudication_of (gr_forward row)"
      and up: "update_gates (\<lambda>r. at_gate s t r \<and> gr_cancel r = CanNone) (\<lambda>r. r\<lparr>gr_cancel :=
        cancel_status_of (cancel_adjudication_of (gr_forward row)), gr_cancel_effect := Some ce\<rparr>) d = Inr (n, d1)"
      by (auto simp: adjudicate_cancel_def bindP_Inr select_Inr Let_def)
    from update_effect [OF up] a Some True show ?thesis by (auto simp: facts_of_def)
  next
    case False
    with Some assms show ?thesis
      by (auto simp: adjudicate_cancel_def bindP_Inr select_Inr Let_def)
  qed
qed

lemma persist_Inr:
  assumes "persist_existing_cancel_adjudication s t ce c d = Inr (u, d1)"
    and "gate_at s t d = Some row" and "gr_cancel row = CanNone"
  shows "gate_at s t d1 = Some (row\<lparr>gr_cancel := c, gr_cancel_effect := Some ce\<rparr>) \<and>
    pd_calls d1 = pd_calls d \<and> elsewhere_same s t d d1"
proof -
  from assms(1) obtain n where "update_gates (\<lambda>r. at_gate s t r \<and> gr_cancel r = CanNone)
       (\<lambda>r. r\<lparr>gr_cancel := c, gr_cancel_effect := Some ce\<rparr>) d = Inr (n, d1)"
    by (auto simp: persist_existing_cancel_adjudication_def bindP_Inr)
  from update_effect [OF this] assms(2,3) show ?thesis by simp
qed

lemma admit_unknown_Inr:
  assumes "admit_unknown_cancel g ce d = Inr (a, d1)"
  defines "s \<equiv> gk_saga_id g" and "t \<equiv> gk_step g"
  shows "a = ExtAdmitted \<and> pd_calls d1 = pd_calls d \<and> elsewhere_same s t d d1 \<and>
    (\<forall>row. gate_at s t d = Some row \<longrightarrow> gr_cancel row = CanNone \<longrightarrow>
       gate_at s t d1 = Some (row\<lparr>gr_cancel_effect := Some ce\<rparr>))"
proof -
  from assms(1) obtain n where a: "a = ExtAdmitted" and "update_gates (\<lambda>r. at_gate s t r \<and> gr_cancel r = CanNone)
       (\<lambda>r. r\<lparr>gr_cancel_effect := Some ce\<rparr>) d = Inr (n, d1)"
    by (auto simp: admit_unknown_cancel_def bindP_Inr s_def t_def)
  from update_effect [OF this(2)] a show ?thesis by simp
qed

lemma admit_external_Inr:
  assumes "admit_external_cancel g ef ce d = Inr (a, d1)"
  defines "s \<equiv> gk_saga_id g" and "t \<equiv> gk_step g"
  shows "pd_calls d1 = pd_calls d \<and> elsewhere_same s t d d1 \<and>
    (case gate_at s t d of
       None \<Rightarrow> \<exists>row. a = ExtAdmitted \<and> gate_at s t d1 = Some row \<and>
         facts_of row = (FwdPending, CanNone, CmpNone, ResNone)
     | Some row \<Rightarrow>
         if a = ExtAdmitted
         then gr_cancel row = CanNone \<and> gr_forward row \<in> {FwdUnknown, FwdTimedOut} \<and>
           (\<exists>row'. gate_at s t d1 = Some row' \<and> facts_of row' = facts_of row)
         else d1 = d \<or> gr_cancel row = CanNone \<and> gr_forward row \<noteq> FwdPending \<and>
           (\<exists>row'. gate_at s t d1 = Some row' \<and> facts_of row' = (gr_forward row,
              cancel_status_of (cancel_adjudication_of (gr_forward row)), gr_compensation row, gr_resolution row)))"
proof (cases "gate_at s t d")
  case None
  with assms have a: "a = ExtAdmitted" and ins: "insert_gate ((new_gate g ef)\<lparr>gr_cancel_effect := Some ce\<rparr>) d
      = Inr (Inserted, d1)"
    by (auto simp: admit_external_cancel_def bindP_Inr select_Inr)
  from insert_effect [OF ins, of s t] a None show ?thesis
    by (auto simp: facts_of_def new_gate_def s_def t_def)
next
  case (Some row)
  show ?thesis
  proof (cases "gr_cancel row")
    case CanNone
    with Some assms have "(case gr_forward row of
                    FwdCancelled \<Rightarrow>
                      bindP (persist_existing_cancel_adjudication s t ce CanConfirmed)
                        (\<lambda>_. returnP (ExtAlreadyAdjudicated CancelAdjConfirmed))
                  | FwdUnknown \<Rightarrow> admit_unknown_cancel g ce
                  | FwdTimedOut \<Rightarrow> admit_unknown_cancel g ce
                  | FwdPending \<Rightarrow> failP (P_Store ''external cancel gate row was committed in PENDING state'')
                  | terminal \<Rightarrow>
                      bindP (persist_existing_cancel_adjudication s t ce CanAlreadyTerminal)
                        (\<lambda>_. returnP (ExtAlreadyAdjudicated (CancelAdjTerminal terminal)))) d = Inr (a, d1)"
      by (auto simp: admit_external_cancel_def bindP_Inr select_Inr)
    with Some CanNone show ?thesis
      by (cases "gr_forward row")
        (auto simp: bindP_Inr facts_of_def s_def t_def dest: persist_Inr dest!: admit_unknown_Inr)
  qed (use Some assms in \<open>auto simp: admit_external_cancel_def bindP_Inr select_Inr split: if_splits\<close>)
qed

lemma settle_external_Inr:
  assumes "settle_external_cancel s t f c d = Inr (u, d')" and "gate_at s t d = Some r"
    and "gr_cancel r = CanNone" and "gr_forward r \<in> {FwdPending, FwdUnknown, FwdTimedOut}"
  shows "gate_at s t d' = Some (r\<lparr>gr_forward := f, gr_cancel := c\<rparr>) \<and> pd_calls d' = pd_calls d \<and>
    elsewhere_same s t d d'"
proof -
  from assms(1) obtain n where "update_gates (\<lambda>r. at_gate s t r \<and> gr_cancel r = CanNone \<and>
         gr_forward r \<in> {FwdPending, FwdUnknown, FwdTimedOut})
       (\<lambda>r. r\<lparr>gr_forward := f, gr_cancel := c\<rparr>) d = Inr (n, d')"
    by (auto simp: settle_external_cancel_def bindP_Inr)
  from update_effect [OF this] assms(2-) show ?thesis by auto
qed

lemma update_here:
  assumes "update_gates (at_gate s t) f d = Inr (n, d')"
    and "\<And>r. gr_saga_id (f r) = gr_saga_id r \<and> gr_step (f r) = gr_step r"
  shows "gate_at s t d' = map_option f (gate_at s t d) \<and> pd_calls d' = pd_calls d \<and> elsewhere_same s t d d'"
  using update_effect [of s t "\<lambda>_. True" f d n d'] assms by simp

lemma insert_or_fail_Inr: "insert_or_fail row d = Inr (u, d') \<longleftrightarrow> insert_gate row d = Inr (Inserted, d')"
  by (auto simp: insert_or_fail_def bindP_Inr)

lemma admit_compensation_Inr:
  assumes "admit_compensation g ef ce rec d = Inr (a, d1)"
  defines "s \<equiv> gk_saga_id g" and "t \<equiv> gk_step g"
  shows "pd_calls d1 = pd_calls d \<and> elsewhere_same s t d d1 \<and>
    (case gate_at s t d of
       None \<Rightarrow> a \<noteq> CmpAdmitted \<and> (\<exists>row. gate_at s t d1 = Some row \<and>
         facts_of row = (FwdHalted, CanNone, CmpHalted, ResNone))
     | Some row \<Rightarrow>
         if a = CmpAdmitted
         then gr_forward row = FwdSucceeded \<and> gr_compensation row \<in> {CmpNone, CmpHalted} \<and>
           (\<exists>row'. gate_at s t d1 = Some row' \<and> facts_of row' = (FwdSucceeded, gr_cancel row, CmpPending, ResNone))
         else d1 = d \<or> gr_compensation row = CmpNone \<and> gr_forward row \<noteq> FwdSucceeded \<and>
           (\<exists>row'. gate_at s t d1 = Some row' \<and> facts_of row' = (gr_forward row, gr_cancel row, CmpHalted,
              gr_resolution row)))"
proof (cases "gate_at s t d")
  case None
  with assms have a: "a = CmpMissingForwardEffect" and ins: "insert_gate ((new_gate g ef)\<lparr>gr_forward := FwdHalted,
       gr_compensation := CmpHalted, gr_compensate_effect := Some ce\<rparr>) d = Inr (Inserted, d1)"
    by (auto simp: admit_compensation_def bindP_Inr select_Inr insert_or_fail_Inr)
  from insert_effect [OF ins, of s t] a None show ?thesis
    by (auto simp: facts_of_def new_gate_def s_def t_def)
next
  case (Some row)
  with assms have step: "(let forward = gr_forward row; compensation = gr_compensation row; here = at_gate s t
       in if compensation \<in> {CmpSucceeded, CmpUnknown} then returnP (CmpAlreadySettled compensation)
          else if compensation = CmpHalted \<and> (rec = None \<or> forward \<noteq> FwdSucceeded)
          then returnP (CmpAlreadySettled compensation)
          else if compensation = CmpPending
          then failP (P_Store ''compensation gate committed in PENDING state; protocol was bypassed'')
          else if forward \<noteq> FwdSucceeded
          then bindP (update_gates here (\<lambda>r. r\<lparr>gr_compensation := CmpHalted, gr_compensate_effect := Some ce\<rparr>))
                 (\<lambda>_. returnP CmpMissingForwardEffect)
          else bindP (update_gates here (\<lambda>r. r\<lparr>gr_compensation := CmpPending,
                 gr_compensate_effect := Some ce, gr_resolution := ResNone\<rparr>))
                 (\<lambda>_. returnP CmpAdmitted)) d = Inr (a, d1)"
    by (auto simp: admit_compensation_def bindP_Inr select_Inr)
  with Some show ?thesis
    by (cases "gr_compensation row")
      (auto simp: Let_def bindP_Inr facts_of_def dest!: update_here split: if_splits)
qed

lemma settle_compensation_Inr:
  assumes "settle_compensation s t m d = Inr (u, d')" and "gate_at s t d = Some r"
    and "gr_compensation r = CmpPending"
  shows "gate_at s t d' = Some (r\<lparr>gr_compensation := m\<rparr>) \<and> pd_calls d' = pd_calls d \<and> elsewhere_same s t d d'"
proof -
  from assms(1) obtain n where "update_gates (\<lambda>r. at_gate s t r \<and> gr_compensation r = CmpPending)
       (\<lambda>r. r\<lparr>gr_compensation := m\<rparr>) d = Inr (n, d')"
    by (auto simp: settle_compensation_def bindP_Inr)
  from update_effect [OF this] assms(2-) show ?thesis by simp
qed

lemma mark_resolution_Inr:
  assumes "mark_resolution g re r d = Inr (u, d')"
  defines "s \<equiv> gk_saga_id g" and "t \<equiv> gk_step g"
  shows "gate_at s t d' = map_option (\<lambda>row. row\<lparr>gr_resolution := r, gr_resolve_effect := Some re\<rparr>) (gate_at s t d) \<and>
    pd_calls d' = pd_calls d \<and> elsewhere_same s t d d'"
proof -
  from assms(1) obtain n where "update_gates (at_gate s t)
       (\<lambda>row. row\<lparr>gr_resolution := r, gr_resolve_effect := Some re\<rparr>) d = Inr (n, d')"
    by (auto simp: mark_resolution_def bindP_Inr s_def t_def)
  from update_here [OF this] show ?thesis by simp
qed

fun unknown_target :: "ResolutionTarget \<Rightarrow> GateRow \<Rightarrow> bool" where
  "unknown_target TargetForward row = (gr_forward row = FwdUnknown \<and> gr_compensation row \<noteq> CmpUnknown)"
| "unknown_target TargetCompensation row = (gr_compensation row = CmpUnknown)"

lemma admit_resolution_Inr:
  assumes "admit_resolution g ef re rec d = Inr (a, d1)"
  defines "s \<equiv> gk_saga_id g" and "t \<equiv> gk_step g"
  shows "pd_calls d1 = pd_calls d \<and> elsewhere_same s t d d1 \<and>
    (case gate_at s t d of
       None \<Rightarrow> a = ResMissingUnknownEffect \<and> (\<exists>row. gate_at s t d1 = Some row \<and>
         facts_of row = (FwdHalted, CanNone, CmpNone, ResHalted))
     | Some row \<Rightarrow> (\<exists>row'. gate_at s t d1 = Some row' \<and>
         (\<exists>r. facts_of row' = (gr_forward row, gr_cancel row, gr_compensation row, r) \<and>
         (case a of
            ResAdmitted target \<Rightarrow> unknown_target target row \<and> r = ResPending \<and>
              gr_resolution row \<in> {ResNone, ResPending, ResHalted}
          | ResAlreadySettled target status \<Rightarrow> d1 = d \<or> gr_resolution row = ResNone \<and>
              gr_compensation row = CmpNone \<and>
              (gr_forward row, r) \<in> {(FwdSucceeded, ResSucceeded), (FwdRejected, ResRejected)}
          | ResMissingUnknownEffect \<Rightarrow> r = ResHalted \<and> gr_compensation row \<noteq> CmpUnknown \<and>
              gr_forward row \<noteq> FwdUnknown \<and> gr_resolution row \<in> {ResNone, ResPending, ResHalted}))))"
proof (cases "gate_at s t d")
  case None
  with assms have a: "a = ResMissingUnknownEffect" and ins: "insert_gate ((new_gate g ef)\<lparr>gr_forward := FwdHalted,
       gr_resolution := ResHalted, gr_resolve_effect := Some re\<rparr>) d = Inr (Inserted, d1)"
    by (auto simp: admit_resolution_def bindP_Inr select_Inr insert_or_fail_Inr)
  from insert_effect [OF ins, of s t] a None show ?thesis
    by (auto simp: facts_of_def new_gate_def s_def t_def)
next
  case (Some row)
  have marked: "mark_resolution g re r d = Inr (u, d1) \<Longrightarrow> gate_at s t d1 =
      Some (row\<lparr>gr_resolution := r, gr_resolve_effect := Some re\<rparr>) \<and> pd_calls d1 = pd_calls d \<and>
      elsewhere_same s t d d1" for r u
    using mark_resolution_Inr [of g re r d u d1] Some by (simp add: s_def t_def)
  from Some assms have step: "(let forward = gr_forward row; compensation = gr_compensation row;
                 resolution = gr_resolution row
             in if resolution \<in> {ResSucceeded, ResRejected} \<or> resolution = ResHalted \<and> rec = None
                then returnP (ResAlreadySettled (resolved_target forward compensation resolution) resolution)
                else if resolution = ResNone \<and> compensation = CmpNone \<and> forward \<in> {FwdSucceeded, FwdRejected}
                then
                  let status = (if forward = FwdSucceeded then ResSucceeded else ResRejected)
                  in bindP (mark_resolution g re status)
                       (\<lambda>_. returnP (ResAlreadySettled TargetForward status))
                else if compensation = CmpUnknown
                then bindP (mark_resolution g re ResPending) (\<lambda>_. returnP (ResAdmitted TargetCompensation))
                else if forward = FwdUnknown
                then bindP (mark_resolution g re ResPending) (\<lambda>_. returnP (ResAdmitted TargetForward))
                else bindP (mark_resolution g re ResHalted) (\<lambda>_. returnP ResMissingUnknownEffect)) d
      = Inr (a, d1)"
    by (auto simp: admit_resolution_def bindP_Inr select_Inr)
  have open': "gr_resolution row \<in> {ResNone, ResPending, ResHalted}" if "gr_resolution row \<notin> {ResSucceeded, ResRejected}"
    using that by (cases "gr_resolution row") auto
  show ?thesis
    using step Some open'
    by (auto simp: Let_def bindP_Inr facts_of_def dest!: marked split: if_splits)
qed

lemma settle_resolution_Inr:
  assumes "settle_resolution s t target r d = Inr (u, d')" and "gate_at s t d = Some row"
    and "unknown_target target row" and "gr_resolution row = ResPending"
  shows "(\<exists>row'. gate_at s t d' = Some row' \<and> facts_of row' =
      (if target = TargetForward
       then (coalesce (settled_forward r) FwdUnknown,
         if r \<in> {ResSucceeded, ResRejected} \<and> gr_cancel row = CanResolutionPending
         then CanAlreadyTerminal else gr_cancel row, gr_compensation row, r)
       else (gr_forward row, gr_cancel row, coalesce (settled_compensation r) CmpUnknown, r))) \<and>
    pd_calls d' = pd_calls d \<and> elsewhere_same s t d d'"
proof (cases target)
  case TargetForward
  with assms(1) obtain n d1 where up: "update_gates (\<lambda>r. at_gate s t r \<and> gr_forward r = FwdUnknown \<and>
      gr_resolution r = ResPending) (\<lambda>q. q\<lparr>gr_resolution := r, gr_forward := coalesce (settled_forward r) (gr_forward q)\<rparr>) d
      = Inr (n, d1)"
    and rest: "(if r \<in> {ResSucceeded, ResRejected}
       then bindP (update_gates (\<lambda>r. at_gate s t r \<and> gr_cancel r = CanResolutionPending)
              (\<lambda>r. r\<lparr>gr_cancel := CanAlreadyTerminal\<rparr>)) (\<lambda>_. returnP ()) else returnP ()) d1 = Inr (u, d')"
    by (auto simp: settle_resolution_def bindP_Inr)
  have one: "gate_at s t d1 = Some (row\<lparr>gr_resolution := r, gr_forward := coalesce (settled_forward r) FwdUnknown\<rparr>)
      \<and> pd_calls d1 = pd_calls d \<and> elsewhere_same s t d d1"
    using update_effect [OF up] assms(2-) TargetForward by simp
  show ?thesis
  proof (cases "r \<in> {ResSucceeded, ResRejected}")
    case True
    with rest obtain n' where "update_gates (\<lambda>r. at_gate s t r \<and> gr_cancel r = CanResolutionPending)
        (\<lambda>r. r\<lparr>gr_cancel := CanAlreadyTerminal\<rparr>) d1 = Inr (n', d')"
      by (auto simp: bindP_Inr)
    from update_effect [OF this] one True TargetForward show ?thesis
      by (auto simp: facts_of_def intro: elsewhere_trans)
  next
    case False
    with rest one TargetForward show ?thesis by (auto simp: facts_of_def)
  qed
next
  case TargetCompensation
  with assms(1) obtain n where up: "update_gates (\<lambda>r. at_gate s t r \<and> gr_compensation r = CmpUnknown \<and>
      gr_resolution r = ResPending) (\<lambda>q. q\<lparr>gr_resolution := r,
        gr_compensation := coalesce (settled_compensation r) (gr_compensation q)\<rparr>) d = Inr (n, d')"
    by (auto simp: settle_resolution_def bindP_Inr)
  from update_effect [OF up] assms(2-) TargetCompensation show ?thesis by (auto simp: facts_of_def)
qed

section \<open>Handlers\<close>

lemma facts_ofD: "facts_of r = (f, c, m, q) \<Longrightarrow>
    gr_forward r = f \<and> gr_cancel r = c \<and> gr_compensation r = m \<and> gr_resolution r = q"
  by (simp add: facts_of_def)

text \<open>A transaction that admits, calls the handler and settles, seen from its three steps.\<close>

lemma refines_called:
  assumes "elsewhere_same s t d d1" and "pd_calls d1 = pd_calls d"
    and "d2 = d1\<lparr>pd_calls := pd_calls d1 @ [c]\<rparr>" and "bc_saga_id c = s" and "bc_step c = t"
    and "elsewhere_same s t d2 d3" and "pd_calls d3 = pd_calls d2" and "d' = d3\<lparr>pd_tables := tb\<rparr>"
    and "gate_step (map_option facts_of (gate_at s t d), calls_at s t d)
      (map_option facts_of (gate_at s t d3), calls_at s t d @ [(bc_phase c, bc_status c)])"
  shows "refines s t d d'"
proof -
  have "elsewhere_same s t d d3"
    using assms(1,3,6) by (auto intro: elsewhere_trans)
  then have "refines s t d d3"
    using assms by (intro refines_at [where cs = "[c]"]) auto
  then show ?thesis using assms(8) by simp
qed

lemma execute_refines:
  assumes "handle_authenticated_execute rt service e producer trace ok d = Inr (out, d')"
  shows "\<exists>s t. refines s t d d'"
  using assms unfolding handle_authenticated_execute_def
proof (cases rule: claim_commandE)
  case (claimed identity tb)
  let ?s = "vi_saga_id identity" and ?t = "vi_step identity" and ?g = "gate_of identity e"
  let ?ef = "effect_text (pr_ext rt) (vi_effect identity)" and ?d = "d\<lparr>pd_tables := tb\<rparr>"
  from iffD1 [OF bindP_Inr claimed(3)] obtain admission d1 where a: "admit_execute ?g ?ef ?d = Inr (admission, d1)"
    and rest: "(case admission of
         ExecSuppressed \<Rightarrow> returnP HandledSuppressed
       | ExecAlreadyTerminal terminal \<Rightarrow>
           bindP (liftP (forward_to_attempt_status terminal)) (\<lambda>status.
           bindP (emit_result rt trace e status None None)
             (\<lambda>_. returnP (HandledReplayed status)))
       | ExecAdmitted \<Rightarrow>
           bindP (call_service rt service e identity Execute outcome_verdict) (\<lambda>outcome.
             let (forward, status, reason) = execute_arm ok outcome
             in bindP (settle_execute ?s ?t forward) (\<lambda>_.
                bindP (emit_result rt trace e status None reason)
                  (\<lambda>_. returnP (HandledExecuted status))))) d1 = Inr (out, d')"
    by (elim exE conjE) (rule that)
  have "refines ?s ?t ?d d'"
  proof (cases admission)
    case ExecAdmitted
    from admit_execute_Inr [OF a] ExecAdmitted have none: "gate_at ?s ?t ?d = None"
      and row: "gate_at ?s ?t d1 = Some (new_gate ?g ?ef)" and d1: "pd_calls d1 = pd_calls ?d" "elsewhere_same ?s ?t ?d d1"
      by auto
    from rest ExecAdmitted obtain outcome d2 d3 u where
      call: "call_service rt service e identity Execute outcome_verdict d1 = Inr (outcome, d2)"
      and settle: "settle_execute ?s ?t (fst (execute_arm ok outcome)) d2 = Inr (u, d3)"
      and emit: "\<exists>status reason. emit_result rt trace e status None reason d3 = Inr ((), d')"
      by (auto simp: bindP_Inr Let_def split_def) blast
    note d2 = call_Inr [OF call]
    have row3: "gate_at ?s ?t d3 = Some ((new_gate ?g ?ef)\<lparr>gr_forward := fst (execute_arm ok outcome)\<rparr>) \<and>
        pd_calls d3 = pd_calls d2 \<and> elsewhere_same ?s ?t d2 d3"
      using row d2 by (intro settle_execute_Inr [OF settle]) (simp_all add: new_gate_def)
    have "(fst (execute_arm ok outcome), outcome_verdict outcome) \<in> execute_verdicts"
      by (cases outcome) (auto simp: execute_verdicts_def)
    then have "gate_step (map_option facts_of (gate_at ?s ?t ?d), calls_at ?s ?t ?d)
        (map_option facts_of (gate_at ?s ?t d3), calls_at ?s ?t ?d @ [(Execute, outcome_verdict outcome)])"
      using none row3 by (simp add: facts_of_def new_gate_def gate_step.executed)
    moreover from emit obtain tb' where "d' = d3\<lparr>pd_tables := tb'\<rparr>" by (auto dest!: emit_Inr)
    ultimately show ?thesis
      using row3 claimed(2) by (intro refines_called [OF d1(2,1) d2]) auto
  qed (use rest admit_execute_Inr [OF a] in \<open>auto simp: bindP_Inr dest!: emit_Inr\<close>)
  then show ?thesis by auto
qed auto

lemma cancel_local_refines:
  assumes "handle_authenticated_cancel_local rt e producer trace d = Inr (out, d')"
  shows "\<exists>s t. refines s t d d'"
  using assms unfolding handle_authenticated_cancel_local_def
proof (cases rule: claim_commandE)
  case (claimed identity tb)
  let ?s = "vi_saga_id identity" and ?t = "vi_step identity" and ?g = "gate_of identity e"
  let ?d = "d\<lparr>pd_tables := tb\<rparr>"
  from claimed(3) obtain adj d1 where a: "adjudicate_cancel ?g (execute_effect_of rt identity)
       (effect_text (pr_ext rt) (vi_effect identity)) ?d = Inr (adj, d1)"
    and emit: "\<exists>status terminal. emit_result rt trace e status terminal None d1 = Inr ((), d')"
    by (auto simp: bindP_Inr Let_def split_def)
  have "refines ?s ?t ?d d1 \<or> d1 = ?d"
  proof (cases "gate_at ?s ?t ?d")
    case None
    with adjudicate_cancel_Inr [OF a] show ?thesis
      by (auto intro!: refines_at [where cs = "[]"] gate_step.fenced)
  next
    case (Some row)
    show ?thesis
    proof (cases "gr_cancel row = CanNone")
      case True
      with adjudicate_cancel_Inr [OF a] Some obtain row' where "gate_at ?s ?t d1 = Some row'"
        "facts_of row' = (gr_forward row, cancel_status_of (cancel_adjudication_of (gr_forward row)),
          gr_compensation row, gr_resolution row)" "pd_calls d1 = pd_calls ?d" "elsewhere_same ?s ?t ?d d1"
        by auto
      with Some True show ?thesis
        by (intro disjI1 refines_at [where cs = "[]"])
          (simp_all add: facts_of_def [of row] gate_step.cancel_noted)
    qed (use adjudicate_cancel_Inr [OF a] Some in auto)
  qed
  with emit have "refines ?s ?t ?d d'" by (auto dest!: emit_Inr)
  then show ?thesis by auto
qed auto

lemma cancel_arm:
  "external_cancel_result outcome = (f, c, st, te, re) \<Longrightarrow> (f, c, cancel_verdict outcome) \<in> cancel_verdicts"
  by (cases outcome rule: external_cancel_result.cases)
    (auto simp: cancel_verdict_def cancel_verdicts_def split: prod.splits elim: terminal_outcome.elims)

lemma cancel_external_refines:
  assumes "handle_authenticated_cancel_external rt service e producer trace d = Inr (out, d')"
  shows "\<exists>s t. refines s t d d'"
  using assms unfolding handle_authenticated_cancel_external_def
proof (cases rule: claim_commandE)
  case (claimed identity tb)
  let ?s = "vi_saga_id identity" and ?t = "vi_step identity" and ?g = "gate_of identity e"
  let ?d = "d\<lparr>pd_tables := tb\<rparr>"
  from iffD1 [OF bindP_Inr claimed(3)] obtain adm d1 where
    a: "admit_external_cancel ?g (execute_effect_of rt identity)
       (effect_text (pr_ext rt) (vi_effect identity)) ?d = Inr (adm, d1)"
    and rest: "(case adm of
         ExtAlreadyAdjudicated adjudication \<Rightarrow>
           (let (status, terminal) = cancel_adjudication_result adjudication
            in bindP (emit_result rt trace e status terminal None)
                 (\<lambda>_. returnP (HandledReplayed status)))
       | ExtAdmitted \<Rightarrow>
           bindP (call_service rt service e identity Execute cancel_verdict) (\<lambda>outcome.
             let (forward, cancel, status, terminal, reason) = external_cancel_result outcome
             in bindP (settle_external_cancel ?s ?t forward cancel) (\<lambda>_.
                bindP (emit_result rt trace e status terminal (map_option safe_reason_code reason))
                  (\<lambda>_. returnP (HandledExecuted status))))) d1 = Inr (out, d')"
    by (elim exE conjE) (rule that)
  note adm = admit_external_Inr [OF a]
  have d1: "pd_calls d1 = pd_calls ?d" "elsewhere_same ?s ?t ?d d1" using adm by auto
  have "refines ?s ?t ?d d'"
  proof (cases adm)
    case ExtAdmitted
    from rest ExtAdmitted obtain outcome d2 d3 u f c st te re where
      call: "call_service rt service e identity Execute cancel_verdict d1 = Inr (outcome, d2)"
      and res: "external_cancel_result outcome = (f, c, st, te, re)"
      and settle: "settle_external_cancel ?s ?t f c d2 = Inr (u, d3)"
      and emit: "emit_result rt trace e st te (map_option safe_reason_code re) d3 = Inr ((), d')"
      by (auto simp: bindP_Inr Let_def split_def prod_eq_iff)
    note d2 = call_Inr [OF call]
    obtain row where row: "gate_at ?s ?t d1 = Some row" "gr_cancel row = CanNone"
      "gr_forward row \<in> {FwdPending, FwdUnknown, FwdTimedOut}"
      and from': "gate_step (map_option facts_of (gate_at ?s ?t ?d), calls_at ?s ?t ?d)
        (Some (f, c, gr_compensation row, gr_resolution row), calls_at ?s ?t ?d @ [(Cancel, cancel_verdict outcome)])"
    proof (cases "gate_at ?s ?t ?d")
      case None
      with adm obtain row where "gate_at ?s ?t d1 = Some row" "facts_of row = (FwdPending, CanNone, CmpNone, ResNone)"
        by auto
      with None that show thesis
        by (auto dest!: facts_ofD simp: gate_step.cancel_called cancel_arm [OF res])
    next
      case (Some row)
      with adm ExtAdmitted obtain row' where r: "gr_cancel row = CanNone" "gr_forward row \<in> {FwdUnknown, FwdTimedOut}"
        and "gate_at ?s ?t d1 = Some row'" "facts_of row' = facts_of row" by auto
      with Some show thesis
        by (intro that [of row']) (auto simp: facts_of_def intro: gate_step.cancel_unknown cancel_arm [OF res])
    qed
    have row3: "gate_at ?s ?t d3 = Some (row\<lparr>gr_forward := f, gr_cancel := c\<rparr>) \<and> pd_calls d3 = pd_calls d2 \<and>
        elsewhere_same ?s ?t d2 d3"
      using row d2 by (intro settle_external_Inr [OF settle]) simp_all
    moreover from emit obtain tb' where "d' = d3\<lparr>pd_tables := tb'\<rparr>" by (auto dest!: emit_Inr)
    ultimately show ?thesis
      using claimed(2) from' by (intro refines_called [OF d1(2,1) d2]) (auto simp: facts_of_def)
  next
    case (ExtAlreadyAdjudicated adj)
    from rest ExtAlreadyAdjudicated obtain tb' where d': "d' = d1\<lparr>pd_tables := tb'\<rparr>"
      by (auto simp: bindP_Inr Let_def split_def dest!: emit_Inr)
    have "refines ?s ?t ?d d1"
    proof (cases "gate_at ?s ?t ?d")
      case None
      with adm ExtAlreadyAdjudicated show ?thesis by auto
    next
      case (Some row)
      with adm ExtAlreadyAdjudicated consider "d1 = ?d" | row' where "gr_cancel row = CanNone"
        "gate_at ?s ?t d1 = Some row'" "facts_of row' = (gr_forward row,
          cancel_status_of (cancel_adjudication_of (gr_forward row)), gr_compensation row, gr_resolution row)"
        by auto
      then show ?thesis
      proof cases
        case 2
        with Some d1 show ?thesis
          by (intro refines_at [where cs = "[]"]) (simp_all add: facts_of_def [of row] gate_step.cancel_noted)
      qed simp
    qed
    then show ?thesis by (simp add: d')
  qed
  then show ?thesis by auto
qed auto

lemma compensate_refines:
  assumes "handle_authenticated_compensate rt service e producer trace d = Inr (out, d')"
  shows "\<exists>s t. refines s t d d'"
  using assms unfolding handle_authenticated_compensate_def
proof (cases rule: claim_commandE)
  case (claimed identity tb)
  let ?s = "vi_saga_id identity" and ?t = "vi_step identity" and ?g = "gate_of identity e"
  let ?d = "d\<lparr>pd_tables := tb\<rparr>"
  from iffD1 [OF bindP_Inr claimed(3)] obtain adm d1 where
    a: "admit_compensation ?g (execute_effect_of rt identity)
       (effect_text (pr_ext rt) (vi_effect identity)) (ce_recovery_operation_id e) ?d = Inr (adm, d1)"
    and rest: "(case adm of
         CmpAlreadySettled terminal \<Rightarrow>
           bindP (liftP (compensation_to_attempt_status terminal)) (\<lambda>status.
           bindP (emit_result rt trace e status None
             (if terminal = CmpUnknown then Some ''compensation_outcome_unknown''
              else if terminal = CmpHalted then Some ''compensation_already_halted'' else None))
             (\<lambda>_. returnP (HandledReplayed status)))
       | CmpMissingForwardEffect \<Rightarrow>
           bindP (emit_result rt trace e AttHalted None (Some ''compensation_contract_violation''))
             (\<lambda>_. returnP HandledContractViolation)
       | CmpAdmitted \<Rightarrow>
           bindP (call_service rt service e identity Compensate compensate_verdict) (\<lambda>outcome.
             let (compensation, status, reason) = compensate_arm outcome
             in bindP (settle_compensation ?s ?t compensation) (\<lambda>_.
                bindP (emit_result rt trace e status None reason)
                  (\<lambda>_. returnP (HandledExecuted status))))) d1 = Inr (out, d')"
    by (elim exE conjE) (rule that)
  note adm = admit_compensation_Inr [OF a]
  have d1: "pd_calls d1 = pd_calls ?d" "elsewhere_same ?s ?t ?d d1" using adm by auto
  have "refines ?s ?t ?d d'"
  proof (cases "adm = CmpAdmitted")
    case True
    from rest True obtain outcome d2 d3 u m st re where
      call: "call_service rt service e identity Compensate compensate_verdict d1 = Inr (outcome, d2)"
      and arm: "compensate_arm outcome = (m, st, re)" and settle: "settle_compensation ?s ?t m d2 = Inr (u, d3)"
      and emit: "emit_result rt trace e st None re d3 = Inr ((), d')"
      by (auto simp: bindP_Inr Let_def split_def prod_eq_iff)
    note d2 = call_Inr [OF call]
    from adm True obtain row row' where row: "gate_at ?s ?t ?d = Some row" "gr_forward row = FwdSucceeded"
      "gr_compensation row \<in> {CmpNone, CmpHalted}"
      and row': "gate_at ?s ?t d1 = Some row'" "facts_of row' = (FwdSucceeded, gr_cancel row, CmpPending, ResNone)"
      by (auto split: option.splits)
    have row3: "gate_at ?s ?t d3 = Some (row'\<lparr>gr_compensation := m\<rparr>) \<and> pd_calls d3 = pd_calls d2 \<and>
        elsewhere_same ?s ?t d2 d3"
      using row' d2 by (intro settle_compensation_Inr [OF settle]) (auto dest: facts_ofD)
    have "(m, compensate_verdict outcome) \<in> compensate_verdicts"
      using arm by (cases outcome) (auto simp: compensate_verdict_def compensate_verdicts_def)
    then have "gate_step (map_option facts_of (gate_at ?s ?t ?d), calls_at ?s ?t ?d)
        (map_option facts_of (gate_at ?s ?t d3), calls_at ?s ?t ?d @ [(Compensate, compensate_verdict outcome)])"
      using row row' row3 by (auto simp: facts_of_def intro: gate_step.compensated)
    moreover from emit obtain tb' where "d' = d3\<lparr>pd_tables := tb'\<rparr>" by (auto dest!: emit_Inr)
    ultimately show ?thesis
      using row3 claimed(2) by (intro refines_called [OF d1(2,1) d2]) auto
  next
    case False
    with rest obtain tb' where d': "d' = d1\<lparr>pd_tables := tb'\<rparr>"
      by (cases adm) (auto simp: bindP_Inr dest!: emit_Inr)
    have "refines ?s ?t ?d d1 \<or> d1 = ?d"
    proof (cases "gate_at ?s ?t ?d")
      case None
      with adm d1 show ?thesis
        by (auto intro!: refines_at [where cs = "[]"] gate_step.compensation_orphan)
    next
      case (Some row)
      with adm False d1 show ?thesis
        by (auto simp: facts_of_def [of row] intro!: refines_at [where cs = "[]"] gate_step.compensation_refused)
    qed
    with d' show ?thesis by auto
  qed
  then show ?thesis by auto
qed auto

lemma resolve_refines:
  assumes "handle_authenticated_resolve rt service e producer trace d = Inr (out, d')"
  shows "\<exists>s t. refines s t d d'"
  using assms unfolding handle_authenticated_resolve_def
proof (cases rule: claim_commandE)
  case (claimed identity tb)
  let ?s = "vi_saga_id identity" and ?t = "vi_step identity" and ?g = "gate_of identity e"
  let ?d = "d\<lparr>pd_tables := tb\<rparr>"
  from iffD1 [OF bindP_Inr claimed(3)] obtain adm d1 where
    a: "admit_resolution ?g (execute_effect_of rt identity)
       (effect_text (pr_ext rt) (vi_effect identity)) (ce_recovery_operation_id e) ?d = Inr (adm, d1)"
    and rest: "(case adm of
         ResAlreadySettled target settled \<Rightarrow>
           bindP (liftP (resolution_to_attempt_status settled)) (\<lambda>status.
           bindP (emit_result rt trace e status None None)
             (\<lambda>_. returnP (HandledReplayed status)))
       | ResMissingUnknownEffect \<Rightarrow>
           bindP (emit_result rt trace e AttHalted None (Some ''resolution_contract_violation''))
             (\<lambda>_. returnP HandledContractViolation)
       | ResAdmitted target \<Rightarrow>
           bindP (call_service rt service e identity (target_phase_of target) outcome_verdict) (\<lambda>outcome.
             let (resolution, status, reason) = resolve_arm outcome
             in bindP (settle_resolution ?s ?t target resolution) (\<lambda>_.
                bindP (emit_result rt trace e status None reason)
                  (\<lambda>_. returnP (HandledExecuted status))))) d1 = Inr (out, d')"
    by (elim exE conjE) (rule that)
  note adm = admit_resolution_Inr [OF a]
  have d1: "pd_calls d1 = pd_calls ?d" "elsewhere_same ?s ?t ?d d1" using adm by auto
  have "refines ?s ?t ?d d'"
  proof (cases "\<exists>target. adm = ResAdmitted target")
    case True
    then obtain target where adm': "adm = ResAdmitted target" by blast
    with rest obtain outcome d2 d3 u r st re where
      call: "call_service rt service e identity (target_phase_of target) outcome_verdict d1 = Inr (outcome, d2)"
      and arm: "resolve_arm outcome = (r, st, re)" and settle: "settle_resolution ?s ?t target r d2 = Inr (u, d3)"
      and emit: "emit_result rt trace e st None re d3 = Inr ((), d')"
      by (auto simp: bindP_Inr Let_def split_def prod_eq_iff)
    note d2 = call_Inr [OF call]
    from adm adm' obtain row row' where row: "gate_at ?s ?t ?d = Some row" "unknown_target target row"
      "gr_resolution row \<in> {ResNone, ResPending, ResHalted}" and row': "gate_at ?s ?t d1 = Some row'"
      "facts_of row' = (gr_forward row, gr_cancel row, gr_compensation row, ResPending)"
      by (auto split: option.splits)
    have pend: "unknown_target target row'" "gr_resolution row' = ResPending" "gr_cancel row' = gr_cancel row"
      "gr_forward row' = gr_forward row" "gr_compensation row' = gr_compensation row"
      using row row' by (cases target; auto dest!: facts_ofD)+
    have row2: "gate_at ?s ?t d2 = Some row'" using row' d2 by simp
    note row3 = settle_resolution_Inr [OF settle row2 pend(1,2)]
    have v: "(r, outcome_verdict outcome) \<in> resolve_verdicts"
      using arm by (cases outcome) (auto simp: resolve_verdicts_def)
    have "gate_step (map_option facts_of (gate_at ?s ?t ?d), calls_at ?s ?t ?d)
        (map_option facts_of (gate_at ?s ?t d3), calls_at ?s ?t ?d @ [(Resolve, outcome_verdict outcome)])"
    proof (cases target)
      case TargetForward
      with row have "gr_compensation row \<noteq> CmpUnknown" by simp
      from gate_step.resolved_forward [OF v this row(3), of "gr_cancel row" "calls_at ?s ?t ?d"]
        row row3 pend TargetForward show ?thesis
        by (auto simp: facts_of_def [of row])
    next
      case TargetCompensation
      from gate_step.resolved_compensation [OF v row(3), of "gr_forward row" "gr_cancel row" "calls_at ?s ?t ?d"]
        row row3 pend TargetCompensation show ?thesis
        by (auto simp: facts_of_def [of row])
    qed
    moreover from emit obtain tb' where "d' = d3\<lparr>pd_tables := tb'\<rparr>" by (auto dest!: emit_Inr)
    ultimately show ?thesis
      using row3 claimed(2) by (intro refines_called [OF d1(2,1) d2]) auto
  next
    case False
    with rest obtain tb' where d': "d' = d1\<lparr>pd_tables := tb'\<rparr>"
      by (cases adm) (auto simp: bindP_Inr dest!: emit_Inr)
    have "refines ?s ?t ?d d1 \<or> d1 = ?d"
    proof (cases "gate_at ?s ?t ?d")
      case None
      with adm d1 show ?thesis
        by (auto intro!: refines_at [where cs = "[]"] gate_step.resolution_orphan)
    next
      case (Some row)
      with adm False d1 show ?thesis
        by (cases adm) (auto simp: facts_of_def [of row]
            intro!: refines_at [where cs = "[]"] gate_step.resolution_refused gate_step.resolution_replayed)
    qed
    with d' show ?thesis by auto
  qed
  then show ?thesis by auto
qed auto

section \<open>Runs of a participant\<close>

text \<open>The commands a participant receives, each with the handler that serves it. A transaction that
  fails leaves no trace.\<close>

datatype 'v PartAction =
    PExecute "'v SagaOutcome Service" SagaCommandEnvelope ServiceIdentity "TraceContext option" bool
  | PCancelLocal SagaCommandEnvelope ServiceIdentity "TraceContext option"
  | PCancelExternal "CancelOutcome Service" SagaCommandEnvelope ServiceIdentity "TraceContext option"
  | PCompensate "CompensationOutcome Service" SagaCommandEnvelope ServiceIdentity "TraceContext option"
  | PResolve "'v SagaOutcome Service" SagaCommandEnvelope ServiceIdentity "TraceContext option"

fun participant_program :: "ParticipantRuntime \<Rightarrow> 'v PartAction \<Rightarrow> ParticipantHandled ptx" where
  "participant_program rt (PExecute sv e p tr ok) = handle_authenticated_execute rt sv e p tr ok"
| "participant_program rt (PCancelLocal e p tr) = handle_authenticated_cancel_local rt e p tr"
| "participant_program rt (PCancelExternal sv e p tr) = handle_authenticated_cancel_external rt sv e p tr"
| "participant_program rt (PCompensate sv e p tr) = handle_authenticated_compensate rt sv e p tr"
| "participant_program rt (PResolve sv e p tr) = handle_authenticated_resolve rt sv e p tr"

definition participant_transact :: "ParticipantRuntime \<Rightarrow> 'v PartAction \<Rightarrow> PartDb \<Rightarrow> PartDb" where
  "participant_transact rt a d = (case participant_program rt a d of Inl e \<Rightarrow> d | Inr (out, d') \<Rightarrow> d')"

definition participant_run :: "ParticipantRuntime \<Rightarrow> 'v PartAction list \<Rightarrow> PartDb \<Rightarrow> PartDb" where
  "participant_run rt as d = fold (participant_transact rt) as d"

definition empty_participant :: PartDb where
  "empty_participant = \<lparr>pd_gates = [], pd_tables = empty_db, pd_calls = []\<rparr>"

lemma program_refines: "participant_program rt a d = Inr (out, d') \<Longrightarrow> \<exists>s t. refines s t d d'"
  by (cases a)
    (auto intro: execute_refines cancel_local_refines cancel_external_refines compensate_refines resolve_refines)

lemma refines_view: "refines s t d d' \<Longrightarrow> gate_step\<^sup>=\<^sup>= (view saga step d) (view saga step d')"
  by (cases "(saga, step) = (s, t)") (auto simp: refines_def)

lemma transact_view: "gate_step\<^sup>=\<^sup>= (view saga step d) (view saga step (participant_transact rt a d))"
proof (cases "participant_program rt a d")
  case (Inr r)
  then obtain out d' where "participant_program rt a d = Inr (out, d')" by (cases r) auto
  then show ?thesis
    using program_refines refines_view by (fastforce simp: participant_transact_def)
qed (simp add: participant_transact_def)

lemma run_view: "gate_step\<^sup>*\<^sup>* (view saga step d) (view saga step (participant_run rt as d))"
proof (induction as arbitrary: d)
  case (Cons a as)
  have "gate_step\<^sup>*\<^sup>* (view saga step d) (view saga step (participant_transact rt a d))"
    using transact_view [of saga step d rt a] by auto
  also have "gate_step\<^sup>*\<^sup>* \<dots> (view saga step (participant_run rt as (participant_transact rt a d)))"
    by (rule Cons.IH)
  finally show ?case by (simp add: participant_run_def)
qed (simp add: participant_run_def)

lemma run_ok: "gate_ok (view saga step (participant_run rt as empty_participant))"
proof (rule gate_ok_steps [OF run_view])
  show "gate_ok (view saga step empty_participant)"
    by (simp add: view_def gate_at_def calls_at_def empty_participant_def)
qed

text \<open>
  C4: The participant implements the abstract gate machine. From any state, whatever commands and
  business handlers follow, the facts of a gate and the committed calls of its handlers move along
  steps of the machine.
\<close>

theorem participant_refines_gate:
  "gate_step\<^sup>*\<^sup>* (view saga step d) (view saga step (participant_run rt as d))"
  by (rule run_view)

lemma run_append: "participant_run rt (as @ bs) d = participant_run rt bs (participant_run rt as d)"
  by (simp add: participant_run_def)

lemma gate_ok_view:
  assumes "gate_ok (view saga step d)" and "gate_at saga step d = Some row"
  shows "gate_ok (Some (gr_forward row, gr_cancel row, gr_compensation row, gr_resolution row), calls_at saga step d)"
  using assms by (simp add: view_def facts_of_def)

text \<open>
  C5: Effects happen at most once. However often and in whatever order commands are delivered, and
  whatever the handlers answer, at most one call of the forward handler of a step is ever
  committed, and at most one compensation of it that succeeded.
\<close>

theorem participant_effects_once:
  "executions (calls_at saga step (participant_run rt as empty_participant)) \<le> 1 \<and>
   undone (calls_at saga step (participant_run rt as empty_participant)) \<le> 1"
proof (cases "gate_at saga step (participant_run rt as empty_participant)")
  case None
  with run_ok [of saga step rt as] have "calls_at saga step (participant_run rt as empty_participant) = []"
    by (simp add: view_def)
  then show ?thesis by (simp add: executions_def undone_def)
next
  case (Some row)
  from gate_ok_view [OF run_ok this] show ?thesis by simp
qed


lemma run_facts_final: "facts_final (view saga step d) (view saga step (participant_run rt as d))"
  by (rule facts_final_steps [OF run_view])


lemma cancel_confirmed_row:
  assumes "handle_authenticated_cancel_local rt e producer trace d = Inr (HandledExecuted AttCancelConfirmed, d1)"
    and "verified_command_identity rt e producer = Inr identity"
  shows "\<exists>row. gate_at (vi_saga_id identity) (vi_step identity) d1 = Some row \<and> gr_forward row = FwdCancelled"
  using assms(1) unfolding handle_authenticated_cancel_local_def
proof (cases rule: claim_commandE)
  case (claimed identity' tb)
  with assms(2) have i: "identity' = identity" by simp
  from claimed(3) obtain adj d2 where a: "adjudicate_cancel (gate_of identity e) (execute_effect_of rt identity)
       (effect_text (pr_ext rt) (vi_effect identity)) (d\<lparr>pd_tables := tb\<rparr>) = Inr (adj, d2)"
    and st: "fst (cancel_adjudication_result adj) = AttCancelConfirmed"
    and emit: "\<exists>status terminal. emit_result rt trace e status terminal None d2 = Inr ((), d1)"
    by (auto simp: bindP_Inr Let_def split_def i) blast
  have adj: "adj = CancelAdjConfirmed" using st by (cases adj) auto
  have fwd: "cancel_adjudication_of f = CancelAdjConfirmed \<longleftrightarrow> f = FwdCancelled" for f by (cases f) auto
  have "\<exists>row. gate_at (vi_saga_id identity) (vi_step identity) d2 = Some row \<and> gr_forward row = FwdCancelled"
    using adjudicate_cancel_Inr [OF a] adj fwd
    by (auto dest!: facts_ofD split: option.splits if_splits)
  with emit show ?thesis by (auto dest!: emit_Inr)
qed simp

lemma execute_suppressed:
  assumes "gate_at (vi_saga_id identity) (vi_step identity) d = Some row" and "gr_forward row = FwdCancelled"
    and "verified_command_identity rt e producer = Inr identity"
    and "handle_authenticated_execute rt service e producer trace ok d = Inr (out, d')"
  shows "out \<in> {HandledSuppressed, HandledDuplicate} \<and> pd_calls d' = pd_calls d"
  using assms(4) unfolding handle_authenticated_execute_def
proof (cases rule: claim_commandE)
  case (claimed identity' tb)
  with assms(1-3) show ?thesis
    by (auto simp: bindP_Inr admit_execute_def select_Inr)
qed simp


section \<open>Errors that cannot happen\<close>

text \<open>The errors for a gate row that was committed between admission and settlement.\<close>

definition bypass_errors :: "PartError set" where
  "bypass_errors =
     {P_Store ''gate row committed in PENDING state; protocol was bypassed'',
      P_Store ''external cancel gate row was committed in PENDING state'',
      P_Store ''compensation gate committed in PENDING state; protocol was bypassed''}"

definition honest :: "'a ptx \<Rightarrow> bool" where
  "honest m \<longleftrightarrow> (\<forall>d e. m d = Inl e \<longrightarrow> e \<notin> bypass_errors)"

lemma honest_bind: "honest m \<Longrightarrow> (\<And>a. honest (f a)) \<Longrightarrow> honest (bindP m f)"
  by (auto simp: honest_def bindP_def split: sum.splits)

lemma honest_basic:
  "honest (returnP a)" "e \<notin> bypass_errors \<Longrightarrow> honest (failP e)"
  "e \<notin> bypass_errors \<Longrightarrow> honest (requireP b e)" "honest (tablesP m)"
  "honest (update_gates P f)" "honest (insert_gate row)" "honest (select_gate g)"
  by (auto simp: honest_def returnP_def failP_def requireP_def tablesP_def update_gates_def
      insert_gate_def select_gate_def bypass_errors_def split: sum.splits if_splits)

lemma honest_lift: "(\<And>e. r = Inl e \<Longrightarrow> e \<notin> bypass_errors) \<Longrightarrow> honest (liftP r)"
  by (cases r) (auto simp: honest_def liftP_def)

lemma map_err_Inl: "map_err f r = Inl e \<longleftrightarrow> (\<exists>e'. r = Inl e' \<and> e = f e')"
  by (cases r) auto

lemma honest_emit: "honest (emit_result rt tr e status terminal reason)"
  unfolding emit_result_def Let_def
  by (intro honest_bind honest_basic honest_lift) (auto simp: map_err_Inl bypass_errors_def)

lemma honest_call: "honest (call_service rt service e identity target verdict)"
  unfolding call_service_def
proof (intro honest_bind honest_basic honest_lift)
  show "honest (case sv_handle service (with_target_phase (x_uuid5 (pr_ext rt)) target ctx) cmd of
         Inl code \<Rightarrow> failP (P_Retryable code)
       | Inr outcome \<Rightarrow> (\<lambda>d. Inr (outcome, d\<lparr>pd_calls := pd_calls d @
           [\<lparr>bc_saga_id = vi_saga_id identity, bc_step = vi_step identity,
             bc_phase = vi_phase identity, bc_status = verdict outcome\<rparr>]\<rparr>)))" for ctx cmd
    by (auto simp: honest_def failP_def bypass_errors_def split: sum.splits)
qed (auto simp: context_of_def decode_payload_def bindR_Inl_iff map_err_Inl bypass_errors_def split: if_splits)

lemma honest_settle:
  "honest (settle_execute s t f)" "honest (settle_external_cancel s t f c)"
  "honest (settle_compensation s t m)" "honest (settle_resolution s t target r)"
  "honest (insert_or_fail row)" "honest (mark_resolution g ef r)"
  "honest (persist_existing_cancel_adjudication s t ef c)" "honest (admit_unknown_cancel g ef)"
  unfolding settle_execute_def settle_external_cancel_def settle_compensation_def settle_resolution_def
    insert_or_fail_def mark_resolution_def persist_existing_cancel_adjudication_def admit_unknown_cancel_def
  by (cases target; (intro honest_bind honest_basic | simp add: bypass_errors_def honest_basic honest_bind)+)+

lemma bindP_Inl:
  "bindP m f d = Inl e \<longleftrightarrow> m d = Inl e \<or> (\<exists>a d'. m d = Inr (a, d') \<and> f a d' = Inl e)"
  by (auto simp: bindP_def split: sum.splits)

text \<open>Admission after a committed transaction: the row is settled.\<close>

definition settled_at :: "SagaId \<Rightarrow> StepName \<Rightarrow> PartDb \<Rightarrow> bool" where
  "settled_at s t d \<longleftrightarrow> (case gate_at s t d of None \<Rightarrow> True | Some row \<Rightarrow>
     gr_forward row \<noteq> FwdPending \<and> gr_compensation row \<noteq> CmpPending)"

lemma settled_tables [simp]: "settled_at s t (d\<lparr>pd_tables := tb\<rparr>) = settled_at s t d"
  by (simp add: settled_at_def)

lemma contract_Inl: "verify_gate_contract row g = Inl e \<Longrightarrow> e \<notin> bypass_errors"
  by (auto simp: verify_gate_contract_def reject_if_def bypass_errors_def split: if_splits)

lemma existing_cancel_Inl: "existing_cancel c f = Inl e \<Longrightarrow> e \<notin> bypass_errors"
  by (cases c) (auto simp: bypass_errors_def split: if_splits)

lemma honestD: "honest m \<Longrightarrow> m d = Inl e \<Longrightarrow> e \<notin> bypass_errors"
  by (auto simp: honest_def)

lemma select_bind: "bindP (select_gate g) f d = f (gate_at (gk_saga_id g) (gk_step g) d) d"
  by (simp add: bindP_def select_gate_def gate_at_def)

lemmas honest_rules = honest_bind honest_basic honest_lift honest_settle honest_emit honest_call

lemma select_honest:
  assumes "bindP (select_gate g) f d = Inl e"
    and "honest (f (gate_at (gk_saga_id g) (gk_step g) d))"
  shows "e \<notin> bypass_errors"
  using honestD [OF assms(2)] assms(1) by (simp add: select_bind)

lemma admit_execute_honest:
  assumes "admit_execute g ef d = Inl e" and "settled_at (gk_saga_id g) (gk_step g) d"
  shows "e \<notin> bypass_errors"
  using assms(2)
  by (intro select_honest [OF assms(1) [unfolded admit_execute_def]])
    (auto simp: bypass_errors_def settled_at_def dest: contract_Inl
      intro!: honest_rules split: option.splits InsertOutcome.splits StepForwardStatus.splits)

lemma adjudicate_honest:
  assumes "adjudicate_cancel g ef ce d = Inl e"
  shows "e \<notin> bypass_errors"
  by (intro select_honest [OF assms [unfolded adjudicate_cancel_def]])
    (auto simp: bypass_errors_def Let_def dest: contract_Inl
      intro!: honest_rules split: option.splits InsertOutcome.splits)

lemma admit_external_honest:
  assumes "admit_external_cancel g ef ce d = Inl e" and "settled_at (gk_saga_id g) (gk_step g) d"
  shows "e \<notin> bypass_errors"
  using assms(2)
  by (intro select_honest [OF assms(1) [unfolded admit_external_cancel_def]])
    (auto simp: bypass_errors_def settled_at_def dest: contract_Inl existing_cancel_Inl
      intro!: honest_rules split: option.splits InsertOutcome.splits StepForwardStatus.splits)

lemma admit_compensation_honest:
  assumes "admit_compensation g ef ce rec d = Inl e" and "settled_at (gk_saga_id g) (gk_step g) d"
  shows "e \<notin> bypass_errors"
  using assms(2)
  by (intro select_honest [OF assms(1) [unfolded admit_compensation_def]])
    (auto simp: bypass_errors_def settled_at_def Let_def dest: contract_Inl
      intro!: honest_rules split: option.splits)

lemma admit_resolution_honest:
  assumes "admit_resolution g ef re rec d = Inl e"
  shows "e \<notin> bypass_errors"
  by (intro select_honest [OF assms [unfolded admit_resolution_def]])
    (auto simp: bypass_errors_def Let_def dest: contract_Inl
      intro!: honest_rules split: option.splits)

lemma identity_Inl: "verified_command_identity rt e producer = Inl er \<Longrightarrow> er \<notin> bypass_errors"
  by (auto simp: verified_command_identity_def bindR_Inl_iff map_err_Inl verify_command_producer_def
      reject_if_def Let_def split_def bypass_errors_def split: if_splits)

lemma claim_honest:
  assumes "claim_command rt e producer phase body d = Inl er"
    and "\<And>identity tb. body identity (d\<lparr>pd_tables := tb\<rparr>) = Inl er \<Longrightarrow> er \<notin> bypass_errors"
  shows "er \<notin> bypass_errors"
proof -
  have "requireP b (P_Command c) d' = Inl er \<Longrightarrow> er \<notin> bypass_errors" for b c d'
    by (auto simp: requireP_def failP_def returnP_def bypass_errors_def split: if_splits)
  moreover have "tablesP m d' = Inl er \<Longrightarrow> er \<notin> bypass_errors" for m :: "InboxClaim tx" and d'
    by (auto simp: tablesP_def bypass_errors_def split: sum.splits)
  moreover have "liftP (verified_command_identity rt e producer) d' = Inl er \<Longrightarrow> er \<notin> bypass_errors" for d'
    using identity_Inl [of rt e producer] by (cases "verified_command_identity rt e producer") (auto simp: liftP_def)
  ultimately show ?thesis
    using assms unfolding claim_command_def bindP_Inl
    by (elim disjE exE conjE, simp, simp, simp)
      (auto simp: tablesP_Inr returnP_def split: InboxClaim.split_asm)
qed

text \<open>A handler whose admission is honest is honest: everything after the admission is.\<close>

lemma after_honest:
  assumes "bindP admit rest d = Inl er" and "\<And>e. admit d = Inl e \<Longrightarrow> e \<notin> bypass_errors"
    and "\<And>a. honest (rest a)"
  shows "er \<notin> bypass_errors"
  using assms honestD [OF assms(3)] unfolding bindP_Inl by blast

lemma status_Inl:
  "(forward_to_attempt_status f = Inl e \<longrightarrow> e \<notin> bypass_errors) \<and>
   (compensation_to_attempt_status c = Inl e \<longrightarrow> e \<notin> bypass_errors) \<and>
   (resolution_to_attempt_status r = Inl e \<longrightarrow> e \<notin> bypass_errors)"
  by (cases f; cases c; cases r) (auto simp: bypass_errors_def)

lemma execute_honest:
  assumes "handle_authenticated_execute rt service e producer trace ok d = Inl er"
    and "\<And>s t. settled_at s t d"
  shows "er \<notin> bypass_errors"
  using assms(1) unfolding handle_authenticated_execute_def
proof (rule claim_honest, elim after_honest)
  show "e' \<notin> bypass_errors"
    if "admit_execute (gate_of i e) ef (d\<lparr>pd_tables := tb\<rparr>) = Inl e'" for i ef tb e'
    using admit_execute_honest [OF that] assms(2) by simp
qed (auto simp: Let_def split_def status_Inl split: ExecuteAdmission.splits intro!: honest_rules)

lemma cancel_local_honest:
  assumes "handle_authenticated_cancel_local rt e producer trace d = Inl er"
  shows "er \<notin> bypass_errors"
  using assms(1) unfolding handle_authenticated_cancel_local_def
proof (rule claim_honest, elim after_honest)
  show "e' \<notin> bypass_errors"
    if "adjudicate_cancel (gate_of i e) ef ce (d\<lparr>pd_tables := tb\<rparr>) = Inl e'" for i ef ce tb e'
    using adjudicate_honest [OF that] by simp
qed (auto simp: Let_def split_def intro!: honest_rules)

lemma cancel_external_honest:
  assumes "handle_authenticated_cancel_external rt service e producer trace d = Inl er"
    and "\<And>s t. settled_at s t d"
  shows "er \<notin> bypass_errors"
  using assms(1) unfolding handle_authenticated_cancel_external_def
proof (rule claim_honest, elim after_honest)
  show "e' \<notin> bypass_errors"
    if "admit_external_cancel (gate_of i e) ef ce (d\<lparr>pd_tables := tb\<rparr>) = Inl e'" for i ef ce tb e'
    using admit_external_honest [OF that] assms(2) by simp
qed (auto simp: Let_def split_def split: ExternalCancelAdmission.splits intro!: honest_rules)

lemma compensate_honest:
  assumes "handle_authenticated_compensate rt service e producer trace d = Inl er"
    and "\<And>s t. settled_at s t d"
  shows "er \<notin> bypass_errors"
  using assms(1) unfolding handle_authenticated_compensate_def
proof (rule claim_honest, elim after_honest)
  show "e' \<notin> bypass_errors"
    if "admit_compensation (gate_of i e) ef ce r (d\<lparr>pd_tables := tb\<rparr>) = Inl e'" for i ef ce r tb e'
    using admit_compensation_honest [OF that] assms(2) by simp
qed (auto simp: Let_def split_def status_Inl split: CompensationAdmission.splits intro!: honest_rules)

lemma resolve_honest:
  assumes "handle_authenticated_resolve rt service e producer trace d = Inl er"
  shows "er \<notin> bypass_errors"
  using assms(1) unfolding handle_authenticated_resolve_def
proof (rule claim_honest, elim after_honest)
  show "e' \<notin> bypass_errors"
    if "admit_resolution (gate_of i e) ef ce r (d\<lparr>pd_tables := tb\<rparr>) = Inl e'" for i ef ce r tb e'
    using admit_resolution_honest [OF that] by simp
qed (auto simp: Let_def split_def status_Inl split: ResolutionAdmission.splits intro!: honest_rules)

lemma run_settled: "settled_at s t (participant_run rt as empty_participant)"
  using run_ok [of s t rt as]
  by (auto simp: settled_at_def dest: gate_ok_view split: option.splits)

text \<open>
  C15: The protocol is never bypassed. However a participant got where it is, none of its handlers
  fails with one of the three errors for a gate row that was committed between its admission and
  its settlement: no committed transaction leaves a pending row behind.
\<close>

theorem participant_never_bypassed:
  "participant_program rt a (participant_run rt as empty_participant) \<noteq>
     Inl (P_Store ''gate row committed in PENDING state; protocol was bypassed'') \<and>
   participant_program rt a (participant_run rt as empty_participant) \<noteq>
     Inl (P_Store ''external cancel gate row was committed in PENDING state'') \<and>
   participant_program rt a (participant_run rt as empty_participant) \<noteq>
     Inl (P_Store ''compensation gate committed in PENDING state; protocol was bypassed'')"
proof -
  let ?d = "participant_run rt as empty_participant"
  have "er \<notin> bypass_errors" if "participant_program rt a ?d = Inl er" for er
    using that run_settled [of _ _ rt as]
    by (cases a) (auto dest: execute_honest cancel_local_honest cancel_external_honest compensate_honest
        resolve_honest)
  then show ?thesis by (auto simp: bypass_errors_def)
qed

end
