(* ===== verification/Participant_Trust.thy ===== *)
theory Participant_Trust
  imports Participant_Safety
begin

text \<open>
  Who may command a participant (\<open>nasaga-runtime-core/src/participant.rs\<close>): the trust projections a
  runtime is built from, and the view bound to one authenticated producer. A command takes effect
  only for a producer that one of the projections names for its workflow, version and digest.
\<close>

section \<open>The authenticated view\<close>

definition single_trusted_command_producer :: "ParticipantRuntime \<Rightarrow> PartError + ServiceIdentity" where
  "single_trusted_command_producer rt =
     (if card (pr_trusted_producers rt) \<noteq> 1
      then Inl (P_Other ''participant transport requires an explicit producer when trust contains multiple producers'')
      else Inr (the_elem (pr_trusted_producers rt)))"

definition verify_authenticated_command ::
  "ParticipantRuntime \<Rightarrow> SagaCommandEnvelope \<Rightarrow> ServiceIdentity \<Rightarrow> PartError + unit" where
  "verify_authenticated_command rt e producer =
     bindR (verified_command_identity rt e producer) (\<lambda>_. Inr ())"

text \<open>An \<open>AuthenticatedParticipantRuntime\<close> is a runtime and a producer it trusts.\<close>

record AuthenticatedParticipantRuntime =
  ar_runtime :: ParticipantRuntime
  ar_producer :: ServiceIdentity

definition authenticate :: "ParticipantRuntime \<Rightarrow> ServiceIdentity \<Rightarrow> PartError + AuthenticatedParticipantRuntime" where
  "authenticate rt producer =
     bindR (participant_authenticate rt producer) (\<lambda>_. Inr \<lparr>ar_runtime = rt, ar_producer = producer\<rparr>)"

definition authenticated_execute ::
  "AuthenticatedParticipantRuntime \<Rightarrow> 'v SagaOutcome Service \<Rightarrow> SagaCommandEnvelope \<Rightarrow> bool \<Rightarrow>
    ParticipantHandled ptx" where
  "authenticated_execute ar service e unknown_ok =
     handle_authenticated_execute (ar_runtime ar) service e (ar_producer ar) None unknown_ok"

definition authenticated_cancel_local ::
  "AuthenticatedParticipantRuntime \<Rightarrow> SagaCommandEnvelope \<Rightarrow> ParticipantHandled ptx" where
  "authenticated_cancel_local ar e =
     handle_authenticated_cancel_local (ar_runtime ar) e (ar_producer ar) None"

definition authenticated_cancel_external ::
  "AuthenticatedParticipantRuntime \<Rightarrow> CancelOutcome Service \<Rightarrow> SagaCommandEnvelope \<Rightarrow>
    ParticipantHandled ptx" where
  "authenticated_cancel_external ar service e =
     handle_authenticated_cancel_external (ar_runtime ar) service e (ar_producer ar) None"

definition authenticated_compensate ::
  "AuthenticatedParticipantRuntime \<Rightarrow> CompensationOutcome Service \<Rightarrow> SagaCommandEnvelope \<Rightarrow>
    ParticipantHandled ptx" where
  "authenticated_compensate ar service e =
     handle_authenticated_compensate (ar_runtime ar) service e (ar_producer ar) None"

definition authenticated_resolve ::
  "AuthenticatedParticipantRuntime \<Rightarrow> 'v SagaOutcome Service \<Rightarrow> SagaCommandEnvelope \<Rightarrow>
    ParticipantHandled ptx" where
  "authenticated_resolve ar service e =
     handle_authenticated_resolve (ar_runtime ar) service e (ar_producer ar) None"

section \<open>What a projection grants\<close>

definition grants :: "ParticipantCommandTrust \<Rightarrow> SagaCommandEnvelope \<Rightarrow> ServiceIdentity \<Rightarrow> bool" where
  "grants t e producer \<longleftrightarrow>
     ct_producer t = producer \<and> workflow_name_str (ct_workflow t) = ce_workflow e \<and>
     definition_version_get (ct_definition_version t) = ce_definition_version e \<and>
     (ct_definition_digest t = None \<or> ct_definition_digest t = Some (ce_definition_digest e))"

lemma project_trust_sound:
  assumes "project_trust m ts = Inr m'" and "m' key = Some p"
  shows "m key = Some p \<or> (\<exists>t\<in>set ts. trust_key_of t = key \<and> ct_producer t = p)"
  using assms
proof (induction ts arbitrary: m)
  case (Cons t ts)
  then have "project_trust (m(trust_key_of t \<mapsto> ct_producer t)) ts = Inr m'" by (auto split: if_splits)
  from Cons.IH [OF this Cons.prems(2)] show ?case by (auto split: if_splits)
qed simp

lemma build_sound:
  assumes "participant_build x ds cap consumer ts = Inr rt" and "pr_command_trust rt key = Some p"
  shows "\<exists>t\<in>set ts. trust_key_of t = key \<and> ct_producer t = p"
proof -
  from assms(1) have "project_trust Map.empty ts = Inr (pr_command_trust rt)"
    by (auto simp: participant_build_def bindR_Inr_iff)
  from project_trust_sound [OF this assms(2)] show ?thesis by simp
qed

lemma verified_granted:
  assumes "participant_build x ds cap consumer ts = Inr rt"
    and "command_verified (pr_ext rt) e = Inr identity"
    and "verify_command_producer rt producer identity = Inr ()"
  shows "\<exists>t\<in>set ts. grants t e producer"
proof -
  have f: "workflow_name_str (vi_workflow identity) = ce_workflow e"
    "definition_version_get (vi_definition_version identity) = ce_definition_version e"
    "vi_definition_digest identity = ce_definition_digest e"
    using assms(2)
    by (auto simp: command_verified_def command_identity_def bindR_Inr_iff verify_identity_iff
        identity_fields_def split: option.splits if_splits)
  from assms(3) obtain dg where "dg = None \<or> dg = Some (ce_definition_digest e)"
    "pr_command_trust rt (vi_workflow identity, vi_definition_version identity, dg) = Some producer"
    by (auto simp: verify_command_producer_def reject_if_def f split: if_splits)
  with build_sound [OF assms(1) this(2)] f show ?thesis by (auto simp: grants_def trust_key_of_def)
qed

lemma ungranted_rejected:
  assumes "participant_build x ds cap consumer ts = Inr rt" and "\<forall>t\<in>set ts. \<not> grants t e producer"
  shows "verified_command_identity rt e producer \<in>
    {Inl (P_Command Cmd_IdentityInvalid), Inl (P_Command Cmd_ProducerUnauthorized)}"
proof (cases "command_verified (pr_ext rt) e")
  case (Inr identity)
  with verified_granted [OF assms(1) Inr] assms(2) have "verify_command_producer rt producer identity \<noteq> Inr ()"
    by blast
  then have "verify_command_producer rt producer identity = Inl (P_Command Cmd_ProducerUnauthorized)"
    by (auto simp: verify_command_producer_def reject_if_def split: if_splits)
  with Inr show ?thesis by (simp add: verified_command_identity_def)
qed (simp add: verified_command_identity_def)

fun action_envelope :: "'v PartAction \<Rightarrow> SagaCommandEnvelope" where
  "action_envelope (PExecute sv e p tr ok) = e"
| "action_envelope (PCancelLocal e p tr) = e"
| "action_envelope (PCancelExternal sv e p tr) = e"
| "action_envelope (PCompensate sv' e p tr) = e"
| "action_envelope (PResolve sv'' e p tr) = e"

fun action_producer :: "'v PartAction \<Rightarrow> ServiceIdentity" where
  "action_producer (PExecute sv e p tr ok) = p"
| "action_producer (PCancelLocal e p tr) = p"
| "action_producer (PCancelExternal sv e p tr) = p"
| "action_producer (PCompensate sv' e p tr) = p"
| "action_producer (PResolve sv'' e p tr) = p"

lemma program_rejects:
  assumes "verified_command_identity rt (action_envelope a) (action_producer a) = Inl er"
  shows "participant_program rt a d = Inl er"
  using assms
  by (cases a) (simp_all add: handle_authenticated_execute_def handle_authenticated_cancel_local_def
      handle_authenticated_cancel_external_def handle_authenticated_compensate_def
      handle_authenticated_resolve_def claim_command_def bindP_def liftP_def)

text \<open>
  C16: Only trusted orchestrators reach a participant. If no trust projection that the runtime was
  built from names the producer for the workflow, version and digest of the command, the command
  fails as unauthorised or as not identifying itself, and the database stays as it was.
\<close>

theorem untrusted_commands_rejected:
  assumes "participant_build x ds cap consumer ts = Inr rt"
    and "\<forall>t\<in>set ts. \<not> grants t (action_envelope a) (action_producer a)"
  shows "participant_program rt a d \<in>
      {Inl (P_Command Cmd_IdentityInvalid), Inl (P_Command Cmd_ProducerUnauthorized)} \<and>
    participant_transact rt a d = d"
  using ungranted_rejected [OF assms]
  by (auto simp: participant_transact_def program_rejects)

end
