(* ===== verification/Participant_Answers.thy ===== *)
theory Participant_Answers
  imports Participant_Trust
begin

text \<open>
  What a participant answers. The orchestrator learns of a command only through the result event in
  the outbox; the theorem says when there is one and that the orchestrator's verification of it
  gives back the identity of the command.
\<close>

section \<open>Programs that leave the shared tables alone\<close>

definition gates_only :: "'a ptx \<Rightarrow> bool" where
  "gates_only m \<longleftrightarrow> (\<forall>d out d'. m d = Inr (out, d') \<longrightarrow> pd_tables d' = pd_tables d)"

lemma gates_only_bind: "gates_only m \<Longrightarrow> (\<And>a. gates_only (f a)) \<Longrightarrow> gates_only (bindP m f)"
  by (auto simp: gates_only_def bindP_Inr)

lemma gates_only_basic:
  "gates_only (returnP a)" "gates_only (failP er)" "gates_only (requireP b er)" "gates_only (liftP r)"
  "gates_only (update_gates P g)" "gates_only (insert_gate row)" "gates_only (select_gate k)"
  by (auto simp: gates_only_def returnP_def failP_def requireP_def update_gates_def
      insert_gate_def select_gate_def split: if_splits sum.splits)

lemma gates_only_call: "gates_only (call_service rt service e identity target verdict)"
  by (auto simp: gates_only_def dest!: call_Inr)

lemmas gates_rules = gates_only_bind gates_only_basic gates_only_call

lemma gates_only_settle:
  "gates_only (settle_execute s t f)" "gates_only (settle_external_cancel s t f c)"
  "gates_only (settle_compensation s t m)" "gates_only (settle_resolution s t target r)"
  "gates_only (insert_or_fail row)" "gates_only (mark_resolution g ef r)"
  "gates_only (persist_existing_cancel_adjudication s t ef c)" "gates_only (admit_unknown_cancel g ef)"
  unfolding settle_execute_def settle_external_cancel_def settle_compensation_def settle_resolution_def
    insert_or_fail_def mark_resolution_def persist_existing_cancel_adjudication_def admit_unknown_cancel_def
  by (cases target; (intro gates_rules | simp add: gates_rules)+)+

lemma gates_only_admit:
  "gates_only (admit_execute g ef)" "gates_only (adjudicate_cancel g ef ce)"
  "gates_only (admit_external_cancel g ef ce)" "gates_only (admit_compensation g ef ce rec)"
  "gates_only (admit_resolution g ef re rec)"
  unfolding admit_execute_def adjudicate_cancel_def admit_external_cancel_def admit_compensation_def
    admit_resolution_def
  by (auto simp: Let_def intro!: gates_rules gates_only_settle
      split: option.splits InsertOutcome.splits StepForwardStatus.splits)

section \<open>Answers\<close>

text \<open>The verdict a handled command leads to, if it leads to one.\<close>

fun answered :: "ParticipantHandled \<Rightarrow> StepAttemptStatus option" where
  "answered (HandledExecuted status) = Some status"
| "answered HandledDuplicate = None"
| "answered HandledSuppressed = None"
| "answered (HandledReplayed status) = Some status"
| "answered HandledContractViolation = Some AttHalted"

text \<open>The event is the result of the command, with the verdict, and the orchestrator accepts it.\<close>

definition answer_to ::
  "Ext \<Rightarrow> SagaCommandEnvelope \<Rightarrow> VerifiedIdentity \<Rightarrow> StepAttemptStatus \<Rightarrow> OutboxEvent \<Rightarrow> bool" where
  "answer_to x e identity status ev \<longleftrightarrow>
     (\<exists>r. oe_payload ev = x_result_bytes x r \<and> result_verified_for_delivery x r = Inr identity \<and>
        parsed_status r = Inr status \<and> re_command_id r = ce_command_id e \<and>
        oe_event_id ev = derive_result_event_id x (ce_command_id e) \<and> oe_event_type ev = RESULT_EVENT_TYPE \<and>
        oe_aggregate_id ev = ce_saga_id e \<and> oe_tenant ev = ce_tenant_id e)"

definition answers :: "Ext \<Rightarrow> SagaCommandEnvelope \<Rightarrow> VerifiedIdentity \<Rightarrow> ParticipantHandled ptx \<Rightarrow> bool" where
  "answers x e identity m \<longleftrightarrow>
     (\<forall>d out d'. m d = Inr (out, d') \<longrightarrow>
       (case answered out of
          None \<Rightarrow> db_outbox (pd_tables d') = db_outbox (pd_tables d)
        | Some status \<Rightarrow> \<exists>ev. db_outbox (pd_tables d') = db_outbox (pd_tables d) @ [ev] \<and>
            answer_to x e identity status ev))"

lemma answersD:
  assumes "answers x e i m" and "m d = Inr (out, d')"
  shows "case answered out of
       None \<Rightarrow> db_outbox (pd_tables d') = db_outbox (pd_tables d)
     | Some status \<Rightarrow> \<exists>ev. db_outbox (pd_tables d') = db_outbox (pd_tables d) @ [ev] \<and>
         answer_to x e i status ev"
  using assms unfolding answers_def by blast

lemma answers_bind:
  assumes "gates_only m" and "\<And>a. answers x e i (f a)"
  shows "answers x e i (bindP m f)"
  unfolding answers_def
proof (intro allI impI)
  fix d out d'
  assume "bindP m f d = Inr (out, d')"
  then obtain a d1 where 1: "m d = Inr (a, d1)" and 2: "f a d1 = Inr (out, d')" by (auto simp: bindP_Inr)
  from 1 assms(1) have "pd_tables d1 = pd_tables d" by (auto simp: gates_only_def)
  with answersD [OF assms(2) 2]
  show "case answered out of
       None \<Rightarrow> db_outbox (pd_tables d') = db_outbox (pd_tables d)
     | Some status \<Rightarrow> \<exists>ev. db_outbox (pd_tables d') = db_outbox (pd_tables d) @ [ev] \<and>
         answer_to x e i status ev" by (cases "answered out") auto
qed

lemma answers_quiet: "answered out = None \<Longrightarrow> answers x e i (returnP out)"
  by (simp add: answers_def returnP_def)

lemma same_identity:
  assumes "command_verified x e = Inr i" and "result_verified x r = Inr i'"
    and "result_fields r = (ce_saga_id e, ce_tenant_id e, ce_workflow e, ce_definition_version e,
      ce_definition_digest e, ce_step_name e, ce_phase e, ce_attempt e, ce_effect_id e, ce_command_id e)"
  shows "i' = i"
proof -
  have "command_identity x e = Inr i" "result_identity x r = Inr i'"
    using assms(1,2) by (auto simp: command_verified_def result_verified_def bindR_Inr_iff split: option.splits if_splits)
  then show ?thesis
    using assms(3) by (simp add: command_identity_def result_identity_def result_fields_def)
qed

lemma append_outbox: "outbox_append cap tenant ev tb = Inr (u, tb') \<Longrightarrow>
    db_outbox tb' = db_outbox tb @ [ev\<lparr>oe_tenant := tenant\<rparr>]"
  by (auto simp: outbox_append_def bindT_Inr readT_def writeT_def failT_def returnT_def
      split: option.splits if_splits)

lemma emit_answers:
  assumes "emit_result rt tr e status terminal reason d = Inr (u, d')"
    and "command_verified (pr_ext rt) e = Inr i"
  shows "\<exists>ev. db_outbox (pd_tables d') = db_outbox (pd_tables d) @ [ev] \<and> answer_to (pr_ext rt) e i status ev"
proof -
  let ?x = "pr_ext rt"
  let ?r = "\<lparr>re_event_id = derive_result_event_id ?x (ce_command_id e), re_saga_id = ce_saga_id e,
    re_tenant_id = ce_tenant_id e, re_workflow = ce_workflow e,
    re_definition_version = ce_definition_version e, re_definition_digest = ce_definition_digest e,
    re_step_name = ce_step_name e, re_phase = ce_phase e, re_attempt = ce_attempt e,
    re_effect_id = ce_effect_id e, re_command_id = ce_command_id e,
    re_status = attempt_status_as_str status,
    re_terminal_status = map_option forward_status_as_str terminal, re_reason_code = reason\<rparr>"
  from assms(1) obtain ev tb where ev: "result_to_outbox ?x ?r = Inr ev"
    and app: "outbox_append (pr_outbox_cap rt) (ce_tenant_id e) (case tr of None \<Rightarrow> ev
        | Some trace \<Rightarrow> ev\<lparr>oe_traceparent := Some (to_traceparent (x_hex_encode ?x) (trace_child trace (x_span_id ?x)))\<rparr>)
        (pd_tables d) = Inr ((), tb)" and d': "d' = d\<lparr>pd_tables := tb\<rparr>"
    by (auto simp: emit_result_def Let_def bindP_Inr tablesP_Inr)
  from ev obtain i' where v: "result_verified ?x ?r = Inr i'" by (auto simp: result_to_outbox_def bindR_Inr_iff)
  have i: "i' = i" by (rule same_identity [OF assms(2) v]) (simp add: result_fields_def)
  have del: "result_verified_for_delivery ?x ?r = Inr i"
    using v unfolding i by (auto simp: result_verified_def bindR_Inr_iff result_verified_for_delivery_def)
  from v obtain status' where "parsed_status ?r = Inr status'"
    by (auto simp: result_verified_def bindR_Inr_iff verify_result_contract_iff)
  then have st: "parsed_status ?r = Inr status"
    by (auto simp: parsed_status_iff dest!: attempt_status.as_str_inj)
  from append_outbox [OF app] d' show ?thesis
    using ev st del unfolding answer_to_def result_to_outbox_def bindR_Inr_iff
    by (auto intro!: exI [of _ ?r] split: option.splits)
qed

lemma answers_emit:
  assumes "command_verified (pr_ext rt) e = Inr i" and "answered out = Some status"
  shows "answers (pr_ext rt) e i (bindP (emit_result rt tr e status terminal reason) (\<lambda>_. returnP out))"
  using emit_answers [OF _ assms(1)] assms(2) by (fastforce simp: answers_def bindP_Inr)

section \<open>The handlers answer\<close>

lemmas answer_rules = answers_bind answers_quiet gates_rules gates_only_settle gates_only_admit answers_emit

definition replies ::
  "ParticipantRuntime \<Rightarrow> SagaCommandEnvelope \<Rightarrow> ServiceIdentity \<Rightarrow> PartDb \<Rightarrow> ParticipantHandled \<Rightarrow> PartDb \<Rightarrow> bool"
  where
  "replies rt e producer d out d' \<longleftrightarrow>
     (\<exists>i. verified_command_identity rt e producer = Inr i \<and>
       (case answered out of
          None \<Rightarrow> db_outbox (pd_tables d') = db_outbox (pd_tables d)
        | Some status \<Rightarrow> \<exists>ev. db_outbox (pd_tables d') = db_outbox (pd_tables d) @ [ev] \<and>
            answer_to (pr_ext rt) e i status ev))"

lemma claim_answers:
  assumes "claim_command rt e producer phase body d = Inr (out, d')"
    and "\<And>i. command_verified (pr_ext rt) e = Inr i \<Longrightarrow> answers (pr_ext rt) e i (body i)"
  shows "replies rt e producer d out d'"
proof -
  from assms(1) obtain i claim tb where i: "verified_command_identity rt e producer = Inr i"
    and claim: "inbox_claim (pr_consumer rt) (ce_command_id e) (pd_tables d) = Inr (claim, tb)"
    and c: "(case claim of InboxDuplicate \<Rightarrow> returnP HandledDuplicate | InboxClaimed \<Rightarrow> body i)
      (d\<lparr>pd_tables := tb\<rparr>) = Inr (out, d')"
    by (auto simp: claim_command_def bindP_Inr tablesP_Inr)
  have tb: "db_outbox tb = db_outbox (pd_tables d)"
    using claim by (auto simp: inbox_claim_def bindT_Inr requireT_def readT_def writeT_def returnT_def failT_def split: if_splits)
  have v: "command_verified (pr_ext rt) e = Inr i"
    using i by (auto simp: verified_command_identity_def bindR_Inr_iff Let_def split_def)
  show ?thesis
  proof (cases claim)
    case InboxClaimed
    with answersD [OF assms(2) [OF v], of "d\<lparr>pd_tables := tb\<rparr>" out d'] c tb i show ?thesis
      unfolding replies_def by (cases "answered out") auto
  qed (use c tb i in \<open>auto simp: replies_def\<close>)
qed

lemma execute_replies: "handle_authenticated_execute rt sv e p tr ok d = Inr (out, d') \<Longrightarrow> replies rt e p d out d'"
  unfolding handle_authenticated_execute_def
  by (erule claim_answers) (auto simp: Let_def split_def intro!: answer_rules
      split: ExecuteAdmission.splits)

lemma cancel_local_replies: "handle_authenticated_cancel_local rt e p tr d = Inr (out, d') \<Longrightarrow> replies rt e p d out d'"
  unfolding handle_authenticated_cancel_local_def
  by (erule claim_answers) (auto simp: Let_def split_def intro!: answer_rules)

lemma cancel_external_replies: "handle_authenticated_cancel_external rt sv e p tr d = Inr (out, d') \<Longrightarrow> replies rt e p d out d'"
  unfolding handle_authenticated_cancel_external_def
  by (erule claim_answers) (auto simp: Let_def split_def intro!: answer_rules
      split: ExternalCancelAdmission.splits)

lemma compensate_replies: "handle_authenticated_compensate rt sv e p tr d = Inr (out, d') \<Longrightarrow> replies rt e p d out d'"
  unfolding handle_authenticated_compensate_def
  by (erule claim_answers) (auto simp: Let_def split_def intro!: answer_rules
      split: CompensationAdmission.splits)

lemma resolve_replies: "handle_authenticated_resolve rt sv e p tr d = Inr (out, d') \<Longrightarrow> replies rt e p d out d'"
  unfolding handle_authenticated_resolve_def
  by (erule claim_answers) (auto simp: Let_def split_def intro!: answer_rules
      split: ResolutionAdmission.splits)


end
