(* ===== verification/Participant_Scenario.thy ===== *)
theory Participant_Scenario
  imports Saga_Scenario Participant_Answers
begin

text \<open>
  A participant at work: the step of the order workflow is executed and compensated, and another
  one is cancelled before its execute command arrives. The identifiers of the library are stood for
  by texts whose length tells the phase. The theorems on participants are applied here.
\<close>


definition desk_ext :: Ext where
  "desk_ext = sample_ext\<lparr>x_uuid5 := (\<lambda>_ name. replicate (length name) 0),
     x_uuid_text := (\<lambda>bs. replicate (length bs) CHR ''a'')\<rparr>"

definition desk_runtime :: ParticipantRuntime where
  "desk_runtime = \<lparr>pr_ext = desk_ext, pr_consumer = ''desk'',
     pr_trusted_producers = {ServiceIdentity ''orders''},
     pr_command_trust = [(WorkflowName ''order'', DefinitionVersion 1, None) \<mapsto> ServiceIdentity ''orders''],
     pr_descriptors = [], pr_outbox_cap = (\<lambda>_. None)\<rparr>"

abbreviation desk_effect :: "StepPhase \<Rightarrow> EffectId" where
  "desk_effect \<equiv> EffectId_derive (x_uuid5 desk_ext) (SagaId ''s-1'') (DefinitionVersion 1) (StepName ''reserve'')"

definition desk_identity :: "StepPhase \<Rightarrow> VerifiedIdentity" where
  "desk_identity phase =
     \<lparr>vi_saga_id = SagaId ''s-1'', vi_tenant = TenantId ''t-1'', vi_workflow = WorkflowName ''order'',
      vi_definition_version = DefinitionVersion 1, vi_definition_digest = replicate 64 CHR ''0'',
      vi_step = StepName ''reserve'', vi_phase = phase, vi_attempt = AttemptNo 1,
      vi_effect = desk_effect phase,
      vi_command = CommandId_derive (x_uuid5 desk_ext) (desk_effect phase) (AttemptNo 1)\<rparr>"

definition desk_command :: "StepPhase \<Rightarrow> SagaCommandEnvelope" where
  "desk_command phase =
     \<lparr>ce_saga_id = ''s-1'', ce_tenant_id = ''t-1'', ce_workflow = ''order'', ce_definition_version = 1,
      ce_definition_digest = replicate 64 CHR ''0'', ce_step_name = ''reserve'',
      ce_phase = step_phase_as_str phase, ce_attempt = 1,
      ce_effect_id = effect_text desk_ext (vi_effect (desk_identity phase)),
      ce_command_id = command_text desk_ext (vi_command (desk_identity phase)),
      ce_recovery_operation_id = None, ce_payload = None, ce_raw_payload = None\<rparr>"

lemma desk_effect_text [simp]:
  "effect_text desk_ext (desk_effect phase) = replicate (46 + length (step_phase_as_str phase)) CHR ''a''"
  by (simp add: EffectId_derive_def effect_preimage_def effect_text_def desk_ext_def u32_be_def)

lemma desk_command_text [simp]:
  "command_text desk_ext (CommandId_derive (x_uuid5 desk_ext) (desk_effect phase) (AttemptNo 1)) =
     replicate (66 + length (step_phase_as_str phase)) CHR ''a''"
  by (simp add: CommandId_derive_def command_preimage_def command_text_def EffectId_derive_def
      effect_preimage_def desk_ext_def u32_be_def)

lemma desk_event_text [simp]: "derive_result_event_id desk_ext command = replicate (22 + length command) CHR ''a''"
  by (simp add: derive_result_event_id_def desk_ext_def)

lemma desk_phase: "step_phase_parse (step_phase_as_str phase) = Some phase"
  by (cases phase) (simp_all add: step_phase_parse_def)

lemma desk_verified: "command_verified desk_ext (desk_command phase) = Inr (desk_identity phase)"
  by (simp add: command_verified_def command_identity_def verify_identity_def
    desk_command_def desk_identity_def scenario_ids scenario_texts desk_phase DefinitionVersion_new_def
    AttemptNo_new_def Let_def)

lemma desk_payload: "business_payload desk_ext (desk_command phase) = Inr None"
  by (simp add: business_payload_def desk_command_def)

lemma desk_runtime_simps [simp]: "pr_ext desk_runtime = desk_ext" "pr_descriptors desk_runtime = []"
  "pr_consumer desk_runtime = ''desk''" "pr_outbox_cap desk_runtime tenant = None"
  by (simp_all add: desk_runtime_def)

lemma desk_identity:
  "verified_command_identity desk_runtime (desk_command phase) (ServiceIdentity ''orders'') = Inr (desk_identity phase)"
  by (simp add: verified_command_identity_def desk_verified verify_command_producer_def
      verify_payload_contract_def desk_payload desk_runtime_def desk_identity_def)

lemmas ptx_run = returnP_def failP_def bindP_def liftP_def requireP_def tablesP_def

lemma desk_bytes: "x_result_bytes desk_ext r = str_bytes (re_event_id r)"
  by (simp add: desk_ext_def sample_ext_def)

definition desk_result :: "StepPhase \<Rightarrow> OutboxEvent" where
  "desk_result phase =
     \<lparr>oe_event_id = replicate (88 + length (step_phase_as_str phase)) CHR ''a'',
      oe_aggregate_type = SAGA_AGGREGATE_TYPE, oe_aggregate_id = ''s-1'', oe_event_type = RESULT_EVENT_TYPE,
      oe_payload = str_bytes (replicate (88 + length (step_phase_as_str phase)) CHR ''a''),
      oe_traceparent = None, oe_tenant = ''t-1''\<rparr>"

lemma desk_emit:
  assumes "phase_allows_status phase status" "status \<noteq> AttAlreadyTerminal"
    and "list_all (\<lambda>o'. oe_event_id o' \<noteq> oe_event_id (desk_result phase)) (db_outbox (pd_tables d))"
  shows "emit_result desk_runtime None (desk_command phase) status None None d =
    Inr ((), d\<lparr>pd_tables := (pd_tables d)\<lparr>db_outbox := db_outbox (pd_tables d) @ [desk_result phase]\<rparr>\<rparr>)"
proof -
  let ?r = "\<lparr>re_event_id = replicate (88 + length (step_phase_as_str phase)) CHR ''a'',
    re_saga_id = ''s-1'', re_tenant_id = ''t-1'', re_workflow = ''order'',
    re_definition_version = 1, re_definition_digest = replicate 64 CHR ''0'', re_step_name = ''reserve'',
    re_phase = step_phase_as_str phase, re_attempt = 1,
    re_effect_id = effect_text desk_ext (vi_effect (desk_identity phase)),
    re_command_id = command_text desk_ext (vi_command (desk_identity phase)),
    re_status = attempt_status_as_str status, re_terminal_status = None, re_reason_code = None\<rparr>"
  have "valid_SagaId (SagaId ''s-1'')" "valid_WorkflowName (WorkflowName ''order'')"
    "valid_StepName (StepName ''reserve'')" "valid_TenantId (TenantId ''t-1'')" by code_simp+
  moreover have "status \<noteq> AttStarted" using assms(1) by (cases phase) auto
  ultimately have v: "result_verified desk_ext ?r = Inr (desk_identity phase)"
    using assms(1,2)
    by (simp add: result_verified_iff desk_identity_def Let_def identity_ok_def
        result_fields_def identity_fields_def verdict_ok_def terminal_fits_def scenario_texts)
      (rule exI [of _ status], simp)
  have no: "\<not> list_ex (\<lambda>o'. oe_event_id o' = oe_event_id (desk_result phase)) (db_outbox (pd_tables d))"
    using assms(3) by (simp add: list_ex_iff list_all_iff)
  show ?thesis
    using v no
    by (simp add: emit_result_def Let_def desk_command_def desk_identity_def result_to_outbox_def desk_result_def
        ptx_run tx_run outbox_append_def scenario_ids desk_bytes)
qed


section \<open>A step that is executed and undone\<close>

definition reserving :: "string SagaOutcome Service" where
  "reserving = \<lparr>sv_decode = (\<lambda>_. True), sv_handle = (\<lambda>_ _. Inr (OutSucceeded ''r-1''))\<rparr>"

definition releasing :: "CompensationOutcome Service" where
  "releasing = \<lparr>sv_decode = (\<lambda>_. True), sv_handle = (\<lambda>_ _. Inr CoSucceeded)\<rparr>"

definition desk_actions :: "string PartAction list" where
  "desk_actions =
     [PExecute reserving (desk_command Execute) (ServiceIdentity ''orders'') None False,
      PCompensate releasing (desk_command Compensate) (ServiceIdentity ''orders'') None]"

definition desk_call :: "StepPhase \<Rightarrow> BusinessCall" where
  "desk_call phase = \<lparr>bc_saga_id = SagaId ''s-1'', bc_step = StepName ''reserve'', bc_phase = phase, bc_status = AttSucceeded\<rparr>"

definition desk_gate :: GateRow where
  "desk_gate = (new_gate (gate_of (desk_identity Execute) (desk_command Execute)) (replicate 53 CHR ''a''))\<lparr>gr_forward := FwdSucceeded\<rparr>"

definition desk_executed :: PartDb where
  "desk_executed = \<lparr>pd_gates = [desk_gate],
     pd_tables = empty_db\<lparr>db_outbox := [desk_result Execute], db_inbox := [(''desk'', replicate 73 CHR ''a'')]\<rparr>,
     pd_calls = [desk_call Execute]\<rparr>"

lemma desk_inbox_keys: "inbox_key_ok 128 ''desk''" "inbox_key_ok 190 (replicate 73 CHR ''a'')"
  "inbox_key_ok 190 (replicate 76 CHR ''a'')" "inbox_key_ok 190 (replicate 72 CHR ''a'')"
  by code_simp+

lemma desk_fields: "ce_command_id (desk_command phase) = replicate (66 + length (step_phase_as_str phase)) CHR ''a''"
  "vi_phase (desk_identity phase) = phase" "vi_saga_id (desk_identity phase) = SagaId ''s-1''"
  "vi_step (desk_identity phase) = StepName ''reserve''"
  "vi_tenant (desk_identity phase) = TenantId ''t-1''" "vi_workflow (desk_identity phase) = WorkflowName ''order''"
  "vi_definition_version (desk_identity phase) = DefinitionVersion 1"
  "ce_definition_digest (desk_command phase) = replicate 64 CHR ''0''"
  "ce_recovery_operation_id (desk_command phase) = None"
  "execute_effect_of desk_runtime (desk_identity phase) = replicate 53 CHR ''a''"
  "effect_text desk_ext (vi_effect (desk_identity phase)) = replicate (46 + length (step_phase_as_str phase)) CHR ''a''"
  by (simp_all add: desk_command_def desk_identity_def execute_effect_of_def)

lemma desk_calls:
  "call_service desk_runtime reserving (desk_command Execute) (desk_identity Execute) Execute outcome_verdict d =
     Inr (OutSucceeded ''r-1'', d\<lparr>pd_calls := pd_calls d @ [desk_call Execute]\<rparr>)"
  "call_service desk_runtime releasing (desk_command Compensate) (desk_identity Compensate) Compensate compensate_verdict d =
     Inr (CoSucceeded, d\<lparr>pd_calls := pd_calls d @ [desk_call Compensate]\<rparr>)"
  by (simp_all add: call_service_def ptx_run context_of_def decode_payload_def desk_payload reserving_def
      releasing_def desk_fields desk_call_def compensate_verdict_def)

lemmas desk_run = claim_command_def ptx_run tx_run desk_identity inbox_claim_def desk_inbox_keys desk_fields
  desk_calls desk_emit Let_def at_gate_def new_gate_def gate_of_def select_gate_def insert_gate_def
  update_gates_def desk_gate_def scenario_texts

lemma desk_execute:
  "handle_authenticated_execute desk_runtime reserving (desk_command Execute) (ServiceIdentity ''orders'')
     None False empty_participant = Inr (HandledExecuted AttSucceeded, desk_executed)"
  by (simp add: handle_authenticated_execute_def desk_run admit_execute_def settle_execute_def
      empty_participant_def empty_db_def desk_executed_def)

definition desk_undone :: PartDb where
  "desk_undone = \<lparr>pd_gates = [desk_gate\<lparr>gr_compensation := CmpSucceeded,
       gr_compensate_effect := Some (replicate 56 CHR ''a'')\<rparr>],
     pd_tables = empty_db\<lparr>db_outbox := [desk_result Execute, desk_result Compensate],
       db_inbox := [(''desk'', replicate 73 CHR ''a''), (''desk'', replicate 76 CHR ''a'')]\<rparr>,
     pd_calls = [desk_call Execute, desk_call Compensate]\<rparr>"

lemma desk_compensate:
  "handle_authenticated_compensate desk_runtime releasing (desk_command Compensate) (ServiceIdentity ''orders'')
     None desk_executed = Inr (HandledExecuted AttSucceeded, desk_undone)"
  by (simp add: handle_authenticated_compensate_def desk_run admit_compensation_def settle_compensation_def
      verify_gate_contract_def desk_result_def
      empty_db_def desk_executed_def desk_undone_def)

definition desk_cancelled :: PartDb where
  "desk_cancelled = \<lparr>pd_gates = [desk_gate\<lparr>gr_forward := FwdCancelled, gr_cancel := CanConfirmed,
       gr_cancel_effect := Some (replicate 52 CHR ''a'')\<rparr>],
     pd_tables = empty_db\<lparr>db_outbox := [desk_result Cancel], db_inbox := [(''desk'', replicate 72 CHR ''a'')]\<rparr>,
     pd_calls = []\<rparr>"

lemma desk_cancel:
  "handle_authenticated_cancel_local desk_runtime (desk_command Cancel) (ServiceIdentity ''orders'')
     None empty_participant = Inr (HandledExecuted AttCancelConfirmed, desk_cancelled)"
  by (simp add: handle_authenticated_cancel_local_def desk_run adjudicate_cancel_def
      empty_participant_def empty_db_def desk_cancelled_def)

lemma desk_late_execute:
  "handle_authenticated_execute desk_runtime reserving (desk_command Execute) (ServiceIdentity ''orders'')
     None False desk_cancelled = Inr (HandledSuppressed, desk_cancelled\<lparr>pd_tables :=
       (pd_tables desk_cancelled)\<lparr>db_inbox := db_inbox (pd_tables desk_cancelled) @ [(''desk'', replicate 73 CHR ''a'')]\<rparr>\<rparr>)"
  by (simp add: handle_authenticated_execute_def desk_run admit_execute_def verify_gate_contract_def
      empty_db_def desk_cancelled_def)

section \<open>The theorems, applied\<close>

lemma desk_undoes: "participant_run desk_runtime desk_actions empty_participant = desk_undone"
  by (simp add: participant_run_def participant_transact_def desk_actions_def desk_execute desk_compensate)




lemma desk_built:
  "participant_build desk_ext [] (\<lambda>_. None) ''desk''
     [trust_for_definition_version (ServiceIdentity ''orders'') (WorkflowName ''order'') (DefinitionVersion 1)]
   = Inr desk_runtime"
proof -
  have "trim ''desk'' = ''desk''" "list_all consumer_char ''desk''" by code_simp+
  then show ?thesis
    by (simp add: participant_build_def desk_runtime_def trust_for_definition_version_def trust_key_of_def)
qed

theorem untrusted_commands_rejected_witness:
  "participant_build desk_ext [] (\<lambda>_. None) ''desk''
     [trust_for_definition_version (ServiceIdentity ''orders'') (WorkflowName ''order'') (DefinitionVersion 1)]
   = Inr desk_runtime \<and>
   participant_transact desk_runtime (PCancelLocal (desk_command Cancel) (ServiceIdentity ''billing'') None)
     empty_participant = empty_participant"
proof -
  let ?a = "PCancelLocal (desk_command Cancel) (ServiceIdentity ''billing'') None :: string PartAction"
  have "\<forall>t\<in>set [trust_for_definition_version (ServiceIdentity ''orders'') (WorkflowName ''order'') (DefinitionVersion 1)].
      \<not> grants t (action_envelope ?a) (action_producer ?a)"
    by (simp add: grants_def trust_for_definition_version_def)
  from untrusted_commands_rejected [OF desk_built this, of empty_participant] desk_built
  show ?thesis by (simp add: participant_transact_def)
qed


end
