(* ===== verification/Ordered_Map.thy ===== *)
theory Ordered_Map
  imports Prelude
begin

text \<open>
  \<open>std::collections::BTreeMap\<close> as the sources use it: a list of entries in strictly ascending key
  order, so that iteration order is part of the model. The locale \<open>keyed_store\<close> is what the
  clients rely on; the list implementation interprets it.
\<close>

section \<open>The interface\<close>

lemma sum_split_key:
  assumes "finite E" and "\<And>b. (k, b) \<in> E \<longleftrightarrow> b = u"
  shows "(\<Sum>e \<in> E. w (snd e)) = w u + (\<Sum>e \<in> {e \<in> E. fst e \<noteq> k}. w (snd e) :: nat)"
proof -
  let ?R = "{e \<in> E. fst e \<noteq> k}"
  have "e \<in> E \<longleftrightarrow> e \<in> insert (k, u) ?R" for e
    using assms(2) by (cases e) auto
  then have "E = insert (k, u) ?R" by (rule set_eqI)
  then have "(\<Sum>e \<in> E. w (snd e)) = (\<Sum>e \<in> insert (k, u) ?R. w (snd e))"
    by (rule sum.cong) (rule refl)
  also have "\<dots> = w u + (\<Sum>e \<in> ?R. w (snd e))"
    using assms(1) by (subst sum.insert) simp_all
  finally show ?thesis .
qed

locale keyed_store =
  fixes get :: "'m \<Rightarrow> 'k \<Rightarrow> 'v option"
    and put :: "'k \<Rightarrow> 'v \<Rightarrow> 'm \<Rightarrow> 'm"
    and entries :: "'m \<Rightarrow> ('k \<times> 'v) list"
    and ok :: "'m \<Rightarrow> bool"
  assumes get_put: "ok m \<Longrightarrow> get (put k v m) k' = (if k' = k then Some v else get m k')"
    and ok_put: "ok m \<Longrightarrow> ok (put k v m)"
    and get_entries: "ok m \<Longrightarrow> get m k = Some v \<longleftrightarrow> (k, v) \<in> set (entries m)"
    and distinct_entries: "ok m \<Longrightarrow> distinct (map fst (entries m))"
begin

definition total :: "('v \<Rightarrow> nat) \<Rightarrow> 'm \<Rightarrow> nat" where
  "total w m = sum_list (map (\<lambda>(k, v). w v) (entries m))"

lemma total_sum:
  assumes "ok m"
  shows "total w m = (\<Sum>e \<in> set (entries m). w (snd e))"
proof -
  have "distinct (entries m)" using distinct_entries [OF assms] by (simp add: distinct_map)
  then show ?thesis by (simp add: total_def split_def sum_list_distinct_conv_sum_set)
qed

lemma entries_put:
  assumes "ok m"
  shows "set (entries (put k v m)) = insert (k, v) {e \<in> set (entries m). fst e \<noteq> k}"
  using get_entries [OF assms] get_entries [OF ok_put [OF assms]] get_put [OF assms]
  by (auto split: if_splits) (metis option.inject)+

lemma total_put:
  assumes "ok m"
  shows "total w (put k v m) + (case get m k of None \<Rightarrow> 0 | Some u \<Rightarrow> w u) = total w m + w v"
proof -
  let ?E = "set (entries m)" and ?R = "{e \<in> set (entries m). fst e \<noteq> k}"
  have new: "total w (put k v m) = w v + (\<Sum>e \<in> ?R. w (snd e))"
    using entries_put [OF assms] by (simp add: total_sum [OF ok_put [OF assms]])
  show ?thesis
  proof (cases "get m k")
    case None
    then have "(k, u) \<notin> ?E" for u using get_entries [OF assms] by (metis option.distinct(1))
    then have "?R = ?E" by auto
    with None new show ?thesis by (simp add: total_sum [OF assms])
  next
    case (Some u)
    then have "(k, b) \<in> ?E \<longleftrightarrow> b = u" for b
      using get_entries [OF assms, of k b] by auto
    from sum_split_key [OF finite_set this, of w]
    show ?thesis using Some new by (simp add: total_sum [OF assms])
  qed
qed

lemma total_ge:
  assumes "ok m" and "get m k = Some v"
  shows "w v \<le> total w m"
proof -
  have "(k, v) \<in> set (entries m)" using assms get_entries by blast
  from member_le_sum [OF this, of "\<lambda>e. w (snd e)"] show ?thesis
    by (simp add: total_sum [OF assms(1)])
qed

end

section \<open>The implementation\<close>

type_synonym ('k, 'v) btree_map = "('k \<times> 'v) list"

definition btree_ok :: "('k::linorder, 'v) btree_map \<Rightarrow> bool" where
  "btree_ok m = sorted_wrt (<) (map fst m)"

fun btree_insert :: "'k::linorder \<Rightarrow> 'v \<Rightarrow> ('k, 'v) btree_map \<Rightarrow> ('k, 'v) btree_map" where
  "btree_insert k v [] = [(k, v)]"
| "btree_insert k v (e # m) =
     (if fst e < k then e # btree_insert k v m
      else if k = fst e then (k, v) # m
      else (k, v) # e # m)"

definition btree_get :: "('k, 'v) btree_map \<Rightarrow> 'k \<Rightarrow> 'v option" where
  "btree_get m k = map_of m k"

definition btree_retain :: "('k \<Rightarrow> bool) \<Rightarrow> ('k, 'v) btree_map \<Rightarrow> ('k, 'v) btree_map" where
  "btree_retain p m = filter (\<lambda>e. p (fst e)) m"

definition btree_values :: "('k, 'v) btree_map \<Rightarrow> 'v list" where
  "btree_values m = map snd m"

lemma btree_ok_distinct: "btree_ok m \<Longrightarrow> distinct (map fst m)"
  by (simp add: btree_ok_def strict_sorted_iff)

lemma btree_keys_insert: "fst ` set (btree_insert k v m) = insert k (fst ` set m)"
  by (induction m) auto

lemma btree_ok_insert: "btree_ok m \<Longrightarrow> btree_ok (btree_insert k v m)"
  unfolding btree_ok_def
proof (induction m)
  case (Cons e m)
  then show ?case using btree_keys_insert [of k v m]
    by (auto simp flip: set_map)
qed simp

lemma btree_get_insert:
  "btree_get (btree_insert k v m) k' = (if k' = k then Some v else btree_get m k')"
  by (induction m) (auto simp: btree_get_def)

interpretation btree: keyed_store btree_get btree_insert "\<lambda>m. m" btree_ok
proof
  fix m :: "('a, 'b) btree_map" and k v
  show "btree_ok m \<Longrightarrow> btree_get m k = Some v \<longleftrightarrow> (k, v) \<in> set m"
    by (simp add: btree_get_def btree_ok_distinct)
qed (simp_all add: btree_get_insert btree_ok_insert btree_ok_distinct)

lemma btree_retain_ok: "btree_ok m \<Longrightarrow> btree_ok (btree_retain p m)"
  by (simp add: btree_ok_def btree_retain_def sorted_wrt_map sorted_wrt_filter)

lemma btree_get_retain: "btree_get (btree_retain p m) k = (if p k then btree_get m k else None)"
  by (induction m) (auto simp: btree_get_def btree_retain_def)

lemma btree_map_values_ok: "btree_ok (map (\<lambda>(k, v). (k, f k v)) m) = btree_ok m"
  by (simp add: btree_ok_def comp_def split_def)

lemma btree_get_map_values:
  "btree_get (map (\<lambda>(k, v). (k, f k v)) m) k = map_option (f k) (btree_get m k)"
  by (induction m) (auto simp: btree_get_def)

end
