(* ===== verification/Offset_State.thy ===== *)
theory Offset_State
  imports Ordered_Map "HOL-Library.List_Lexorder" "HOL-Library.Char_ord"
begin

text \<open>
  The continuous safe-offset tracker of one partition (\<open>nafka/src/consumer/offset_state.rs\<close>,
  \<open>PartitionOffsetState\<close>): it decides up to which offset a consumer may commit without passing a
  record that was not handled. A method with \<open>&mut self\<close> returns its result and the state it
  leaves behind, also when it fails. Offsets are \<open>i64\<close> values.
\<close>

section \<open>Data\<close>

datatype Tp = Tp (tp_topic: string) (tp_partition: int)

text \<open>The derived order: by topic, then by partition.\<close>

instantiation Tp :: linorder
begin

definition less_eq_Tp :: "Tp \<Rightarrow> Tp \<Rightarrow> bool" where
  "less_eq_Tp a b \<longleftrightarrow> tp_topic a < tp_topic b \<or>
     tp_topic a = tp_topic b \<and> tp_partition a \<le> tp_partition b"

definition less_Tp :: "Tp \<Rightarrow> Tp \<Rightarrow> bool" where
  "less_Tp a b \<longleftrightarrow> tp_topic a < tp_topic b \<or>
     tp_topic a = tp_topic b \<and> tp_partition a < tp_partition b"

instance
  by standard (auto simp: less_eq_Tp_def less_Tp_def Tp.expand)

end

datatype OffsetStateError =
    EpochMismatch nat nat
  | NonIncreasingOffset int int
  | NextOffsetOverflow int
  | InvalidCommitConfirmation "int option" int
  | PartitionProgressFull Tp nat
  | GroupProgressFull nat

fun is_capacity :: "OffsetStateError \<Rightarrow> bool" where
  "is_capacity (PartitionProgressFull tp m) = True"
| "is_capacity (GroupProgressFull m) = True"
| "is_capacity _ = False"

datatype AckSource = AutoOnSuccess | ManualAck

datatype PassthroughSkipReason = NoLocalTarget | TargetNodeMismatch | Loopback | StaleSource

datatype SkipReason =
    InvalidRecord
  | UnmatchedRoute
  | Tombstone
  | AvailabilityFirst
  | Passthrough PassthroughSkipReason

datatype RecordOutcome =
    Acknowledged AckSource
  | Skipped SkipReason
  | DeadLettered
  | Failed
  | Unprocessed

fun is_safe :: "RecordOutcome \<Rightarrow> bool" where
  "is_safe (Acknowledged a) = True"
| "is_safe (Skipped r) = True"
| "is_safe DeadLettered = True"
| "is_safe Failed = False"
| "is_safe Unprocessed = False"

record ObservedOutcome =
  oo_offset :: int
  oo_outcome :: RecordOutcome

record PartitionProgress =
  pp_epoch :: nat
  pp_observed :: "ObservedOutcome list"

record PartitionOffsetState =
  po_baseline :: int
  po_last_confirmed :: "int option"
  po_in_flight :: "PartitionProgress option"

type_synonym 'a offset_result = "OffsetStateError + 'a"

section \<open>Operations\<close>

definition partition_new :: "int option \<Rightarrow> int \<Rightarrow> PartitionOffsetState offset_result" where
  "partition_new committed resolved_start =
     (if (case committed of None \<Rightarrow> False | Some c \<Rightarrow> c < 0) \<or> resolved_start < 0
      then Inl (InvalidCommitConfirmation committed resolved_start)
      else Inr \<lparr>po_baseline = (case committed of None \<Rightarrow> resolved_start | Some c \<Rightarrow> c),
                po_last_confirmed = committed, po_in_flight = None\<rparr>)"

definition partition_observe ::
  "nat \<Rightarrow> int \<Rightarrow> RecordOutcome \<Rightarrow> PartitionOffsetState \<Rightarrow> unit offset_result \<times> PartitionOffsetState" where
  "partition_observe epoch offset outcome s =
     (let progress = (case po_in_flight s of
            Some p \<Rightarrow> p | None \<Rightarrow> \<lparr>pp_epoch = epoch, pp_observed = []\<rparr>);
          s = s\<lparr>po_in_flight := Some progress\<rparr>
      in if pp_epoch progress \<noteq> epoch then (Inl (EpochMismatch (pp_epoch progress) epoch), s)
         else if pp_observed progress \<noteq> [] \<and> offset \<le> oo_offset (last (pp_observed progress))
         then (Inl (NonIncreasingOffset (oo_offset (last (pp_observed progress))) offset), s)
         else (Inr (), s\<lparr>po_in_flight := Some (progress\<lparr>pp_observed :=
                 pp_observed progress @ [\<lparr>oo_offset = offset, oo_outcome = outcome\<rparr>]\<rparr>)\<rparr>))"

fun validate_offsets :: "int option \<Rightarrow> int list \<Rightarrow> unit offset_result" where
  "validate_offsets previous [] = Inr ()"
| "validate_offsets previous (offset # offsets) =
     (case previous of
        Some previous_offset \<Rightarrow>
          if offset \<le> previous_offset then Inl (NonIncreasingOffset previous_offset offset)
          else validate_offsets (Some offset) offsets
      | None \<Rightarrow> validate_offsets (Some offset) offsets)"

definition validate_run :: "nat \<Rightarrow> int list \<Rightarrow> PartitionOffsetState \<Rightarrow> unit offset_result" where
  "validate_run epoch offsets s =
     bindR (case po_in_flight s of
         Some progress \<Rightarrow>
           if pp_epoch progress \<noteq> epoch then Inl (EpochMismatch (pp_epoch progress) epoch) else Inr ()
       | None \<Rightarrow> Inr ()) (\<lambda>_.
       validate_offsets
         (case po_in_flight s of
            None \<Rightarrow> None
          | Some progress \<Rightarrow>
              (if pp_observed progress = [] then None
               else Some (oo_offset (last (pp_observed progress)))))
         offsets)"

definition frontier_of :: "ObservedOutcome list \<Rightarrow> int offset_result" where
  "frontier_of observed =
     (case find (\<lambda>entry. \<not> is_safe (oo_outcome entry)) observed of
        Some entry \<Rightarrow> Inr (oo_offset entry)
      | None \<Rightarrow>
          (let offset = oo_offset (last observed)
           in ok_or (checked_add_i64 offset 1) (NextOffsetOverflow offset)))"

definition committable_next :: "PartitionOffsetState \<Rightarrow> int option offset_result" where
  "committable_next s =
     (case po_in_flight s of
        None \<Rightarrow> Inr None
      | Some progress \<Rightarrow>
          if pp_observed progress = [] then Inr None
          else bindR (frontier_of (pp_observed progress)) (\<lambda>frontier.
            Inr (case po_last_confirmed s of
                Some confirmed \<Rightarrow> (if frontier \<le> confirmed then None else Some frontier)
              | None \<Rightarrow> (if frontier \<le> po_baseline s then None else Some frontier))))"

definition retry_from :: "PartitionOffsetState \<Rightarrow> int option" where
  "retry_from s =
     (case po_in_flight s of
        None \<Rightarrow> None
      | Some progress \<Rightarrow>
          map_option oo_offset (find (\<lambda>o'. \<not> is_safe (oo_outcome o')) (pp_observed progress)))"

definition partition_confirm_committed ::
  "int \<Rightarrow> PartitionOffsetState \<Rightarrow> unit offset_result \<times> PartitionOffsetState" where
  "partition_confirm_committed next_offset s =
     (case committable_next s of
        Inl e \<Rightarrow> (Inl e, s)
      | Inr expected \<Rightarrow>
          if expected \<noteq> Some next_offset
          then (Inl (InvalidCommitConfirmation expected next_offset), s)
          else
            (let s = s\<lparr>po_last_confirmed := Some next_offset, po_baseline := next_offset\<rparr>
             in (Inr (),
                 case po_in_flight s of
                   None \<Rightarrow> s
                 | Some progress \<Rightarrow>
                     (let kept = filter (\<lambda>o'. oo_offset o' \<ge> next_offset) (pp_observed progress)
                      in s\<lparr>po_in_flight :=
                            (if kept = [] then None else Some (progress\<lparr>pp_observed := kept\<rparr>))\<rparr>))))"

definition partition_reset :: "PartitionOffsetState \<Rightarrow> PartitionOffsetState" where
  "partition_reset s = s\<lparr>po_in_flight := None\<rparr>"

definition observed_of :: "PartitionOffsetState \<Rightarrow> ObservedOutcome list" where
  "observed_of s = (case po_in_flight s of None \<Rightarrow> [] | Some progress \<Rightarrow> pp_observed progress)"

definition observed_len :: "PartitionOffsetState \<Rightarrow> nat" where
  "observed_len s = (case po_in_flight s of None \<Rightarrow> 0 | Some progress \<Rightarrow> length (pp_observed progress))"

definition has_unsafe_observation :: "PartitionOffsetState \<Rightarrow> bool" where
  "has_unsafe_observation s =
     (case po_in_flight s of
        None \<Rightarrow> False
      | Some progress \<Rightarrow> list_ex (\<lambda>o'. \<not> is_safe (oo_outcome o')) (pp_observed progress))"

section \<open>Invariant\<close>

text \<open>
  Observations are strictly ascending and never an empty list, offsets are \<open>i64\<close> values, and the
  baseline follows the confirmed offset.
\<close>

definition partition_ok :: "PartitionOffsetState \<Rightarrow> bool" where
  "partition_ok s \<longleftrightarrow>
     sorted_wrt (<) (map oo_offset (observed_of s)) \<and>
     (\<forall>p. po_in_flight s = Some p \<longrightarrow> pp_observed p \<noteq> []) \<and>
     (\<forall>ob \<in> set (observed_of s). i64_min \<le> oo_offset ob \<and> oo_offset ob \<le> i64_max) \<and>
     (\<forall>c. po_last_confirmed s = Some c \<longrightarrow> po_baseline s = c)"

lemma observed_len_of: "observed_len s = length (observed_of s)"
  by (simp add: observed_len_def observed_of_def split: option.split)

lemma retry_from_of: "retry_from s = map_option oo_offset (find (\<lambda>ob. \<not> is_safe (oo_outcome ob)) (observed_of s))"
  by (simp add: retry_from_def observed_of_def split: option.split)

lemma has_unsafe_iff: "has_unsafe_observation s \<longleftrightarrow> retry_from s \<noteq> None"
proof (cases "po_in_flight s")
  case (Some p)
  have "find P xs \<noteq> None \<longleftrightarrow> list_ex P xs" for P :: "ObservedOutcome \<Rightarrow> bool" and xs
    unfolding find_None_iff list_ex_iff by blast
  with Some show ?thesis by (simp add: has_unsafe_observation_def retry_from_def)
qed (simp add: has_unsafe_observation_def retry_from_def)

lemma partition_new_ok:
  "partition_new c start = Inr s \<Longrightarrow> partition_ok s \<and> observed_of s = []"
  by (auto simp: partition_new_def partition_ok_def observed_of_def split: if_splits option.splits)

lemma partition_reset_ok:
  "partition_ok s \<Longrightarrow> partition_ok (partition_reset s) \<and> observed_of (partition_reset s) = []"
  by (auto simp: partition_reset_def partition_ok_def observed_of_def)

text \<open>What a successful observation does, and that a failing one changes nothing.\<close>

lemma observe_Inr:
  assumes "partition_observe epoch offset outcome s = (Inr (), s')"
  shows "observed_of s' = observed_of s @ [\<lparr>oo_offset = offset, oo_outcome = outcome\<rparr>]"
    and "po_last_confirmed s' = po_last_confirmed s" and "po_baseline s' = po_baseline s"
    and "\<exists>p. po_in_flight s' = Some p \<and> pp_epoch p = epoch \<and> pp_observed p \<noteq> []"
    and "observed_of s \<noteq> [] \<Longrightarrow> oo_offset (last (observed_of s)) < offset"
  using assms
  by (auto simp: partition_observe_def Let_def observed_of_def split: if_splits option.splits)

lemma observe_Inl:
  assumes "partition_observe epoch offset outcome s = (Inl e, s')"
  shows "s' = s"
proof (cases "po_in_flight s")
  case (Some p)
  then have "s\<lparr>po_in_flight := Some p\<rparr> = s" by (cases s) simp
  with assms Some show ?thesis
    by (auto simp: partition_observe_def Let_def split: if_splits)
qed (use assms in \<open>simp add: partition_observe_def Let_def\<close>)

lemma observe_succeeds:
  assumes "\<forall>p. po_in_flight s = Some p \<longrightarrow> pp_epoch p = epoch"
    and "\<forall>ob \<in> set (observed_of s). oo_offset ob < offset"
  shows "\<exists>s'. partition_observe epoch offset outcome s = (Inr (), s')"
proof (cases "po_in_flight s")
  case (Some p)
  then have "pp_observed p \<noteq> [] \<Longrightarrow> oo_offset (last (pp_observed p)) < offset"
    using assms(2) by (simp add: observed_of_def)
  with Some assms(1) show ?thesis by (auto simp: partition_observe_def Let_def)
qed (simp add: partition_observe_def)

lemma sorted_last:
  assumes "sorted_wrt (<) (map f xs)" and "xs \<noteq> []" and "x \<in> set xs"
  shows "f x \<le> (f (last xs) :: int)"
proof -
  from assms(3) obtain i where i: "i < length xs" "xs ! i = x" by (auto simp: in_set_conv_nth)
  show ?thesis
  proof (cases "i = length xs - 1")
    case True
    with i assms(2) show ?thesis by (simp add: last_conv_nth)
  next
    case False
    with i have "map f xs ! i < map f xs ! (length xs - 1)"
      by (intro sorted_wrt_nth_less [OF assms(1)]) simp_all
    with i assms(2) show ?thesis by (simp add: last_conv_nth)
  qed
qed

lemma partition_observe_ok:
  assumes "partition_ok s" and "i64_min \<le> offset" and "offset \<le> i64_max"
    and "partition_observe epoch offset outcome s = (r, s')"
  shows "partition_ok s'"
proof (cases r)
  case (Inl e)
  with assms observe_Inl show ?thesis by blast
next
  case (Inr u)
  then have obs: "partition_observe epoch offset outcome s = (Inr (), s')" using assms(4) by simp
  note facts = observe_Inr [OF obs]
  have "\<forall>ob \<in> set (observed_of s). oo_offset ob < offset"
    using assms(1) facts(5) sorted_last [of oo_offset "observed_of s"]
    by (cases "observed_of s = []") (fastforce simp: partition_ok_def)+
  with assms(1-3) facts(1-4) show ?thesis
    by (auto simp: partition_ok_def sorted_wrt_append)
qed

section \<open>The commit frontier\<close>

lemma retry_from_Some:
  assumes "partition_ok s" and "retry_from s = Some n"
  shows "(\<exists>ob \<in> set (observed_of s). oo_offset ob = n \<and> \<not> is_safe (oo_outcome ob)) \<and>
    (\<forall>ob \<in> set (observed_of s). oo_offset ob < n \<longrightarrow> is_safe (oo_outcome ob))"
proof -
  from assms(2) obtain i where i: "i < length (observed_of s)" "oo_offset (observed_of s ! i) = n"
    "\<not> is_safe (oo_outcome (observed_of s ! i))"
    and before: "\<forall>j < i. is_safe (oo_outcome (observed_of s ! j))"
    by (auto simp: retry_from_of find_Some_iff)
  have "is_safe (oo_outcome (observed_of s ! j))"
    if "j < length (observed_of s)" "oo_offset (observed_of s ! j) < n" for j
  proof (rule ccontr)
    assume "\<not> is_safe (oo_outcome (observed_of s ! j))"
    with before i have "i < j" using that(2) by (metis linorder_neqE_nat less_irrefl)
    then have "map oo_offset (observed_of s) ! i < map oo_offset (observed_of s) ! j"
      using assms(1) that(1) by (intro sorted_wrt_nth_less [where P = "(<)"]) (simp_all add: partition_ok_def)
    with that i show False by simp
  qed
  then have "\<forall>ob \<in> set (observed_of s). oo_offset ob < n \<longrightarrow> is_safe (oo_outcome ob)"
    by (auto simp: in_set_conv_nth)
  with i nth_mem [OF i(1)] show ?thesis by blast
qed

lemma retry_from_None:
  "retry_from s = None \<longleftrightarrow> (\<forall>ob \<in> set (observed_of s). is_safe (oo_outcome ob))"
  by (auto simp: retry_from_of find_None_iff)

lemma committable_next_iff:
  assumes "partition_ok s"
  shows "committable_next s = Inr (Some n) \<longleftrightarrow>
    observed_of s \<noteq> [] \<and> po_baseline s < n \<and>
    (retry_from s = Some n \<or>
     retry_from s = None \<and> n = oo_offset (last (observed_of s)) + 1 \<and>
     oo_offset (last (observed_of s)) < i64_max)"
proof (cases "po_in_flight s")
  case (Some p)
  have base: "(case po_last_confirmed s of
        Some c \<Rightarrow> (if f \<le> c then None else Some f)
      | None \<Rightarrow> (if f \<le> po_baseline s then None else Some f)) = Some n \<longleftrightarrow> f = n \<and> po_baseline s < n" for f
    using assms by (auto simp: partition_ok_def split: option.splits)
  from Some assms have "pp_observed p \<noteq> []" "i64_min \<le> oo_offset (last (pp_observed p))"
    "oo_offset (last (pp_observed p)) \<le> i64_max"
    by (simp_all add: partition_ok_def observed_of_def)
  with Some show ?thesis
    by (auto simp: committable_next_def observed_of_def retry_from_def frontier_of_def bindR_Inr_iff base
        checked_add_i64_def i64_min_def Let_def split: option.splits)
qed (simp add: committable_next_def observed_of_def)

lemma frontier_safe:
  assumes ok: "partition_ok s" and offered: "committable_next s = Inr (Some n)"
  shows "\<forall>ob \<in> set (observed_of s). oo_offset ob < n \<longrightarrow> is_safe (oo_outcome ob)"
proof -
  from offered have "retry_from s = Some n \<or> retry_from s = None"
    unfolding committable_next_iff [OF ok] by auto
  then show ?thesis
    using retry_from_Some [OF ok, of n] retry_from_None [of s] by auto
qed

lemma frontier_bound:
  assumes ok: "partition_ok s" and offered: "committable_next s = Inr (Some n)"
  shows "observed_of s \<noteq> [] \<and> n \<le> oo_offset (last (observed_of s)) + 1"
proof -
  from offered have ne: "observed_of s \<noteq> []" and
    n: "retry_from s = Some n \<or> n = oo_offset (last (observed_of s)) + 1"
    unfolding committable_next_iff [OF ok] by blast+
  have "n \<le> oo_offset (last (observed_of s))" if r: "retry_from s = Some n"
  proof -
    obtain ob where ob: "ob \<in> set (observed_of s)" "oo_offset ob = n"
      using retry_from_Some [OF ok r] by blast
    then show ?thesis using sorted_last [of oo_offset "observed_of s" ob] ok ne
      by (simp add: partition_ok_def)
  qed
  with ne n show ?thesis by auto
qed

text \<open>
  C19: The offset offered for commit is exactly the safe frontier. Every observed record below it
  is safe (acknowledged, skipped or dead-lettered), it advances the confirmed position, and no
  larger offset within the observed range has these properties.
\<close>

theorem committable_next_exact:
  assumes ok: "partition_ok s" and offered: "committable_next s = Inr (Some n)"
  shows "po_baseline s < n \<and> n \<le> oo_offset (last (observed_of s)) + 1 \<and>
    (\<forall>ob \<in> set (observed_of s). oo_offset ob < n \<longrightarrow> is_safe (oo_outcome ob)) \<and>
    (\<forall>m. m \<le> oo_offset (last (observed_of s)) + 1 \<and>
       (\<forall>ob \<in> set (observed_of s). oo_offset ob < m \<longrightarrow> is_safe (oo_outcome ob)) \<longrightarrow> m \<le> n)"
proof -
  note cases = offered [unfolded committable_next_iff [OF ok]]
  show ?thesis
  proof (cases "retry_from s")
    case (Some r)
    with cases have "r = n" by auto
    with Some retry_from_Some [OF ok] have n: "\<exists>ob \<in> set (observed_of s). oo_offset ob = n \<and>
        \<not> is_safe (oo_outcome ob)"
      and below: "\<forall>ob \<in> set (observed_of s). oo_offset ob < n \<longrightarrow> is_safe (oo_outcome ob)" by auto
    from n ok have "n \<le> oo_offset (last (observed_of s))"
      using sorted_last [of oo_offset "observed_of s"] by (fastforce simp: partition_ok_def)
    with cases n below show ?thesis by (auto simp: not_le [symmetric])
  next
    case None
    with cases retry_from_None [of s] show ?thesis by auto
  qed
qed

definition sample_tracker :: PartitionOffsetState where
  "sample_tracker = \<lparr>po_baseline = 10, po_last_confirmed = None,
     po_in_flight = Some \<lparr>pp_epoch = 1, pp_observed =
       [\<lparr>oo_offset = 10, oo_outcome = Acknowledged AutoOnSuccess\<rparr>,
        \<lparr>oo_offset = 14, oo_outcome = DeadLettered\<rparr>,
        \<lparr>oo_offset = 15, oo_outcome = Failed\<rparr>,
        \<lparr>oo_offset = 16, oo_outcome = Skipped Tombstone\<rparr>]\<rparr>\<rparr>"

theorem committable_next_exact_witness:
  "partition_ok sample_tracker \<and> committable_next sample_tracker = Inr (Some 15) \<and>
   po_baseline sample_tracker < 15 \<and> 15 \<le> oo_offset (last (observed_of sample_tracker)) + 1"
proof -
  have ok: "partition_ok sample_tracker"
    by (simp add: partition_ok_def sample_tracker_def observed_of_def i64_min_def i64_max_def)
  have offer: "committable_next sample_tracker = Inr (Some 15)" by code_simp
  from committable_next_exact [OF ok offer] ok offer show ?thesis by blast
qed

section \<open>Confirmation\<close>

lemma confirm_Inl: "partition_confirm_committed n s = (Inl e, s') \<Longrightarrow> s' = s"
  by (auto simp: partition_confirm_committed_def Let_def split: sum.splits if_splits)

lemma confirm_Inr_iff:
  "(\<exists>s'. partition_confirm_committed n s = (Inr (), s')) \<longleftrightarrow> committable_next s = Inr (Some n)"
  by (auto simp: partition_confirm_committed_def Let_def split: sum.splits)

lemma confirm_Inr:
  assumes "partition_confirm_committed n s = (Inr (), s')"
  shows "committable_next s = Inr (Some n)" and "po_last_confirmed s' = Some n"
    and "po_baseline s' = n"
    and "observed_of s' = filter (\<lambda>ob. n \<le> oo_offset ob) (observed_of s)"
    and "\<forall>p. po_in_flight s' = Some p \<longrightarrow> pp_observed p \<noteq> [] \<and>
      (\<exists>q. po_in_flight s = Some q \<and> pp_epoch p = pp_epoch q)"
  using assms
  by (auto simp: partition_confirm_committed_def Let_def observed_of_def
      split: sum.splits if_splits option.splits)

lemma partition_confirm_ok:
  assumes "partition_ok s" and "partition_confirm_committed n s = (r, s')"
  shows "partition_ok s'"
proof (cases r)
  case (Inl e)
  with assms confirm_Inl show ?thesis by blast
next
  case (Inr u)
  then have "partition_confirm_committed n s = (Inr (), s')" using assms(2) by simp
  note facts = confirm_Inr [OF this]
  have "sorted_wrt (<) (map oo_offset (filter P (observed_of s)))" for P
    using assms(1) by (simp add: partition_ok_def sorted_wrt_map sorted_wrt_filter)
  with facts assms(1) show ?thesis by (auto simp: partition_ok_def)
qed

end
