(* ===== verification/Offset_Group.thy ===== *)
theory Offset_Group
  imports Offset_State
begin

text \<open>
  The tracker of all partitions of a consumer owner (\<open>nafka/src/consumer/offset_state.rs\<close>,
  \<open>GroupOffsetState\<close>), with its two capacity limits, and the consumption protocol the owner runs
  on it: fetch in offset order, observe, commit the offered offsets, discard progress and seek
  back.
\<close>

section \<open>Data and operations\<close>

record GroupOffsetState =
  go_partitions :: "(Tp, PartitionOffsetState) btree_map"
  go_observed_total :: nat
  go_max_partition_records :: nat
  go_max_group_records :: nat

text \<open>\<open>slice::binary_search_by_key\<close> on the positions \<open>lo..hi\<close>.\<close>

function bsearch :: "(nat \<Rightarrow> int) \<Rightarrow> int \<Rightarrow> nat \<Rightarrow> nat \<Rightarrow> nat option" where
  "bsearch f key lo hi =
     (if lo < hi then
        (let mid = lo + (hi - lo) div 2 in
           if f mid < key then bsearch f key (mid + 1) hi
           else if f mid = key then Some mid
           else bsearch f key lo mid)
      else None)"
  by pat_completeness auto

termination
  by (relation "measure (\<lambda>(f, key, lo, hi). hi - lo)") (auto simp: Let_def)

declare bsearch.simps [simp del]

definition already_safe :: "Tp \<Rightarrow> nat \<Rightarrow> int \<Rightarrow> GroupOffsetState \<Rightarrow> bool" where
  "already_safe tp epoch offset g =
     (case btree_get (go_partitions g) tp of
        None \<Rightarrow> False
      | Some s \<Rightarrow>
          (case po_last_confirmed s of None \<Rightarrow> False | Some n \<Rightarrow> offset < n) \<or>
          (case po_in_flight s of
             None \<Rightarrow> False
           | Some progress \<Rightarrow>
               pp_epoch progress = epoch \<and>
               (case bsearch (\<lambda>i. oo_offset (pp_observed progress ! i)) offset 0
                   (length (pp_observed progress)) of
                  None \<Rightarrow> False
                | Some index \<Rightarrow> is_safe (oo_outcome (pp_observed progress ! index)))))"

definition confirmed_offset :: "Tp \<Rightarrow> GroupOffsetState \<Rightarrow> int option" where
  "confirmed_offset tp g = Option.bind (btree_get (go_partitions g) tp) po_last_confirmed"

definition group_new :: "nat \<Rightarrow> nat \<Rightarrow> GroupOffsetState" where
  "group_new max_partition max_group =
     \<lparr>go_partitions = [], go_observed_total = 0, go_max_partition_records = max_partition,
      go_max_group_records = max_group\<rparr>"

definition partition_len :: "Tp \<Rightarrow> GroupOffsetState \<Rightarrow> nat" where
  "partition_len tp g =
     (case btree_get (go_partitions g) tp of None \<Rightarrow> 0 | Some s \<Rightarrow> observed_len s)"

text \<open>The \<open>entry\<close> match of the two observe methods.\<close>

definition entry_or_new :: "Tp \<Rightarrow> int \<Rightarrow> GroupOffsetState \<Rightarrow> PartitionOffsetState offset_result" where
  "entry_or_new tp offset g =
     (case btree_get (go_partitions g) tp of
        Some s \<Rightarrow> Inr s
      | None \<Rightarrow> partition_new None offset)"

definition group_observe ::
  "Tp \<Rightarrow> nat \<Rightarrow> int \<Rightarrow> RecordOutcome \<Rightarrow> GroupOffsetState \<Rightarrow> unit offset_result \<times> GroupOffsetState" where
  "group_observe tp epoch offset outcome g =
     (if partition_len tp g \<ge> go_max_partition_records g
        then (Inl (PartitionProgressFull tp (go_max_partition_records g)), g)
      else if go_observed_total g \<ge> go_max_group_records g
        then (Inl (GroupProgressFull (go_max_group_records g)), g)
      else case entry_or_new tp offset g of
          Inl e \<Rightarrow> (Inl e, g)
        | Inr s \<Rightarrow>
            (case partition_observe epoch offset outcome s of (r, s') \<Rightarrow>
               let g = g\<lparr>go_partitions := btree_insert tp s' (go_partitions g)\<rparr>
               in case r of
                    Inl e \<Rightarrow> (Inl e, g)
                  | Inr _ \<Rightarrow> (Inr (), g\<lparr>go_observed_total := go_observed_total g + 1\<rparr>)))"

fun observe_all ::
  "nat \<Rightarrow> (int \<times> RecordOutcome) list \<Rightarrow> PartitionOffsetState \<Rightarrow>
    unit offset_result \<times> PartitionOffsetState" where
  "observe_all epoch [] s = (Inr (), s)"
| "observe_all epoch ((offset, outcome) # outcomes) s =
     (case partition_observe epoch offset outcome s of
        (Inl e, s') \<Rightarrow> (Inl e, s')
      | (Inr _, s') \<Rightarrow> observe_all epoch outcomes s')"

definition observe_run ::
  "Tp \<Rightarrow> nat \<Rightarrow> (int \<times> RecordOutcome) list \<Rightarrow> GroupOffsetState \<Rightarrow>
    unit offset_result \<times> GroupOffsetState" where
  "observe_run tp epoch outcomes g =
     (if outcomes = [] then (Inr (), g)
      else case checked_add_u64 (partition_len tp g) (length outcomes) of
          None \<Rightarrow> (Inl (PartitionProgressFull tp (go_max_partition_records g)), g)
        | Some next_partition \<Rightarrow>
      if next_partition > go_max_partition_records g
        then (Inl (PartitionProgressFull tp (go_max_partition_records g)), g)
      else case checked_add_u64 (go_observed_total g) (length outcomes) of
          None \<Rightarrow> (Inl (GroupProgressFull (go_max_group_records g)), g)
        | Some next_group \<Rightarrow>
      if next_group > go_max_group_records g
        then (Inl (GroupProgressFull (go_max_group_records g)), g)
      else case bindR (entry_or_new tp (fst (hd outcomes)) g) (validate_run epoch (map fst outcomes)) of
          Inl e \<Rightarrow> (Inl e, g)
        | Inr _ \<Rightarrow>
      (case entry_or_new tp (fst (hd outcomes)) g of
         Inl e \<Rightarrow> (Inl e, g)
       | Inr s \<Rightarrow>
           (case observe_all epoch outcomes s of (r, s') \<Rightarrow>
              let g = g\<lparr>go_partitions := btree_insert tp s' (go_partitions g)\<rparr>
              in case r of
                   Inl e \<Rightarrow> (Inl e, g)
                 | Inr _ \<Rightarrow> (Inr (), g\<lparr>go_observed_total := next_group\<rparr>))))"

fun collect_committable ::
  "(Tp, PartitionOffsetState) btree_map \<Rightarrow> (Tp, int) btree_map offset_result" where
  "collect_committable [] = Inr []"
| "collect_committable ((tp, s) # ps) =
     (case committable_next s of
        Inl e \<Rightarrow> Inl e
      | Inr None \<Rightarrow> collect_committable ps
      | Inr (Some offset) \<Rightarrow> map_sum id (\<lambda>m. (tp, offset) # m) (collect_committable ps))"

definition committable_offsets :: "GroupOffsetState \<Rightarrow> (Tp, int) btree_map offset_result" where
  "committable_offsets g = collect_committable (go_partitions g)"

definition recount :: "GroupOffsetState \<Rightarrow> GroupOffsetState" where
  "recount g = g\<lparr>go_observed_total := sum_list (map observed_len (btree_values (go_partitions g)))\<rparr>"

fun check_confirmation ::
  "(Tp, PartitionOffsetState) btree_map \<Rightarrow> (Tp \<times> int) list \<Rightarrow> unit offset_result" where
  "check_confirmation ps [] = Inr ()"
| "check_confirmation ps ((tp, offset) # offsets) =
     bindR (case btree_get ps tp of None \<Rightarrow> Inr None | Some s \<Rightarrow> committable_next s) (\<lambda>expected.
       if expected \<noteq> Some offset then Inl (InvalidCommitConfirmation expected offset)
       else check_confirmation ps offsets)"

text \<open>The second loop of \<open>confirm_committed\<close>; \<open>None\<close> is the panic of its \<open>expect\<close>.\<close>

fun confirm_all ::
  "(Tp \<times> int) list \<Rightarrow> (Tp, PartitionOffsetState) btree_map \<Rightarrow>
    (unit offset_result \<times> (Tp, PartitionOffsetState) btree_map) option" where
  "confirm_all [] ps = Some (Inr (), ps)"
| "confirm_all ((tp, offset) # offsets) ps =
     (case btree_get ps tp of
        None \<Rightarrow> None
      | Some s \<Rightarrow>
          (case partition_confirm_committed offset s of
             (Inl e, s') \<Rightarrow> Some (Inl e, btree_insert tp s' ps)
           | (Inr _, s') \<Rightarrow> confirm_all offsets (btree_insert tp s' ps)))"

definition group_confirm_committed ::
  "(Tp, int) btree_map \<Rightarrow> GroupOffsetState \<Rightarrow> (unit offset_result \<times> GroupOffsetState) option" where
  "group_confirm_committed offsets g =
     (case check_confirmation (go_partitions g) offsets of
        Inl e \<Rightarrow> Some (Inl e, g)
      | Inr _ \<Rightarrow>
          map_option (\<lambda>(r, ps). case r of
              Inl e \<Rightarrow> (Inl e, g\<lparr>go_partitions := ps\<rparr>)
            | Inr _ \<Rightarrow> (Inr (), recount (g\<lparr>go_partitions := ps\<rparr>)))
            (confirm_all offsets (go_partitions g)))"

definition reset_partition :: "Tp \<Rightarrow> GroupOffsetState \<Rightarrow> GroupOffsetState" where
  "reset_partition tp g =
     recount (case btree_get (go_partitions g) tp of
         None \<Rightarrow> g
       | Some s \<Rightarrow> g\<lparr>go_partitions := btree_insert tp (partition_reset s) (go_partitions g)\<rparr>)"

definition reset_for_assignment :: "Tp list \<Rightarrow> GroupOffsetState \<Rightarrow> GroupOffsetState" where
  "reset_for_assignment assigned g =
     recount (g\<lparr>go_partitions := map (\<lambda>(tp, s). (tp, partition_reset s))
       (btree_retain (\<lambda>tp. tp \<in> set assigned) (go_partitions g))\<rparr>)"

definition group_clear :: "GroupOffsetState \<Rightarrow> GroupOffsetState" where
  "group_clear g = g\<lparr>go_partitions := [], go_observed_total := 0\<rparr>"

definition clear_partition :: "Tp \<Rightarrow> GroupOffsetState \<Rightarrow> GroupOffsetState" where
  "clear_partition tp g = recount (g\<lparr>go_partitions := btree_retain (\<lambda>t. t \<noteq> tp) (go_partitions g)\<rparr>)"

definition has_partition_observations :: "Tp \<Rightarrow> GroupOffsetState \<Rightarrow> bool" where
  "has_partition_observations tp g =
     (case btree_get (go_partitions g) tp of None \<Rightarrow> False | Some s \<Rightarrow> observed_len s \<noteq> 0)"

definition has_group_capacity :: "GroupOffsetState \<Rightarrow> bool" where
  "has_group_capacity g = (go_observed_total g < go_max_group_records g)"

definition has_dispatch_capacity :: "Tp option \<Rightarrow> GroupOffsetState \<Rightarrow> bool" where
  "has_dispatch_capacity trigger g =
     (has_group_capacity g \<and>
      (case trigger of
         None \<Rightarrow> True
       | Some tp \<Rightarrow>
           (case btree_get (go_partitions g) tp of
              None \<Rightarrow> True
            | Some s \<Rightarrow> observed_len s < go_max_partition_records g)))"

definition has_pending_gap :: "GroupOffsetState \<Rightarrow> bool" where
  "has_pending_gap g = list_ex has_unsafe_observation (btree_values (go_partitions g))"

section \<open>Runs of observations\<close>

definition offset_i64 :: "int \<Rightarrow> bool" where
  "offset_i64 offset \<longleftrightarrow> i64_min \<le> offset \<and> offset \<le> i64_max"

definition observations :: "(int \<times> RecordOutcome) list \<Rightarrow> ObservedOutcome list" where
  "observations outcomes = map (\<lambda>(offset, outcome). \<lparr>oo_offset = offset, oo_outcome = outcome\<rparr>) outcomes"

lemma observations_simps [simp]:
  "observations [] = []"
  "observations ((offset, outcome) # outcomes) =
     \<lparr>oo_offset = offset, oo_outcome = outcome\<rparr> # observations outcomes"
  "map oo_offset (observations outcomes) = map fst outcomes"
  by (simp_all add: observations_def comp_def split_def)

lemma validate_offsets_iff:
  "validate_offsets previous offsets = Inr () \<longleftrightarrow>
     sorted_wrt (<) offsets \<and> (\<forall>p. previous = Some p \<longrightarrow> (\<forall>offset \<in> set offsets. p < offset))"
proof (induction offsets arbitrary: previous)
  case (Cons offset offsets)
  then show ?case by (cases previous) auto
qed simp

text \<open>A run that passes validation is recorded completely.\<close>

lemma observe_all_complete:
  assumes "\<forall>p. po_in_flight s = Some p \<longrightarrow> pp_epoch p = epoch"
    and "sorted_wrt (<) (map oo_offset (observed_of s) @ map fst outcomes)"
  shows "\<exists>s'. observe_all epoch outcomes s = (Inr (), s') \<and>
    observed_of s' = observed_of s @ observations outcomes \<and>
    po_last_confirmed s' = po_last_confirmed s \<and> po_baseline s' = po_baseline s \<and>
    (\<forall>p. po_in_flight s' = Some p \<longrightarrow> pp_epoch p = epoch \<and> (pp_observed p \<noteq> [] \<or> po_in_flight s = Some p))"
  using assms
proof (induction outcomes arbitrary: s)
  case (Cons out outcomes)
  obtain offset outcome where out: "out = (offset, outcome)" by force
  from Cons.prems have "\<forall>ob \<in> set (observed_of s). oo_offset ob < offset"
    by (auto simp: out sorted_wrt_append)
  from observe_succeeds [OF Cons.prems(1) this] obtain s1
    where s1: "partition_observe epoch offset outcome s = (Inr (), s1)" by blast
  note facts = observe_Inr [OF s1]
  have srt: "sorted_wrt (<) (map oo_offset (observed_of s1) @ map fst outcomes)"
    using Cons.prems(2) by (simp add: facts(1) out)
  from facts(4) obtain p1 where p1: "po_in_flight s1 = Some p1" "pp_epoch p1 = epoch"
    "pp_observed p1 \<noteq> []" by blast
  then have "\<forall>p. po_in_flight s1 = Some p \<longrightarrow> pp_epoch p = epoch" by simp
  from Cons.IH [OF this srt] obtain s' where s': "observe_all epoch outcomes s1 = (Inr (), s')"
    "observed_of s' = observed_of s1 @ observations outcomes"
    "po_last_confirmed s' = po_last_confirmed s1" "po_baseline s' = po_baseline s1"
    "\<forall>p. po_in_flight s' = Some p \<longrightarrow> pp_epoch p = epoch \<and> (pp_observed p \<noteq> [] \<or> po_in_flight s1 = Some p)"
    by blast
  have "pp_observed p \<noteq> []" if "po_in_flight s' = Some p" for p
    using s'(5) that p1 by auto
  with s' facts(1-3) s1 show ?case by (simp add: out)
qed auto

lemma validate_run_complete:
  assumes "partition_ok s" and "validate_run epoch (map fst outcomes) s = Inr ()"
  shows "(\<forall>p. po_in_flight s = Some p \<longrightarrow> pp_epoch p = epoch) \<and>
    sorted_wrt (<) (map oo_offset (observed_of s) @ map fst outcomes)"
proof -
  have last: "oo_offset ob \<le> oo_offset (last (observed_of s))" if "ob \<in> set (observed_of s)" for ob
    using that assms(1) by (intro sorted_last) (auto simp: partition_ok_def)
  show ?thesis
  proof (cases "po_in_flight s")
    case None
    with assms show ?thesis by (simp add: validate_run_def observed_of_def validate_offsets_iff)
  next
    case (Some p)
    with assms(1) have "pp_observed p \<noteq> []" by (simp add: partition_ok_def)
    with Some assms last show ?thesis
      by (fastforce simp: validate_run_def observed_of_def validate_offsets_iff partition_ok_def
          sorted_wrt_append split: if_splits)
  qed
qed

lemma observe_all_ok:
  assumes "partition_ok s" and "\<forall>out \<in> set outcomes. offset_i64 (fst out)"
    and "observe_all epoch outcomes s = (r, s')"
  shows "partition_ok s'"
  using assms
proof (induction epoch outcomes s arbitrary: s' rule: observe_all.induct)
  case (2 epoch offset outcome outcomes s)
  obtain r1 s1 where s1: "partition_observe epoch offset outcome s = (r1, s1)" by force
  with 2 have "partition_ok s1" by (auto simp: offset_i64_def intro: partition_observe_ok)
  with 2 s1 show ?case by (cases r1) auto
qed simp

section \<open>Invariant\<close>

definition group_ok :: "GroupOffsetState \<Rightarrow> bool" where
  "group_ok g \<longleftrightarrow>
     btree_ok (go_partitions g) \<and>
     (\<forall>tp s. btree_get (go_partitions g) tp = Some s \<longrightarrow>
        partition_ok s \<and> observed_len s \<le> go_max_partition_records g) \<and>
     go_observed_total g = btree.total observed_len (go_partitions g) \<and>
     go_observed_total g \<le> go_max_group_records g"

lemma group_okD:
  assumes "group_ok g"
  shows "btree_ok (go_partitions g)"
    and "btree_get (go_partitions g) tp = Some s \<Longrightarrow> partition_ok s"
    and "btree_get (go_partitions g) tp = Some s \<Longrightarrow> observed_len s \<le> go_max_partition_records g"
    and "go_observed_total g = btree.total observed_len (go_partitions g)"
    and "go_observed_total g \<le> go_max_group_records g"
  using assms by (auto simp: group_ok_def)

lemma recount_total: "recount g = g\<lparr>go_observed_total := btree.total observed_len (go_partitions g)\<rparr>"
  by (simp add: recount_def btree_values_def btree.total_def split_def comp_def)

lemma group_ok_put:
  assumes "group_ok g" and "partition_ok s'" and "observed_len s' \<le> go_max_partition_records g"
    and "n + partition_len tp g = go_observed_total g + observed_len s'"
    and "n \<le> go_max_group_records g"
  shows "group_ok (g\<lparr>go_partitions := btree_insert tp s' (go_partitions g), go_observed_total := n\<rparr>)"
proof -
  note ok = group_okD [OF assms(1)]
  have "btree.total observed_len (btree_insert tp s' (go_partitions g)) + partition_len tp g
      = btree.total observed_len (go_partitions g) + observed_len s'"
    using btree.total_put [OF ok(1), of observed_len tp s'] by (simp add: partition_len_def)
  with assms ok(4) have "n = btree.total observed_len (btree_insert tp s' (go_partitions g))" by simp
  with assms ok(1) show ?thesis
    by (auto simp: group_ok_def btree_get_insert btree_ok_insert)
qed

lemma group_new_ok: "group_ok (group_new mp mg)"
  by (simp add: group_ok_def group_new_def btree_ok_def btree_get_def btree.total_def)

lemma entry_or_new_ok:
  assumes "group_ok g" and "entry_or_new tp offset g = Inr s"
  shows "partition_ok s" and "observed_len s = partition_len tp g"
    and "btree_get (go_partitions g) tp = None \<Longrightarrow> observed_of s = []"
    and "btree_get (go_partitions g) tp = Some s' \<Longrightarrow> s = s'"
  using assms partition_new_ok [of None offset s] group_okD(2)
  by (auto simp: entry_or_new_def partition_len_def observed_len_of split: option.splits)

lemma insert_same:
  assumes "btree_ok m" and "btree_get m k = Some v"
  shows "btree_insert k v m = m"
  using assms
proof (induction m)
  case (Cons e m)
  then show ?case
    by (cases e) (fastforce simp: btree_ok_def btree_get_def dest: map_of_SomeD split: if_splits)
qed (simp add: btree_get_def)

lemma group_observe_cases:
  assumes ok: "group_ok g" and off: "offset_i64 offset"
    and res: "group_observe tp epoch offset outcome g = (r, g')"
  shows "group_ok g' \<and> (r \<noteq> Inr () \<longrightarrow> g' = g) \<and>
    (r = Inr () \<longrightarrow> (\<exists>s s'. entry_or_new tp offset g = Inr s \<and>
       partition_observe epoch offset outcome s = (Inr (), s') \<and>
       go_partitions g' = btree_insert tp s' (go_partitions g)))"
proof (cases "partition_len tp g < go_max_partition_records g \<and>
    go_observed_total g < go_max_group_records g \<and> (\<exists>s. entry_or_new tp offset g = Inr s)")
  case False
  with ok res show ?thesis
    by (auto simp: group_observe_def split: if_splits sum.splits)
next
  case True
  then obtain s where s: "entry_or_new tp offset g = Inr s" by blast
  note entry = entry_or_new_ok [OF ok s]
  obtain r1 s1 where s1: "partition_observe epoch offset outcome s = (r1, s1)" by force
  show ?thesis
  proof (cases r1)
    case (Inl e)
    with s1 observe_Inl have [simp]: "s1 = s" by blast
    have "po_in_flight s \<noteq> None"
      using s1 Inl by (cases "po_in_flight s") (simp_all add: partition_observe_def Let_def)
    then obtain s0 where "btree_get (go_partitions g) tp = Some s0"
      using s by (auto simp: entry_or_new_def partition_new_def split: option.splits if_splits)
    with entry(4) have "btree_insert tp s1 (go_partitions g) = go_partitions g"
      using insert_same [OF group_okD(1) [OF ok]] by simp
    with True s s1 Inl res ok show ?thesis by (auto simp: group_observe_def Let_def)
  next
    case (Inr u)
    then have obs: "partition_observe epoch offset outcome s = (Inr (), s1)" using s1 by simp
    have "observed_len s1 = Suc (partition_len tp g)"
      using observe_Inr(1) [OF obs] entry(2) by (simp add: observed_len_of)
    moreover have "partition_ok s1"
      using entry(1) off obs by (auto simp: offset_i64_def intro: partition_observe_ok)
    ultimately have "group_ok (g\<lparr>go_partitions := btree_insert tp s1 (go_partitions g),
        go_observed_total := go_observed_total g + 1\<rparr>)"
      using True by (intro group_ok_put [OF ok]) simp_all
    with True s obs res show ?thesis by (auto simp: group_observe_def Let_def)
  qed
qed

definition observed_at :: "Tp \<Rightarrow> GroupOffsetState \<Rightarrow> ObservedOutcome list" where
  "observed_at tp g = (case btree_get (go_partitions g) tp of None \<Rightarrow> [] | Some s \<Rightarrow> observed_of s)"

lemma length_observed_at: "length (observed_at tp g) = partition_len tp g"
  by (simp add: observed_at_def partition_len_def observed_len_of split: option.split)

lemma entry_observed_at:
  "group_ok g \<Longrightarrow> entry_or_new tp offset g = Inr s \<Longrightarrow> observed_of s = observed_at tp g"
  using entry_or_new_ok(3,4) [of g tp offset s] by (cases "btree_get (go_partitions g) tp") (auto simp: observed_at_def)

text \<open>The branch of \<open>observe_run\<close> that writes.\<close>

lemma observe_run_write:
  assumes ok: "group_ok g" and outs: "outcomes \<noteq> []"
    and len: "partition_len tp g + length outcomes \<le> go_max_partition_records g"
      "go_observed_total g + length outcomes \<le> go_max_group_records g"
      "go_max_partition_records g \<le> u64_max" "go_max_group_records g \<le> u64_max"
    and s: "entry_or_new tp (fst (hd outcomes)) g = Inr s"
    and valid: "validate_run epoch (map fst outcomes) s = Inr ()"
    and off: "\<forall>out \<in> set outcomes. offset_i64 (fst out)"
  shows "\<exists>g' s'. observe_run tp epoch outcomes g = (Inr (), g') \<and> group_ok g' \<and>
    go_partitions g' = btree_insert tp s' (go_partitions g) \<and>
    observed_of s' = observed_of s @ observations outcomes \<and>
    po_last_confirmed s' = po_last_confirmed s \<and> po_baseline s' = po_baseline s \<and>
    (\<exists>p. po_in_flight s' = Some p \<and> pp_epoch p = epoch)"
proof -
  note entry = entry_or_new_ok [OF ok s]
  from observe_all_complete validate_run_complete [OF entry(1) valid] obtain s'
    where s': "observe_all epoch outcomes s = (Inr (), s')"
      "observed_of s' = observed_of s @ observations outcomes"
      "po_last_confirmed s' = po_last_confirmed s" "po_baseline s' = po_baseline s"
      "\<forall>p. po_in_flight s' = Some p \<longrightarrow> pp_epoch p = epoch"
    by blast
  have "observations outcomes \<noteq> []" using outs by (simp add: observations_def)
  then obtain p where "po_in_flight s' = Some p"
    using s'(2) by (cases "po_in_flight s'") (simp_all add: observed_of_def)
  with s'(5) have p: "\<exists>p. po_in_flight s' = Some p \<and> pp_epoch p = epoch" by blast
  have lens: "observed_len s' = partition_len tp g + length outcomes"
    using s'(2) entry(2) by (simp add: observed_len_of observations_def)
  let ?g' = "g\<lparr>go_partitions := btree_insert tp s' (go_partitions g),
      go_observed_total := go_observed_total g + length outcomes\<rparr>"
  have "group_ok ?g'"
    using observe_all_ok [OF entry(1) off s'(1)] len lens by (intro group_ok_put [OF ok]) simp_all
  moreover have "observe_run tp epoch outcomes g = (Inr (), ?g')"
    using outs len s valid s'(1) by (simp add: observe_run_def checked_add_u64_def Let_def)
  ultimately show ?thesis using s' p by (intro exI [of _ ?g'] exI [of _ s']) simp
qed

lemma observe_run_reject:
  assumes "observe_run tp epoch outcomes g = (r, g')" and "outcomes \<noteq> []"
    and "\<not> (partition_len tp g + length outcomes \<le> go_max_partition_records g \<and>
      go_observed_total g + length outcomes \<le> go_max_group_records g \<and>
      (\<exists>s. entry_or_new tp (fst (hd outcomes)) g = Inr s \<and>
         validate_run epoch (map fst outcomes) s = Inr ()))"
  shows "g' = g \<and> r \<noteq> Inr ()"
  using assms
  by (auto simp: observe_run_def checked_add_u64_def bindR_def Let_def split: if_splits sum.splits)

lemma observe_run_cases:
  assumes ok: "group_ok g" and off: "\<forall>out \<in> set outcomes. offset_i64 (fst out)"
    and usize: "go_max_partition_records g \<le> u64_max" "go_max_group_records g \<le> u64_max"
  shows "(\<exists>e. observe_run tp epoch outcomes g = (Inl e, g)) \<or>
    (\<exists>g'. observe_run tp epoch outcomes g = (Inr (), g') \<and> group_ok g' \<and>
       observed_at tp g' = observed_at tp g @ observations outcomes \<and>
       (\<forall>t. t \<noteq> tp \<longrightarrow> btree_get (go_partitions g') t = btree_get (go_partitions g) t))"
proof (cases "outcomes = []")
  case True
  with ok show ?thesis by (simp add: observe_run_def)
next
  case False
  obtain r g' where res: "observe_run tp epoch outcomes g = (r, g')" by force
  show ?thesis
  proof (cases "partition_len tp g + length outcomes \<le> go_max_partition_records g \<and>
      go_observed_total g + length outcomes \<le> go_max_group_records g \<and>
      (\<exists>s. entry_or_new tp (fst (hd outcomes)) g = Inr s \<and>
         validate_run epoch (map fst outcomes) s = Inr ())")
    case True
    with observe_run_write [OF ok False _ _ usize _ _ off] obtain s g' s'
      where "entry_or_new tp (fst (hd outcomes)) g = Inr s"
        "observe_run tp epoch outcomes g = (Inr (), g')" "group_ok g'"
        "go_partitions g' = btree_insert tp s' (go_partitions g)"
        "observed_of s' = observed_of s @ observations outcomes" by blast
    with entry_observed_at [OF ok] show ?thesis
      by (auto simp: observed_at_def btree_get_insert)
  next
    case rejected: False
    from observe_run_reject [OF res False rejected] res show ?thesis by (cases r) auto
  qed
qed

text \<open>
  C28: Observing a run is atomic. Either the run is refused and the tracker is unchanged, or all
  of its outcomes are recorded in delivery order behind the earlier observations of that
  partition, other partitions are untouched and the counters stay exact and within the limits.
\<close>

theorem observe_run_atomic:
  assumes ok: "group_ok g" and off: "\<forall>out \<in> set outcomes. offset_i64 (fst out)"
    and usize: "go_max_partition_records g \<le> u64_max" "go_max_group_records g \<le> u64_max"
  shows "(\<exists>e. observe_run tp epoch outcomes g = (Inl e, g)) \<or>
    (\<exists>g'. observe_run tp epoch outcomes g = (Inr (), g') \<and> group_ok g' \<and>
       observed_at tp g' = observed_at tp g @ observations outcomes \<and>
       (\<forall>t. t \<noteq> tp \<longrightarrow> btree_get (go_partitions g') t = btree_get (go_partitions g) t))"
  using assms by (rule observe_run_cases)

section \<open>Confirmation of a broker commit\<close>

lemma check_confirmation_iff:
  "check_confirmation ps offsets = Inr () \<longleftrightarrow>
     (\<forall>(tp, n) \<in> set offsets. \<exists>s. btree_get ps tp = Some s \<and> committable_next s = Inr (Some n))"
proof (induction ps offsets rule: check_confirmation.induct)
  case (2 ps tp n offsets)
  then show ?case
    by (cases "btree_get ps tp") (auto simp: bindR_Inr_iff)
qed simp

lemma confirm_all_complete:
  assumes "distinct (map fst offsets)" and "btree_ok ps"
    and "\<forall>(tp, n) \<in> set offsets. \<exists>s. btree_get ps tp = Some s \<and> committable_next s = Inr (Some n)"
  shows "\<exists>ps'. confirm_all offsets ps = Some (Inr (), ps') \<and> btree_ok ps' \<and>
    (\<forall>tp. btree_get ps' tp = (case map_of offsets tp of
        None \<Rightarrow> btree_get ps tp
      | Some n \<Rightarrow> map_option (\<lambda>s. snd (partition_confirm_committed n s)) (btree_get ps tp)))"
  using assms
proof (induction offsets ps rule: confirm_all.induct)
  case (2 tp n offsets ps)
  then obtain s where s: "btree_get ps tp = Some s" "committable_next s = Inr (Some n)" by auto
  then obtain s' where s': "partition_confirm_committed n s = (Inr (), s')"
    using confirm_Inr_iff by blast
  let ?ps = "btree_insert tp s' ps"
  have "tp \<notin> fst ` set offsets" using "2.prems"(1) by simp
  then have other: "\<forall>(t, m) \<in> set offsets. btree_get ?ps t = btree_get ps t"
    by (force simp: btree_get_insert)
  have pre: "distinct (map fst offsets)" "btree_ok ?ps"
    "\<forall>(t, m) \<in> set offsets. \<exists>s. btree_get ?ps t = Some s \<and> committable_next s = Inr (Some m)"
    using "2.prems" other by (simp_all add: btree_ok_insert split_beta)
  from "2.IH" [OF s(1) s' [symmetric] refl pre] obtain ps'
    where ps': "confirm_all offsets ?ps = Some (Inr (), ps')" "btree_ok ps'"
      "\<forall>t. btree_get ps' t = (case map_of offsets t of
        None \<Rightarrow> btree_get ?ps t
      | Some n \<Rightarrow> map_option (\<lambda>s. snd (partition_confirm_committed n s)) (btree_get ?ps t))"
    by blast
  have "map_of offsets tp = None" using \<open>tp \<notin> fst ` set offsets\<close> by (simp add: map_of_eq_None_iff)
  with ps' s s' show ?case
    by (auto simp: btree_get_insert split: option.split)
qed simp

lemma confirm_observed_len:
  "observed_len (snd (partition_confirm_committed n s)) \<le> observed_len s"
proof (cases "partition_confirm_committed n s")
  case (Pair r s')
  then show ?thesis
    using confirm_Inl confirm_Inr(4) [of n s s']
    by (cases r) (auto simp: observed_len_of)
qed

text \<open>Replacing partitions by ones with fewer observations keeps the invariant.\<close>

lemma shrink_total:
  fixes m m' :: "(Tp, PartitionOffsetState) btree_map"
  assumes "btree_ok m" and "btree_ok m'"
    and "\<And>tp s'. btree_get m' tp = Some s' \<Longrightarrow>
      \<exists>s. btree_get m tp = Some s \<and> observed_len s' \<le> observed_len s"
  shows "btree.total observed_len m' \<le> btree.total observed_len m"
proof -
  let ?w = "\<lambda>m tp. case btree_get m tp of None \<Rightarrow> 0 | Some s \<Rightarrow> observed_len s"
  have total: "btree.total observed_len m = (\<Sum>tp \<in> fst ` set m. ?w m tp)"
    if "btree_ok m" for m :: "(Tp, PartitionOffsetState) btree_map"
  proof -
    have "inj_on fst (set m)" using btree_ok_distinct [OF that] by (simp add: distinct_map)
    then have "(\<Sum>tp \<in> fst ` set m. ?w m tp) = (\<Sum>e \<in> set m. ?w m (fst e))"
      by (simp add: sum.reindex)
    also have "\<dots> = (\<Sum>e \<in> set m. observed_len (snd e))"
    proof (rule sum.cong [OF refl])
      fix e assume "e \<in> set m"
      then have "btree_get m (fst e) = Some (snd e)"
        using btree.get_entries [OF that, of "fst e" "snd e"] by simp
      then show "?w m (fst e) = observed_len (snd e)" by simp
    qed
    finally show ?thesis by (simp add: btree.total_sum [OF that])
  qed
  have keys: "fst ` set m' \<subseteq> fst ` set m"
  proof
    fix tp assume "tp \<in> fst ` set m'"
    then obtain s' where "btree_get m' tp = Some s'"
      using btree.get_entries [OF assms(2)] by fastforce
    with assms(3) obtain s where "btree_get m tp = Some s" by blast
    then show "tp \<in> fst ` set m"
      using btree.get_entries [OF assms(1)] by force
  qed
  have "?w m' tp \<le> ?w m tp" for tp
    using assms(3) [of tp] by (fastforce split: option.splits)
  then have "(\<Sum>tp \<in> fst ` set m'. ?w m' tp) \<le> (\<Sum>tp \<in> fst ` set m'. ?w m tp)"
    by (rule sum_mono)
  also have "\<dots> \<le> (\<Sum>tp \<in> fst ` set m. ?w m tp)"
    using keys by (intro sum_mono2) simp_all
  finally show ?thesis by (simp only: total [OF assms(1)] total [OF assms(2)])
qed

lemma group_ok_shrink:
  assumes ok: "group_ok g" and "btree_ok ps"
    and "\<And>tp s'. btree_get ps tp = Some s' \<Longrightarrow> partition_ok s' \<and>
      (\<exists>s. btree_get (go_partitions g) tp = Some s \<and> observed_len s' \<le> observed_len s)"
  shows "group_ok (recount (g\<lparr>go_partitions := ps\<rparr>))"
proof -
  have "btree.total observed_len ps \<le> btree.total observed_len (go_partitions g)"
    using assms by (intro shrink_total group_okD(1)) blast+
  moreover have "observed_len s' \<le> go_max_partition_records g" if "btree_get ps tp = Some s'" for tp s'
    using assms(3) [OF that] group_okD(3) [OF ok] by (meson order_trans)
  ultimately show ?thesis
    using assms group_okD(4,5) [OF ok] by (auto simp: group_ok_def recount_total)
qed

lemma confirm_partition_ok:
  "partition_ok s \<Longrightarrow> partition_ok (snd (partition_confirm_committed n s))"
  using partition_confirm_ok [of s n] by (cases "partition_confirm_committed n s") auto

lemma group_confirm_cases:
  assumes ok: "group_ok g" and offs: "btree_ok offsets"
  shows "(\<exists>e. check_confirmation (go_partitions g) offsets = Inl e \<and>
       group_confirm_committed offsets g = Some (Inl e, g)) \<or>
    (\<exists>g'. group_confirm_committed offsets g = Some (Inr (), g') \<and> group_ok g' \<and>
       check_confirmation (go_partitions g) offsets = Inr () \<and>
       (\<forall>tp. btree_get (go_partitions g') tp = (case btree_get offsets tp of
           None \<Rightarrow> btree_get (go_partitions g) tp
         | Some n \<Rightarrow> map_option (\<lambda>s. snd (partition_confirm_committed n s))
             (btree_get (go_partitions g) tp))))"
proof (cases "check_confirmation (go_partitions g) offsets")
  case (Inl e)
  then show ?thesis by (simp add: group_confirm_committed_def)
next
  case (Inr u)
  then have checked: "check_confirmation (go_partitions g) offsets = Inr ()" by simp
  with confirm_all_complete [OF btree_ok_distinct [OF offs] group_okD(1) [OF ok]] obtain ps
    where ps: "confirm_all offsets (go_partitions g) = Some (Inr (), ps)" "btree_ok ps"
      "\<forall>tp. btree_get ps tp = (case map_of offsets tp of
          None \<Rightarrow> btree_get (go_partitions g) tp
        | Some n \<Rightarrow> map_option (\<lambda>s. snd (partition_confirm_committed n s)) (btree_get (go_partitions g) tp))"
    unfolding check_confirmation_iff by blast
  have "group_ok (recount (g\<lparr>go_partitions := ps\<rparr>))"
  proof (rule group_ok_shrink [OF ok ps(2)])
    fix tp s' assume "btree_get ps tp = Some s'"
    with ps(3) group_okD(2) [OF ok, of tp] confirm_observed_len confirm_partition_ok
    show "partition_ok s' \<and> (\<exists>s. btree_get (go_partitions g) tp = Some s \<and> observed_len s' \<le> observed_len s)"
      by (auto split: option.splits)
  qed
  moreover have "group_confirm_committed offsets g = Some (Inr (), recount (g\<lparr>go_partitions := ps\<rparr>))"
    by (simp add: group_confirm_committed_def checked ps(1))
  ultimately show ?thesis
    using checked ps(3) by (auto simp: recount_def btree_get_def)
qed

lemma group_confirm_partitions:
  assumes ok: "group_ok g" and offs: "btree_ok offsets"
    and checked: "check_confirmation (go_partitions g) offsets = Inr ()"
  shows "\<exists>g'. group_confirm_committed offsets g = Some (Inr (), g') \<and> group_ok g' \<and>
    (\<forall>tp n. btree_get offsets tp = Some n \<longrightarrow> confirmed_offset tp g' = Some n \<and>
       observed_at tp g' = filter (\<lambda>ob. n \<le> oo_offset ob) (observed_at tp g)) \<and>
    (\<forall>tp. btree_get offsets tp = None \<longrightarrow>
       btree_get (go_partitions g') tp = btree_get (go_partitions g) tp)"
proof -
  from group_confirm_cases [OF ok offs] checked obtain g' where
    g': "group_confirm_committed offsets g = Some (Inr (), g')" "group_ok g'"
      "\<forall>tp. btree_get (go_partitions g') tp = (case btree_get offsets tp of
           None \<Rightarrow> btree_get (go_partitions g) tp
         | Some n \<Rightarrow> map_option (\<lambda>s. snd (partition_confirm_committed n s))
             (btree_get (go_partitions g) tp))"
    by auto
  have "confirmed_offset tp g' = Some n \<and>
      observed_at tp g' = filter (\<lambda>ob. n \<le> oo_offset ob) (observed_at tp g)"
    if n: "btree_get offsets tp = Some n" for tp n
  proof -
    from n have "(tp, n) \<in> set offsets" using btree.get_entries [OF offs] by blast
    with checked obtain s where s: "btree_get (go_partitions g) tp = Some s"
      "committable_next s = Inr (Some n)" by (auto simp: check_confirmation_iff)
    then obtain s' where s': "partition_confirm_committed n s = (Inr (), s')"
      using confirm_Inr_iff by blast
    with g'(3) n s confirm_Inr(2,4) [OF s'] show ?thesis
      by (simp add: confirmed_offset_def observed_at_def)
  qed
  with g' show ?thesis by auto
qed

text \<open>
  C29: Confirming a commit is atomic over all partitions and never panics. If any offset differs
  from the frontier its partition offers, nothing changes; otherwise every named partition is
  confirmed at its offset, keeps exactly the observations at or above it, and the partitions that
  were not named are untouched.
\<close>

theorem group_confirm_atomic:
  assumes ok: "group_ok g" and offs: "btree_ok offsets"
  shows "(\<exists>e. group_confirm_committed offsets g = Some (Inl e, g)) \<or>
    (\<exists>g'. group_confirm_committed offsets g = Some (Inr (), g') \<and> group_ok g' \<and>
       (\<forall>tp n. btree_get offsets tp = Some n \<longrightarrow> confirmed_offset tp g' = Some n \<and>
          observed_at tp g' = filter (\<lambda>ob. n \<le> oo_offset ob) (observed_at tp g)) \<and>
       (\<forall>tp. btree_get offsets tp = None \<longrightarrow>
          btree_get (go_partitions g') tp = btree_get (go_partitions g) tp))"
  using group_confirm_cases [OF assms] group_confirm_partitions [OF assms] by blast

section \<open>Sequences of operations\<close>

lemma reset_partition_ok:
  assumes ok: "group_ok g"
  shows "group_ok (reset_partition tp g)"
    and "observed_at t (reset_partition tp g) = (if t = tp then [] else observed_at t g)"
    and "confirmed_offset t (reset_partition tp g) = confirmed_offset t g"
proof -
  have same: "group_ok (recount g)"
    using ok by (auto simp: group_ok_def recount_total)
  show "group_ok (reset_partition tp g)"
  proof (cases "btree_get (go_partitions g) tp")
    case (Some s)
    let ?ps = "btree_insert tp (partition_reset s) (go_partitions g)"
    have "group_ok (recount (g\<lparr>go_partitions := ?ps\<rparr>))"
    proof (rule group_ok_shrink [OF ok btree_ok_insert [OF group_okD(1) [OF ok]]])
      fix t s' assume "btree_get ?ps t = Some s'"
      with Some group_okD(2) [OF ok, of t s'] group_okD(2) [OF ok Some] partition_reset_ok [of s]
      show "partition_ok s' \<and> (\<exists>s. btree_get (go_partitions g) t = Some s \<and> observed_len s' \<le> observed_len s)"
        by (auto simp: btree_get_insert observed_len_of split: if_splits)
    qed
    with Some show ?thesis by (simp add: reset_partition_def)
  qed (simp add: reset_partition_def same)
  show "observed_at t (reset_partition tp g) = (if t = tp then [] else observed_at t g)"
    by (auto simp: reset_partition_def recount_def observed_at_def btree_get_insert observed_of_def
        partition_reset_def split: option.split)
  show "confirmed_offset t (reset_partition tp g) = confirmed_offset t g"
    by (auto simp: reset_partition_def recount_def confirmed_offset_def btree_get_insert
        partition_reset_def split: option.split)
qed

lemma reset_for_assignment_ok:
  assumes ok: "group_ok g"
  shows "group_ok (reset_for_assignment assigned g)"
    and "observed_at t (reset_for_assignment assigned g) = []"
    and "t \<in> set assigned \<Longrightarrow>
      confirmed_offset t (reset_for_assignment assigned g) = confirmed_offset t g"
proof -
  let ?ps = "map (\<lambda>(tp, s). (tp, partition_reset s))
      (btree_retain (\<lambda>tp. tp \<in> set assigned) (go_partitions g))"
  have get: "btree_get ?ps t = (if t \<in> set assigned
      then map_option partition_reset (btree_get (go_partitions g) t) else None)" for t
    by (simp add: btree_get_map_values [of "\<lambda>k. partition_reset"] btree_get_retain)
  have bt: "btree_ok ?ps"
    by (simp add: btree_map_values_ok [of "\<lambda>k. partition_reset"]
        btree_retain_ok [OF group_okD(1) [OF ok]])
  show "group_ok (reset_for_assignment assigned g)"
    unfolding reset_for_assignment_def
  proof (rule group_ok_shrink [OF ok bt])
    fix t s' assume "btree_get ?ps t = Some s'"
    then obtain s where "btree_get (go_partitions g) t = Some s" "s' = partition_reset s"
      using get [of t] by (auto split: if_splits)
    with group_okD(2) [OF ok, of t] partition_reset_ok [of s]
    show "partition_ok s' \<and> (\<exists>s. btree_get (go_partitions g) t = Some s \<and> observed_len s' \<le> observed_len s)"
      by (auto simp: observed_len_of)
  qed
  show "observed_at t (reset_for_assignment assigned g) = []"
    using get [of t]
    by (auto simp: reset_for_assignment_def recount_def observed_at_def observed_of_def
        partition_reset_def split: option.split)
  show "t \<in> set assigned \<Longrightarrow>
      confirmed_offset t (reset_for_assignment assigned g) = confirmed_offset t g"
    using get [of t]
    by (cases "btree_get (go_partitions g) t")
      (simp_all add: reset_for_assignment_def recount_def confirmed_offset_def partition_reset_def)
qed

lemma clear_partition_ok:
  assumes ok: "group_ok g"
  shows "group_ok (clear_partition tp g)"
  unfolding clear_partition_def
proof (rule group_ok_shrink [OF ok btree_retain_ok [OF group_okD(1) [OF ok]]])
  fix t s' assume "btree_get (btree_retain (\<lambda>t. t \<noteq> tp) (go_partitions g)) t = Some s'"
  then show "partition_ok s' \<and> (\<exists>s. btree_get (go_partitions g) t = Some s \<and> observed_len s' \<le> observed_len s)"
    using group_okD(2) [OF ok] by (auto simp: btree_get_retain split: if_splits)
qed

lemma group_clear_ok: "group_ok (group_clear g)"
  by (simp add: group_ok_def group_clear_def btree_ok_def btree_get_def btree.total_def)

datatype GroupOp =
    OpObserve Tp nat int RecordOutcome
  | OpObserveRun Tp nat "(int \<times> RecordOutcome) list"
  | OpConfirm "(Tp, int) btree_map"
  | OpResetPartition Tp
  | OpResetForAssignment "Tp list"
  | OpClear
  | OpClearPartition Tp

fun group_op :: "GroupOp \<Rightarrow> GroupOffsetState \<Rightarrow> GroupOffsetState option" where
  "group_op (OpObserve tp epoch offset outcome) g = Some (snd (group_observe tp epoch offset outcome g))"
| "group_op (OpObserveRun tp epoch outcomes) g = Some (snd (observe_run tp epoch outcomes g))"
| "group_op (OpConfirm offsets) g = map_option snd (group_confirm_committed offsets g)"
| "group_op (OpResetPartition tp) g = Some (reset_partition tp g)"
| "group_op (OpResetForAssignment assigned) g = Some (reset_for_assignment assigned g)"
| "group_op OpClear g = Some (group_clear g)"
| "group_op (OpClearPartition tp) g = Some (clear_partition tp g)"

fun group_run :: "GroupOp list \<Rightarrow> GroupOffsetState \<Rightarrow> GroupOffsetState option" where
  "group_run [] g = Some g"
| "group_run (op # ops) g = Option.bind (group_op op g) (group_run ops)"

text \<open>The arguments the types of the source admit: \<open>i64\<close> offsets and maps with distinct keys.\<close>

fun op_typed :: "GroupOp \<Rightarrow> bool" where
  "op_typed (OpObserve tp epoch offset outcome) = offset_i64 offset"
| "op_typed (OpObserveRun tp epoch outcomes) = list_all (\<lambda>out. offset_i64 (fst out)) outcomes"
| "op_typed (OpConfirm offsets) = btree_ok offsets"
| "op_typed _ = True"

definition same_limits :: "GroupOffsetState \<Rightarrow> GroupOffsetState \<Rightarrow> bool" where
  "same_limits g g' \<longleftrightarrow> go_max_partition_records g' = go_max_partition_records g \<and>
     go_max_group_records g' = go_max_group_records g"

lemma recount_limits [simp]: "same_limits g (recount g') = same_limits g g'"
  by (simp add: same_limits_def recount_def)

lemma group_observe_limits: "same_limits g (snd (group_observe tp epoch offset outcome g))"
  by (auto simp: same_limits_def group_observe_def Let_def split: sum.split prod.split)

lemma observe_run_limits: "same_limits g (snd (observe_run tp epoch outcomes g))"
  by (auto simp: same_limits_def observe_run_def Let_def split: sum.split prod.split option.split)

lemma confirm_limits: "group_confirm_committed offsets g = Some (r, g') \<Longrightarrow> same_limits g g'"
proof (cases "confirm_all offsets (go_partitions g)")
  case (Some out)
  moreover assume "group_confirm_committed offsets g = Some (r, g')"
  ultimately show ?thesis
    by (cases out; cases "fst out")
      (auto simp: same_limits_def group_confirm_committed_def recount_def split: sum.split_asm)
qed (auto simp: same_limits_def group_confirm_committed_def split: sum.splits)

lemma reset_limits:
  "same_limits g (reset_partition tp g)" "same_limits g (reset_for_assignment assigned g)"
  "same_limits g (clear_partition tp g)" "same_limits g (group_clear g)"
  by (auto simp: reset_partition_def reset_for_assignment_def clear_partition_def group_clear_def
      same_limits_def recount_def split: option.split)

lemma group_op_ok:
  assumes ok: "group_ok g" and typed: "op_typed op"
    and usize: "go_max_partition_records g \<le> u64_max" "go_max_group_records g \<le> u64_max"
  shows "\<exists>g'. group_op op g = Some g' \<and> group_ok g' \<and> same_limits g g'"
proof (cases op)
  case (OpObserve tp epoch offset outcome)
  obtain r g' where res: "group_observe tp epoch offset outcome g = (r, g')" by force
  from typed OpObserve have "offset_i64 offset" by simp
  from group_observe_cases [OF ok this res] group_observe_limits [of g tp epoch offset outcome]
  show ?thesis using OpObserve res by simp
next
  case (OpObserveRun tp epoch outcomes)
  with typed have "\<forall>out \<in> set outcomes. offset_i64 (fst out)" by (simp add: list_all_iff)
  from observe_run_cases [OF ok this usize, of tp epoch] OpObserveRun show ?thesis
    using observe_run_limits [of g tp epoch outcomes] ok by auto
next
  case (OpConfirm offsets)
  then have "btree_ok offsets" using typed by simp
  from group_confirm_cases [OF ok this] consider
      e where "group_confirm_committed offsets g = Some (Inl e, g)"
    | g' where "group_confirm_committed offsets g = Some (Inr (), g')" "group_ok g'"
    by blast
  then show ?thesis
    using OpConfirm ok confirm_limits by cases simp_all
qed (use ok reset_partition_ok reset_for_assignment_ok clear_partition_ok group_clear_ok reset_limits in auto)

text \<open>
  C27: Whatever sequence of operations an owner performs, no call panics and the tracker stays
  consistent: the observation counter is the sum over the partitions, it never exceeds the group
  limit, no partition exceeds its own limit, and every partition's observations are strictly
  ascending.
\<close>

theorem group_run_consistent:
  assumes "mp \<le> u64_max" and "mg \<le> u64_max" and "list_all op_typed ops"
  shows "\<exists>g. group_run ops (group_new mp mg) = Some g \<and>
    go_observed_total g = sum_list (map observed_len (btree_values (go_partitions g))) \<and>
    go_observed_total g \<le> mg \<and>
    (\<forall>tp. length (observed_at tp g) \<le> mp \<and>
       sorted_wrt (<) (map oo_offset (observed_at tp g)))"
proof -
  have run: "\<exists>g'. group_run ops g = Some g' \<and> group_ok g' \<and> same_limits g g'"
    if "group_ok g" "go_max_partition_records g \<le> u64_max" "go_max_group_records g \<le> u64_max"
      "list_all op_typed ops" for g ops
    using that
  proof (induction ops arbitrary: g)
    case (Cons op ops)
    then obtain g1 where g1: "group_op op g = Some g1" "group_ok g1" "same_limits g g1"
      using group_op_ok by fastforce
    with Cons.prems Cons.IH [of g1] show ?case by (auto simp: same_limits_def)
  qed (simp add: same_limits_def)
  from run [OF group_new_ok, of mp mg ops] assms obtain g
    where g: "group_run ops (group_new mp mg) = Some g" "group_ok g" "same_limits (group_new mp mg) g"
    by (auto simp: group_new_def)
  then have lim: "go_max_partition_records g = mp" "go_max_group_records g = mg"
    by (simp_all add: same_limits_def group_new_def)
  have "length (observed_at tp g) \<le> mp \<and> sorted_wrt (<) (map oo_offset (observed_at tp g))" for tp
    using group_okD(2,3) [OF g(2), of tp] lim
    by (cases "btree_get (go_partitions g) tp")
      (auto simp: observed_at_def observed_len_of partition_ok_def)
  moreover have "go_observed_total g = sum_list (map observed_len (btree_values (go_partitions g)))"
    using group_okD(4) [OF g(2)] by (simp add: btree.total_def btree_values_def split_def comp_def)
  ultimately show ?thesis using g lim group_okD(5) [OF g(2)] by auto
qed

theorem group_run_consistent_witness:
  "\<exists>g. group_run [OpObserve (Tp ''t'' 0) 1 7 Failed, OpObserve (Tp ''t'' 0) 1 8 DeadLettered,
       OpResetPartition (Tp ''t'' 0), OpObserveRun (Tp ''t'' 0) 1 [(7, DeadLettered), (9, Failed)],
       OpConfirm [(Tp ''t'' 0, 9)]] (group_new 2 2) = Some g \<and> go_observed_total g \<le> 2"
  using group_run_consistent [of 2 2 "[OpObserve (Tp ''t'' 0) 1 7 Failed,
      OpObserve (Tp ''t'' 0) 1 8 DeadLettered, OpResetPartition (Tp ''t'' 0),
      OpObserveRun (Tp ''t'' 0) 1 [(7, DeadLettered), (9, Failed)], OpConfirm [(Tp ''t'' 0, 9)]]"]
  by (auto simp: u64_max_def offset_i64_def i64_min_def i64_max_def btree_ok_def)

section \<open>Offers and lookups\<close>

definition offer_of :: "Tp \<times> PartitionOffsetState \<Rightarrow> (Tp \<times> int) list" where
  "offer_of e = (case committable_next (snd e) of Inr (Some n) \<Rightarrow> [(fst e, n)] | _ \<Rightarrow> [])"

lemma offer_of_iff: "(tp, n) \<in> set (offer_of e) \<longleftrightarrow> tp = fst e \<and> committable_next (snd e) = Inr (Some n)"
  by (auto simp: offer_of_def split: sum.splits option.splits)

lemma collect_committable_Inr:
  assumes "collect_committable ps = Inr m"
  shows "m = concat (map offer_of ps)"
  using assms
proof (induction ps arbitrary: m)
  case (Cons e ps)
  obtain tp s where e: "e = (tp, s)" by force
  from Cons.prems obtain offer where offer: "committable_next s = Inr offer"
    by (cases "committable_next s") (auto simp: e)
  from Cons.prems obtain m' where m': "collect_committable ps = Inr m'"
    by (cases offer; cases "collect_committable ps") (auto simp: e offer)
  from Cons.IH [OF m'] Cons.prems show ?case
    by (cases offer) (simp_all add: e offer m' offer_of_def)
qed simp

lemma sorted_offers:
  assumes "sorted_wrt (<) (map fst ps)"
  shows "sorted_wrt (<) (map fst (concat (map offer_of ps)))"
  using assms
proof (induction ps)
  case (Cons e ps)
  have "fst e < fst x" if "x \<in> set (concat (map offer_of ps))" for x
  proof -
    from that obtain e' where "e' \<in> set ps" "(fst x, snd x) \<in> set (offer_of e')" by auto
    with Cons.prems show ?thesis unfolding offer_of_iff by auto
  qed
  moreover have "offer_of e = [] \<or> (\<exists>n. offer_of e = [(fst e, n)])"
    by (simp add: offer_of_def split: sum.split option.split)
  ultimately show ?case using Cons by fastforce
qed simp

lemma committable_offsets_Inr:
  assumes "group_ok g" and "committable_offsets g = Inr m"
  shows "btree_ok m"
    and "btree_get m tp = Some n \<longleftrightarrow>
      (\<exists>s. btree_get (go_partitions g) tp = Some s \<and> committable_next s = Inr (Some n))"
    and "check_confirmation (go_partitions g) m = Inr ()"
proof -
  note bt = group_okD(1) [OF assms(1)]
  have offers: "m = concat (map offer_of (go_partitions g))"
    using assms(2) unfolding committable_offsets_def by (rule collect_committable_Inr)
  then have mem: "(tp, n) \<in> set m \<longleftrightarrow>
      (\<exists>s. (tp, s) \<in> set (go_partitions g) \<and> committable_next s = Inr (Some n))" for tp n
    by (force simp: offer_of_iff)
  show m: "btree_ok m" using sorted_offers bt by (simp add: btree_ok_def offers)
  show "btree_get m tp = Some n \<longleftrightarrow>
      (\<exists>s. btree_get (go_partitions g) tp = Some s \<and> committable_next s = Inr (Some n))"
    unfolding btree.get_entries [OF m] btree.get_entries [OF bt] by (rule mem)
  show "check_confirmation (go_partitions g) m = Inr ()"
    unfolding check_confirmation_iff using mem btree.get_entries [OF bt] by auto
qed

text \<open>
  C30: A commit of the offered offsets is always accepted: when the tracker computed the map of
  committable offsets and the broker confirmed it, confirming that map succeeds, advances every
  offered partition to its offer and discards only safe observations.
\<close>

theorem offered_commit_accepted:
  assumes ok: "group_ok g" and offer: "committable_offsets g = Inr m"
  shows "\<exists>g'. group_confirm_committed m g = Some (Inr (), g') \<and> group_ok g' \<and>
    (\<forall>tp n. btree_get m tp = Some n \<longrightarrow> confirmed_offset tp g' = Some n) \<and>
    (\<forall>tp. \<forall>ob \<in> set (observed_at tp g) - set (observed_at tp g'). is_safe (oo_outcome ob))"
proof -
  note offers = committable_offsets_Inr [OF ok offer]
  from group_confirm_partitions [OF ok offers(1,3)] obtain g'
    where g': "group_confirm_committed m g = Some (Inr (), g')" "group_ok g'"
      "\<forall>tp n. btree_get m tp = Some n \<longrightarrow> confirmed_offset tp g' = Some n \<and>
          observed_at tp g' = filter (\<lambda>ob. n \<le> oo_offset ob) (observed_at tp g)"
      "\<forall>tp. btree_get m tp = None \<longrightarrow> btree_get (go_partitions g') tp = btree_get (go_partitions g) tp"
    by blast
  have "is_safe (oo_outcome ob)" if ob: "ob \<in> set (observed_at tp g) - set (observed_at tp g')" for tp ob
  proof (cases "btree_get m tp")
    case None
    with g'(4) ob show ?thesis by (simp add: observed_at_def)
  next
    case (Some n)
    then obtain s where s: "btree_get (go_partitions g) tp = Some s" "committable_next s = Inr (Some n)"
      using offers(2) by blast
    have "observed_at tp g = observed_of s" using s(1) by (simp add: observed_at_def)
    moreover have "observed_at tp g' = filter (\<lambda>ob. n \<le> oo_offset ob) (observed_at tp g)"
      using g'(3) Some by blast
    ultimately have "ob \<in> set (observed_of s)" "oo_offset ob < n" using ob by auto
    with frontier_safe [OF group_okD(2) [OF ok s(1)] s(2)] show ?thesis by blast
  qed
  with g' show ?thesis by blast
qed

definition sample_group :: GroupOffsetState where
  "sample_group = \<lparr>go_partitions = [(Tp ''t'' 0, sample_tracker)], go_observed_total = 4,
     go_max_partition_records = 8, go_max_group_records = 16\<rparr>"

lemma sample_tracker_ok: "partition_ok sample_tracker"
  by (simp add: partition_ok_def sample_tracker_def observed_of_def i64_min_def i64_max_def)

lemma sample_group_ok: "group_ok sample_group"
  using sample_tracker_ok
  by (auto simp: group_ok_def sample_group_def btree_ok_def btree_get_def btree.total_def
      observed_len_def sample_tracker_def)

lemma sample_group_offer: "committable_offsets sample_group = Inr [(Tp ''t'' 0, 15)]"
  by code_simp

theorem observe_run_atomic_witness:
  "(\<exists>e. observe_run (Tp ''t'' 0) 1 [(17, DeadLettered), (17, Failed)] sample_group = (Inl e, sample_group)) \<or>
   (\<exists>g'. observe_run (Tp ''t'' 0) 1 [(17, DeadLettered), (17, Failed)] sample_group = (Inr (), g') \<and>
      length (observed_at (Tp ''t'' 0) g') = 6)"
proof -
  have "\<forall>out \<in> set [(17, DeadLettered), (17, Failed)]. offset_i64 (fst out)"
    by (simp add: offset_i64_def i64_min_def i64_max_def)
  moreover have "go_max_partition_records sample_group \<le> u64_max"
    "go_max_group_records sample_group \<le> u64_max"
    by (simp_all add: sample_group_def u64_max_def)
  moreover have "length (observed_at (Tp ''t'' 0) sample_group) = 4"
    by (simp add: sample_group_def sample_tracker_def observed_at_def observed_of_def btree_get_def)
  ultimately show ?thesis
    using observe_run_atomic [OF sample_group_ok, of "[(17, DeadLettered), (17, Failed)]"
        "Tp ''t'' 0" 1] by (auto simp: observations_def)
qed

theorem group_confirm_atomic_witness:
  "group_ok sample_group \<and>
   ((\<exists>e. group_confirm_committed [(Tp ''t'' 0, 16)] sample_group = Some (Inl e, sample_group)) \<or>
    (\<exists>g'. group_confirm_committed [(Tp ''t'' 0, 16)] sample_group = Some (Inr (), g') \<and> group_ok g'))"
proof -
  have "btree_ok [(Tp ''t'' 0, 16 :: int)]" by (simp add: btree_ok_def)
  from group_confirm_atomic [OF sample_group_ok this] sample_group_ok show ?thesis by blast
qed

theorem offered_commit_accepted_witness:
  "\<exists>g'. group_confirm_committed [(Tp ''t'' 0, 15)] sample_group = Some (Inr (), g') \<and>
     confirmed_offset (Tp ''t'' 0) g' = Some 15"
proof -
  have "btree_get [(Tp ''t'' 0, 15)] (Tp ''t'' 0) = Some (15 :: int)" by (simp add: btree_get_def)
  with offered_commit_accepted [OF sample_group_ok sample_group_offer] show ?thesis by blast
qed

lemma bsearch_Some:
  "bsearch f key lo hi = Some i \<Longrightarrow> lo \<le> i \<and> i < hi \<and> f i = key"
proof (induction f key lo hi rule: bsearch.induct)
  case (1 f key lo hi)
  let ?mid = "lo + (hi - lo) div 2"
  note step = "1.prems" [unfolded bsearch.simps [of f key lo hi] Let_def]
  from step have "lo < hi" by (auto split: if_splits)
  then have mid: "lo \<le> ?mid" "?mid < hi" by auto
  consider "f ?mid < key" | "f ?mid = key" | "key < f ?mid" by linarith
  then show ?case
  proof cases
    case 1
    with step "1.IH"(1) [OF \<open>lo < hi\<close> refl] mid \<open>lo < hi\<close> show ?thesis by auto
  next
    case 2
    with step mid \<open>lo < hi\<close> show ?thesis by auto
  next
    case 3
    with step "1.IH"(2) [OF \<open>lo < hi\<close> refl] mid \<open>lo < hi\<close> show ?thesis by auto
  qed
qed

lemma bsearch_complete:
  assumes "\<And>a b. lo \<le> a \<Longrightarrow> a < b \<Longrightarrow> b < hi \<Longrightarrow> f a < f b" and "lo \<le> i" and "i < hi" and "f i = key"
  shows "bsearch f key lo hi = Some i"
  using assms
proof (induction f key lo hi rule: bsearch.induct)
  case (1 f key lo hi)
  let ?mid = "lo + (hi - lo) div 2"
  have mid: "lo \<le> ?mid" "?mid < hi" using "1.prems" by auto
  have mono: "f a < f b" if "lo \<le> a" "a < b" "b < hi" for a b using "1.prems"(1) that by blast
  consider "i = ?mid" | "?mid < i" | "i < ?mid" by linarith
  then show ?case
  proof cases
    case 1
    with "1.prems" mid show ?thesis by (subst bsearch.simps) (simp add: Let_def)
  next
    case 2
    then have "f ?mid < key" using mono [of ?mid i] mid "1.prems" by simp
    with 2 "1.IH"(1) [OF _ refl] "1.prems" mid mono show ?thesis
      by (subst bsearch.simps) (simp add: Let_def)
  next
    case 3
    then have "key < f ?mid" using mono [of i ?mid] mid "1.prems" by simp
    with 3 "1.IH"(2) [OF _ refl] "1.prems" mid mono show ?thesis
      by (subst bsearch.simps) (simp add: Let_def)
  qed
qed

lemma bsearch_observed:
  assumes "sorted_wrt (<) (map oo_offset obs)"
  shows "(case bsearch (\<lambda>i. oo_offset (obs ! i)) offset 0 (length obs) of
      None \<Rightarrow> False | Some i \<Rightarrow> is_safe (oo_outcome (obs ! i))) \<longleftrightarrow>
    (\<exists>ob \<in> set obs. oo_offset ob = offset \<and> is_safe (oo_outcome ob))"
proof
  assume "case bsearch (\<lambda>i. oo_offset (obs ! i)) offset 0 (length obs) of
      None \<Rightarrow> False | Some i \<Rightarrow> is_safe (oo_outcome (obs ! i))"
  then show "\<exists>ob \<in> set obs. oo_offset ob = offset \<and> is_safe (oo_outcome ob)"
    by (auto split: option.splits dest!: bsearch_Some intro: nth_mem)
next
  assume "\<exists>ob \<in> set obs. oo_offset ob = offset \<and> is_safe (oo_outcome ob)"
  then obtain i where i: "i < length obs" "oo_offset (obs ! i) = offset" "is_safe (oo_outcome (obs ! i))"
    by (auto simp: in_set_conv_nth)
  have "oo_offset (obs ! a) < oo_offset (obs ! b)" if "a < b" "b < length obs" for a b
    using sorted_wrt_nth_less [OF assms, of a b] that by simp
  with i show "case bsearch (\<lambda>i. oo_offset (obs ! i)) offset 0 (length obs) of
      None \<Rightarrow> False | Some i \<Rightarrow> is_safe (oo_outcome (obs ! i))"
    by (subst bsearch_complete [where i = i]) auto
qed

lemma already_safe_lookup:
  assumes "group_ok g"
  shows "already_safe tp epoch offset g \<longleftrightarrow>
    (\<exists>n. confirmed_offset tp g = Some n \<and> offset < n) \<or>
    (\<exists>s p. btree_get (go_partitions g) tp = Some s \<and> po_in_flight s = Some p \<and> pp_epoch p = epoch \<and>
       (\<exists>ob \<in> set (pp_observed p). oo_offset ob = offset \<and> is_safe (oo_outcome ob)))"
proof (cases "btree_get (go_partitions g) tp")
  case (Some s)
  show ?thesis
  proof (cases "po_in_flight s")
    case None
    with Some show ?thesis by (simp add: already_safe_def confirmed_offset_def split: option.split)
  next
    case (Some p)
    have "sorted_wrt (<) (map oo_offset (pp_observed p))"
      using group_okD(2) [OF assms \<open>btree_get (go_partitions g) tp = Some s\<close>] Some
      by (simp add: partition_ok_def observed_of_def)
    note bsearch_observed [OF this, of offset]
    with Some \<open>btree_get (go_partitions g) tp = Some s\<close> show ?thesis
      by (simp add: already_safe_def confirmed_offset_def split: option.split)
  qed
qed (simp add: already_safe_def confirmed_offset_def)

text \<open>
  C35: The lookup that lets an owner drop a re-fetched record is exact: a record counts as already
  safe just when the broker has confirmed an offset above it, or a safe outcome for that very
  offset is recorded under the same assignment epoch. Failed records are never dropped this way.
\<close>

theorem already_safe_exact:
  assumes "group_ok g"
  shows "already_safe tp epoch offset g \<longleftrightarrow>
    (\<exists>n. confirmed_offset tp g = Some n \<and> offset < n) \<or>
    (\<exists>s p. btree_get (go_partitions g) tp = Some s \<and> po_in_flight s = Some p \<and> pp_epoch p = epoch \<and>
       (\<exists>ob \<in> set (pp_observed p). oo_offset ob = offset \<and> is_safe (oo_outcome ob)))"
  using assms by (rule already_safe_lookup)

theorem already_safe_exact_witness:
  "already_safe (Tp ''t'' 0) 1 14 sample_group \<and> \<not> already_safe (Tp ''t'' 0) 1 15 sample_group"
proof
  show "already_safe (Tp ''t'' 0) 1 14 sample_group"
    unfolding already_safe_exact [OF sample_group_ok]
    by (simp add: sample_group_def sample_tracker_def btree_get_def confirmed_offset_def)
  show "\<not> already_safe (Tp ''t'' 0) 1 15 sample_group"
    unfolding already_safe_exact [OF sample_group_ok]
    by (simp add: sample_group_def sample_tracker_def btree_get_def confirmed_offset_def)
qed

end
