(* ===== verification/Offset_Protocol.thy ===== *)
theory Offset_Protocol
  imports Offset_Group
begin

text \<open>
  The consumption protocol on top of the group tracker, as the owner loop of
  \<open>nafka/src/consumer/poll_task.rs\<close> drives it: fetch records in offset order, record their
  outcomes, commit the offered offsets, and on failure or rebalance discard progress and seek
  back. The broker is a log of offsets per partition and the offset it has stored for the group.
  The locale \<open>commit_tracker\<close> states what the protocol needs of a tracker.
\<close>

section \<open>The tracker interface\<close>

text \<open>
  \<open>handled\<close> are the offsets with a safe outcome so far, \<open>fetched\<close> bounds the offsets handed out:
  every log entry below it is handled or still pending with its outcome.
\<close>

definition covered :: "int set \<Rightarrow> int \<Rightarrow> int \<Rightarrow> int set \<Rightarrow> (int \<times> bool) set \<Rightarrow> bool" where
  "covered log start fetched handled pend \<longleftrightarrow>
     (\<forall>n \<in> log. start \<le> n \<and> n < fetched \<longrightarrow> n \<in> handled \<or> (\<exists>b. (n, b) \<in> pend)) \<and>
     (\<forall>n b. (n, b) \<in> pend \<longrightarrow> n < fetched) \<and>
     (\<forall>n. (n, True) \<in> pend \<longrightarrow> n \<in> handled)"

definition all_handled :: "int set \<Rightarrow> int \<Rightarrow> int \<Rightarrow> int set \<Rightarrow> bool" where
  "all_handled log start n handled \<longleftrightarrow> (\<forall>k \<in> log. start \<le> k \<and> k < n \<longrightarrow> k \<in> handled)"

lemma all_handled_mono: "all_handled log start n handled \<Longrightarrow> handled \<subseteq> handled' \<Longrightarrow>
    all_handled log start n handled'"
  by (auto simp: all_handled_def)

lemma covered_discard:
  assumes "covered log start fetched handled pend" and "c \<le> fetched"
    and "\<And>n. (n, False) \<in> pend \<Longrightarrow> c \<le> n"
  shows "covered log start c handled {}" and "all_handled log start c handled"
proof -
  have "k \<in> handled" if "k \<in> log" "start \<le> k" "k < c" for k
  proof -
    from that assms(1,2) have "k \<in> handled \<or> (\<exists>b. (k, b) \<in> pend)" by (auto simp: covered_def)
    moreover have "k \<in> handled" if "(k, b) \<in> pend" for b
      using assms(3) [of k] that \<open>k < c\<close> assms(1) by (cases b) (auto simp: covered_def)
    ultimately show ?thesis by blast
  qed
  then show "covered log start c handled {}" and "all_handled log start c handled"
    by (auto simp: covered_def all_handled_def)
qed

locale commit_tracker =
  fixes ok :: "'s \<Rightarrow> bool"
    and pending :: "'p \<Rightarrow> 's \<Rightarrow> (int \<times> bool) set"
    and record_run :: "'p \<Rightarrow> (int \<times> bool) list \<Rightarrow> 's \<Rightarrow> 's \<Rightarrow> bool"
    and commit :: "('p \<Rightarrow> int option) \<Rightarrow> 's \<Rightarrow> 's \<Rightarrow> bool"
    and discard :: "'p set \<Rightarrow> 's \<Rightarrow> 's \<Rightarrow> bool"
  assumes record_law: "ok s \<Longrightarrow> record_run p outs s s' \<Longrightarrow>
      ok s' \<and> pending p s' = pending p s \<union> set outs \<and> (\<forall>q. q \<noteq> p \<longrightarrow> pending q s' = pending q s)"
    and commit_law: "ok s \<Longrightarrow> commit offers s s' \<Longrightarrow> ok s' \<and>
      (\<forall>p. case offers p of
         None \<Rightarrow> pending p s' = pending p s
       | Some n \<Rightarrow> pending p s' = {(k, b) \<in> pending p s. n \<le> k} \<and>
           (\<forall>k b. (k, b) \<in> pending p s \<and> k < n \<longrightarrow> b) \<and> (\<exists>k b. (k, b) \<in> pending p s \<and> n \<le> k + 1))"
    and discard_law: "ok s \<Longrightarrow> discard P s s' \<Longrightarrow>
      ok s' \<and> (\<forall>p. pending p s' = (if p \<in> P then {} else pending p s))"
begin

text \<open>Recording a run of consecutive log entries that starts inside the fetched range.\<close>

lemma record_covered:
  assumes "ok s" and "record_run p outs s s'"
    and inv: "covered log start fetched handled (pending p s)"
    and run: "{k \<in> log. c \<le> k \<and> k < c'} = fst ` set outs" and "c \<le> fetched"
  shows "covered log start (max fetched c') (handled \<union> {k. (k, True) \<in> set outs}) (pending p s')"
proof -
  have pend: "pending p s' = pending p s \<union> set outs" using record_law [OF assms(1,2)] by blast
  have "k < c'" if "(k, b) \<in> set outs" for k b
  proof -
    from that have "k \<in> fst ` set outs" by force
    then show ?thesis unfolding run [symmetric] by simp
  qed
  moreover have "\<exists>b. (k, b) \<in> set outs" if "k \<in> log" "fetched \<le> k" "k < c'" for k
  proof -
    from that \<open>c \<le> fetched\<close> have "k \<in> fst ` set outs" unfolding run [symmetric] by simp
    then show ?thesis by force
  qed
  moreover have "k \<in> handled \<or> (\<exists>b. (k, b) \<in> pending p s)" if "k \<in> log" "start \<le> k" "k < fetched" for k
    using inv that by (simp add: covered_def)
  moreover have "k < fetched" if "(k, b) \<in> pending p s" for k b
    using inv that unfolding covered_def by blast
  moreover have "k \<in> handled" if "(k, True) \<in> pending p s" for k
    using inv that by (simp add: covered_def)
  ultimately show ?thesis
    unfolding covered_def pend less_max_iff_disj
    by (intro conjI allI ballI impI) (meson UnCI UnE not_le, blast+)
qed

lemma commit_covered:
  assumes "ok s" and "commit offers s s'"
    and inv: "covered log start fetched handled (pending p s)"
  shows "covered log start fetched handled (pending p s')"
    and "offers p = Some n \<Longrightarrow> all_handled log start n handled"
proof -
  note law = commit_law [OF assms(1,2), THEN conjunct2, rule_format, of p]
  have some: "pending p s' = {(k, b) \<in> pending p s. n \<le> k} \<and>
      (\<forall>k b. (k, b) \<in> pending p s \<and> k < n \<longrightarrow> b) \<and> (\<exists>k b. (k, b) \<in> pending p s \<and> n \<le> k + 1)"
    if "offers p = Some n" for n
    using law unfolding that option.case .
  show "covered log start fetched handled (pending p s')"
  proof (cases "offers p")
    case None
    with law inv show ?thesis by simp
  next
    case (Some n)
    have "k \<in> handled \<or> (\<exists>b. (k, b) \<in> pending p s')" if k: "k \<in> handled \<or> (\<exists>b. (k, b) \<in> pending p s)" for k
    proof (cases "k < n")
      case True
      have "k \<in> handled" if "(k, b) \<in> pending p s" for b
        using some [OF Some, THEN conjunct2, THEN conjunct1] that True inv by (cases b) (auto simp: covered_def)
      with k show ?thesis by blast
    next
      case False
      with k some [OF Some, THEN conjunct1] show ?thesis by auto
    qed
    moreover have "pending p s' \<subseteq> pending p s" unfolding some [OF Some, THEN conjunct1] by blast
    ultimately show ?thesis using inv unfolding covered_def by blast
  qed
  assume n: "offers p = Some n"
  obtain k b where "(k, b) \<in> pending p s" "n \<le> k + 1" using some [OF n]  by blast
  moreover from this(1) inv have "k < fetched" unfolding covered_def by blast
  ultimately have "n \<le> fetched" by simp
  moreover have "n \<le> k" if "(k, False) \<in> pending p s" for k
    using some [OF n, THEN conjunct2, THEN conjunct1] that not_less by blast
  ultimately show "all_handled log start n handled" by (rule covered_discard(2) [OF inv])
qed

lemma discard_covered:
  assumes "ok s" and "discard P s s'"
    and inv: "covered log start fetched handled (pending p s)"
    and "p \<in> P" and "c \<le> fetched" and "\<And>n. (n, False) \<in> pending p s \<Longrightarrow> c \<le> n"
  shows "covered log start c handled (pending p s')"
  using covered_discard(1) [OF inv assms(5,6)] discard_law [OF assms(1,2)] assms(4) by simp

end

section \<open>The group tracker provides the interface\<close>

definition group_usable :: "GroupOffsetState \<Rightarrow> bool" where
  "group_usable g \<longleftrightarrow> group_ok g \<and> go_max_partition_records g \<le> u64_max \<and>
     go_max_group_records g \<le> u64_max"

definition group_pending :: "Tp \<Rightarrow> GroupOffsetState \<Rightarrow> (int \<times> bool) set" where
  "group_pending tp g = (\<lambda>ob. (oo_offset ob, is_safe (oo_outcome ob))) ` set (observed_at tp g)"

definition run_flags :: "(int \<times> RecordOutcome) list \<Rightarrow> (int \<times> bool) list" where
  "run_flags outcomes = map (\<lambda>(offset, outcome). (offset, is_safe outcome)) outcomes"

definition group_record :: "Tp \<Rightarrow> (int \<times> bool) list \<Rightarrow> GroupOffsetState \<Rightarrow> GroupOffsetState \<Rightarrow> bool" where
  "group_record tp flags g g' \<longleftrightarrow> (\<exists>epoch outcomes. flags = run_flags outcomes \<and>
     (\<forall>out \<in> set outcomes. offset_i64 (fst out)) \<and> observe_run tp epoch outcomes g = (Inr (), g'))"

definition group_commit :: "(Tp \<Rightarrow> int option) \<Rightarrow> GroupOffsetState \<Rightarrow> GroupOffsetState \<Rightarrow> bool" where
  "group_commit offers g g' \<longleftrightarrow> (\<exists>m. offers = btree_get m \<and> committable_offsets g = Inr m \<and>
     group_confirm_committed m g = Some (Inr (), g'))"

definition group_discard :: "Tp set \<Rightarrow> GroupOffsetState \<Rightarrow> GroupOffsetState \<Rightarrow> bool" where
  "group_discard P g g' \<longleftrightarrow> (\<exists>tp. P = {tp} \<and> g' = reset_partition tp g) \<or>
     (\<exists>assigned. P = UNIV \<and> g' = reset_for_assignment assigned g) \<or>
     P = UNIV \<and> g' = group_clear g"

lemma group_usable_limits: "group_usable g \<Longrightarrow> group_ok g' \<Longrightarrow> same_limits g g' \<Longrightarrow> group_usable g'"
  by (simp add: group_usable_def same_limits_def)

lemma observe_run_success:
  assumes "group_usable g" and "\<forall>out \<in> set outcomes. offset_i64 (fst out)"
    and "observe_run tp epoch outcomes g = (Inr (), g')"
  shows "group_usable g'" and "observed_at tp g' = observed_at tp g @ observations outcomes"
    and "t \<noteq> tp \<Longrightarrow> btree_get (go_partitions g') t = btree_get (go_partitions g) t"
proof -
  have "group_ok g' \<and> observed_at tp g' = observed_at tp g @ observations outcomes \<and>
      (\<forall>t. t \<noteq> tp \<longrightarrow> btree_get (go_partitions g') t = btree_get (go_partitions g) t)"
    using observe_run_cases [of g outcomes tp epoch] assms by (auto simp: group_usable_def)
  moreover have "same_limits g g'" using observe_run_limits [of g tp epoch outcomes] assms(3) by simp
  ultimately show "group_usable g'" and "observed_at tp g' = observed_at tp g @ observations outcomes"
    and "t \<noteq> tp \<Longrightarrow> btree_get (go_partitions g') t = btree_get (go_partitions g) t"
    using group_usable_limits [OF assms(1)] by blast+
qed

lemma observed_at_cong:
  "btree_get (go_partitions g') t = btree_get (go_partitions g) t \<Longrightarrow> observed_at t g' = observed_at t g"
  by (simp add: observed_at_def)

lemma group_record_law:
  assumes "group_usable g" and "group_record tp flags g g'"
  shows "group_usable g' \<and> group_pending tp g' = group_pending tp g \<union> set flags \<and>
    (\<forall>q. q \<noteq> tp \<longrightarrow> group_pending q g' = group_pending q g)"
proof -
  from assms(2) obtain epoch outcomes where out: "flags = run_flags outcomes"
    "\<forall>out \<in> set outcomes. offset_i64 (fst out)" "observe_run tp epoch outcomes g = (Inr (), g')"
    by (auto simp: group_record_def)
  note facts = observe_run_success [OF assms(1) out(2,3)]
  have "(\<lambda>ob. (oo_offset ob, is_safe (oo_outcome ob))) ` set (observations outcomes) = set flags"
    by (force simp: observations_def run_flags_def out(1) image_iff)
  then have "group_pending tp g' = group_pending tp g \<union> set flags"
    by (simp add: group_pending_def facts(2) image_Un)
  with facts(1) observed_at_cong [OF facts(3)] show ?thesis by (simp add: group_pending_def)
qed

lemma group_commit_law:
  assumes "group_usable g" and "group_commit offers g g'"
  shows "group_usable g' \<and> (\<forall>p. case offers p of
      None \<Rightarrow> group_pending p g' = group_pending p g
    | Some n \<Rightarrow> group_pending p g' = {(k, b) \<in> group_pending p g. n \<le> k} \<and>
        (\<forall>k b. (k, b) \<in> group_pending p g \<and> k < n \<longrightarrow> b) \<and>
        (\<exists>k b. (k, b) \<in> group_pending p g \<and> n \<le> k + 1))"
proof -
  from assms(2) obtain m where m: "offers = btree_get m" "committable_offsets g = Inr m"
    "group_confirm_committed m g = Some (Inr (), g')" by (auto simp: group_commit_def)
  have ok: "group_ok g" using assms(1) by (simp add: group_usable_def)
  note offers = committable_offsets_Inr [OF ok m(2)]
  from group_confirm_partitions [OF ok offers(1,3)] m(3) have conf: "group_ok g'"
    "\<And>tp n. btree_get m tp = Some n \<Longrightarrow>
       observed_at tp g' = filter (\<lambda>ob. n \<le> oo_offset ob) (observed_at tp g)"
    "\<And>tp. btree_get m tp = None \<Longrightarrow> btree_get (go_partitions g') tp = btree_get (go_partitions g) tp"
    by auto
  have "case offers p of
      None \<Rightarrow> group_pending p g' = group_pending p g
    | Some n \<Rightarrow> group_pending p g' = {(k, b) \<in> group_pending p g. n \<le> k} \<and>
        (\<forall>k b. (k, b) \<in> group_pending p g \<and> k < n \<longrightarrow> b) \<and>
        (\<exists>k b. (k, b) \<in> group_pending p g \<and> n \<le> k + 1)" for p
  proof (cases "btree_get m p")
    case None
    with observed_at_cong [OF conf(3)] show ?thesis by (simp add: m(1) group_pending_def)
  next
    case (Some n)
    then obtain s where s: "btree_get (go_partitions g) p = Some s" "committable_next s = Inr (Some n)"
      using offers(2) by blast
    have at: "observed_at p g = observed_of s" by (simp add: observed_at_def s(1))
    note frontier = frontier_safe [OF group_okD(2) [OF ok s(1)] s(2)]
      frontier_bound [OF group_okD(2) [OF ok s(1)] s(2)]
    have "\<exists>k b. (k, b) \<in> group_pending p g \<and> n \<le> k + 1"
      using frontier(2) last_in_set [of "observed_of s"] by (force simp: group_pending_def at)
    moreover have "\<forall>k b. (k, b) \<in> group_pending p g \<and> k < n \<longrightarrow> b"
      using frontier(1) by (auto simp: group_pending_def at)
    moreover have "group_pending p g' = {(k, b) \<in> group_pending p g. n \<le> k}"
      by (force simp: group_pending_def conf(2) [OF Some])
    ultimately show ?thesis by (simp add: m(1) Some)
  qed
  with conf(1) confirm_limits [OF m(3)] group_usable_limits [OF assms(1)] show ?thesis by blast
qed

lemma group_discard_law:
  assumes "group_usable g" and "group_discard P g g'"
  shows "group_usable g' \<and> (\<forall>p. group_pending p g' = (if p \<in> P then {} else group_pending p g))"
proof -
  have ok: "group_ok g" using assms(1) by (simp add: group_usable_def)
  have clear: "observed_at p (group_clear g) = []" for p
    by (simp add: observed_at_def group_clear_def btree_get_def)
  have "group_ok g' \<and> same_limits g g' \<and> (\<forall>p. observed_at p g' = (if p \<in> P then [] else observed_at p g))"
    using assms(2) reset_partition_ok(1,2) [OF ok] reset_for_assignment_ok(1,2) [OF ok] reset_limits
      group_clear_ok clear
    unfolding group_discard_def by auto
  then show ?thesis using group_usable_limits [OF assms(1)] by (simp add: group_pending_def)
qed

interpretation tracker: commit_tracker group_usable group_pending group_record group_commit group_discard
  by unfold_locales (fact group_record_law group_commit_law group_discard_law)+

lemma observe_run_confirmed:
  assumes use: "group_usable g" and off: "\<forall>out \<in> set outcomes. offset_i64 (fst out)"
    and res: "observe_run tp epoch outcomes g = (Inr (), g')"
  shows "confirmed_offset t g' = confirmed_offset t g"
proof (cases "outcomes = []")
  case True
  with res show ?thesis by (simp add: observe_run_def)
next
  case False
  have ok: "group_ok g" and lim: "go_max_partition_records g \<le> u64_max" "go_max_group_records g \<le> u64_max"
    using use by (simp_all add: group_usable_def)
  from observe_run_reject [OF res False] obtain s
    where len: "partition_len tp g + length outcomes \<le> go_max_partition_records g"
      "go_observed_total g + length outcomes \<le> go_max_group_records g"
      and s: "entry_or_new tp (fst (hd outcomes)) g = Inr s"
      and val: "validate_run epoch (map fst outcomes) s = Inr ()" by blast
  from observe_run_write [OF ok False len lim s val off] res obtain s'
    where s': "go_partitions g' = btree_insert tp s' (go_partitions g)"
      "po_last_confirmed s' = po_last_confirmed s" by auto
  from s have "po_last_confirmed s = confirmed_offset tp g"
    by (auto simp: entry_or_new_def confirmed_offset_def partition_new_def
        split: option.splits if_splits)
  with s' show ?thesis by (simp add: confirmed_offset_def btree_get_insert)
qed

section \<open>The protocol\<close>

record Consumption =
  cs_tracker :: GroupOffsetState
  cs_position :: "Tp \<Rightarrow> int"
  cs_fetched :: "Tp \<Rightarrow> int"
  cs_handled :: "Tp \<Rightarrow> int set"
  cs_stored :: "Tp \<Rightarrow> int option"

definition consumption_start :: "(Tp \<Rightarrow> int) \<Rightarrow> nat \<Rightarrow> nat \<Rightarrow> Consumption" where
  "consumption_start start mp mg = \<lparr>cs_tracker = group_new mp mg, cs_position = start,
     cs_fetched = start, cs_handled = (\<lambda>_. {}), cs_stored = (\<lambda>_. None)\<rparr>"

text \<open>A seek target: not past anything fetched, nor past a pending record that is not safe.\<close>

definition seek_allowed :: "Tp \<Rightarrow> int \<Rightarrow> Consumption \<Rightarrow> bool" where
  "seek_allowed tp c st \<longleftrightarrow> c \<le> cs_fetched st tp \<and>
     (\<forall>ob \<in> set (observed_at tp (cs_tracker st)). \<not> is_safe (oo_outcome ob) \<longrightarrow> c \<le> oo_offset ob)"

inductive consume_step :: "(Tp \<Rightarrow> int set) \<Rightarrow> Consumption \<Rightarrow> Consumption \<Rightarrow> bool"
  for log :: "Tp \<Rightarrow> int set" where
  fetch: "\<lbrakk>observe_run tp epoch outcomes (cs_tracker st) = (Inr (), g);
      \<forall>out \<in> set outcomes. offset_i64 (fst out);
      {k \<in> log tp. cs_position st tp \<le> k \<and> k < c} = fst ` set outcomes\<rbrakk> \<Longrightarrow>
    consume_step log st (st\<lparr>cs_tracker := g, cs_position := (cs_position st)(tp := c),
      cs_fetched := (cs_fetched st)(tp := max (cs_fetched st tp) c),
      cs_handled := (cs_handled st)(tp := cs_handled st tp \<union>
        {k. (k, True) \<in> set (run_flags outcomes)})\<rparr>)"
| drop_safe: "\<lbrakk>\<forall>k \<in> log tp. cs_position st tp \<le> k \<and> k < c \<longrightarrow> already_safe tp epoch k (cs_tracker st)\<rbrakk> \<Longrightarrow>
    consume_step log st (st\<lparr>cs_position := (cs_position st)(tp := c),
      cs_fetched := (cs_fetched st)(tp := max (cs_fetched st tp) c)\<rparr>)"
| commit: "\<lbrakk>committable_offsets (cs_tracker st) = Inr m;
      group_confirm_committed m (cs_tracker st) = Some (Inr (), g)\<rbrakk> \<Longrightarrow>
    consume_step log st (st\<lparr>cs_tracker := g, cs_stored := cs_stored st ++ btree_get m\<rparr>)"
| retry: "\<lbrakk>seek_allowed tp c st\<rbrakk> \<Longrightarrow>
    consume_step log st (st\<lparr>cs_tracker := reset_partition tp (cs_tracker st),
      cs_position := (cs_position st)(tp := c), cs_fetched := (cs_fetched st)(tp := c)\<rparr>)"
| rebalance: "\<lbrakk>\<forall>tp. seek_allowed tp (c tp) st;
      g = reset_for_assignment assigned (cs_tracker st) \<or> g = group_clear (cs_tracker st)\<rbrakk> \<Longrightarrow>
    consume_step log st (st\<lparr>cs_tracker := g, cs_position := c, cs_fetched := c\<rparr>)"
| seek_back: "\<lbrakk>c \<le> cs_fetched st tp\<rbrakk> \<Longrightarrow>
    consume_step log st (st\<lparr>cs_position := (cs_position st)(tp := c)\<rparr>)"

inductive_cases consume_stepE: "consume_step log st st'"

definition consumption_ok :: "(Tp \<Rightarrow> int set) \<Rightarrow> (Tp \<Rightarrow> int) \<Rightarrow> Consumption \<Rightarrow> bool" where
  "consumption_ok log start st \<longleftrightarrow>
     group_usable (cs_tracker st) \<and>
     (\<forall>tp. cs_position st tp \<le> cs_fetched st tp \<and>
        covered (log tp) (start tp) (cs_fetched st tp) (cs_handled st tp) (group_pending tp (cs_tracker st)) \<and>
        (\<forall>n. confirmed_offset tp (cs_tracker st) = Some n \<longrightarrow>
           all_handled (log tp) (start tp) n (cs_handled st tp)) \<and>
        (\<forall>n. cs_stored st tp = Some n \<longrightarrow> all_handled (log tp) (start tp) n (cs_handled st tp)))"

lemma consumption_okI:
  assumes "group_usable (cs_tracker st)"
    and "\<And>tp. cs_position st tp \<le> cs_fetched st tp"
    and "\<And>tp. covered (log tp) (start tp) (cs_fetched st tp) (cs_handled st tp)
      (group_pending tp (cs_tracker st))"
    and "\<And>tp n. confirmed_offset tp (cs_tracker st) = Some n \<Longrightarrow>
      all_handled (log tp) (start tp) n (cs_handled st tp)"
    and "\<And>tp n. cs_stored st tp = Some n \<Longrightarrow> all_handled (log tp) (start tp) n (cs_handled st tp)"
  shows "consumption_ok log start st"
  using assms by (simp add: consumption_ok_def)

lemma consumption_okD:
  assumes "consumption_ok log start st"
  shows "group_usable (cs_tracker st)" and "cs_position st tp \<le> cs_fetched st tp"
    and "covered (log tp) (start tp) (cs_fetched st tp) (cs_handled st tp) (group_pending tp (cs_tracker st))"
    and "confirmed_offset tp (cs_tracker st) = Some n \<Longrightarrow>
      all_handled (log tp) (start tp) n (cs_handled st tp)"
    and "cs_stored st tp = Some n \<Longrightarrow> all_handled (log tp) (start tp) n (cs_handled st tp)"
  using assms by (simp_all add: consumption_ok_def)

lemma seek_allowed_pending:
  "seek_allowed tp c st \<Longrightarrow> (k, False) \<in> group_pending tp (cs_tracker st) \<Longrightarrow> c \<le> k"
  by (auto simp: seek_allowed_def group_pending_def)

lemma fetch_ok:
  assumes inv: "consumption_ok log start st"
    and obs: "observe_run tp epoch outcomes (cs_tracker st) = (Inr (), g)"
    and off: "\<forall>out \<in> set outcomes. offset_i64 (fst out)"
    and run: "{k \<in> log tp. cs_position st tp \<le> k \<and> k < c} = fst ` set outcomes"
  shows "consumption_ok log start (st\<lparr>cs_tracker := g, cs_position := (cs_position st)(tp := c),
      cs_fetched := (cs_fetched st)(tp := max (cs_fetched st tp) c),
      cs_handled := (cs_handled st)(tp := cs_handled st tp \<union> {k. (k, True) \<in> set (run_flags outcomes)})\<rparr>)"
proof -
  note D = consumption_okD [OF inv]
  have rec: "group_record tp (run_flags outcomes) (cs_tracker st) g"
    using obs off by (auto simp: group_record_def)
  note law = group_record_law [OF D(1) rec]
  have fst_flags: "fst ` set (run_flags outcomes) = fst ` set outcomes"
    by (force simp: run_flags_def)
  note cov = tracker.record_covered [OF D(1) rec D(3) run [folded fst_flags] D(2)]
  show ?thesis
    using D(2-5) law cov observe_run_confirmed [OF D(1) off obs]
    by (intro consumption_okI) (auto simp: all_handled_def)
qed

lemma drop_safe_ok:
  assumes inv: "consumption_ok log start st"
    and safe: "\<forall>k \<in> log tp. cs_position st tp \<le> k \<and> k < c \<longrightarrow> already_safe tp epoch k (cs_tracker st)"
  shows "consumption_ok log start (st\<lparr>cs_position := (cs_position st)(tp := c),
      cs_fetched := (cs_fetched st)(tp := max (cs_fetched st tp) c)\<rparr>)"
proof -
  note D = consumption_okD [OF inv]
  have ok: "group_ok (cs_tracker st)" using D(1) by (simp add: group_usable_def)
  have seen: "k \<in> cs_handled st tp" if k: "k \<in> log tp" "start tp \<le> k" "already_safe tp epoch k (cs_tracker st)" for k
  proof -
    consider n where "confirmed_offset tp (cs_tracker st) = Some n" "k < n"
      | "(k, True) \<in> group_pending tp (cs_tracker st)"
      using k(3) unfolding already_safe_lookup [OF ok]
      by (force simp: group_pending_def observed_at_def observed_of_def)
    then show ?thesis
      using k(1,2) D(3,4) [of tp] by cases (auto simp: all_handled_def covered_def)
  qed
  have "k \<in> cs_handled st tp \<or> (\<exists>b. (k, b) \<in> group_pending tp (cs_tracker st))"
    if "k \<in> log tp" "start tp \<le> k" "k < max (cs_fetched st tp) c" for k
    using that D(2,3) [of tp] safe seen
    by (cases "k < cs_fetched st tp") (auto simp: covered_def)
  moreover have "k < max (cs_fetched st tp) c" if "(k, b) \<in> group_pending tp (cs_tracker st)" for k b
    using D(3) [of tp] that unfolding covered_def by (meson less_max_iff_disj)
  moreover have "k \<in> cs_handled st tp" if "(k, True) \<in> group_pending tp (cs_tracker st)" for k
    using D(3) [of tp] that unfolding covered_def by blast
  ultimately have "covered (log tp) (start tp) (max (cs_fetched st tp) c) (cs_handled st tp)
      (group_pending tp (cs_tracker st))" unfolding covered_def by blast
  with D show ?thesis by (intro consumption_okI) auto
qed

lemma commit_ok:
  assumes inv: "consumption_ok log start st"
    and offer: "committable_offsets (cs_tracker st) = Inr m"
    and conf: "group_confirm_committed m (cs_tracker st) = Some (Inr (), g)"
  shows "consumption_ok log start (st\<lparr>cs_tracker := g, cs_stored := cs_stored st ++ btree_get m\<rparr>)"
proof -
  note D = consumption_okD [OF inv]
  have step: "group_commit (btree_get m) (cs_tracker st) g"
    using offer conf by (auto simp: group_commit_def)
  have ok: "group_ok (cs_tracker st)" using D(1) by (simp add: group_usable_def)
  note offers = committable_offsets_Inr [OF ok offer]
  have handled: "all_handled (log tp) (start tp) n (cs_handled st tp)" if "btree_get m tp = Some n" for tp n
    using tracker.commit_covered(2) [OF D(1) step D(3) that] .
  have confirmed: "confirmed_offset tp g = (case btree_get m tp of
      None \<Rightarrow> confirmed_offset tp (cs_tracker st) | Some n \<Rightarrow> Some n)" for tp
    using group_confirm_partitions [OF ok offers(1,3)] conf
    by (auto simp: confirmed_offset_def split: option.split)
  show ?thesis
  proof (rule consumption_okI)
    show "group_usable (cs_tracker (st\<lparr>cs_tracker := g, cs_stored := cs_stored st ++ btree_get m\<rparr>))"
      using group_commit_law [OF D(1) step] by simp
  qed (use D(2,4,5) tracker.commit_covered(1) [OF D(1) step D(3)] handled confirmed in
      \<open>auto simp: map_add_def split: option.splits\<close>)
qed

lemma discard_ok:
  assumes inv: "consumption_ok log start st" and step: "group_discard P (cs_tracker st) g"
    and seek: "\<And>tp. tp \<in> P \<Longrightarrow> seek_allowed tp (c tp) st"
    and same: "\<And>tp. tp \<notin> P \<Longrightarrow> c tp = cs_fetched st tp \<and> p tp = cs_position st tp"
    and pos: "\<And>tp. tp \<in> P \<Longrightarrow> p tp = c tp"
    and confirmed: "\<And>tp n. confirmed_offset tp g = Some n \<Longrightarrow> confirmed_offset tp (cs_tracker st) = Some n"
  shows "consumption_ok log start (st\<lparr>cs_tracker := g, cs_position := p, cs_fetched := c\<rparr>)"
proof -
  note D = consumption_okD [OF inv]
  note law = group_discard_law [OF D(1) step]
  have "covered (log tp) (start tp) (c tp) (cs_handled st tp) (group_pending tp g)" for tp
  proof (cases "tp \<in> P")
    case True
    have "c tp \<le> cs_fetched st tp" using seek [OF True] by (simp add: seek_allowed_def)
    then show ?thesis
      by (rule tracker.discard_covered [OF D(1) step D(3) True])
        (rule seek_allowed_pending [OF seek [OF True]])
  next
    case False
    with law same D(3) [of tp] show ?thesis by simp
  qed
  moreover have "p tp \<le> c tp" for tp
    using pos [of tp] same [of tp] D(2) [of tp] by (cases "tp \<in> P") auto
  ultimately show ?thesis
    using law D(4,5) confirmed by (intro consumption_okI) simp_all
qed

lemma retry_ok:
  assumes inv: "consumption_ok log start st" and seek: "seek_allowed tp c st"
  shows "consumption_ok log start (st\<lparr>cs_tracker := reset_partition tp (cs_tracker st),
      cs_position := (cs_position st)(tp := c), cs_fetched := (cs_fetched st)(tp := c)\<rparr>)"
proof (rule discard_ok [OF inv])
  have "group_ok (cs_tracker st)" using consumption_okD(1) [OF inv] by (simp add: group_usable_def)
  then show "confirmed_offset t (reset_partition tp (cs_tracker st)) = Some n \<Longrightarrow>
      confirmed_offset t (cs_tracker st) = Some n" for t n
    by (simp add: reset_partition_ok(3))
  show "group_discard {tp} (cs_tracker st) (reset_partition tp (cs_tracker st))"
    by (simp add: group_discard_def)
qed (use seek in auto)

lemma rebalance_confirmed:
  assumes "g' = reset_for_assignment assigned g \<or> g' = group_clear g" and "confirmed_offset tp g' = Some n"
  shows "confirmed_offset tp g = Some n"
proof -
  have "po_last_confirmed (partition_reset s) = po_last_confirmed s" for s
    by (simp add: partition_reset_def)
  with assms show ?thesis
    by (auto simp: confirmed_offset_def group_clear_def reset_for_assignment_def recount_def
        btree_get_retain btree_get_map_values [of "\<lambda>k. partition_reset"] bind_eq_Some_conv
        btree_get_def [of "[]"] split: if_splits)
qed

lemma consume_step_ok:
  assumes "consume_step log st st'" and "consumption_ok log start st"
  shows "consumption_ok log start st'"
  using assms
proof (induction rule: consume_step.induct)
  case (fetch tp epoch outcomes st g c)
  then show ?case by (intro fetch_ok)
next
  case (drop_safe tp st c epoch)
  then show ?case by (intro drop_safe_ok)
next
  case (commit st m g)
  then show ?case by (intro commit_ok)
next
  case (retry tp c st)
  then show ?case by (intro retry_ok)
next
  case (rebalance c st g assigned)
  show ?case
  proof (rule discard_ok [OF rebalance.prems])
    show "group_discard UNIV (cs_tracker st) g" using rebalance.hyps by (auto simp: group_discard_def)
    show "confirmed_offset tp g = Some n \<Longrightarrow> confirmed_offset tp (cs_tracker st) = Some n" for tp n
      by (rule rebalance_confirmed [OF rebalance.hyps(2)])
  qed (use rebalance.hyps in auto)
next
  case (seek_back c st tp)
  then show ?case
    using consumption_okD [OF seek_back.prems] by (intro consumption_okI) auto
qed


text \<open>A run that fetches two records of one partition and commits the first.\<close>

definition sample_log :: "Tp \<Rightarrow> int set" where
  "sample_log tp = (if tp = Tp ''t'' 0 then {3, 7} else {})"

definition sample_outcomes :: "(int \<times> RecordOutcome) list" where
  "sample_outcomes = [(3, Acknowledged AutoOnSuccess), (7, Failed)]"

definition sample_fetched :: GroupOffsetState where
  "sample_fetched = \<lparr>go_partitions = [(Tp ''t'' 0, \<lparr>po_baseline = 3, po_last_confirmed = None,
       po_in_flight = Some \<lparr>pp_epoch = 1, pp_observed = observations sample_outcomes\<rparr>\<rparr>)],
     go_observed_total = 2, go_max_partition_records = 4, go_max_group_records = 4\<rparr>"

definition sample_committed :: GroupOffsetState where
  "sample_committed = snd (the (group_confirm_committed [(Tp ''t'' 0, 7)] sample_fetched))"

lemma sample_observed:
  "observe_run (Tp ''t'' 0) 1 sample_outcomes (group_new 4 4) = (Inr (), sample_fetched)"
  by (simp add: observe_run_def sample_outcomes_def sample_fetched_def group_new_def partition_len_def
      btree_get_def checked_add_u64_def u64_max_def entry_or_new_def partition_new_def validate_run_def
      partition_observe_def)

lemma sample_commit:
  "committable_offsets sample_fetched = Inr [(Tp ''t'' 0, 7)]"
  "group_confirm_committed [(Tp ''t'' 0, 7)] sample_fetched = Some (Inr (), sample_committed)"
  by code_simp+


end
