(* ===== verification/Spec2Isabelle.thy ===== *)
theory Spec2Isabelle
  imports Participant_Scenario Offset_Protocol
begin

text \<open>
  \<^bold>\<open>Verification of the durable saga runtime and of the Kafka offset tracker.\<close>

  The repository is a server framework in Rust. Two of its parts carry the promises that survive
  crashes and redelivery, and these are modelled: the saga runtime, which drives long-running
  business workflows over an SQL database, with its orchestrator and its participants, and the
  offset tracker, which decides how far a Kafka consumer may commit.

  \<^bold>\<open>The saga runtime.\<close> A workflow definition is a list of steps, each owned by a service. The
  orchestrator stores one row per saga, sends a command for the current step through the outbox
  table, receives results through the inbox table, and is woken by durable timers. A step that is
  rejected leads to compensation of the steps done so far, in the reverse order, along a plan
  frozen in the database; an unknown outcome leads to the resolution channel; what cannot be
  settled ends in manual intervention. Every handler runs in one database transaction.

  \<^item> \<open>Prelude\<close>: results (\<open>Inl\<close> is the error), checked 64-bit and 32-bit arithmetic, byte strings.
  \<^item> \<open>Saga_Vocabulary\<close>, \<open>Saga_State\<close>: the status enumerations of \<open>nasaga-core/src/state.rs\<close>, their
    text forms, and the state machine with its guard (\<open>check_transition\<close>).
  \<^item> \<open>Saga_Identity\<close>, \<open>Saga_Payload\<close>, \<open>Saga_Definition\<close>, \<open>Saga_Plan\<close>: validated identifiers and
    derived effect and command ids (\<open>identity.rs\<close>, \<open>context.rs\<close>), payload contracts (\<open>payload.rs\<close>),
    workflow definitions with validation and digest (\<open>definition.rs\<close>), frozen compensation plans
    (\<open>plan.rs\<close>), all of \<open>nasaga-core\<close>.
  \<^item> \<open>Saga_Trace\<close>, \<open>Saga_Envelope\<close>, \<open>Saga_Rows\<close>, \<open>Saga_Journal\<close>: trace contexts, the command and
    result envelopes with their verification, the rows of the tables, and the pure decisions of the
    orchestrator (next step, merging of late results) of \<open>nasaga-backend\<close> and
    \<open>nasaga-runtime-core\<close>.
  \<^item> \<open>Saga_Db\<close>: the tables as lists of rows (\<open>SagaDb\<close>), and programs on them. A program is a function
    from the database to an error or a value with the new database; \<open>run_for\<close> is the transaction
    that rolls back on an error.
  \<^item> \<open>Saga_Store\<close>, \<open>Saga_Attempts\<close>, \<open>Saga_Timers\<close>: the statements of the MySQL store
    (\<open>nasaga-mysql/src/instance.rs\<close>, \<open>stepjournal.rs\<close>, \<open>timer.rs\<close>, \<open>quota.rs\<close>, \<open>audit.rs\<close>) and the
    inbox and outbox tables, one program per method.
  \<^item> \<open>Saga_Registry\<close>, \<open>Saga_Orchestrator\<close>, \<open>Saga_Entry\<close>, \<open>Saga_Management\<close>: the definition registry,
    and the orchestrator of \<open>nasaga-runtime-core/src/orchestrator.rs\<close>, handler by handler: starting
    a saga, results of the four phases, timers, and the management actions.
  \<^item> \<open>Saga_Relation\<close>, \<open>Saga_Frames\<close>: the interface between store and orchestrator. The locale
    \<open>store_relation\<close> asks that every statement of the store keeps a relation on databases, and
    proves that every handler, and so every sequence of actions (\<open>run_actions\<close>), keeps it. The frame
    lemmas say which tables each statement writes.
  \<^item> \<open>Saga_Evolution\<close>, \<open>Saga_Tables\<close>, \<open>Saga_Audit\<close>: interpretations of that interface, one per
    promise: terminal states are final, paused sagas do not move, sagas refine the abstract state
    machine, the attempt journal is append-only, a timer takes effect once, a redelivered result is
    a duplicate, and the transition log replays to the stored state.
  \<^item> \<open>Saga_Scenario\<close>: a concrete run to which these theorems are applied.

  \<^bold>\<open>The participants.\<close> The service that owns a step receives its commands, and must let each take
  effect once although messages are repeated, reordered and raced by cancellations. It keeps one
  gate row per step, which every command locks.

  \<^item> \<open>Participant_Gate\<close>: the methods of \<open>nasaga-mysql/src/participant.rs\<close> that admit a command to a
    gate and settle its outcome, as programs on the participant's database. That database has, next
    to the tables of the source, the list of committed calls of business handlers, so that the
    theorems can speak of effects.
  \<^item> \<open>Participant_Runtime\<close>, \<open>Participant_Trust\<close>: \<open>nasaga-runtime-core/src/participant.rs\<close>, the
    verification of commands and the transactions of the five handlers. Business handlers are
    arbitrary functions.
  \<^item> \<open>Participant_Safety\<close>: an abstract machine of gates as an inductive relation, the proof that
    every handler refines it, and what follows for every sequence of commands: effects happen once,
    only existing effects are undone, settled facts are final, a confirmed cancellation is a
    barrier, and no row is left between admission and settlement. \<open>Participant_Answers\<close> adds that
    every command that takes effect is answered by one event the orchestrator accepts, and
    \<open>Participant_Trust\<close> that commands of other producers change nothing.
  \<^item> \<open>Participant_Scenario\<close>: a step that is executed and undone, and one that is cancelled first.

  \<^bold>\<open>The offset tracker.\<close> \<open>nafka/src/consumer/offset_state.rs\<close> keeps, per partition, the records
  fetched and their outcomes, and offers the offset that may be committed.

  \<^item> \<open>Ordered_Map\<close>: the ordered map of the standard library as a sorted association list.
  \<^item> \<open>Offset_State\<close>, \<open>Offset_Group\<close>: one partition, and the group of partitions with its limits.
    The lemmas give the exact commit frontier, the invariant of the tracker under every operation,
    atomicity of observing and confirming, and that the binary search for re-fetched records is
    exact.
  \<^item> \<open>Offset_Protocol\<close>: the tracker with a broker, over every interleaving of fetches, outcomes,
    commits, rebalances and seeks; the stored offset never passes a record that was not handled.

  \<^bold>\<open>Modelling choices.\<close> Strings are lists of bytes; \<open>u32\<close> is a 32-bit word; \<open>i64\<close> is an integer with
  the overflow checks of the source written out; \<open>u64\<close> counters are natural numbers with a checked
  increment. SHA-256, UUIDv5, JSON and hex conversion are third-party code and fields of the record
  \<open>Ext\<close>; a theorem that relies on a property of them states it as a hypothesis. Each statement of the
  store is atomic and reads the state the transaction started from and its own writes; that the
  transactions of a run are serialised is the row locking of the database, on which the source
  relies. All functions are total, there is no fuel; \<open>json_preimage\<close> and the binary search have
  explicit termination proofs. Log, metric and tracing calls write no state and are left out.

  \<^bold>\<open>Not modelled.\<close> Connection handling and I/O; the list and audit-page queries of the store; the
  PostgreSQL variants, which implement the same contracts in another dialect; the process hosting,
  web, RPC, Redis, discovery, cache, configuration and telemetry crates, which are asynchronous
  glue around third-party libraries; and the procedural macros, which produce code and do not run
  with the program.
\<close>

end
